(* ===== verification/Prelude.thy ===== *)
theory Prelude
  imports Main "HOL-Library.Char_ord" "HOL-Library.List_Lexorder"
begin

text \<open>
  Shared vocabulary of the development: Go strings and byte slices as byte lists
  (a \<open>char\<close> of HOL is one byte, which is what a Go string is made of), the functions of
  Go's \<open>strings\<close>, \<open>bytes\<close> and \<open>strconv\<close> packages the drivers call, 64-bit signed
  arithmetic with its wrap-around, and push iterators (Go's \<open>iter.Seq\<close>) fed from a
  list. The lemma collections \<open>go_str\<close> (byte strings) and \<open>go_num\<close> (machine integers)
  are used by the component theories.
\<close>

named_theorems go_str and go_num

type_synonym bytes = string

section \<open>Bytes\<close>

definition byte :: "char \<Rightarrow> nat" where
  "byte c = of_char c"

lemma byte_inject [go_str]: "byte a = byte b \<longleftrightarrow> a = b"
  by (simp add: byte_def)

lemma byte_bound [go_str]: "byte c < 256"
  by (simp add: byte_def)

lemma byte_char_of [go_str]: "n < 256 \<Longrightarrow> byte (char_of n) = n"
  by (simp add: byte_def)

section \<open>The package strings\<close>

text \<open>\<open>strings.HasPrefix\<close>, \<open>strings.Contains\<close>, \<open>strings.TrimSuffix\<close>.\<close>

definition has_prefix :: "bytes \<Rightarrow> bytes \<Rightarrow> bool" where
  "has_prefix s p \<longleftrightarrow> take (length p) s = p"

fun str_contains :: "bytes \<Rightarrow> bytes \<Rightarrow> bool" where
  "str_contains [] sub = (sub = [])"
| "str_contains (c # cs) sub = (has_prefix (c # cs) sub \<or> str_contains cs sub)"

definition trim_suffix :: "bytes \<Rightarrow> bytes \<Rightarrow> bytes" where
  "trim_suffix s x = (if has_prefix (rev s) (rev x) then take (length s - length x) s else s)"

lemma has_prefix_append [go_str, simp]: "has_prefix (p @ s) p"
  by (simp add: has_prefix_def)

lemma has_prefix_iff: "has_prefix s p \<longleftrightarrow> (\<exists>t. s = p @ t)"
  unfolding has_prefix_def by (metis append_eq_conv_conj append_take_drop_id)

lemma trim_suffix_append [go_str, simp]: "trim_suffix (s @ x) x = s"
  by (simp add: trim_suffix_def has_prefix_def)

text \<open>
  \<open>strings.TrimSpace\<close> trims the runes \<open>unicode.IsSpace\<close> accepts. Over bytes that is:
  strip, at either end, any of the UTF-8 encodings of those runes. (At the right end Go
  decodes the last rune, which finds exactly a suffix that is one of these encodings.)
\<close>

function strip :: "bytes list \<Rightarrow> bytes \<Rightarrow> bytes" where
  "strip encs s =
     (case find (\<lambda>e. e \<noteq> [] \<and> has_prefix s e) encs of
        None \<Rightarrow> s
      | Some e \<Rightarrow> strip encs (drop (length e) s))"
  by pat_completeness auto
termination
proof (relation "measure (\<lambda>(encs, s). length s)", simp)
  fix encs :: "bytes list" and s e :: bytes
  assume "find (\<lambda>e. e \<noteq> [] \<and> has_prefix s e) encs = Some e"
  then have "e \<noteq> []" and "has_prefix s e"
    by (auto simp: find_Some_iff)
  then show "((encs, drop (length e) s), (encs, s)) \<in> measure (\<lambda>(encs, s). length s)"
    by (auto simp: has_prefix_iff)
qed

declare strip.simps [simp del]

definition space_encodings :: "bytes list" where
  "space_encodings =
     [[CHR 0x09], [CHR 0x0A], [CHR 0x0B], [CHR 0x0C], [CHR 0x0D], [CHR 0x20],
      [CHR 0xC2, CHR 0x85], [CHR 0xC2, CHR 0xA0], [CHR 0xE1, CHR 0x9A, CHR 0x80],
      [CHR 0xE2, CHR 0x80, CHR 0x80], [CHR 0xE2, CHR 0x80, CHR 0x81],
      [CHR 0xE2, CHR 0x80, CHR 0x82], [CHR 0xE2, CHR 0x80, CHR 0x83],
      [CHR 0xE2, CHR 0x80, CHR 0x84], [CHR 0xE2, CHR 0x80, CHR 0x85],
      [CHR 0xE2, CHR 0x80, CHR 0x86], [CHR 0xE2, CHR 0x80, CHR 0x87],
      [CHR 0xE2, CHR 0x80, CHR 0x88], [CHR 0xE2, CHR 0x80, CHR 0x89],
      [CHR 0xE2, CHR 0x80, CHR 0x8A], [CHR 0xE2, CHR 0x80, CHR 0xA8],
      [CHR 0xE2, CHR 0x80, CHR 0xA9], [CHR 0xE2, CHR 0x80, CHR 0xAF],
      [CHR 0xE2, CHR 0x81, CHR 0x9F], [CHR 0xE3, CHR 0x80, CHR 0x80]]"

definition trim_left_space :: "bytes \<Rightarrow> bytes" where
  "trim_left_space s = strip space_encodings s"

definition trim_right_space :: "bytes \<Rightarrow> bytes" where
  "trim_right_space s = rev (strip (map rev space_encodings) (rev s))"

definition trim_space :: "bytes \<Rightarrow> bytes" where
  "trim_space s = trim_right_space (trim_left_space s)"

lemma strip_none: "(\<forall>e \<in> set encs. e = [] \<or> \<not> has_prefix s e) \<Longrightarrow> strip encs s = s"
  by (subst strip.simps) (auto simp: find_Some_iff split: option.split)

lemma strip_length: "length (strip encs s) \<le> length s"
proof (induction encs s rule: strip.induct)
  case (1 encs s)
  show ?case
  proof (cases "find (\<lambda>e. e \<noteq> [] \<and> has_prefix s e) encs")
    case None
    then show ?thesis by (subst strip.simps) simp
  next
    case (Some e)
    with "1.IH" have "length (strip encs (drop (length e) s)) \<le> length (drop (length e) s)" by simp
    with Some show ?thesis by (subst strip.simps) simp
  qed
qed

lemma strip_stops: "e \<in> set encs \<Longrightarrow> e \<noteq> [] \<Longrightarrow> \<not> has_prefix (strip encs s) e"
proof (induction encs s rule: strip.induct)
  case (1 encs s)
  show ?case
  proof (cases "find (\<lambda>e. e \<noteq> [] \<and> has_prefix s e) encs")
    case None
    then have "strip encs s = s" by (subst strip.simps) simp
    with None "1.prems" show ?thesis by (auto simp: find_None_iff)
  next
    case (Some d)
    with "1.IH" "1.prems" have "\<not> has_prefix (strip encs (drop (length d) s)) e" by blast
    with Some show ?thesis by (subst strip.simps) simp
  qed
qed

text \<open>
  The functions that look at single runes compare them with ASCII bounds only; a byte of a
  multi-byte rune is at least \<open>0x80\<close> and the rune above every such bound, so walking bytes
  decides the same.
\<close>

definition trim_func :: "(char \<Rightarrow> bool) \<Rightarrow> bytes \<Rightarrow> bytes" where
  "trim_func p s = rev (dropWhile p (rev (dropWhile p s)))"

lemma trim_func_id: "trim_func p s = s \<longleftrightarrow> s = [] \<or> (\<not> p (hd s) \<and> \<not> p (last s))"
proof -
  have l: "dropWhile p t = t \<longleftrightarrow> t = [] \<or> \<not> p (hd t)" for t :: bytes
  proof (cases t)
    case (Cons a u)
    have "length (dropWhile p u) \<noteq> length (a # u)"
      using length_dropWhile_le [of p u] by simp
    then have "dropWhile p u \<noteq> a # u" by metis
    with Cons show ?thesis by auto
  qed simp
  have r: "rev (dropWhile p (rev t)) = t \<longleftrightarrow> t = [] \<or> \<not> p (last t)" for t
    using l [of "rev t"] by (auto simp: hd_rev rev_swap)
  show ?thesis
  proof
    assume eq: "trim_func p s = s"
    have "length (dropWhile p s) = length s"
      using eq length_dropWhile_le [of p s] length_dropWhile_le [of p "rev (dropWhile p s)"]
      by (simp add: trim_func_def) (metis le_antisym length_rev)
    then have "dropWhile p s = s"
      by (metis append_Nil append_eq_append_conv takeWhile_dropWhile_id)
    with eq l r show "s = [] \<or> (\<not> p (hd s) \<and> \<not> p (last s))"
      by (auto simp: trim_func_def)
  next
    assume "s = [] \<or> (\<not> p (hd s) \<and> \<not> p (last s))"
    then have "dropWhile p s = s" and "rev (dropWhile p (rev s)) = s"
      unfolding l r by auto
    then show "trim_func p s = s" by (simp add: trim_func_def)
  qed
qed

section \<open>Decimal integers (the package strconv)\<close>

definition is_digit :: "char \<Rightarrow> bool" where
  "is_digit c \<longleftrightarrow> 48 \<le> byte c \<and> byte c \<le> 57"

definition digit_val :: "char \<Rightarrow> nat" where
  "digit_val c = byte c - 48"

definition digit_char :: "nat \<Rightarrow> char" where
  "digit_char d = char_of (48 + d)"

definition nat_of_dec :: "bytes \<Rightarrow> nat" where
  "nat_of_dec s = foldl (\<lambda>n c. 10 * n + digit_val c) 0 s"

fun dec_of_nat :: "nat \<Rightarrow> bytes" where
  "dec_of_nat n = (if n < 10 then [digit_char n] else dec_of_nat (n div 10) @ [digit_char (n mod 10)])"

declare dec_of_nat.simps [simp del]

definition dec_of_int :: "int \<Rightarrow> bytes" where
  "dec_of_int i = (if i < 0 then CHR ''-'' # dec_of_nat (nat (- i)) else dec_of_nat (nat i))"

lemma digit_char_props [go_str]:
  assumes "d < 10"
  shows "is_digit (digit_char d)" and "digit_val (digit_char d) = d" and "byte (digit_char d) = 48 + d"
  using assms by (simp_all add: is_digit_def digit_val_def digit_char_def byte_char_of)

lemma nat_of_dec_snoc [simp]: "nat_of_dec (s @ [c]) = 10 * nat_of_dec s + digit_val c"
  by (simp add: nat_of_dec_def)

lemma nat_of_dec_Nil [simp]: "nat_of_dec [] = 0"
  by (simp add: nat_of_dec_def)

lemma dec_of_nat_digits: "list_all is_digit (dec_of_nat n)"
proof (induction n rule: dec_of_nat.induct)
  case (1 n)
  show ?case
    using 1 by (subst dec_of_nat.simps) (auto simp: digit_char_props)
qed

lemma dec_of_nat_nonempty [simp]: "dec_of_nat n \<noteq> []"
  by (subst dec_of_nat.simps) simp

lemma nat_of_dec_of_nat [simp]: "nat_of_dec (dec_of_nat n) = n"
proof (induction n rule: dec_of_nat.induct)
  case (1 n)
  show ?case
  proof (cases "n < 10")
    case True
    then show ?thesis
      by (subst dec_of_nat.simps) (simp add: nat_of_dec_def digit_char_props)
  next
    case False
    with 1 show ?thesis
      by (subst dec_of_nat.simps) (simp add: digit_char_props)
  qed
qed

lemma dec_of_nat_hd_zero: "hd (dec_of_nat n) = CHR ''0'' \<Longrightarrow> n = 0"
proof (induction n rule: dec_of_nat.induct)
  case (1 n)
  show ?case
  proof (cases "n < 10")
    case True
    with "1.prems" have "digit_char n = CHR ''0''"
      by (subst (asm) dec_of_nat.simps) simp
    then have "byte (digit_char n) = byte (CHR ''0'')" by simp
    with True show ?thesis by (simp add: digit_char_props byte_def [of "CHR ''0''"])
  next
    case False
    with "1.prems" have "hd (dec_of_nat (n div 10)) = CHR ''0''"
      by (subst (asm) dec_of_nat.simps) (simp add: hd_append)
    with False "1.IH" have "n div 10 = 0" by simp
    with False show ?thesis by simp
  qed
qed

text \<open>A digit string is the canonical one of its value behind leading zeros.\<close>

lemma list_all_dropWhile: "dropWhile p s = [] \<longleftrightarrow> list_all p s"
  by (induction s) auto

lemma nat_of_dec_zeros: "nat_of_dec (replicate k (CHR ''0'') @ s) = nat_of_dec s"
proof (induction k)
  case (Suc k)
  then show ?case by (simp add: nat_of_dec_def digit_val_def byte_def)
qed simp

lemma digit_char_0: "digit_char 0 = CHR ''0''"
  by code_simp

lemma digit_val_less: "is_digit c \<Longrightarrow> digit_val c < 10"
  unfolding is_digit_def digit_val_def by arith

lemma digit_char_val: "is_digit c \<Longrightarrow> digit_char (digit_val c) = c"
  by (simp add: is_digit_def digit_char_def digit_val_def byte_def)

lemma dec_of_nat_of_dec_nz:
  assumes "list_all is_digit (c # s)" "c \<noteq> CHR ''0''"
  shows "dec_of_nat (nat_of_dec (c # s)) = c # s \<and> 0 < nat_of_dec (c # s)"
  using assms(1)
proof (induction s rule: rev_induct)
  case Nil
  then have d: "is_digit c" by simp
  have "digit_val c \<noteq> 0"
  proof
    assume "digit_val c = 0"
    then have "digit_char (digit_val c) = CHR ''0''" by (simp add: digit_char_0)
    with digit_char_val [OF d] assms(2) show False by simp
  qed
  moreover have "digit_val c < 10" using d by (rule digit_val_less)
  ultimately show ?case
    by (subst dec_of_nat.simps) (simp add: nat_of_dec_def digit_char_val d)
next
  case (snoc x xs)
  then have IH: "dec_of_nat (nat_of_dec (c # xs)) = c # xs" "0 < nat_of_dec (c # xs)" and x: "is_digit x"
    by auto
  have xv: "digit_val x < 10" using x by (rule digit_val_less)
  have e: "nat_of_dec (c # xs @ [x]) = 10 * nat_of_dec (c # xs) + digit_val x"
    using nat_of_dec_snoc [of "c # xs" x] by simp
  then have "\<not> nat_of_dec (c # xs @ [x]) < 10" using IH(2) by linarith
  moreover have "nat_of_dec (c # xs @ [x]) div 10 = nat_of_dec (c # xs)"
    and "nat_of_dec (c # xs @ [x]) mod 10 = digit_val x" using xv by (simp_all add: e)
  ultimately show ?case
    by (subst dec_of_nat.simps) (simp add: IH e digit_char_val x)
qed

lemma dec_canonical:
  assumes "list_all is_digit s" "s \<noteq> []"
  shows "\<exists>k. s = replicate k (CHR ''0'') @ dec_of_nat (nat_of_dec s)"
  using assms
proof (induction s)
  case (Cons c s)
  show ?case
  proof (cases "c = CHR ''0''")
    case False
    then have "c # s = replicate 0 (CHR ''0'') @ dec_of_nat (nat_of_dec (c # s))"
      using dec_of_nat_of_dec_nz Cons.prems by simp
    then show ?thesis by blast
  next
    case True
    have n: "nat_of_dec (c # s) = nat_of_dec s" using nat_of_dec_zeros [of 1 s] True by simp
    show ?thesis
    proof (cases "s = []")
      case True
      with \<open>c = CHR ''0''\<close> have "c # s = replicate 0 (CHR ''0'') @ dec_of_nat (nat_of_dec (c # s))"
        unfolding n by (subst dec_of_nat.simps) (simp add: digit_char_0)
      then show ?thesis by blast
    next
      case False
      with Cons obtain k where "s = replicate k (CHR ''0'') @ dec_of_nat (nat_of_dec s)" by auto
      then have "c # s = replicate (Suc k) (CHR ''0'') @ dec_of_nat (nat_of_dec (c # s))"
        unfolding n using True by (metis append_Cons replicate_Suc)
      then show ?thesis by blast
    qed
  qed
qed simp

section \<open>64-bit signed integers\<close>

text \<open>
  Go's \<open>int64\<close> (and \<open>int\<close> on the 64-bit platforms the drivers support, and
  \<open>time.Duration\<close>) is an integer in two's complement range; an operation that leaves the
  range wraps, written out by \<open>wrap64\<close>. Go's division truncates towards zero.
\<close>

definition max_int64 :: int where "max_int64 = 9223372036854775807"
definition min_int64 :: int where "min_int64 = - 9223372036854775808"
definition max_int32 :: int where "max_int32 = 2147483647"

definition wrap64 :: "int \<Rightarrow> int" where
  "wrap64 x = (x + 9223372036854775808) mod 18446744073709551616 - 9223372036854775808"

definition in_int64 :: "int \<Rightarrow> bool" where
  "in_int64 x \<longleftrightarrow> min_int64 \<le> x \<and> x \<le> max_int64"

definition go_div :: "int \<Rightarrow> int \<Rightarrow> int" where
  "go_div a b = sgn a * sgn b * (\<bar>a\<bar> div \<bar>b\<bar>)"

lemma wrap64_id [go_num]: "in_int64 x \<Longrightarrow> wrap64 x = x"
  by (simp add: wrap64_def in_int64_def min_int64_def max_int64_def)

lemma wrap64_in [go_num]: "in_int64 (wrap64 x)"
proof -
  have "0 \<le> (x + 9223372036854775808) mod 18446744073709551616"
    and "(x + 9223372036854775808) mod 18446744073709551616 < 18446744073709551616"
    by simp_all
  then show ?thesis
    by (simp add: wrap64_def in_int64_def min_int64_def max_int64_def)
qed

lemma wrap64_add_overflow:
  assumes "max_int64 < x" and "x \<le> 2 * max_int64 + 1"
  shows "wrap64 x = x - 18446744073709551616"
proof -
  have "(x + 9223372036854775808) mod 18446744073709551616 =
      (x + 9223372036854775808 - 18446744073709551616) mod 18446744073709551616"
    by (simp only: minus_mod_self2)
  then show ?thesis using assms by (simp add: wrap64_def max_int64_def)
qed

lemma go_div_nonneg [go_num]: "0 \<le> a \<Longrightarrow> 0 < b \<Longrightarrow> go_div a b = a div b"
  by (cases "a = 0") (simp_all add: go_div_def)

section \<open>Results: a Go pair of value and error\<close>

text \<open>
  A Go function that returns a value and an error returns \<open>Inr\<close> of the value when the error
  is nil, and \<open>Inl\<close> of the error otherwise.
\<close>

fun bind_res :: "'e + 'a \<Rightarrow> ('a \<Rightarrow> 'e + 'b) \<Rightarrow> 'e + 'b" where
  "bind_res (Inl e) f = Inl e"
| "bind_res (Inr a) f = f a"

lemma bind_res_Inr_iff: "bind_res r f = Inr b \<longleftrightarrow> (\<exists>a. r = Inr a \<and> f a = Inr b)"
  by (cases r) auto

lemma bind_res_Inl_iff: "bind_res r f = Inl e \<longleftrightarrow> r = Inl e \<or> (\<exists>a. r = Inr a \<and> f a = Inl e)"
  by (cases r) auto

section \<open>Push iterators\<close>

text \<open>
  A Go \<open>iter.Seq\<close> calls its \<open>yield\<close> with one element after the other until it has no more
  or \<open>yield\<close> answers false. \<open>yield\<close> is a function of the consumer's state; it returns
  whether to go on and the new state. \<open>feed y c xs\<close> is an iterator over the elements
  \<open>xs\<close>: the first component is True when it ran to its end without being stopped.
\<close>

type_synonym ('c, 'a) consumer = "'c \<Rightarrow> 'a \<Rightarrow> bool \<times> 'c"

fun feed :: "('c, 'a) consumer \<Rightarrow> 'c \<Rightarrow> 'a list \<Rightarrow> bool \<times> 'c" where
  "feed y c [] = (True, c)"
| "feed y c (x # xs) = (case y c x of (go, c') \<Rightarrow> if go then feed y c' xs else (False, c'))"

lemma feed_append:
  "feed y c (xs @ ys) = (case feed y c xs of (go, c') \<Rightarrow> if go then feed y c' ys else (False, c'))"
  by (induction xs arbitrary: c) (auto split: prod.splits)

text \<open>The consumer that stores what it is given and stops after \<open>n\<close> elements.\<close>

definition taking :: "nat \<Rightarrow> ('a list, 'a) consumer" where
  "taking n c x = (Suc (length c) < n, c @ [x])"

lemma feed_taking:
  "length c < n \<Longrightarrow> snd (feed (taking n) c xs) = c @ take (n - length c) xs"
proof (induction xs arbitrary: c)
  case Nil
  then show ?case by simp
next
  case (Cons x xs)
  have n: "n - length c = Suc (n - Suc (length c))" using Cons.prems by simp
  show ?case
  proof (cases "Suc (length c) < n")
    case True
    then have "snd (feed (taking n) (c @ [x]) xs) = c @ x # take (n - Suc (length c)) xs"
      using Cons.IH [of "c @ [x]"] by simp
    with True show ?thesis by (simp add: n) (simp add: taking_def)
  next
    case False
    with Cons.prems have "n = Suc (length c)" by simp
    then show ?thesis by (simp add: taking_def)
  qed
qed

section \<open>Operations on something that can be closed\<close>

text \<open>Operations one after the other, with their results.\<close>

fun run_ops :: "('op \<Rightarrow> 's \<Rightarrow> 'r \<times> 's) \<Rightarrow> 'op list \<Rightarrow> 's \<Rightarrow> 'r list \<times> 's" where
  "run_ops step [] s = ([], s)"
| "run_ops step (x # xs) s =
     (case step x s of (r, s') \<Rightarrow> case run_ops step xs s' of (rs, s'') \<Rightarrow> (r # rs, s''))"

lemma run_ops_append:
  "run_ops step (xs @ ys) s =
     (case run_ops step xs s of (rs, s') \<Rightarrow> case run_ops step ys s' of (qs, s'') \<Rightarrow> (rs @ qs, s''))"
  by (induction xs arbitrary: s) (auto split: prod.splits)

text \<open>
  The contract of an object that can be closed: every operation on a closed one is refused, leaves
  it closed and hands nothing to the connection.
\<close>

locale guarded_ops =
  fixes step :: "'op \<Rightarrow> 's \<Rightarrow> 'r \<times> 's" and opened :: "'s \<Rightarrow> bool" and sent :: "'s \<Rightarrow> 'f list"
    and refusal :: "'op \<Rightarrow> 'r"
  assumes closed: "\<not> opened s \<Longrightarrow> step x s = (r, s') \<Longrightarrow> r = refusal x \<and> \<not> opened s' \<and> sent s' = sent s"
begin

lemma run_closed:
  "\<not> opened s \<Longrightarrow> run_ops step xs s = (rs, s') \<Longrightarrow> rs = map refusal xs \<and> \<not> opened s' \<and> sent s' = sent s"
proof (induction xs arbitrary: s rs)
  case (Cons x xs)
  obtain r s1 where r: "step x s = (r, s1)" by fastforce
  obtain rs1 where "run_ops step xs s1 = (rs1, s')" "rs = r # rs1"
    using Cons.prems(2) r by (auto split: prod.splits)
  with Cons.IH [of s1 rs1] closed [OF Cons.prems(1) r] show ?case by simp
qed simp

text \<open>What is open at the end was open all along.\<close>

lemma run_opened:
  "opened (snd (run_ops step (xs @ ys) s)) \<Longrightarrow> opened (snd (run_ops step xs s))"
  using run_closed [of "snd (run_ops step xs s)" ys] by (fastforce simp: run_ops_append split: prod.splits)

end

end
