(* ===== verification/Json.thy ===== *)
theory Json
  imports Prelude
begin

text \<open>
  What the drivers use of Go's \<open>encoding/json\<close>, over bytes: the grammar (a lexer and a
  stack-driven parser, both structural on their input), string escapes with UTF-8 and
  surrogate handling, the encoder with its optional HTML escaping, numbers as float64 or
  int64, and the rules by which an object is decoded into a struct. \<open>json_parse_encode\<close> is the
  round trip the encoders of the components rest on. A nesting deeper than 10000 levels,
  which \<open>encoding/json\<close> refuses, is accepted here.
\<close>

section \<open>Values\<close>

text \<open>
  A number keeps its literal text, because what it means depends on the target: an
  \<open>any\<close> takes it as float64, an \<open>int64\<close> field only if it is an integer literal in range.
  The members of an object are kept in order and with duplicates, which is what decoding
  into a struct or a map sees.
\<close>

datatype json =
    JNull
  | JBool bool
  | JNum bytes
  | JStr bytes
  | JArr "json list"
  | JObj "(bytes \<times> json) list"

section \<open>UTF-8\<close>

definition byte_in :: "nat \<Rightarrow> nat \<Rightarrow> char \<Rightarrow> bool" where
  "byte_in lo hi c \<longleftrightarrow> lo \<le> byte c \<and> byte c \<le> hi"

text \<open>
  The width of the rune at the head of a byte string, 0 when it is not a valid encoding:
  the table of \<open>utf8.DecodeRune\<close>, which refuses overlong forms, surrogates and code points
  above \<open>U+10FFFF\<close>. The lead byte gives the width and the range of the second byte.
\<close>

definition lead_len :: "char \<Rightarrow> nat" where
  "lead_len c =
     (if byte c < 128 then 1 else if byte_in 194 223 c then 2 else if byte_in 224 239 c then 3
      else if byte_in 240 244 c then 4 else 0)"

definition second_ok :: "char \<Rightarrow> char \<Rightarrow> bool" where
  "second_ok c d \<longleftrightarrow>
     byte_in (if byte c = 224 then 160 else if byte c = 240 then 144 else 128)
             (if byte c = 237 then 159 else if byte c = 244 then 143 else 191) d"

definition tail_ok :: "char \<Rightarrow> bytes \<Rightarrow> bool" where
  "tail_ok c ds \<longleftrightarrow> (ds \<noteq> [] \<longrightarrow> second_ok c (hd ds)) \<and> list_all (byte_in 128 191) ds"

definition rune_len :: "bytes \<Rightarrow> nat" where
  "rune_len s = (case s of [] \<Rightarrow> 0 | c # cs \<Rightarrow>
     let n = lead_len c; ds = take (n - 1) cs
     in if n \<le> 1 then n else if length ds = n - 1 \<and> tail_ok c ds then n else 0)"

lemma rune_len_le: "rune_len s \<le> length s"
  by (cases s) (auto simp: rune_len_def Let_def)

lemma rune_len_pos: "0 < rune_len s \<Longrightarrow> s \<noteq> []"
  by (auto simp: rune_len_def)

lemma rune_len_ascii: "byte c < 128 \<Longrightarrow> rune_len (c # cs) = 1"
  by (simp add: rune_len_def lead_len_def)

lemma rune_len_append:
  assumes "0 < rune_len s"
  shows "rune_len (take (rune_len s) s @ t) = rune_len s"
proof (cases s)
  case Nil
  with assms show ?thesis by (simp add: rune_len_def)
next
  case (Cons c cs)
  have "rune_len s = lead_len c"
    using assms by (auto simp: rune_len_def Let_def Cons split: if_splits)
  moreover obtain k where "lead_len c = Suc k"
    using assms calculation by (metis gr0_implies_Suc)
  ultimately show ?thesis
    using assms by (auto simp: rune_len_def Let_def Cons split: if_splits)
qed

lemma rune_len_append0:
  assumes "rune_len (c # s) = 0" and "byte d < 128"
  shows "rune_len (c # s @ d # t) = 0"
proof (cases "lead_len c - 1 \<le> length s")
  case True
  with assms(1) show ?thesis by (simp add: rune_len_def Let_def split: if_splits)
next
  case False
  then have long: "Suc (length s) < lead_len c" by linarith
  then have "d \<in> set (take (lead_len c - 1) (s @ d # t))"
    by (auto simp: take_Cons')
  moreover have "\<not> byte_in 128 191 d" using assms(2) by (simp add: byte_in_def)
  ultimately have "\<not> tail_ok c (take (lead_len c - 1) (s @ d # t))"
    unfolding tail_ok_def list_all_iff by blast
  with long show ?thesis by (simp add: rune_len_def Let_def)
qed

lemma rune_high:
  assumes "128 \<le> byte c" and "d \<in> set (take (rune_len (c # s)) (c # s))"
  shows "128 \<le> byte d"
proof -
  let ?n = "lead_len c"
  have "rune_len (c # s) = 0 \<or> (rune_len (c # s) = ?n \<and> (?n \<le> 1 \<or> tail_ok c (take (?n - 1) s)))"
    by (simp add: rune_len_def Let_def)
  with assms show ?thesis
    by (cases ?n) (auto simp: tail_ok_def list_all_iff byte_in_def)
qed

text \<open>The replacement character \<open>U+FFFD\<close>, and a byte string with every invalid byte replaced.\<close>

definition repl_char :: bytes where
  "repl_char = [CHR 0xEF, CHR 0xBF, CHR 0xBD]"

function coerce_utf8 :: "bytes \<Rightarrow> bytes" where
  "coerce_utf8 s = (case s of [] \<Rightarrow> [] | c # cs \<Rightarrow>
     if rune_len s = 0 then repl_char @ coerce_utf8 cs
     else take (rune_len s) s @ coerce_utf8 (drop (rune_len s) s))"
  by pat_completeness auto
termination by (relation "measure length") auto

declare coerce_utf8.simps [simp del]

lemma coerce_utf8_Nil [simp]: "coerce_utf8 [] = []"
  by (subst coerce_utf8.simps) simp

text \<open>A byte string is valid UTF-8 when there is nothing to replace.\<close>

definition valid_utf8 :: "bytes \<Rightarrow> bool" where
  "valid_utf8 s \<longleftrightarrow> coerce_utf8 s = s"

lemma valid_utf8_ascii: "list_all (\<lambda>c. byte c < 128) s \<Longrightarrow> valid_utf8 s"
proof (induction s)
  case Nil
  then show ?case by (simp add: valid_utf8_def)
next
  case (Cons c s)
  then show ?case
    by (simp add: valid_utf8_def) (subst coerce_utf8.simps, simp add: rune_len_ascii)
qed

fun utf8_encode :: "nat \<Rightarrow> bytes" where
  "utf8_encode r =
     (if r < 128 then [char_of r]
      else if r < 2048 then [char_of (192 + r div 64), char_of (128 + r mod 64)]
      else if r < 65536 then
        [char_of (224 + r div 4096), char_of (128 + r div 64 mod 64), char_of (128 + r mod 64)]
      else [char_of (240 + r div 262144), char_of (128 + r div 4096 mod 64),
            char_of (128 + r div 64 mod 64), char_of (128 + r mod 64)])"

section \<open>String literals\<close>

definition quote_char :: char where "quote_char = CHR 0x22"
definition backslash :: char where "backslash = CHR 0x5C"

definition hex_val :: "char \<Rightarrow> nat option" where
  "hex_val c =
     (if byte_in 48 57 c then Some (byte c - 48)
      else if byte_in 97 102 c then Some (byte c - 87)
      else if byte_in 65 70 c then Some (byte c - 55)
      else None)"

definition hex_digit :: "nat \<Rightarrow> char" where
  "hex_digit n = char_of (if n < 10 then 48 + n else 87 + n)"

text \<open>Four hexadecimal digits, and what follows them.\<close>

definition hex4 :: "bytes \<Rightarrow> (nat \<times> bytes) option" where
  "hex4 s = (case s of a # b # c # d # rest \<Rightarrow>
       (case (hex_val a, hex_val b, hex_val c, hex_val d) of
          (Some w, Some x, Some y, Some z) \<Rightarrow> Some (4096 * w + 256 * x + 16 * y + z, rest)
        | _ \<Rightarrow> None)
     | _ \<Rightarrow> None)"

definition simple_escape :: "char \<Rightarrow> char option" where
  "simple_escape e =
     (if e = quote_char \<or> e = backslash \<or> e = CHR ''/'' then Some e
      else if e = CHR ''b'' then Some (CHR 0x08)
      else if e = CHR ''f'' then Some (CHR 0x0C)
      else if e = CHR ''n'' then Some (CHR 0x0A)
      else if e = CHR ''r'' then Some (CHR 0x0D)
      else if e = CHR ''t'' then Some (CHR 0x09)
      else None)"

text \<open>A low surrogate escape at the head, and what follows it.\<close>

definition low_surrogate :: "bytes \<Rightarrow> (nat \<times> bytes) option" where
  "low_surrogate s = (case s of p # q # t \<Rightarrow>
       if p = backslash \<and> q = CHR ''u'' then
         (case hex4 t of
            Some (r, rest) \<Rightarrow> if 56320 \<le> r \<and> r < 57344 then Some (r, rest) else None
          | None \<Rightarrow> None)
       else None
     | _ \<Rightarrow> None)"

lemma hex4_length: "hex4 s = Some (r, t) \<Longrightarrow> length t < length s"
  by (auto simp: hex4_def split: list.splits option.splits)

lemma low_surrogate_length: "low_surrogate s = Some (r, t) \<Longrightarrow> length t < length s"
  by (auto simp: low_surrogate_def split: list.splits option.splits if_splits dest!: hex4_length)

text \<open>
  One step of reading a string literal after its opening quote: the decoded bytes of the
  next rune or escape and what follows it, the end of the literal, or a refusal. A lone
  surrogate and an invalid byte decode to the replacement character.
\<close>

datatype str_step = SFail | SEnd bytes | SEmit bytes bytes

definition escape_u :: "bytes \<Rightarrow> str_step" where
  "escape_u es = (case hex4 es of None \<Rightarrow> SFail | Some (r, es') \<Rightarrow>
     if 55296 \<le> r \<and> r < 57344 then
       (case (if r < 56320 then low_surrogate es' else None) of
          Some (r2, es'') \<Rightarrow> SEmit (utf8_encode (65536 + (r - 55296) * 1024 + (r2 - 56320))) es''
        | None \<Rightarrow> SEmit repl_char es')
     else SEmit (utf8_encode r) es')"

definition str_step :: "bytes \<Rightarrow> str_step" where
  "str_step s = (case s of [] \<Rightarrow> SFail | c # cs \<Rightarrow>
     if c = quote_char then SEnd cs
     else if c = backslash then
       (case cs of [] \<Rightarrow> SFail | e # es \<Rightarrow>
          if e = CHR ''u'' then escape_u es
          else (case simple_escape e of None \<Rightarrow> SFail | Some d \<Rightarrow> SEmit [d] es))
     else if byte c < 32 then SFail
     else if rune_len s = 0 then SEmit repl_char cs
     else SEmit (take (rune_len s) s) (drop (rune_len s) s))"

lemma escape_u_shorter: "escape_u es = SEmit x t \<Longrightarrow> length t < length es"
  by (auto simp: escape_u_def split: option.splits if_splits
      dest!: hex4_length low_surrogate_length)

lemma str_step_end_shorter: "str_step s = SEnd t \<Longrightarrow> length t < length s"
  by (cases s) (auto simp: str_step_def escape_u_def split: list.splits option.splits if_splits)

lemma str_step_shorter: "str_step s = SEmit x t \<Longrightarrow> length t < length s"
  by (cases s) (auto simp: str_step_def split: list.splits option.splits if_splits
      dest!: escape_u_shorter)

function unquote :: "bytes \<Rightarrow> (bytes \<times> bytes) option" where
  "unquote s = (case str_step s of
       SFail \<Rightarrow> None
     | SEnd rest \<Rightarrow> Some ([], rest)
     | SEmit x rest \<Rightarrow> map_option (apfst ((@) x)) (unquote rest))"
  by pat_completeness auto
termination by (relation "measure length") (auto dest: str_step_shorter)

declare unquote.simps [simp del]

lemma unquote_length: "unquote s = Some (x, t) \<Longrightarrow> length t < length s"
proof (induction s arbitrary: x rule: unquote.induct)
  case (1 s)
  show ?case
  proof (cases "str_step s")
    case SFail
    with "1.prems" show ?thesis by (simp add: unquote.simps)
  next
    case (SEnd r)
    with "1.prems" show ?thesis by (simp add: unquote.simps [of s] str_step_end_shorter)
  next
    case (SEmit y r)
    with "1.prems" obtain z where "unquote r = Some (z, t)"
      by (auto simp: unquote.simps [of s])
    with "1.IH" SEmit have "length t < length r" by blast
    with SEmit show ?thesis by (auto dest: str_step_shorter)
  qed
qed

text \<open>The encoder's string literal, with or without \<open>SetEscapeHTML\<close>.\<close>

definition hex_escape :: "nat \<Rightarrow> bytes" where
  "hex_escape b = [backslash, CHR ''u'', CHR ''0'', CHR ''0'', hex_digit (b div 16), hex_digit (b mod 16)]"

definition escape_ascii :: "bool \<Rightarrow> char \<Rightarrow> bytes" where
  "escape_ascii html c =
     (if c = quote_char \<or> c = backslash then [backslash, c]
      else if c = CHR 0x08 then [backslash, CHR ''b'']
      else if c = CHR 0x0C then [backslash, CHR ''f'']
      else if c = CHR 0x0A then [backslash, CHR ''n'']
      else if c = CHR 0x0D then [backslash, CHR ''r'']
      else if c = CHR 0x09 then [backslash, CHR ''t'']
      else if byte c < 32 \<or> html \<and> (c = CHR ''<'' \<or> c = CHR ''>'' \<or> c = CHR ''&'') then hex_escape (byte c)
      else [c])"

definition line_sep :: bytes where "line_sep = [CHR 0xE2, CHR 0x80, CHR 0xA8]"
definition para_sep :: bytes where "para_sep = [CHR 0xE2, CHR 0x80, CHR 0xA9]"

definition escape_rune :: "bytes \<Rightarrow> bytes" where
  "escape_rune r =
     (if r = line_sep then backslash # ''u2028''
      else if r = para_sep then backslash # ''u2029'' else r)"

function escape_body :: "bool \<Rightarrow> bytes \<Rightarrow> bytes" where
  "escape_body html s = (case s of [] \<Rightarrow> [] | c # cs \<Rightarrow>
     if byte c < 128 then escape_ascii html c @ escape_body html cs
     else if rune_len s = 0 then backslash # ''ufffd'' @ escape_body html cs
     else escape_rune (take (rune_len s) s) @ escape_body html (drop (rune_len s) s))"
  by pat_completeness auto
termination by (relation "measure (length \<circ> snd)") auto

declare escape_body.simps [simp del]

definition quote :: "bool \<Rightarrow> bytes \<Rightarrow> bytes" where
  "quote html s = quote_char # escape_body html s @ [quote_char]"

lemma hex_val_digit: "n < 16 \<Longrightarrow> hex_val (hex_digit n) = Some n"
  by (simp add: hex_val_def hex_digit_def byte_in_def byte_char_of)

lemma hex4_escape:
  "b < 256 \<Longrightarrow> hex4 (CHR ''0'' # CHR ''0'' # hex_digit (b div 16) # hex_digit (b mod 16) # t) = Some (b, t)"
proof -
  assume b: "b < 256"
  have z: "hex_val (CHR ''0'') = Some 0" by (simp add: hex_val_def byte_in_def byte_def)
  have "b div 16 < 16" using b by simp
  then show ?thesis by (simp add: hex4_def z hex_val_digit)
qed

lemma str_step_hex_escape: "byte c < 128 \<Longrightarrow> str_step (hex_escape (byte c) @ t) = SEmit [c] t"
  by (simp add: hex_escape_def str_step_def escape_u_def hex4_escape backslash_def quote_char_def)
     (simp add: byte_def)

lemma str_step_plain:
  "byte c < 128 \<Longrightarrow> \<not> byte c < 32 \<Longrightarrow> c \<noteq> quote_char \<Longrightarrow> c \<noteq> backslash \<Longrightarrow>
     str_step (c # t) = SEmit [c] t"
  by (simp add: str_step_def rune_len_ascii)

lemma str_step_escape_ascii: "byte c < 128 \<Longrightarrow> str_step (escape_ascii html c @ t) = SEmit [c] t"
proof (cases "c = quote_char \<or> c = backslash \<or> c \<in> {CHR 0x08, CHR 0x0C, CHR 0x0A, CHR 0x0D, CHR 0x09}")
  case True
  then show ?thesis
    by (auto simp: escape_ascii_def str_step_def simple_escape_def quote_char_def backslash_def)
next
  case False
  assume "byte c < 128"
  with False show ?thesis
    by (auto simp: escape_ascii_def str_step_hex_escape str_step_plain)
qed

lemma str_step_replacement: "str_step (backslash # ''ufffd'' @ t) = SEmit repl_char t"
  by (simp add: str_step_def escape_u_def hex4_def hex_val_def byte_in_def byte_def backslash_def
      quote_char_def repl_char_def char_of_eq_iff)

lemma str_step_seps:
  "str_step (backslash # ''u2028'' @ t) = SEmit line_sep t"
  "str_step (backslash # ''u2029'' @ t) = SEmit para_sep t"
  by (simp_all add: str_step_def escape_u_def hex4_def hex_val_def byte_in_def byte_def backslash_def
      quote_char_def line_sep_def para_sep_def char_of_def bit_0)

lemma str_step_rune:
  assumes n: "0 < rune_len s" and hi: "128 \<le> byte (hd s)"
  shows "str_step (escape_rune (take (rune_len s) s) @ t) = SEmit (take (rune_len s) s) t"
proof -
  obtain c cs where s: "s = c # cs" using n rune_len_pos by (cases s) auto
  obtain k where k: "rune_len s = Suc k" using n by (metis gr0_implies_Suc)
  have c: "c \<noteq> quote_char" "c \<noteq> backslash" "\<not> byte c < 32"
    using hi s by (auto simp: quote_char_def backslash_def byte_def)
  have "rune_len (take (Suc k) s @ t) = Suc k" and "Suc k \<le> length s"
    using rune_len_append [OF n, of t] rune_len_le [of s] k by simp_all
  then have plain: "str_step (take (Suc k) s @ t) = SEmit (take (Suc k) s) t"
    using c s by (simp add: str_step_def)
  show ?thesis
    unfolding k using plain by (auto simp: escape_rune_def str_step_seps [simplified])
qed

lemma unquote_escape_body: "unquote (escape_body html s @ quote_char # t) = Some (coerce_utf8 s, t)"
proof (induction html s rule: escape_body.induct)
  case (1 html s)
  show ?case
  proof (cases s)
    case Nil
    then show ?thesis by (simp add: escape_body.simps unquote.simps [of "quote_char # t"] str_step_def)
  next
    case (Cons c cs)
    let ?r = "rune_len s"
    consider "byte c < 128" | "\<not> byte c < 128" "?r = 0" | "\<not> byte c < 128" "0 < ?r" by blast
    then show ?thesis
    proof cases
      case 1
      then have "?r = 1" by (simp add: Cons rune_len_ascii)
      with 1 "1.IH"(1) [OF Cons] show ?thesis
        by (simp add: escape_body.simps [of html "c # cs"] Cons coerce_utf8.simps [of "c # cs"]
            unquote.simps [of "escape_ascii html c @ _"] str_step_escape_ascii)
    next
      case 2
      with "1.IH"(2) [OF Cons] show ?thesis
        by (simp add: escape_body.simps [of html "c # cs"] Cons coerce_utf8.simps [of "c # cs"]
            unquote.simps [of "backslash # _"] str_step_replacement [simplified])
    next
      case 3
      with "1.IH"(3) [OF Cons] str_step_rune [of s] show ?thesis
        by (simp add: escape_body.simps [of html "c # cs"] Cons coerce_utf8.simps [of "c # cs"]
            unquote.simps [of "escape_rune _ @ _"])
    qed
  qed
qed

section \<open>Number literals\<close>

text \<open>
  The longest number literal at the head of the input, by the grammar of RFC 8259:
  an optional sign, an integer part without leading zeros, an optional fraction and an
  optional exponent. \<open>None\<close> where a part that was begun has no digits.
\<close>

definition scan_digits :: "bytes \<Rightarrow> bytes" where
  "scan_digits s = takeWhile is_digit s"

definition scan_sign :: "bytes \<Rightarrow> bytes" where
  "scan_sign s = (if has_prefix s ''-'' then ''-'' else [])"

definition scan_int :: "bytes \<Rightarrow> bytes" where
  "scan_int s = (if has_prefix s ''0'' then ''0'' else scan_digits s)"

definition scan_frac :: "bytes \<Rightarrow> bytes option" where
  "scan_frac s = (if has_prefix s ''.'' then
       (if scan_digits (tl s) = [] then None else Some (CHR ''.'' # scan_digits (tl s)))
     else Some [])"

definition scan_exp :: "bytes \<Rightarrow> bytes option" where
  "scan_exp s = (case s of c # t \<Rightarrow>
       if c = CHR ''e'' \<or> c = CHR ''E'' then
         (let sg = (if has_prefix t ''+'' then ''+'' else if has_prefix t ''-'' then ''-'' else []);
              ds = scan_digits (drop (length sg) t)
          in if ds = [] then None else Some (c # sg @ ds))
       else Some []
     | [] \<Rightarrow> Some [])"

definition scan_num :: "bytes \<Rightarrow> bytes option" where
  "scan_num s =
     (let sg = scan_sign s; s1 = drop (length sg) s; ip = scan_int s1; s2 = drop (length ip) s1
      in if ip = [] then None
         else (case scan_frac s2 of None \<Rightarrow> None
               | Some fr \<Rightarrow>
                   (case scan_exp (drop (length fr) s2) of None \<Rightarrow> None
                    | Some ex \<Rightarrow> Some (sg @ ip @ fr @ ex))))"

lemma scan_num_nonempty: "scan_num s = Some l \<Longrightarrow> l \<noteq> []"
  by (auto simp: scan_num_def Let_def split: option.splits if_splits)

text \<open>A byte that cannot continue a number: what follows one in an encoded document.\<close>

definition num_end :: "bytes \<Rightarrow> bool" where
  "num_end t \<longleftrightarrow> (case t of [] \<Rightarrow> True | c # _ \<Rightarrow> c \<in> {CHR '','', CHR '']'', CHR ''}'', CHR 0x0A})"

definition num_char :: "char \<Rightarrow> bool" where
  "num_char c \<longleftrightarrow> is_digit c \<or> c \<in> {CHR ''-'', CHR ''+'', CHR ''.'', CHR ''e'', CHR ''E''}"

lemma num_end_not_num: "num_end (c # t) \<Longrightarrow> \<not> num_char c"
  by (auto simp: num_end_def num_char_def is_digit_def byte_def)

lemma scan_digits_append: "num_end t \<Longrightarrow> scan_digits (s @ t) = scan_digits s"
  by (cases t) (auto simp: scan_digits_def takeWhile_append takeWhile_tail num_char_def
      takeWhile_eq_all_conv [THEN iffD2] dest: num_end_not_num)

lemma has_prefix_append_end:
  "num_end t \<Longrightarrow> num_char d \<Longrightarrow> has_prefix (s @ t) [d] = has_prefix s [d]"
  by (cases s; cases t) (auto simp: has_prefix_def dest: num_end_not_num)

lemma num_char_lits: "num_char (CHR ''-'')" "num_char (CHR ''+'')" "num_char (CHR ''.'')"
    "num_char (CHR ''0'')"
  by (simp_all add: num_char_def is_digit_def byte_def)

lemma scan_exp_append: "num_end t \<Longrightarrow> scan_exp (s @ t) = scan_exp s"
proof (cases s)
  case Nil
  assume "num_end t"
  then show ?thesis
    by (cases t) (auto simp: Nil scan_exp_def num_char_def dest: num_end_not_num)
next
  case (Cons c u)
  assume t: "num_end t"
  have p: "has_prefix (u @ t) ''+'' = has_prefix u ''+''" "has_prefix (u @ t) ''-'' = has_prefix u ''-''"
    using t by (simp_all add: has_prefix_append_end num_char_lits)
  have d: "scan_digits (drop 1 (u @ t)) = scan_digits (drop 1 u)" if "has_prefix u [x]" for x
    using t that by (cases u) (simp_all add: has_prefix_def scan_digits_append)
  show ?thesis
    using t p d by (auto simp: Cons scan_exp_def Let_def scan_digits_append)
qed

lemma scan_frac_append: "num_end t \<Longrightarrow> scan_frac (s @ t) = scan_frac s"
  by (cases s) (auto simp: scan_frac_def has_prefix_append_end num_char_lits scan_digits_append
      has_prefix_def num_end_def split: list.splits)

lemma scan_frac_length: "scan_frac s = Some f \<Longrightarrow> length f \<le> length s"
  by (cases s) (auto simp: scan_frac_def has_prefix_def scan_digits_def length_takeWhile_le
      split: if_splits)

lemma scan_int_append: "num_end t \<Longrightarrow> scan_int (s @ t) = scan_int s"
  by (simp add: scan_int_def has_prefix_append_end num_char_lits scan_digits_append)

lemma scan_int_length: "length (scan_int s) \<le> length s"
  by (cases s) (auto simp: scan_int_def has_prefix_def scan_digits_def length_takeWhile_le
      split: if_splits)

lemma scan_sign_append: "num_end t \<Longrightarrow> scan_sign (s @ t) = scan_sign s"
  by (simp add: scan_sign_def has_prefix_append_end num_char_lits)

lemma scan_sign_length: "length (scan_sign s) \<le> length s"
  by (cases s) (auto simp: scan_sign_def has_prefix_def)

lemma scan_num_append: "num_end t \<Longrightarrow> scan_num (s @ t) = scan_num s"
proof -
  assume t: "num_end t"
  define s1 where "s1 = drop (length (scan_sign s)) s"
  define s2 where "s2 = drop (length (scan_int s1)) s1"
  have 1: "drop (length (scan_sign s)) (s @ t) = s1 @ t"
    using scan_sign_length [of s] by (simp add: s1_def)
  have 2: "drop (length (scan_int s1)) (s1 @ t) = s2 @ t"
    using scan_int_length [of s1] by (simp add: s2_def)
  have 3: "drop (length f) (s2 @ t) = drop (length f) s2 @ t" if "scan_frac s2 = Some f" for f
    using scan_frac_length [OF that] by simp
  show ?thesis
    unfolding scan_num_def Let_def scan_sign_append [OF t] 1 s1_def [symmetric]
      scan_int_append [OF t] 2 s2_def [symmetric] scan_frac_append [OF t]
    by (cases "scan_frac s2") (simp_all add: 3 scan_exp_append [OF t] del: drop_append)
qed

text \<open>The literal \<open>strconv\<close> writes for an integer is a number literal.\<close>

lemma scan_digits_all: "list_all is_digit s \<Longrightarrow> scan_digits s = s"
  by (simp add: scan_digits_def list_all_iff)

lemma scan_num_dec_of_nat: "scan_num (dec_of_nat n) = Some (dec_of_nat n)"
proof -
  let ?d = "dec_of_nat n"
  obtain c cs where d: "?d = c # cs" by (cases ?d) auto
  have dig: "list_all is_digit ?d" by (rule dec_of_nat_digits)
  then have "c \<noteq> CHR ''-''" by (auto simp: d is_digit_def byte_def)
  then have sg: "scan_sign ?d = []" by (simp add: scan_sign_def d has_prefix_def)
  have "c = CHR ''0'' \<Longrightarrow> ?d = ''0''"
    using dec_of_nat_hd_zero [of n] d by (simp add: dec_of_nat.simps digit_char_def char_of_def)
  then have ip: "scan_int ?d = ?d"
    using dig by (auto simp: scan_int_def d has_prefix_def scan_digits_all)
  show ?thesis
    by (simp add: scan_num_def sg ip scan_frac_def has_prefix_def scan_exp_def)
qed

lemma scan_num_dec_of_int: "scan_num (dec_of_int i) = Some (dec_of_int i)"
proof (cases "i < 0")
  case False
  then show ?thesis by (simp add: dec_of_int_def scan_num_dec_of_nat)
next
  case True
  let ?d = "dec_of_nat (nat (- i))"
  obtain c cs where d: "?d = c # cs" by (cases ?d) auto
  have dig: "list_all is_digit ?d" by (rule dec_of_nat_digits)
  have "c \<noteq> CHR ''-''" using dig by (auto simp: d is_digit_def byte_def)
  moreover have "scan_num ?d = Some ?d" by (rule scan_num_dec_of_nat)
  ultimately show ?thesis
    using True by (auto simp: dec_of_int_def scan_num_def Let_def scan_sign_def has_prefix_def d
        split: option.splits if_splits)
qed

section \<open>The lexer\<close>

datatype token = TLBrace | TRBrace | TLBrack | TRBrack | TColon | TComma | TNull | TBool bool
  | TNum bytes | TStr bytes

definition json_space :: "char \<Rightarrow> bool" where
  "json_space c \<longleftrightarrow> c \<in> {CHR '' '', CHR 0x09, CHR 0x0A, CHR 0x0D}"

definition punct :: "char \<Rightarrow> token option" where
  "punct c =
     (if c = CHR ''{'' then Some TLBrace else if c = CHR ''}'' then Some TRBrace
      else if c = CHR ''['' then Some TLBrack else if c = CHR '']'' then Some TRBrack
      else if c = CHR '':'' then Some TColon else if c = CHR '','' then Some TComma else None)"

text \<open>One token and what follows it.\<close>

definition next_token :: "bytes \<Rightarrow> (token \<times> bytes) option" where
  "next_token s = (case s of [] \<Rightarrow> None | c # cs \<Rightarrow>
     (case punct c of Some t \<Rightarrow> Some (t, cs) | None \<Rightarrow>
        if c = quote_char then map_option (apfst TStr) (unquote cs)
        else if has_prefix s ''null'' then Some (TNull, drop 4 s)
        else if has_prefix s ''true'' then Some (TBool True, drop 4 s)
        else if has_prefix s ''false'' then Some (TBool False, drop 5 s)
        else map_option (\<lambda>l. (TNum l, drop (length l) s)) (scan_num s)))"

lemma next_token_shorter: "next_token s = Some (t, r) \<Longrightarrow> length r < length s"
  by (cases s) (auto simp: next_token_def split: option.splits if_splits
      dest: unquote_length scan_num_nonempty)

function lex :: "bytes \<Rightarrow> token list option" where
  "lex s = (case s of [] \<Rightarrow> Some [] | c # cs \<Rightarrow>
     if json_space c then lex cs
     else (case next_token s of None \<Rightarrow> None | Some (t, r) \<Rightarrow> map_option ((#) t) (lex r)))"
  by pat_completeness auto
termination by (relation "measure length") (auto dest: next_token_shorter)

declare lex.simps [simp del]

section \<open>The parser\<close>

text \<open>
  A stack of the arrays and objects that are open, innermost first, and where in the
  innermost one the parser stands: at a value, just after \<open>[\<close> or \<open>{\<close>, at a key, or with
  a complete value in hand.
\<close>

datatype frame = FArr "json list" | FObj "(bytes \<times> json) list" bytes

datatype pstate = PValue | PArr0 | PObj0 "(bytes \<times> json) list" | PKey "(bytes \<times> json) list"
  | PDone json

fun start_value :: "token \<Rightarrow> pstate option" where
  "start_value TNull = Some (PDone JNull)"
| "start_value (TBool b) = Some (PDone (JBool b))"
| "start_value (TNum l) = Some (PDone (JNum l))"
| "start_value (TStr x) = Some (PDone (JStr x))"
| "start_value TLBrack = Some PArr0"
| "start_value TLBrace = Some (PObj0 [])"
| "start_value _ = None"

fun run_parser :: "pstate \<Rightarrow> frame list \<Rightarrow> token list \<Rightarrow> json option" where
  "run_parser (PDone v) [] [] = Some v"
| "run_parser (PDone v) (FArr vs # fs) (t # ts) =
     (if t = TComma then run_parser PValue (FArr (v # vs) # fs) ts
      else if t = TRBrack then run_parser (PDone (JArr (rev (v # vs)))) fs ts else None)"
| "run_parser (PDone v) (FObj kvs k # fs) (t # ts) =
     (if t = TComma then run_parser (PKey ((k, v) # kvs)) fs ts
      else if t = TRBrace then run_parser (PDone (JObj (rev ((k, v) # kvs)))) fs ts else None)"
| "run_parser PValue fs (t # ts) =
     (case start_value t of None \<Rightarrow> None | Some p \<Rightarrow> run_parser p fs ts)"
| "run_parser PArr0 fs (t # ts) =
     (if t = TRBrack then run_parser (PDone (JArr [])) fs ts
      else (case start_value t of None \<Rightarrow> None | Some p \<Rightarrow> run_parser p (FArr [] # fs) ts))"
| "run_parser (PObj0 kvs) fs (t # ts) =
     (if t = TRBrace then run_parser (PDone (JObj [])) fs ts
      else (case (t, ts) of (TStr k, TColon # ts') \<Rightarrow> run_parser PValue (FObj kvs k # fs) ts'
            | _ \<Rightarrow> None))"
| "run_parser (PKey kvs) fs (t # ts) =
     (case (t, ts) of (TStr k, TColon # ts') \<Rightarrow> run_parser PValue (FObj kvs k # fs) ts' | _ \<Rightarrow> None)"
| "run_parser _ _ _ = None"

definition json_parse :: "bytes \<Rightarrow> json option" where
  "json_parse s = (case lex s of None \<Rightarrow> None | Some ts \<Rightarrow> run_parser PValue [] ts)"

section \<open>The encoder\<close>

fun join :: "bytes \<Rightarrow> bytes list \<Rightarrow> bytes" where
  "join sep [] = []"
| "join sep [x] = x"
| "join sep (x # xs) = x @ sep @ join sep xs"

fun encode :: "bool \<Rightarrow> json \<Rightarrow> bytes" where
  "encode html JNull = ''null''"
| "encode html (JBool b) = (if b then ''true'' else ''false'')"
| "encode html (JNum l) = l"
| "encode html (JStr s) = quote html s"
| "encode html (JArr vs) = ''['' @ join '','' (map (encode html) vs) @ '']''"
| "encode html (JObj kvs) =
     ''{'' @ join '','' (map (\<lambda>(k, v). quote html k @ '':'' @ encode html v) kvs) @ ''}''"

text \<open>A value whose numbers are number literals, and the value with every string coerced.\<close>

fun nums_ok :: "json \<Rightarrow> bool" where
  "nums_ok (JNum l) = (scan_num l = Some l)"
| "nums_ok (JArr vs) = list_all nums_ok vs"
| "nums_ok (JObj kvs) = list_all (\<lambda>(k, v). nums_ok v) kvs"
| "nums_ok _ = True"

fun coerce_json :: "json \<Rightarrow> json" where
  "coerce_json (JStr s) = JStr (coerce_utf8 s)"
| "coerce_json (JArr vs) = JArr (map coerce_json vs)"
| "coerce_json (JObj kvs) = JObj (map (\<lambda>(k, v). (coerce_utf8 k, coerce_json v)) kvs)"
| "coerce_json v = v"

fun strs_ok :: "json \<Rightarrow> bool" where
  "strs_ok (JStr s) = valid_utf8 s"
| "strs_ok (JArr vs) = list_all strs_ok vs"
| "strs_ok (JObj kvs) = list_all (\<lambda>(k, v). valid_utf8 k \<and> strs_ok v) kvs"
| "strs_ok _ = True"

lemma coerce_json_id: "strs_ok v \<Longrightarrow> coerce_json v = v"
proof (induction v rule: strs_ok.induct)
  case (2 vs)
  then show ?case by (simp add: list_all_iff map_idI)
next
  case (3 kvs)
  then show ?case
    by (auto simp: list_all_iff valid_utf8_def intro!: map_idI)
qed (auto simp: valid_utf8_def)

text \<open>The tokens of an encoded value, and how the parser and the lexer pass over them.\<close>

fun comma_sep :: "token list list \<Rightarrow> token list" where
  "comma_sep [] = []"
| "comma_sep [x] = x"
| "comma_sep (x # xs) = x @ TComma # comma_sep xs"

fun tokens :: "json \<Rightarrow> token list" where
  "tokens JNull = [TNull]"
| "tokens (JBool b) = [TBool b]"
| "tokens (JNum l) = [TNum l]"
| "tokens (JStr s) = [TStr s]"
| "tokens (JArr vs) = TLBrack # comma_sep (map tokens vs) @ [TRBrack]"
| "tokens (JObj kvs) =
     TLBrace # comma_sep (map (\<lambda>(k, v). TStr k # TColon # tokens v) kvs) @ [TRBrace]"

lemma tokens_head:
  "\<exists>t ts p. tokens v = t # ts \<and> start_value t = Some p"
  by (cases v) auto

lemma parse_elems:
  assumes "\<And>v fs ts. v \<in> set vs \<Longrightarrow> run_parser PValue fs (tokens v @ ts) = run_parser (PDone v) fs ts"
    and "vs \<noteq> []"
  shows "run_parser PValue (FArr ws # fs) (comma_sep (map tokens vs) @ TRBrack # ts) =
         run_parser (PDone (JArr (rev ws @ vs))) fs ts"
  using assms
proof (induction vs arbitrary: ws)
  case Nil
  then show ?case by simp
next
  case (Cons v vs)
  have v: "run_parser PValue fs' (tokens v @ ts') = run_parser (PDone v) fs' ts'" for fs' ts'
    using Cons.prems(1) [of v] by simp
  show ?case
  proof (cases vs)
    case Nil
    then show ?thesis by (simp add: v)
  next
    case (Cons w vs')
    have "run_parser PValue (FArr (v # ws) # fs) (comma_sep (map tokens vs) @ TRBrack # ts) =
        run_parser (PDone (JArr (rev (v # ws) @ vs))) fs ts"
      using Cons.IH [of "v # ws"] Cons.prems Cons by simp
    with Cons show ?thesis by (simp add: v)
  qed
qed

abbreviation member_tokens :: "bytes \<times> json \<Rightarrow> token list" where
  "member_tokens \<equiv> \<lambda>(k, v). TStr k # TColon # tokens v"

lemma parse_members:
  assumes "\<And>k v fs ts. (k, v) \<in> set kvs \<Longrightarrow>
      run_parser PValue fs (tokens v @ ts) = run_parser (PDone v) fs ts"
    and "kvs \<noteq> []"
  shows "run_parser (PKey acc) fs (comma_sep (map member_tokens kvs) @ TRBrace # ts) =
         run_parser (PDone (JObj (rev acc @ kvs))) fs ts"
  using assms
proof (induction kvs arbitrary: acc)
  case Nil
  then show ?case by simp
next
  case (Cons kv kvs)
  obtain k v where kv: "kv = (k, v)" by (cases kv)
  have v: "run_parser PValue fs' (tokens v @ ts') = run_parser (PDone v) fs' ts'" for fs' ts'
    using Cons.prems(1) [of k v] kv by simp
  show ?case
  proof (cases kvs)
    case Nil
    then show ?thesis by (simp add: v kv)
  next
    case (Cons w kvs')
    have "run_parser (PKey ((k, v) # acc)) fs (comma_sep (map member_tokens kvs) @ TRBrace # ts) =
        run_parser (PDone (JObj (rev ((k, v) # acc) @ kvs))) fs ts"
      by (rule Cons.IH) (use Cons.prems(1) Cons in auto)
    with Cons show ?thesis by (simp add: v kv)
  qed
qed

lemma parser_tokens: "run_parser PValue fs (tokens v @ ts) = run_parser (PDone v) fs ts"
proof (induction v arbitrary: fs ts rule: tokens.induct)
  case (5 vs)
  show ?case
  proof (cases vs)
    case Nil
    then show ?thesis by simp
  next
    case (Cons w vs')
    obtain t u p where h: "comma_sep (map tokens vs) @ TRBrack # ts = t # u" "start_value t = Some p"
      using tokens_head [of w] Cons by (cases vs') auto
    then have "t \<noteq> TRBrack" by auto
    with h have "run_parser PArr0 fs (comma_sep (map tokens vs) @ TRBrack # ts) =
        run_parser PValue (FArr [] # fs) (comma_sep (map tokens vs) @ TRBrack # ts)"
      by simp
    also have "\<dots> = run_parser (PDone (JArr (rev [] @ vs))) fs ts"
      using 5 Cons by (intro parse_elems) auto
    finally show ?thesis by simp
  qed
next
  case (6 kvs)
  show ?case
  proof (cases kvs)
    case Nil
    then show ?thesis by simp
  next
    case (Cons kv kvs')
    obtain k u where h: "comma_sep (map member_tokens kvs) @ TRBrace # ts = TStr k # u"
      using Cons by (cases kvs'; cases kv) auto
    then have "run_parser (PObj0 []) fs (comma_sep (map member_tokens kvs) @ TRBrace # ts) =
        run_parser (PKey []) fs (comma_sep (map member_tokens kvs) @ TRBrace # ts)"
      by simp
    also have "\<dots> = run_parser (PDone (JObj (rev [] @ kvs))) fs ts"
      using 6 Cons by (intro parse_members) auto
    finally show ?thesis by simp
  qed
qed simp_all

lemma lex_token: "\<not> json_space c \<Longrightarrow> next_token (c # s) = Some (t, r) \<Longrightarrow>
    lex (c # s) = map_option ((#) t) (lex r)"
  by (subst lex.simps) simp

lemma lex_punct:
  "lex (CHR ''{'' # s) = map_option ((#) TLBrace) (lex s)"
  "lex (CHR ''}'' # s) = map_option ((#) TRBrace) (lex s)"
  "lex (CHR ''['' # s) = map_option ((#) TLBrack) (lex s)"
  "lex (CHR '']'' # s) = map_option ((#) TRBrack) (lex s)"
  "lex (CHR '':'' # s) = map_option ((#) TColon) (lex s)"
  "lex (CHR '','' # s) = map_option ((#) TComma) (lex s)"
  by (simp_all add: lex_token json_space_def next_token_def punct_def)

lemma lex_quote: "lex (quote html x @ s) = map_option ((#) (TStr (coerce_utf8 x))) (lex s)"
  by (simp add: quote_def lex_token json_space_def next_token_def punct_def quote_char_def
      unquote_escape_body [unfolded quote_char_def])

lemma scan_num_head:
  assumes "scan_num (c # s) = Some l"
  shows "c = CHR ''-'' \<or> is_digit c"
proof (rule ccontr)
  assume "\<not> ?thesis"
  then have "scan_sign (c # s) = []" and "scan_int (c # s) = []"
    by (auto simp: scan_sign_def scan_int_def scan_digits_def has_prefix_def is_digit_def byte_def)
  then have "scan_num (c # s) = None" by (simp add: scan_num_def)
  with assms show False by simp
qed

lemma lex_num:
  assumes "scan_num l = Some l" and "num_end s"
  shows "lex (l @ s) = map_option ((#) (TNum l)) (lex s)"
proof -
  obtain c t where l: "l = c # t" using assms(1) scan_num_nonempty by (cases l) auto
  have "c = CHR ''-'' \<or> is_digit c" using assms(1) l scan_num_head by auto
  then have "\<not> json_space c" "punct c = None" "c \<noteq> quote_char" "c \<notin> {CHR ''n'', CHR ''t'', CHR ''f''}"
    by (auto simp: json_space_def punct_def quote_char_def is_digit_def byte_def)
  moreover have "scan_num (c # t @ s) = Some (c # t)"
    using assms scan_num_append [of s l] l by simp
  ultimately have "next_token (c # t @ s) = Some (TNum (c # t), s)"
    by (simp add: next_token_def has_prefix_def)
  then show ?thesis using l \<open>\<not> json_space c\<close> by (simp add: lex_token)
qed

lemma lex_words:
  "lex (''null'' @ s) = map_option ((#) TNull) (lex s)"
  "lex (''true'' @ s) = map_option ((#) (TBool True)) (lex s)"
  "lex (''false'' @ s) = map_option ((#) (TBool False)) (lex s)"
  by (simp_all add: lex_token json_space_def next_token_def punct_def quote_char_def has_prefix_def)

lemma lex_join:
  assumes "\<And>x s. x \<in> set xs \<Longrightarrow> num_end s \<Longrightarrow> lex (f x @ s) = map_option ((@) (g x)) (lex s)"
    and "num_end s"
  shows "lex (join '','' (map f xs) @ s) = map_option ((@) (comma_sep (map g xs))) (lex s)"
  using assms(1)
proof (induction xs)
  case Nil
  then show ?case by (simp add: option.map_ident)
next
  case (Cons x xs)
  show ?case
  proof (cases xs)
    case Nil
    then show ?thesis using Cons.prems assms(2) by simp
  next
    case (Cons y ys)
    have "num_end (CHR '','' # join '','' (map f xs) @ s)" by (simp add: num_end_def)
    then have "lex (f x @ CHR '','' # join '','' (map f xs) @ s) =
        map_option ((@) (g x)) (lex (CHR '','' # join '','' (map f xs) @ s))"
      using Cons.prems by simp
    with Cons.IH Cons.prems Cons show ?thesis
      by (simp add: lex_punct option.map_comp comp_def)
  qed
qed

lemma lex_encode:
  "nums_ok v \<Longrightarrow> num_end s \<Longrightarrow>
     lex (encode html v @ s) = map_option ((@) (tokens (coerce_json v))) (lex s)"
proof (induction html v arbitrary: s rule: encode.induct)
  case (1 html)
  then show ?case using lex_words by simp
next
  case (2 html b)
  then show ?case using lex_words by (cases b) simp_all
next
  case (3 html l)
  then show ?case by (simp add: lex_num)
next
  case (4 html x)
  then show ?case by (simp add: lex_quote)
next
  case (5 html vs)
  have "num_end (CHR '']'' # s)" by (simp add: num_end_def)
  then have "lex (join '','' (map (encode html) vs) @ CHR '']'' # s) =
      map_option ((@) (comma_sep (map (\<lambda>v. tokens (coerce_json v)) vs))) (lex (CHR '']'' # s))"
    using 5 by (intro lex_join) (auto simp: list_all_iff)
  then show ?case by (simp add: lex_punct option.map_comp comp_def)
next
  case (6 html kvs)
  let ?f = "\<lambda>(k, v). quote html k @ '':'' @ encode html v"
  let ?g = "\<lambda>(k, v). TStr (coerce_utf8 k) # TColon # tokens (coerce_json v)"
  have member: "lex (?f kv @ t) = map_option ((@) (?g kv)) (lex t)"
    if kv: "kv \<in> set kvs" and t: "num_end t" for kv t
  proof -
    obtain k v where [simp]: "kv = (k, v)" by (cases kv)
    have "nums_ok v" using "6.prems"(1) kv by (auto simp: list_all_iff)
    then have "lex (encode html v @ t) = map_option ((@) (tokens (coerce_json v))) (lex t)"
      using "6.IH" kv t by auto
    then show ?thesis by (cases "lex t") (simp_all add: lex_quote lex_punct)
  qed
  have "num_end (CHR ''}'' # s)" by (simp add: num_end_def)
  with member have "lex (join '','' (map ?f kvs) @ CHR ''}'' # s) =
      map_option ((@) (comma_sep (map ?g kvs))) (lex (CHR ''}'' # s))"
    by (intro lex_join) auto
  moreover have "map ?g kvs = map member_tokens (map (\<lambda>(k, v). (coerce_utf8 k, coerce_json v)) kvs)"
    by (simp add: comp_def case_prod_unfold)
  ultimately show ?case
    by (simp add: lex_punct option.map_comp comp_def del: map_map)
qed

theorem json_parse_encode: "nums_ok v \<Longrightarrow> json_parse (encode html v) = Some (coerce_json v)"
proof -
  assume "nums_ok v"
  then have "lex (encode html v) = map_option ((@) (tokens (coerce_json v))) (lex [])"
    using lex_encode [of v "[]" html] by (simp add: num_end_def)
  then have "lex (encode html v) = Some (tokens (coerce_json v))"
    by (simp add: lex.simps)
  then show ?thesis
    using parser_tokens [of "[]" "coerce_json v" "[]"] by (simp add: json_parse_def)
qed

section \<open>Encoded documents have no control characters\<close>

definition printable :: "bytes \<Rightarrow> bool" where
  "printable s \<longleftrightarrow> list_all (\<lambda>c. 32 \<le> byte c) s"

lemma printable_simps [simp]:
  "printable []" "printable (c # s) \<longleftrightarrow> 32 \<le> byte c \<and> printable s"
  "printable (s @ t) \<longleftrightarrow> printable s \<and> printable t"
  by (simp_all add: printable_def)

lemma printable_hex: "n < 16 \<Longrightarrow> 32 \<le> byte (hex_digit n)"
  by (simp add: hex_digit_def byte_char_of)

lemma printable_escape_ascii: "byte c < 128 \<Longrightarrow> printable (escape_ascii html c)"
proof -
  assume "byte c < 128"
  then have "byte c div 16 < 16" by simp
  moreover have "32 \<le> byte quote_char" "32 \<le> byte backslash"
    by (simp_all add: quote_char_def backslash_def byte_def)
  ultimately show ?thesis
    by (simp add: escape_ascii_def hex_escape_def printable_hex) (simp add: byte_def)
qed

lemma printable_escape_body: "printable (escape_body html s)"
proof (induction html s rule: escape_body.induct)
  case (1 html s)
  have bs: "32 \<le> byte backslash" by (simp add: backslash_def byte_def)
  show ?case
  proof (cases s)
    case Nil
    then show ?thesis by (subst escape_body.simps) simp
  next
    case (Cons c cs)
    show ?thesis
    proof (cases "byte c < 128")
      case True
      with Cons "1.IH"(1) show ?thesis by (subst escape_body.simps) (simp add: printable_escape_ascii)
    next
      case hi: False
      show ?thesis
      proof (cases "rune_len s = 0")
        case True
        with Cons hi "1.IH"(2) bs show ?thesis by (subst escape_body.simps) (simp add: byte_def)
      next
        case False
        then have "list_all (\<lambda>c. 128 \<le> byte c) (take (rune_len s) s)"
          using rune_high [of c _ cs] Cons hi by (auto simp: list_all_iff)
        then have "printable (take (rune_len s) s)" by (auto simp: printable_def list_all_iff)
        then have "printable (escape_rune (take (rune_len s) s))"
          using bs by (simp add: escape_rune_def) (simp add: byte_def)
        with Cons hi False "1.IH"(3) show ?thesis by (subst escape_body.simps) simp
      qed
    qed
  qed
qed

lemma printable_quote: "printable (quote html s)"
  by (simp add: quote_def printable_escape_body) (simp add: quote_char_def byte_def)

lemma printable_digits: "printable (scan_digits s)"
  by (induction s) (auto simp: scan_digits_def is_digit_def)

lemma printable_num: "scan_num s = Some l \<Longrightarrow> printable l"
proof -
  assume "scan_num s = Some l"
  moreover have "printable (scan_sign t)" "printable (scan_int t)" for t
    by (simp_all add: scan_sign_def scan_int_def printable_digits) (simp_all add: byte_def)
  moreover have "scan_frac t = Some f \<Longrightarrow> printable f" for t f
    by (auto simp: scan_frac_def printable_digits split: if_splits) (simp add: byte_def)
  moreover have "scan_exp t = Some f \<Longrightarrow> printable f" for t f
    by (auto simp: scan_exp_def printable_digits Let_def split: if_splits list.splits) (simp_all add: byte_def)
  ultimately show ?thesis
    by (auto simp: scan_num_def Let_def split: if_splits option.splits)
qed

lemma printable_join: "list_all printable xs \<Longrightarrow> printable sep \<Longrightarrow> printable (join sep xs)"
  by (induction sep xs rule: join.induct) auto

lemma printable_encode: "nums_ok v \<Longrightarrow> printable (encode html v)"
proof (induction v rule: nums_ok.induct)
  case (2 vs)
  then have "printable (join '','' (map (encode html) vs))"
    by (intro printable_join) (auto simp: list_all_iff byte_def)
  then show ?case by (simp add: byte_def)
next
  case (3 kvs)
  then have "printable (join '','' (map (\<lambda>(k, v). quote html k @ '':'' @ encode html v) kvs))"
    by (intro printable_join) (auto simp: list_all_iff printable_quote byte_def)
  then show ?case by (simp add: byte_def)
qed (auto simp: printable_num printable_quote byte_def)

text \<open>In particular an encoded document is one line.\<close>

lemma printable_no_newline: "printable s \<Longrightarrow> CHR 0x0A \<notin> set s"
  by (auto simp: printable_def list_all_iff byte_def)

end
