(* ===== verification/Json_Decode.thy ===== *)
theory Json_Decode
  imports Json
begin

text \<open>
  What \<open>json.Unmarshal\<close> does with a parsed document: numbers as float64 (rounded to nearest,
  ties to even) or int64, objects as Go maps (the last duplicate wins) and as structs (a key
  matches a field by its name, or failing that case-insensitively; \<open>null\<close> leaves a plain field
  alone and clears a pointer or map; a member of the wrong type is an error, but the other
  fields are still decoded).
\<close>

section \<open>Numbers\<close>

text \<open>The parts of a number literal: sign, digits of the coefficient, decimal exponent.\<close>

definition lit_parts :: "bytes \<Rightarrow> bool \<times> nat \<times> int" where
  "lit_parts l =
     (let neg = has_prefix l ''-''; l1 = (if neg then tl l else l);
          ip = takeWhile is_digit l1; l2 = dropWhile is_digit l1;
          fr = (if has_prefix l2 ''.'' then takeWhile is_digit (tl l2) else []);
          l3 = (if has_prefix l2 ''.'' then dropWhile is_digit (tl l2) else l2);
          ex = (case l3 of [] \<Rightarrow> 0 | _ # t \<Rightarrow>
                  if has_prefix t ''-'' then - int (nat_of_dec (tl t))
                  else if has_prefix t ''+'' then int (nat_of_dec (tl t))
                  else int (nat_of_dec t))
      in (neg, nat_of_dec (ip @ fr), ex - int (length fr)))"

fun bit_len :: "nat \<Rightarrow> nat" where
  "bit_len n = (if n = 0 then 0 else Suc (bit_len (n div 2)))"

declare bit_len.simps [simp del]

lemma bit_len_eval:
  "bit_len 0 = 0" "bit_len (Suc 0) = 1" "bit_len (numeral w) = Suc (bit_len (numeral w div 2))"
  by (simp_all add: bit_len.simps)

text \<open>
  A finite floating-point number is \<open>m * 2 ^ e\<close>. \<open>round_ratio p lo n q\<close> rounds \<open>n / q\<close> to \<open>p\<close> bits, to
  nearest with ties to even, with \<open>lo\<close>, the exponent of the subnormal range, as its lower bound.
\<close>

type_synonym float64 = "int \<times> int"

definition round_exp :: "nat \<Rightarrow> int \<Rightarrow> nat \<Rightarrow> nat \<Rightarrow> int" where
  "round_exp p lo n q =
     (let e0 = int (bit_len n) - int (bit_len q) - int p;
          big = n * 2 ^ nat (- e0) \<ge> 2 ^ p * q * 2 ^ nat e0
      in max (if big then e0 + 1 else e0) lo)"

definition round_ratio :: "nat \<Rightarrow> int \<Rightarrow> nat \<Rightarrow> nat \<Rightarrow> nat \<times> int" where
  "round_ratio p lo n q =
     (if n = 0 then (0, 0)
      else let e = round_exp p lo n q; a = n * 2 ^ nat (- e); b = q * 2 ^ nat e; m = a div b; r = a mod b
           in (if 2 * r > b \<or> 2 * r = b \<and> odd m then m + 1 else m, e))"

text \<open>What a literal means with \<open>p\<close> bits and exponents from \<open>lo\<close> to below \<open>hi\<close>; \<open>None\<close> is out of range.\<close>

definition float_lit :: "nat \<Rightarrow> int \<Rightarrow> int \<Rightarrow> bytes \<Rightarrow> (int \<times> int) option" where
  "float_lit p lo hi l =
     (case lit_parts l of (neg, d, x) \<Rightarrow>
        (case round_ratio p lo (d * 10 ^ nat x) (10 ^ nat (- x)) of (m, e) \<Rightarrow>
           if int (bit_len m) + e > hi then None
           else Some (if neg then - int m else int m, e)))"

definition float_of_lit :: "bytes \<Rightarrow> float64 option" where
  "float_of_lit = float_lit 53 (-1074) 1024"

definition float32_of_lit :: "bytes \<Rightarrow> (int \<times> int) option" where
  "float32_of_lit = float_lit 24 (-149) 128"

definition f64_whole :: "float64 \<Rightarrow> bool" where
  "f64_whole f = (case f of (m, e) \<Rightarrow> 0 \<le> e \<or> m mod 2 ^ nat (- e) = 0)"

definition f64_trunc :: "float64 \<Rightarrow> int" where
  "f64_trunc f = (case f of (m, e) \<Rightarrow> if 0 \<le> e then m * 2 ^ nat e else go_div m (2 ^ nat (- e)))"

text \<open>An \<open>int64\<close> target takes an integer literal in range and nothing else.\<close>

definition int_of_lit :: "bytes \<Rightarrow> int option" where
  "int_of_lit l =
     (let neg = has_prefix l ''-''; ds = (if neg then tl l else l);
          v = (if neg then - int (nat_of_dec ds) else int (nat_of_dec ds))
      in if ds \<noteq> [] \<and> list_all is_digit ds \<and> in_int64 v then Some v else None)"

lemma dec_of_nat_not_minus: "\<not> has_prefix (dec_of_nat n) ''-''"
proof -
  obtain c cs where d: "dec_of_nat n = c # cs" by (cases "dec_of_nat n") auto
  have "is_digit c" using dec_of_nat_digits [of n] d by simp
  then have "c \<noteq> CHR ''-''" by (auto simp: is_digit_def byte_def)
  then show ?thesis by (simp add: d has_prefix_def)
qed

lemma int_of_lit_dec: "in_int64 i \<Longrightarrow> int_of_lit (dec_of_int i) = Some i"
  using dec_of_nat_not_minus [of "nat i"]
  by (auto simp: int_of_lit_def dec_of_int_def dec_of_nat_digits has_prefix_def)

lemma bit_len_less: "n < 2 ^ bit_len n"
proof (induction n rule: bit_len.induct)
  case (1 n)
  show ?case
  proof (cases "n = 0")
    case False
    with 1 have "n div 2 < 2 ^ bit_len (n div 2)" by simp
    then have "n < 2 * 2 ^ bit_len (n div 2)" by linarith
    with False show ?thesis by (simp add: bit_len.simps [of n])
  qed (simp add: bit_len.simps)
qed

lemma bit_len_bound: "n < 2 ^ k \<Longrightarrow> bit_len n \<le> k"
proof (induction k arbitrary: n)
  case 0
  then show ?case by (simp add: bit_len.simps)
next
  case (Suc k)
  then have "n div 2 < 2 ^ k" by simp
  then have "bit_len (n div 2) \<le> k" by (rule Suc.IH)
  then show ?case by (simp add: bit_len.simps [of n])
qed

text \<open>A whole number below \<open>2 ^ 53\<close> is a float64 exactly.\<close>

lemma round_ratio_exact:
  assumes "n < 2 ^ 53"
  shows "\<exists>k. k \<le> 1074 \<and> round_ratio 53 (-1074) n 1 = (n * 2 ^ k, - int k)"
proof (cases "n = 0")
  case True
  then show ?thesis by (auto simp: round_ratio_def)
next
  case False
  have l1: "bit_len (Suc 0) = 1" by (simp add: bit_len.simps)
  have "bit_len n \<le> 53" using assms by (rule bit_len_bound)
  then have e: "round_exp 53 (-1074) n 1 \<le> 0" "-1074 \<le> round_exp 53 (-1074) n 1"
    by (simp_all add: round_exp_def Let_def l1)
  define k where "k = nat (- round_exp 53 (-1074) n 1)"
  have k: "round_exp 53 (-1074) n 1 = - int k" "k \<le> 1074"
    using e by (simp_all add: k_def)
  then have "round_ratio 53 (-1074) n 1 = (n * 2 ^ k, - int k)"
    using False by (simp add: round_ratio_def Let_def)
  with k show ?thesis by blast
qed

lemma lit_parts_dec: "lit_parts (dec_of_nat n) = (False, n, 0)"
proof -
  have tw: "takeWhile is_digit (dec_of_nat n) = dec_of_nat n"
    and dw: "dropWhile is_digit (dec_of_nat n) = []"
    using dec_of_nat_digits [of n] by (simp_all add: list_all_iff)
  show ?thesis
    using dec_of_nat_not_minus [of n] by (simp add: lit_parts_def has_prefix_def Let_def tw dw)
qed

lemma float_of_dec:
  assumes "n < 2 ^ 53"
  shows "\<exists>k. float_of_lit (dec_of_nat n) = Some (int n * 2 ^ k, - int k)"
proof -
  obtain k where k: "k \<le> 1074" "round_ratio 53 (-1074) n 1 = (n * 2 ^ k, - int k)"
    using round_ratio_exact [OF assms] by blast
  have "n * 2 ^ k < 2 ^ (53 + k)" using assms by (simp add: power_add)
  then have "bit_len (n * 2 ^ k) \<le> 53 + k" by (rule bit_len_bound)
  then have "\<not> int (bit_len (n * 2 ^ k)) + - int k > 1024" by linarith
  with k show ?thesis by (simp add: float_of_lit_def float_lit_def lit_parts_dec)
qed

section \<open>Maps\<close>

text \<open>Every number of the document is in the range of float64, so that \<open>any\<close> can take it.\<close>

fun floats_ok :: "json \<Rightarrow> bool" where
  "floats_ok (JNum l) = (float_of_lit l \<noteq> None)"
| "floats_ok (JArr vs) = list_all floats_ok vs"
| "floats_ok (JObj kvs) = list_all (\<lambda>(k, v). floats_ok v) kvs"
| "floats_ok _ = True"

type_synonym members = "(bytes \<times> json) list"

text \<open>\<open>m[key]\<close> of a Go map decoded from an object: the last member of that name.\<close>

definition map_get :: "members \<Rightarrow> bytes \<Rightarrow> json option" where
  "map_get kvs k = map_of (rev kvs) k"

text \<open>Of several members of one name the last, in the order of the document.\<close>

fun last_members :: "(bytes \<times> 'a) list \<Rightarrow> (bytes \<times> 'a) list" where
  "last_members [] = []"
| "last_members ((k, v) # kvs) = (if k \<in> fst ` set kvs then last_members kvs else (k, v) # last_members kvs)"

text \<open>
  \<open>json.Unmarshal\<close> into a \<open>map[string]any\<close>: \<open>None\<close> is an error, \<open>Some None\<close> the nil map.
\<close>

definition unmarshal_map :: "bytes \<Rightarrow> members option option" where
  "unmarshal_map s = (case json_parse s of
       Some JNull \<Rightarrow> Some None
     | Some (JObj kvs) \<Rightarrow> if floats_ok (JObj kvs) then Some (Some kvs) else None
     | _ \<Rightarrow> None)"

text \<open>A member read with a Go type assertion to string: the empty string when it is not one.\<close>

definition as_string :: "json option \<Rightarrow> bytes" where
  "as_string v = (case v of Some (JStr s) \<Rightarrow> s | _ \<Rightarrow> [])"

definition nil_members :: "members option \<Rightarrow> members" where
  "nil_members m = (case m of None \<Rightarrow> [] | Some kvs \<Rightarrow> kvs)"

section \<open>Structs\<close>

text \<open>
  The case folding of field names: ASCII letters to upper case, and the two runes outside
  ASCII that fold to an ASCII letter (the Kelvin sign and the long s).
\<close>

definition ascii_upper :: "char \<Rightarrow> char" where
  "ascii_upper c = (if byte_in 97 122 c then char_of (byte c - 32) else c)"

function fold_name :: "bytes \<Rightarrow> bytes" where
  "fold_name s = (case s of [] \<Rightarrow> [] | c # cs \<Rightarrow>
     if has_prefix s [CHR 0xE2, CHR 0x84, CHR 0xAA] then CHR ''K'' # fold_name (drop 2 cs)
     else if has_prefix s [CHR 0xC5, CHR 0xBF] then CHR ''S'' # fold_name (drop 1 cs)
     else ascii_upper c # fold_name cs)"
  by pat_completeness auto
termination by (relation "measure length") auto

declare fold_name.simps [simp del]

lemma fold_name_ascii: "list_all (\<lambda>c. byte c < 128) s \<Longrightarrow> fold_name s = map ascii_upper s"
proof (induction s)
  case (Cons c s)
  then have "c \<noteq> CHR 0xE2" and "c \<noteq> CHR 0xC5" by (auto simp: byte_def)
  with Cons show ?case by (subst fold_name.simps) (simp add: has_prefix_def)
qed (simp add: fold_name.simps)

text \<open>The members a field of the struct receives, in document order.\<close>

definition field_vals :: "bytes list \<Rightarrow> members \<Rightarrow> bytes \<Rightarrow> json list" where
  "field_vals names kvs f =
     map snd (filter (\<lambda>(k, v). k = f \<or> k \<notin> set names \<and> fold_name k = fold_name f) kvs)"

text \<open>Decode members into a field one after the other; the flag is False once one had the wrong type.\<close>

definition decode_field :: "('a \<Rightarrow> json \<Rightarrow> 'a option) \<Rightarrow> 'a \<Rightarrow> json list \<Rightarrow> 'a \<times> bool" where
  "decode_field into a vs =
     foldl (\<lambda>(a, ok) v. case into a v of Some a' \<Rightarrow> (a', ok) | None \<Rightarrow> (a, False)) (a, True) vs"

definition into_string :: "bytes \<Rightarrow> json \<Rightarrow> bytes option" where
  "into_string a v = (case v of JStr s \<Rightarrow> Some s | JNull \<Rightarrow> Some a | _ \<Rightarrow> None)"

definition into_int :: "int \<Rightarrow> json \<Rightarrow> int option" where
  "into_int a v = (case v of JNum l \<Rightarrow> int_of_lit l | JNull \<Rightarrow> Some a | _ \<Rightarrow> None)"

definition into_bool :: "bool \<Rightarrow> json \<Rightarrow> bool option" where
  "into_bool a v = (case v of JBool b \<Rightarrow> Some b | JNull \<Rightarrow> Some a | _ \<Rightarrow> None)"

definition into_ptr :: "('a \<Rightarrow> json \<Rightarrow> 'a option) \<Rightarrow> 'a \<Rightarrow> 'a option \<Rightarrow> json \<Rightarrow> 'a option option" where
  "into_ptr into z a v = (if v = JNull then Some None
     else map_option Some (into (case a of None \<Rightarrow> z | Some x \<Rightarrow> x) v))"

definition into_map :: "members option \<Rightarrow> json \<Rightarrow> members option option" where
  "into_map a v = (case v of
       JNull \<Rightarrow> Some None
     | JObj kvs \<Rightarrow> if floats_ok (JObj kvs) then Some (Some (nil_members a @ kvs)) else None
     | _ \<Rightarrow> None)"

definition into_raw :: "json option \<Rightarrow> json \<Rightarrow> json option option" where
  "into_raw a v = Some (Some v)"

fun all_some :: "'a option list \<Rightarrow> 'a list option" where
  "all_some [] = Some []"
| "all_some (x # xs) = (case (x, all_some xs) of (Some a, Some as) \<Rightarrow> Some (a # as) | _ \<Rightarrow> None)"

definition into_slice :: "(json \<Rightarrow> 'a option) \<Rightarrow> 'a list option \<Rightarrow> json \<Rightarrow> 'a list option option" where
  "into_slice elem a v = (case v of
       JNull \<Rightarrow> Some None
     | JArr vs \<Rightarrow> map_option Some (all_some (map elem vs))
     | _ \<Rightarrow> None)"

text \<open>A field of the struct read from the members, and an element of a slice of structs.\<close>

definition str_field :: "bytes list \<Rightarrow> members \<Rightarrow> bytes \<Rightarrow> bytes \<Rightarrow> bytes \<times> bool" where
  "str_field names kvs f a = decode_field into_string a (field_vals names kvs f)"

definition int_field :: "bytes list \<Rightarrow> members \<Rightarrow> bytes \<Rightarrow> int \<Rightarrow> int \<times> bool" where
  "int_field names kvs f a = decode_field into_int a (field_vals names kvs f)"

definition bool_field :: "bytes list \<Rightarrow> members \<Rightarrow> bytes \<Rightarrow> bool \<Rightarrow> bool \<times> bool" where
  "bool_field names kvs f a = decode_field into_bool a (field_vals names kvs f)"

definition elem_struct :: "(members \<Rightarrow> 'a \<times> bool) \<Rightarrow> json \<Rightarrow> 'a option" where
  "elem_struct dec v = (case v of
       JNull \<Rightarrow> Some (fst (dec []))
     | JObj kvs \<Rightarrow> (case dec kvs of (a, ok) \<Rightarrow> if ok then Some a else None)
     | _ \<Rightarrow> None)"

text \<open>
  \<open>json.Unmarshal\<close> into a struct, given how its fields are decoded from the members: \<open>None\<close>
  is an error of the whole call (callers that get one discard the struct).
\<close>

definition unmarshal_struct :: "(members \<Rightarrow> 'a \<times> bool) \<Rightarrow> bytes \<Rightarrow> 'a option" where
  "unmarshal_struct dec s = (case json_parse s of
       Some JNull \<Rightarrow> Some (fst (dec []))
     | Some (JObj kvs) \<Rightarrow> (case dec kvs of (a, ok) \<Rightarrow> if ok then Some a else None)
     | _ \<Rightarrow> None)"

lemma decode_field_Nil [simp]: "decode_field into a [] = (a, True)"
  by (simp add: decode_field_def)

lemma decode_field_single:
  "decode_field into a [v] = (case into a v of Some b \<Rightarrow> (b, True) | None \<Rightarrow> (a, False))"
  by (simp add: decode_field_def split: option.split)

lemma field_vals_exact:
  "set (map fst kvs) \<subseteq> set names \<Longrightarrow> field_vals names kvs f = map snd (filter (\<lambda>kv. fst kv = f) kvs)"
  unfolding field_vals_def by (rule arg_cong [where f = "map snd"]) (auto intro!: filter_cong)

text \<open>An encoded object has nothing to trim.\<close>

lemma trim_space_braces: "trim_space (CHR ''{'' # s @ ''}'') = CHR ''{'' # s @ ''}''"
proof -
  have "trim_left_space (CHR ''{'' # s @ ''}'') = CHR ''{'' # s @ ''}''"
    unfolding trim_left_space_def by (rule strip_none) (simp add: space_encodings_def has_prefix_def)
  moreover have "strip (map rev space_encodings) (rev (CHR ''{'' # s @ ''}'')) = rev (CHR ''{'' # s @ ''}'')"
    by (rule strip_none) (simp add: space_encodings_def has_prefix_def)
  ultimately show ?thesis by (simp add: trim_space_def trim_right_space_def)
qed

lemma trim_space_object: "trim_space (encode html (JObj kvs)) = encode html (JObj kvs)"
  by (simp add: trim_space_braces)

lemma object_not_blank: "trim_space (encode html (JObj kvs)) \<notin> {[], ''null''}"
  unfolding trim_space_object by simp

end
