(* ===== verification/Go_Errors.thy ===== *)
theory Go_Errors
  imports Json_Decode
begin

text \<open>
  \<open>go/arcadedb/errors.go\<close>: the error values of the drivers and their unwrap chains, the
  classification of an HTTP response, and the parsing of an error body, of the retry and commit
  headers and of in-band numbers. The HTTP response is a status, headers with canonical keys in
  the order received, and the body as read together with the error that cut the reading short.
\<close>

section \<open>Error values\<close>

record arcade_error =
  ae_status :: int
  ae_message :: bytes
  ae_exception :: bytes
  ae_detail :: bytes
  ae_request_id :: bytes
  ae_help :: bytes
  ae_args :: bytes
  ae_retry_after :: int
  ae_commit_index :: int

text \<open>What a TimeSeriesWriteError adds to the error it embeds; an absent (nil) list is empty.\<close>

record ts_report =
  ts_written :: int
  ts_dropped :: int
  ts_unknown_types :: "bytes list"
  ts_non_ts_types :: "bytes list"
  ts_unavailable_types :: "bytes list"
  ts_undeclared_keys :: "bytes list"

record insert_error =
  ie_session :: bytes
  ie_title :: bytes
  ie_detail :: bytes
  ie_exception :: bytes
  ie_ended :: bool

text \<open>The package-level error variables of the drivers, and those of the library they compare with.\<close>

datatype sentinel =
    ErrEmptyBody | ErrNotSessionToken | ErrInvalidTokenHash | ErrInvalidName
  | ErrInvalidIsolationLevel | ErrBatchInTransaction | ErrPropertyShadowsControlKey
  | ErrNoTransactionToJoin | ErrInsertSessionClosed | ErrPanicNilOrGoexit | ErrUploadAbandoned
  | ErrInsecureChannel | ErrNoTransactionID | ErrNotCommitted
  | IoEOF | IoErrClosedPipe | BufioErrBufferFull | IoErrNoProgress | CtxCanceled | CtxDeadlineExceeded

text \<open>
  An error: one of the drivers' types, a package variable, \<open>fmt.Errorf\<close> wrapping another
  error behind a message, an error of a library (transport, encoding) or a gRPC status.
\<close>

datatype go_error =
    EArcade arcade_error
  | ETimeSeriesWrite arcade_error ts_report
  | EInsertSession insert_error
  | ETx go_error go_error
  | ESentinel sentinel
  | EWrap bytes go_error
  | EPlain bytes
  | ERpc nat bytes

text \<open>The \<open>Unwrap\<close> methods: a TxError unwraps to the callback's error only.\<close>

fun unwrap :: "go_error \<Rightarrow> go_error option" where
  "unwrap (ETimeSeriesWrite a r) = Some (EArcade a)"
| "unwrap (ETx e rb) = Some e"
| "unwrap (EWrap m e) = Some e"
| "unwrap _ = None"

text \<open>\<open>errors.Is\<close> for a package variable and \<open>errors.As\<close> for \<open>*ArcadeDBError\<close>.\<close>

fun err_is :: "go_error \<Rightarrow> sentinel \<Rightarrow> bool" where
  "err_is (ESentinel t) s = (t = s)"
| "err_is (EWrap m e) s = err_is e s"
| "err_is (ETx e rb) s = err_is e s"
| "err_is _ s = False"

fun as_arcade :: "go_error \<Rightarrow> arcade_error option" where
  "as_arcade (EArcade a) = Some a"
| "as_arcade (ETimeSeriesWrite a r) = Some a"
| "as_arcade (EWrap m e) = as_arcade e"
| "as_arcade (ETx e rb) = as_arcade e"
| "as_arcade _ = None"

text \<open>Both walk the unwrap chain, so they are what the chain says.\<close>

lemma err_is_unwrap: "err_is e s \<longleftrightarrow> e = ESentinel s \<or> (\<exists>e'. unwrap e = Some e' \<and> err_is e' s)"
  by (cases e) auto

lemma as_arcade_unwrap:
  "as_arcade e = (case e of EArcade a \<Rightarrow> Some a | _ \<Rightarrow>
     (case unwrap e of Some e' \<Rightarrow> as_arcade e' | None \<Rightarrow> None))"
  by (cases e) auto

text \<open>\<open>ArcadeDBError.Error\<close>.\<close>

definition arcade_error_text :: "arcade_error \<Rightarrow> bytes" where
  "arcade_error_text e =
     (if ae_message e \<noteq> [] then ae_message e
      else if ae_detail e \<noteq> [] then ae_detail e
      else ''ArcadeDB request failed with status '' @ dec_of_int (ae_status e))"

section \<open>HTTP responses\<close>

type_synonym header = "(bytes \<times> bytes) list"

definition token_char :: "char \<Rightarrow> bool" where
  "token_char c \<longleftrightarrow> byte_in 48 57 c \<or> byte_in 65 90 c \<or> byte_in 97 122 c \<or> c \<in> set ''!#$%&*+-.^_`|~'' \<or> c = CHR 0x27"

fun title_case :: "bool \<Rightarrow> bytes \<Rightarrow> bytes" where
  "title_case up [] = []"
| "title_case up (c # cs) =
     (if up then ascii_upper c else if byte_in 65 90 c then char_of (byte c + 32) else c)
       # title_case (c = CHR ''-'') cs"

text \<open>\<open>http.CanonicalHeaderKey\<close>: a key with a byte no header name has is left as it is.\<close>

definition canonical_key :: "bytes \<Rightarrow> bytes" where
  "canonical_key k = (if list_all token_char k then title_case True k else k)"

definition hdr_get :: "header \<Rightarrow> bytes \<Rightarrow> bytes" where
  "hdr_get h k = (case map_of h (canonical_key k) of None \<Rightarrow> [] | Some v \<Rightarrow> v)"

definition hdr_set :: "bytes \<Rightarrow> bytes \<Rightarrow> header \<Rightarrow> header" where
  "hdr_set k v h = (canonical_key k, v) # filter (\<lambda>kv. fst kv \<noteq> canonical_key k) h"

record http_resp =
  resp_status :: int
  resp_header :: header
  resp_body :: bytes
  resp_read_err :: "go_error option"

section \<open>Error bodies and headers\<close>

definition request_id_header :: bytes where "request_id_header = ''X-Request-Id''"
definition retry_after_header :: bytes where "retry_after_header = ''Retry-After''"
definition commit_index_header :: bytes where "commit_index_header = ''X-ArcadeDB-Commit-Index''"

definition new_error :: "int \<Rightarrow> bytes \<Rightarrow> bytes \<Rightarrow> arcade_error" where
  "new_error st body rid =
     (let parsed = (case unmarshal_map body of Some (Some kvs) \<Rightarrow> kvs | _ \<Rightarrow> []);
          str = (\<lambda>key. as_string (map_get parsed key))
      in \<lparr>ae_status = st, ae_message = str ''error'', ae_exception = str ''exception'',
          ae_detail = str ''detail'',
          ae_request_id = (if rid = [] then str ''requestId'' else rid),
          ae_help = str ''help'', ae_args = str ''exceptionArgs'',
          ae_retry_after = 0, ae_commit_index = 0\<rparr>)"

definition parse_non_negative :: "bytes \<Rightarrow> int option" where
  "parse_non_negative s0 =
     (let s = trim_space s0
      in if s = [] \<or> dropWhile is_digit s \<noteq> [] then None
         else if int (nat_of_dec s) > max_int64 then None
         else Some (int (nat_of_dec s)))"

definition seconds_duration :: "int \<Rightarrow> int" where
  "seconds_duration n =
     (if n > go_div max_int64 1000000000 then max_int64 else wrap64 (n * 1000000000))"

definition error_from_headers :: "int \<Rightarrow> bytes \<Rightarrow> header \<Rightarrow> arcade_error" where
  "error_from_headers st body h =
     (let e0 = new_error st body (hdr_get h request_id_header);
          e1 = (case parse_non_negative (hdr_get h retry_after_header) of
                  Some n \<Rightarrow> e0\<lparr>ae_retry_after := seconds_duration n\<rparr> | None \<Rightarrow> e0)
      in case parse_non_negative (hdr_get h commit_index_header) of
           Some n \<Rightarrow> e1\<lparr>ae_commit_index := n\<rparr> | None \<Rightarrow> e1)"

section \<open>In-band numbers\<close>

text \<open>
  \<open>jsonNonNegative\<close>: \<open>math.MaxInt64\<close> as a float64 is \<open>2 ^ 63\<close>, so \<open>2 ^ 63\<close> itself passes the
  upper check although no int64 holds it. Go leaves the result of that one conversion to the
  platform: it is the parameter \<open>ind\<close> (\<open>- 2 ^ 63\<close> on amd64, \<open>2 ^ 63 - 1\<close> on arm64).
\<close>

definition json_non_negative :: "int \<Rightarrow> json option \<Rightarrow> int \<times> bool" where
  "json_non_negative ind v =
     (case v of
        Some (JNum l) \<Rightarrow>
          (case float_of_lit l of
             Some f \<Rightarrow>
               if fst f < 0 \<or> \<not> f64_whole f \<or> f64_trunc f > 9223372036854775808 then (0, False)
               else (if f64_trunc f > max_int64 then ind else f64_trunc f, True)
           | None \<Rightarrow> (0, False))
      | _ \<Rightarrow> (0, False))"

definition in_band_status :: "int \<Rightarrow> json option \<Rightarrow> int \<Rightarrow> int" where
  "in_band_status ind v fallback =
     (case json_non_negative ind v of (s, ok) \<Rightarrow>
        if ok \<and> s > 0 \<and> s \<le> max_int32 then s else fallback)"

section \<open>Checking and decoding a response\<close>

definition is_success :: "int \<Rightarrow> bool" where
  "is_success st \<longleftrightarrow> 200 \<le> st \<and> st < 300"

definition error_from_response :: "http_resp \<Rightarrow> arcade_error" where
  "error_from_response resp = error_from_headers (resp_status resp) (resp_body resp) (resp_header resp)"

definition check_response :: "http_resp \<Rightarrow> bytes \<Rightarrow> go_error option" where
  "check_response resp body =
     (if is_success (resp_status resp) then None
      else Some (EArcade (error_from_headers (resp_status resp) body (resp_header resp))))"

text \<open>\<open>decodeBody\<close>: \<open>dec\<close> is \<open>json.Unmarshal\<close> into the target type.\<close>

definition decode_body :: "'a option \<Rightarrow> (bytes \<Rightarrow> 'a option) \<Rightarrow> bytes \<Rightarrow> go_error + 'a option" where
  "decode_body typed dec body =
     (case typed of
        Some x \<Rightarrow> Inr (Some x)
      | None \<Rightarrow>
          (let trimmed = trim_space body
           in if trimmed = [] \<or> trimmed = ''null'' then Inr None
              else (case dec body of
                      None \<Rightarrow> Inl (EWrap ''arcadedb: decode response'' (EPlain ''json''))
                    | Some a \<Rightarrow> Inr (Some a))))"

definition non_empty :: "go_error + 'a option \<Rightarrow> go_error + 'a" where
  "non_empty r = (case r of
       Inl e \<Rightarrow> Inl e
     | Inr None \<Rightarrow> Inl (ESentinel ErrEmptyBody)
     | Inr (Some a) \<Rightarrow> Inr a)"

definition read_checked :: "http_resp \<Rightarrow> go_error + bytes" where
  "read_checked resp = (case check_response resp (resp_body resp) of
       Some e \<Rightarrow> Inl e | None \<Rightarrow> Inr (resp_body resp))"

definition decode_map :: "go_error + http_resp \<Rightarrow> go_error + members option" where
  "decode_map r =
     bind_res r (\<lambda>resp. bind_res (read_checked resp) (\<lambda>body.
       non_empty (decode_body None unmarshal_map body)))"

section \<open>What error parsing delivers\<close>

lemma parse_non_negative_bounds: "parse_non_negative s = Some n \<Longrightarrow> 0 \<le> n \<and> n \<le> max_int64"
  by (auto simp: parse_non_negative_def Let_def split: if_splits)

text \<open>
  \<open>parseNonNegative\<close> accepts exactly the decimal numbers of the non-negative int64 values,
  with any leading zeros and surrounding white space; no sign, no date, nothing that overflows.
\<close>

theorem parse_non_negative_exact:
  "parse_non_negative s = Some n \<longleftrightarrow>
     0 \<le> n \<and> n \<le> max_int64 \<and> (\<exists>k. trim_space s = replicate k (CHR ''0'') @ dec_of_int n)"
proof
  assume p: "parse_non_negative s = Some n"
  then have t: "trim_space s \<noteq> []" "list_all is_digit (trim_space s)" "n = int (nat_of_dec (trim_space s))"
    by (auto simp: parse_non_negative_def Let_def list_all_dropWhile [symmetric] split: if_splits)
  then obtain k where "trim_space s = replicate k (CHR ''0'') @ dec_of_nat (nat_of_dec (trim_space s))"
    using dec_canonical by blast
  with t(3) have "trim_space s = replicate k (CHR ''0'') @ dec_of_int n" by (simp add: dec_of_int_def)
  with parse_non_negative_bounds [OF p]
  show "0 \<le> n \<and> n \<le> max_int64 \<and> (\<exists>k. trim_space s = replicate k (CHR ''0'') @ dec_of_int n)" by blast
next
  assume r: "0 \<le> n \<and> n \<le> max_int64 \<and> (\<exists>k. trim_space s = replicate k (CHR ''0'') @ dec_of_int n)"
  then obtain k where k: "trim_space s = replicate k (CHR ''0'') @ dec_of_nat (nat n)"
    by (auto simp: dec_of_int_def)
  have "dropWhile is_digit (trim_space s) = []"
    using dec_of_nat_digits [of "nat n"] by (auto simp: k list_all_iff is_digit_def byte_def)
  moreover have "nat_of_dec (trim_space s) = nat n" by (simp add: k nat_of_dec_zeros)
  moreover have "trim_space s \<noteq> []" by (simp add: k)
  ultimately show "parse_non_negative s = Some n"
    using r by (simp add: parse_non_negative_def Let_def list_all_dropWhile [symmetric] del: dropWhile_eq_Nil_conv)
qed

lemma seconds_duration_min: "0 \<le> n \<Longrightarrow> seconds_duration n = min (n * 1000000000) max_int64"
  by (auto simp: seconds_duration_def go_div_nonneg wrap64_id in_int64_def min_int64_def max_int64_def)

lemma error_from_headers_fields:
  "ae_retry_after (error_from_headers st body h) =
     (case parse_non_negative (hdr_get h retry_after_header) of None \<Rightarrow> 0 | Some n \<Rightarrow> seconds_duration n)"
  "ae_commit_index (error_from_headers st body h) =
     (case parse_non_negative (hdr_get h commit_index_header) of None \<Rightarrow> 0 | Some n \<Rightarrow> n)"
  "ae_status (error_from_headers st body h) = st"
  by (simp_all add: error_from_headers_def new_error_def Let_def split: option.split)

text \<open>
  C39: whatever a non-2xx answer carries, its error has the answer's status, a wait that is the
  Retry-After seconds saturated at the largest Duration (0 without a usable header) and a commit
  index that is the header's value; both are in the range of int64, never negative.
\<close>

theorem error_headers_bounds:
  "ae_status (error_from_headers st body h) = st \<and>
   ae_retry_after (error_from_headers st body h) =
     (case parse_non_negative (hdr_get h retry_after_header) of
        None \<Rightarrow> 0 | Some n \<Rightarrow> min (n * 1000000000) max_int64) \<and>
   ae_retry_after (error_from_headers st body h) \<in> {0..max_int64} \<and>
   ae_commit_index (error_from_headers st body h) \<in> {0..max_int64}"
  using parse_non_negative_bounds [of "hdr_get h retry_after_header"]
    parse_non_negative_bounds [of "hdr_get h commit_index_header"]
  by (auto simp: error_from_headers_fields seconds_duration_min max_int64_def split: option.split)


lemma in_band_of_decimal:
  assumes "n < 2 ^ 53"
  shows "json_non_negative ind (Some (JNum (dec_of_nat n))) = (int n, True)"
proof -
  obtain k where f: "float_of_lit (dec_of_nat n) = Some (int n * 2 ^ k, - int k)"
    using float_of_dec [OF assms] by blast
  have t: "f64_trunc (int n * 2 ^ k, - int k) = int n"
    by (cases "n = 0") (auto simp: f64_trunc_def go_div_def sgn_mult abs_mult)
  have "int n \<le> max_int64" using assms by (simp add: max_int64_def)
  then show ?thesis
    by (simp add: json_non_negative_def f t max_int64_def) (simp add: f64_whole_def mult_less_0_iff)
qed

text \<open>
  An in-band status is the number the event carried when that is a whole number from 1 to
  the largest int32, read exactly, and the fallback otherwise, whatever the event carried.
\<close>

theorem in_band_status_range:
  "in_band_status ind v fallback \<in> insert fallback {1..max_int32} \<and>
   (n < 2 ^ 53 \<longrightarrow> in_band_status ind (Some (JNum (dec_of_nat n))) fallback =
      (if 1 \<le> n \<and> int n \<le> max_int32 then int n else fallback))"
  by (auto simp: in_band_status_def in_band_of_decimal split: prod.split)


theorem in_band_status_range_witness:
  "in_band_status 0 (Some (JNum (dec_of_nat 503))) 500 = 503"
  using in_band_status_range [of 0 None 500 503] by (simp add: max_int32_def)

text \<open>
  The number \<open>2 ^ 63\<close> as a float64: it needs no rounding, passes every check of
  \<open>jsonNonNegative\<close> and fits no int64.
\<close>

lemma float_two_63: "float_of_lit ''9223372036854775808'' = Some (4503599627370496, 11)"
proof -
  have p: "lit_parts ''9223372036854775808'' = (False, 9223372036854775808, 0)"
    by (simp add: lit_parts_def nat_of_dec_def digit_val_def is_digit_def byte_def has_prefix_def)
  have e: "round_exp 53 (-1074) 9223372036854775808 (Suc 0) = 11"
    by (simp add: round_exp_def bit_len_eval)
  have r: "round_ratio 53 (-1074) 9223372036854775808 (Suc 0) = (4503599627370496, 11)"
    by (simp add: round_ratio_def e)
  show ?thesis by (simp add: float_of_lit_def float_lit_def p r bit_len_eval)
qed

text \<open>
  \<open>jsonNonNegative\<close> accepts the number \<open>2 ^ 63\<close> although no int64 holds it, and then answers
  whatever the platform's conversion makes of it: on amd64 that is the most negative int64, so a
  commit index read from a batch event can be negative, and a wait of that many seconds too.
\<close>

theorem json_non_negative_overflow:
  "json_non_negative ind (Some (JNum ''9223372036854775808'')) = (ind, True)"
  by (simp add: json_non_negative_def float_two_63 f64_whole_def f64_trunc_def max_int64_def)

end
