(* ===== verification/Generated_Client.thy ===== *)
theory Generated_Client
  imports Go_Errors
begin

text \<open>
  The generated HTTP client (\<open>go/arcadedb/generated/client.gen.go\<close>): how every operation builds
  its request, sends it and parses the response. The tables of the single operations are in
  \<open>Endpoints\<close>. What is outside the repository is a parameter, the record \<open>net\<close>: the transport
  (\<open>http.Client.Do\<close>, over a state \<open>'w\<close> of the outside world), whether the caller's context is
  done, and the parameter styling and binding of \<open>oapi-codegen/runtime\<close> with the URL built
  from its result. Every request handed to the transport is logged in \<open>w_sent\<close>.
\<close>

section \<open>Requests, responses, and the world\<close>

record http_req =
  rq_method :: bytes
  rq_url :: bytes
  rq_query :: "(bytes \<times> bytes) list"
  rq_header :: header
  rq_body :: bytes

record 'w net =
  net_url :: "bytes \<Rightarrow> bytes \<Rightarrow> bytes list \<Rightarrow> go_error + bytes"
  net_style :: "bytes \<Rightarrow> bytes"
  net_bind :: "bytes \<Rightarrow> go_error + bytes"
  net_send :: "http_req \<Rightarrow> 'w \<Rightarrow> (go_error + http_resp) \<times> 'w"
  net_ctx_err :: "'w \<Rightarrow> go_error option"

record 'w world =
  w_sent :: "http_req list"
  w_rest :: 'w

text \<open>The caller's context, or \<open>context.WithoutCancel\<close> of it, which is never done.\<close>

datatype ctx = CtxCaller | CtxWithoutCancel

record server =
  sv_base_url :: bytes
  sv_headers :: "(bytes \<times> bytes) list"

section \<open>Building a request\<close>

text \<open>The header parameters of an operation: each one given is set, in order.\<close>

definition header_params :: "(bytes \<Rightarrow> bytes) \<Rightarrow> (bytes \<times> bytes option) list \<Rightarrow> header \<Rightarrow> header" where
  "header_params style ps h =
     foldl (\<lambda>h (k, v). case v of None \<Rightarrow> h | Some x \<Rightarrow> hdr_set k (style x) h) h ps"

definition query_params :: "(bytes \<times> bytes option) list \<Rightarrow> (bytes \<times> bytes) list" where
  "query_params ps = concat (map (\<lambda>(k, v). case v of None \<Rightarrow> [] | Some x \<Rightarrow> [(k, x)]) ps)"

text \<open>Optional query parameters that are not strings, as they are written.\<close>

definition int_param :: "int option \<Rightarrow> bytes option" where
  "int_param = map_option dec_of_int"

definition bool_param :: "bool option \<Rightarrow> bytes option" where
  "bool_param = map_option (\<lambda>b. if b then ''true'' else ''false'')"

text \<open>
  The part all the \<open>New...Request\<close> functions share. A base URL without a trailing slash gets
  one in \<open>NewClient\<close>. A content type is set when there is a body.
\<close>

record op_params =
  op_method :: bytes
  op_path :: bytes
  op_args :: "bytes list"
  op_query :: "(bytes \<times> bytes option) list"
  op_header :: "(bytes \<times> bytes option) list"
  op_body :: "(bytes \<times> bytes) option"

definition client_server :: "bytes \<Rightarrow> bytes" where
  "client_server base = (if has_prefix (rev base) ''/'' then base else base @ ''/'')"

definition new_request :: "'w net \<Rightarrow> bytes \<Rightarrow> op_params \<Rightarrow> go_error + http_req" where
  "new_request net base op =
     bind_res (net_url net (client_server base) (op_path op) (op_args op)) (\<lambda>url.
       Inr \<lparr>rq_method = op_method op, rq_url = url, rq_query = query_params (op_query op),
            rq_header = header_params (net_style net) (op_header op)
              (case op_body op of None \<Rightarrow> [] | Some (ct, b) \<Rightarrow> [(''Content-Type'', ct)]),
            rq_body = (case op_body op of None \<Rightarrow> [] | Some (ct, b) \<Rightarrow> b)\<rparr>)"

section \<open>Sending\<close>

text \<open>\<open>applyHeaders\<close>: the configured headers replace whatever the request carries.\<close>

definition apply_headers :: "(bytes \<times> bytes) list \<Rightarrow> header \<Rightarrow> header" where
  "apply_headers hs h = foldl (\<lambda>h (k, v). hdr_set k v h) h hs"

text \<open>
  \<open>applyEditors\<close>: first the client's own editor, which applies the configured headers, then the
  additional ones of the call (each here a header it sets).
\<close>

definition apply_editors :: "server \<Rightarrow> (bytes \<times> bytes) list \<Rightarrow> http_req \<Rightarrow> http_req" where
  "apply_editors sv extra r =
     r\<lparr>rq_header := apply_headers extra (apply_headers (sv_headers sv) (rq_header r))\<rparr>"

definition ctx_done :: "'w net \<Rightarrow> ctx \<Rightarrow> 'w world \<Rightarrow> go_error option" where
  "ctx_done net ctx w = (case ctx of CtxCaller \<Rightarrow> net_ctx_err net (w_rest w) | CtxWithoutCancel \<Rightarrow> None)"

definition do_request :: "'w net \<Rightarrow> ctx \<Rightarrow> http_req \<Rightarrow> 'w world \<Rightarrow> (go_error + http_resp) \<times> 'w world" where
  "do_request net ctx r w =
     (case ctx_done net ctx w of
        Some e \<Rightarrow> (Inl (EWrap (rq_method r) e), w)
      | None \<Rightarrow> (case net_send net r (w_rest w) of
          (res, x) \<Rightarrow> (res, \<lparr>w_sent = w_sent w @ [r], w_rest = x\<rparr>)))"

definition client_call ::
  "'w net \<Rightarrow> server \<Rightarrow> ctx \<Rightarrow> (bytes \<times> bytes) list \<Rightarrow> op_params \<Rightarrow> 'w world
     \<Rightarrow> (go_error + http_resp) \<times> 'w world" where
  "client_call net sv ctx extra op w =
     (case new_request net (sv_base_url sv) op of
        Inl e \<Rightarrow> (Inl e, w)
      | Inr r \<Rightarrow> do_request net ctx (apply_editors sv extra r) w)"

section \<open>Parsing a response\<close>

text \<open>
  The error documents the parsers decode. Their values are not used by the drivers' own methods;
  what matters is that a document that does not decode is an error of the whole call. A few
  operations the drivers do not use have an error document of a type of its own; whether a body
  decodes into it is the parameter of \<open>OtherDoc\<close>.
\<close>

datatype err_doc = ErrorDoc | PromQLErrorDoc | OtherDoc "bytes \<Rightarrow> bool"

definition error_response_fields :: "bytes list" where
  "error_response_fields = [''detail'', ''error'', ''exception'', ''exceptionArgs'', ''help'']"

definition promql_error_fields :: "bytes list" where
  "promql_error_fields = [''error'', ''errorType'', ''status'']"

definition decode_error_response :: "members \<Rightarrow> unit \<times> bool" where
  "decode_error_response kvs =
     (let fv = field_vals error_response_fields kvs;
          ptr = (\<lambda>f. snd (decode_field (into_ptr into_string []) None (fv f)))
      in ((), ptr ''detail'' \<and> snd (decode_field into_string [] (fv ''error'')) \<and> ptr ''exception''
              \<and> ptr ''exceptionArgs'' \<and> ptr ''help''))"

definition decode_promql_error :: "members \<Rightarrow> unit \<times> bool" where
  "decode_promql_error kvs =
     ((), list_all (\<lambda>f. snd (decode_field into_string [] (field_vals promql_error_fields kvs f)))
            promql_error_fields)"

definition error_doc_ok :: "err_doc \<Rightarrow> bytes \<Rightarrow> bool" where
  "error_doc_ok d body = (case d of
       ErrorDoc \<Rightarrow> unmarshal_struct decode_error_response body \<noteq> None
     | PromQLErrorDoc \<Rightarrow> unmarshal_struct decode_promql_error body \<noteq> None
     | OtherDoc decodes \<Rightarrow> decodes body)"

text \<open>
  What a \<open>Parse...Resp\<close> function knows of its operation: the status whose JSON body is decoded
  into the typed result, the error statuses with their documents, and the headers it binds for
  each status.
\<close>

record 'a responses =
  rs_ok :: "(int \<times> (bytes \<Rightarrow> 'a option)) option"
  rs_errors :: "(int \<times> err_doc) list"
  rs_headers :: "(int \<times> bytes list) list"

record 'a parsed =
  pr_typed :: "'a option"
  pr_headers :: "(bytes \<times> bytes) list"
  pr_resp :: http_resp

definition json_error :: go_error where
  "json_error = EPlain ''json''"

definition is_json :: "header \<Rightarrow> bool" where
  "is_json h = str_contains (hdr_get h ''Content-Type'') ''json''"

definition parse_typed :: "'a responses \<Rightarrow> http_resp \<Rightarrow> go_error + 'a option" where
  "parse_typed rs resp =
     (if \<not> is_json (resp_header resp) then Inr None
      else case rs_ok rs of
        Some (st, dec) \<Rightarrow>
          if resp_status resp = st
          then (case dec (resp_body resp) of None \<Rightarrow> Inl json_error | Some a \<Rightarrow> Inr (Some a))
          else (case map_of (rs_errors rs) (resp_status resp) of
                  Some d \<Rightarrow> if error_doc_ok d (resp_body resp) then Inr None else Inl json_error
                | None \<Rightarrow> Inr None)
      | None \<Rightarrow>
          (case map_of (rs_errors rs) (resp_status resp) of
             Some d \<Rightarrow> if error_doc_ok d (resp_body resp) then Inr None else Inl json_error
           | None \<Rightarrow> Inr None))"

fun bind_headers :: "(bytes \<Rightarrow> go_error + bytes) \<Rightarrow> bytes list \<Rightarrow> header \<Rightarrow> go_error + (bytes \<times> bytes) list" where
  "bind_headers bind [] h = Inr []"
| "bind_headers bind (k # ks) h =
     (case map_of h (canonical_key k) of
        None \<Rightarrow> bind_headers bind ks h
      | Some v \<Rightarrow> bind_res (bind v) (\<lambda>x. bind_res (bind_headers bind ks h) (\<lambda>r. Inr ((k, x) # r))))"

definition parse_resp :: "(bytes \<Rightarrow> go_error + bytes) \<Rightarrow> 'a responses \<Rightarrow> http_resp \<Rightarrow> go_error + 'a parsed" where
  "parse_resp bind rs resp =
     (case resp_read_err resp of
        Some e \<Rightarrow> Inl e
      | None \<Rightarrow>
          bind_res (parse_typed rs resp) (\<lambda>t.
            bind_res (bind_headers bind
                (case map_of (rs_headers rs) (resp_status resp) of None \<Rightarrow> [] | Some ks \<Rightarrow> ks)
                (resp_header resp)) (\<lambda>hs.
              Inr \<lparr>pr_typed = t, pr_headers = hs, pr_resp = resp\<rparr>)))"

text \<open>A \<open>...WithResponse\<close> method: send, then parse.\<close>

definition call_parsed ::
  "'w net \<Rightarrow> server \<Rightarrow> ctx \<Rightarrow> (bytes \<times> bytes) list \<Rightarrow> 'a responses \<Rightarrow> op_params \<Rightarrow> 'w world
     \<Rightarrow> (go_error + 'a parsed) \<times> 'w world" where
  "call_parsed net sv ctx extra rs op w =
     (case client_call net sv ctx extra op w of
        (Inl e, w') \<Rightarrow> (Inl e, w')
      | (Inr resp, w') \<Rightarrow> (parse_resp (net_bind net) rs resp, w'))"

text \<open>
  The beginning every method on the typed client has: call, return its error, check the status.
\<close>

definition call_checked ::
  "'w net \<Rightarrow> server \<Rightarrow> ctx \<Rightarrow> (bytes \<times> bytes) list \<Rightarrow> 'a responses \<Rightarrow> op_params \<Rightarrow> 'w world
     \<Rightarrow> (go_error + 'a parsed) \<times> 'w world" where
  "call_checked net sv ctx extra rs op w =
     (case call_parsed net sv ctx extra rs op w of
        (Inl e, w') \<Rightarrow> (Inl e, w')
      | (Inr p, w') \<Rightarrow>
          (case check_response (pr_resp p) (resp_body (pr_resp p)) of
             Some e \<Rightarrow> (Inl e, w')
           | None \<Rightarrow> (Inr p, w')))"

definition res_err :: "go_error + 'a \<Rightarrow> go_error option" where
  "res_err r = (case r of Inl e \<Rightarrow> Some e | Inr _ \<Rightarrow> None)"

end
