(* ===== verification/Operations_Ai.thy ===== *)
theory Operations_Ai
  imports Generated_Client
begin

text \<open>
  The operations of \<open>client.gen.go\<close> no method of the drivers uses: the assistant and the MCP endpoint. As in \<open>Endpoints\<close>, one
  request builder and one response table each; \<open>other\<close> tests whether a document of a type of its own
  decodes.
\<close>

subsection \<open>ActivateAi\<close>

definition activate_ai_request :: "bytes option \<Rightarrow> bytes \<Rightarrow> bytes \<Rightarrow> op_params" where
  "activate_ai_request rid ctype body =
     \<lparr>op_method = ''POST'', op_path = ''/api/v1/ai/activate'', op_args = [],
      op_query = [],
      op_header = [(''X-Request-Id'', rid)],
      op_body = Some (ctype, body)\<rparr>"

definition activate_ai_responses :: "(bytes \<Rightarrow> 'a option) \<Rightarrow> 'a responses" where
  "activate_ai_responses dec =
     \<lparr>rs_ok = Some (200, dec),
      rs_errors = [(400, ErrorDoc), (401, ErrorDoc), (403, ErrorDoc), (409, ErrorDoc), (500, ErrorDoc), (502, ErrorDoc), (503, ErrorDoc)],
      rs_headers =
       [(200, [''X-Request-Id'']),
        (400, [''X-Request-Id'']),
        (401, [''X-Request-Id'']),
        (403, [''X-Request-Id'']),
        (409, [''Retry-After'', ''X-Request-Id'']),
        (500, [''X-Request-Id'']),
        (502, [''X-Request-Id'']),
        (503, [''X-Request-Id''])]\<rparr>"

subsection \<open>AnalyzeProfilerWithAi\<close>

definition analyze_profiler_with_ai_request :: "bytes option \<Rightarrow> bytes \<Rightarrow> bytes \<Rightarrow> op_params" where
  "analyze_profiler_with_ai_request rid ctype body =
     \<lparr>op_method = ''POST'', op_path = ''/api/v1/ai/analyze-profiler'', op_args = [],
      op_query = [],
      op_header = [(''X-Request-Id'', rid)],
      op_body = Some (ctype, body)\<rparr>"

definition analyze_profiler_with_ai_responses :: "(bytes \<Rightarrow> 'a option) \<Rightarrow> 'a responses" where
  "analyze_profiler_with_ai_responses dec =
     \<lparr>rs_ok = Some (200, dec),
      rs_errors = [(400, ErrorDoc), (401, ErrorDoc), (403, ErrorDoc), (409, ErrorDoc), (500, ErrorDoc), (502, ErrorDoc), (503, ErrorDoc), (504, ErrorDoc)],
      rs_headers =
       [(200, [''X-Request-Id'']),
        (400, [''X-Request-Id'']),
        (401, [''X-Request-Id'']),
        (403, [''X-Request-Id'']),
        (409, [''Retry-After'', ''X-Request-Id'']),
        (500, [''X-Request-Id'']),
        (502, [''X-Request-Id'']),
        (503, [''X-Request-Id'']),
        (504, [''X-Request-Id''])]\<rparr>"

subsection \<open>ChatWithAi\<close>

definition chat_with_ai_request :: "bytes option \<Rightarrow> bytes \<Rightarrow> bytes \<Rightarrow> op_params" where
  "chat_with_ai_request rid ctype body =
     \<lparr>op_method = ''POST'', op_path = ''/api/v1/ai/chat'', op_args = [],
      op_query = [],
      op_header = [(''X-Request-Id'', rid)],
      op_body = Some (ctype, body)\<rparr>"

definition chat_with_ai_responses :: "(bytes \<Rightarrow> 'a option) \<Rightarrow> (bytes \<Rightarrow> bool) \<Rightarrow> 'a responses" where
  "chat_with_ai_responses dec other =
     \<lparr>rs_ok = Some (200, dec),
      rs_errors = [(400, OtherDoc other), (401, ErrorDoc), (402, ErrorDoc), (403, ErrorDoc), (404, ErrorDoc), (409, ErrorDoc), (429, ErrorDoc), (500, ErrorDoc), (502, ErrorDoc), (503, ErrorDoc), (504, ErrorDoc)],
      rs_headers =
       [(200, [''X-Request-Id'']),
        (400, [''X-Request-Id'']),
        (401, [''X-Request-Id'']),
        (402, [''X-Request-Id'']),
        (403, [''X-Request-Id'']),
        (404, [''X-Request-Id'']),
        (409, [''Retry-After'', ''X-Request-Id'']),
        (429, [''X-Request-Id'']),
        (500, [''X-Request-Id'']),
        (502, [''X-Request-Id'']),
        (503, [''X-Request-Id'']),
        (504, [''X-Request-Id''])]\<rparr>"

subsection \<open>StreamChatWithAi\<close>

definition stream_chat_with_ai_request :: "bytes option \<Rightarrow> bytes \<Rightarrow> bytes \<Rightarrow> op_params" where
  "stream_chat_with_ai_request rid ctype body =
     \<lparr>op_method = ''POST'', op_path = ''/api/v1/ai/chat/stream'', op_args = [],
      op_query = [],
      op_header = [(''X-Request-Id'', rid)],
      op_body = Some (ctype, body)\<rparr>"

definition stream_chat_with_ai_responses :: "(bytes \<Rightarrow> bool) \<Rightarrow> unit responses" where
  "stream_chat_with_ai_responses other =
     \<lparr>rs_ok = None,
      rs_errors = [(400, OtherDoc other), (401, ErrorDoc), (402, ErrorDoc), (403, ErrorDoc), (404, ErrorDoc), (409, ErrorDoc), (429, ErrorDoc), (500, ErrorDoc), (502, ErrorDoc), (503, ErrorDoc), (504, ErrorDoc)],
      rs_headers =
       [(200, [''X-Request-Id'']),
        (400, [''X-Request-Id'']),
        (401, [''X-Request-Id'']),
        (402, [''X-Request-Id'']),
        (403, [''X-Request-Id'']),
        (404, [''X-Request-Id'']),
        (409, [''Retry-After'', ''X-Request-Id'']),
        (429, [''X-Request-Id'']),
        (500, [''X-Request-Id'']),
        (502, [''X-Request-Id'']),
        (503, [''X-Request-Id'']),
        (504, [''X-Request-Id''])]\<rparr>"

subsection \<open>ListAiChats\<close>

definition list_ai_chats_request :: "op_params" where
  "list_ai_chats_request =
     \<lparr>op_method = ''GET'', op_path = ''/api/v1/ai/chats'', op_args = [],
      op_query = [],
      op_header = [],
      op_body = None\<rparr>"

definition list_ai_chats_responses :: "(bytes \<Rightarrow> 'a option) \<Rightarrow> 'a responses" where
  "list_ai_chats_responses dec =
     \<lparr>rs_ok = Some (200, dec),
      rs_errors = [(401, ErrorDoc), (403, ErrorDoc), (500, ErrorDoc)],
      rs_headers =
       [(200, [''X-Request-Id'']),
        (401, [''X-Request-Id'']),
        (403, [''X-Request-Id'']),
        (500, [''X-Request-Id''])]\<rparr>"

subsection \<open>DeleteAiChat\<close>

definition delete_ai_chat_request :: "bytes \<Rightarrow> op_params" where
  "delete_ai_chat_request ident =
     \<lparr>op_method = ''DELETE'', op_path = ''/api/v1/ai/chats/%s'', op_args = [ident],
      op_query = [],
      op_header = [],
      op_body = None\<rparr>"

definition delete_ai_chat_responses :: "(bytes \<Rightarrow> 'a option) \<Rightarrow> 'a responses" where
  "delete_ai_chat_responses dec =
     \<lparr>rs_ok = Some (200, dec),
      rs_errors = [(401, ErrorDoc), (403, ErrorDoc), (404, ErrorDoc), (500, ErrorDoc)],
      rs_headers =
       [(200, [''X-Request-Id'']),
        (401, [''X-Request-Id'']),
        (403, [''X-Request-Id'']),
        (404, [''X-Request-Id'']),
        (500, [''X-Request-Id''])]\<rparr>"

subsection \<open>GetAiChat\<close>

definition get_ai_chat_request :: "bytes \<Rightarrow> op_params" where
  "get_ai_chat_request ident =
     \<lparr>op_method = ''GET'', op_path = ''/api/v1/ai/chats/%s'', op_args = [ident],
      op_query = [],
      op_header = [],
      op_body = None\<rparr>"

definition get_ai_chat_responses :: "(bytes \<Rightarrow> 'a option) \<Rightarrow> 'a responses" where
  "get_ai_chat_responses dec =
     \<lparr>rs_ok = Some (200, dec),
      rs_errors = [(401, ErrorDoc), (403, ErrorDoc), (404, ErrorDoc), (500, ErrorDoc)],
      rs_headers =
       [(200, [''X-Request-Id'']),
        (401, [''X-Request-Id'']),
        (403, [''X-Request-Id'']),
        (404, [''X-Request-Id'']),
        (500, [''X-Request-Id''])]\<rparr>"

subsection \<open>UpdateAiChat\<close>

definition update_ai_chat_request :: "bytes \<Rightarrow> bytes \<Rightarrow> bytes \<Rightarrow> op_params" where
  "update_ai_chat_request ident ctype body =
     \<lparr>op_method = ''PUT'', op_path = ''/api/v1/ai/chats/%s'', op_args = [ident],
      op_query = [],
      op_header = [],
      op_body = Some (ctype, body)\<rparr>"

definition update_ai_chat_responses :: "(bytes \<Rightarrow> 'a option) \<Rightarrow> 'a responses" where
  "update_ai_chat_responses dec =
     \<lparr>rs_ok = Some (200, dec),
      rs_errors = [(400, ErrorDoc), (401, ErrorDoc), (403, ErrorDoc), (404, ErrorDoc), (500, ErrorDoc)],
      rs_headers =
       [(200, [''X-Request-Id'']),
        (400, [''X-Request-Id'']),
        (401, [''X-Request-Id'']),
        (403, [''X-Request-Id'']),
        (404, [''X-Request-Id'']),
        (500, [''X-Request-Id''])]\<rparr>"

subsection \<open>GetAiConfig\<close>

definition get_ai_config_request :: "op_params" where
  "get_ai_config_request =
     \<lparr>op_method = ''GET'', op_path = ''/api/v1/ai/config'', op_args = [],
      op_query = [],
      op_header = [],
      op_body = None\<rparr>"

definition get_ai_config_responses :: "(bytes \<Rightarrow> 'a option) \<Rightarrow> 'a responses" where
  "get_ai_config_responses dec =
     \<lparr>rs_ok = Some (200, dec),
      rs_errors = [(401, ErrorDoc), (403, ErrorDoc), (500, ErrorDoc)],
      rs_headers =
       [(200, [''X-Request-Id'']),
        (401, [''X-Request-Id'']),
        (403, [''X-Request-Id'']),
        (500, [''X-Request-Id''])]\<rparr>"

subsection \<open>InvokeMcp\<close>

definition invoke_mcp_request :: "bytes option \<Rightarrow> bytes \<Rightarrow> bytes \<Rightarrow> op_params" where
  "invoke_mcp_request rid ctype body =
     \<lparr>op_method = ''POST'', op_path = ''/api/v1/mcp'', op_args = [],
      op_query = [],
      op_header = [(''X-Request-Id'', rid)],
      op_body = Some (ctype, body)\<rparr>"

definition invoke_mcp_responses :: "(bytes \<Rightarrow> 'a option) \<Rightarrow> (bytes \<Rightarrow> bool) \<Rightarrow> 'a responses" where
  "invoke_mcp_responses dec other =
     \<lparr>rs_ok = Some (200, dec),
      rs_errors = [(401, ErrorDoc), (403, OtherDoc other), (405, OtherDoc other), (409, ErrorDoc), (500, ErrorDoc), (503, OtherDoc other)],
      rs_headers =
       [(200, [''X-Request-Id'']),
        (202, [''X-Request-Id'']),
        (401, [''X-Request-Id'']),
        (403, [''X-Request-Id'']),
        (405, [''X-Request-Id'']),
        (409, [''Retry-After'', ''X-Request-Id'']),
        (500, [''X-Request-Id'']),
        (503, [''X-Request-Id''])]\<rparr>"

subsection \<open>GetMcpConfig\<close>

definition get_mcp_config_request :: "op_params" where
  "get_mcp_config_request =
     \<lparr>op_method = ''GET'', op_path = ''/api/v1/mcp/config'', op_args = [],
      op_query = [],
      op_header = [],
      op_body = None\<rparr>"

definition get_mcp_config_responses :: "(bytes \<Rightarrow> 'a option) \<Rightarrow> 'a responses" where
  "get_mcp_config_responses dec =
     \<lparr>rs_ok = Some (200, dec),
      rs_errors = [(401, ErrorDoc), (403, ErrorDoc), (405, ErrorDoc), (500, ErrorDoc)],
      rs_headers =
       [(200, [''X-Request-Id'']),
        (401, [''X-Request-Id'']),
        (403, [''X-Request-Id'']),
        (405, [''X-Request-Id'']),
        (500, [''X-Request-Id''])]\<rparr>"

subsection \<open>UpdateMcpConfig\<close>

definition update_mcp_config_request :: "bytes option \<Rightarrow> bytes \<Rightarrow> bytes \<Rightarrow> op_params" where
  "update_mcp_config_request rid ctype body =
     \<lparr>op_method = ''POST'', op_path = ''/api/v1/mcp/config'', op_args = [],
      op_query = [],
      op_header = [(''X-Request-Id'', rid)],
      op_body = Some (ctype, body)\<rparr>"

definition update_mcp_config_responses :: "(bytes \<Rightarrow> 'a option) \<Rightarrow> 'a responses" where
  "update_mcp_config_responses dec =
     \<lparr>rs_ok = Some (200, dec),
      rs_errors = [(400, ErrorDoc), (401, ErrorDoc), (403, ErrorDoc), (405, ErrorDoc), (409, ErrorDoc), (500, ErrorDoc)],
      rs_headers =
       [(200, [''X-Request-Id'']),
        (400, [''X-Request-Id'']),
        (401, [''X-Request-Id'']),
        (403, [''X-Request-Id'']),
        (405, [''X-Request-Id'']),
        (409, [''Retry-After'', ''X-Request-Id'']),
        (500, [''X-Request-Id''])]\<rparr>"

end
