(* ===== verification/Operations_Cluster.thy ===== *)
theory Operations_Cluster
  imports Generated_Client
begin

text \<open>
  The operations of \<open>client.gen.go\<close> no method of the drivers uses: the cluster. As in \<open>Endpoints\<close>, one
  request builder and one response table each; \<open>other\<close> tests whether a document of a type of its own
  decodes.
\<close>

subsection \<open>GetClusterStatus\<close>

definition get_cluster_status_request :: "bool option \<Rightarrow> op_params" where
  "get_cluster_status_request presence =
     \<lparr>op_method = ''GET'', op_path = ''/api/v1/cluster'', op_args = [],
      op_query = [(''presence'', bool_param presence)],
      op_header = [],
      op_body = None\<rparr>"

definition get_cluster_status_responses :: "(bytes \<Rightarrow> 'a option) \<Rightarrow> 'a responses" where
  "get_cluster_status_responses dec =
     \<lparr>rs_ok = Some (200, dec),
      rs_errors = [(401, ErrorDoc), (403, ErrorDoc), (500, ErrorDoc), (503, ErrorDoc)],
      rs_headers =
       [(200, [''X-Request-Id'']),
        (401, [''X-Request-Id'']),
        (403, [''X-Request-Id'']),
        (500, [''X-Request-Id'']),
        (503, [''X-Request-Id''])]\<rparr>"

subsection \<open>AcceptClusterDatabaseCopy\<close>

definition accept_cluster_database_copy_request :: "bytes \<Rightarrow> bytes option \<Rightarrow> op_params" where
  "accept_cluster_database_copy_request database rid =
     \<lparr>op_method = ''POST'', op_path = ''/api/v1/cluster/accept-copy/%s'', op_args = [database],
      op_query = [],
      op_header = [(''X-Request-Id'', rid)],
      op_body = None\<rparr>"

definition accept_cluster_database_copy_responses :: "(bytes \<Rightarrow> 'a option) \<Rightarrow> 'a responses" where
  "accept_cluster_database_copy_responses dec =
     \<lparr>rs_ok = Some (200, dec),
      rs_errors = [(400, ErrorDoc), (401, ErrorDoc), (403, ErrorDoc), (404, ErrorDoc), (409, ErrorDoc), (500, ErrorDoc)],
      rs_headers =
       [(200, [''X-Request-Id'']),
        (400, [''X-Request-Id'']),
        (401, [''X-Request-Id'']),
        (403, [''X-Request-Id'']),
        (404, [''X-Request-Id'']),
        (409, [''Retry-After'', ''X-Request-Id'']),
        (500, [''X-Request-Id''])]\<rparr>"

subsection \<open>AcceptClusterDivergedDatabase\<close>

definition accept_cluster_diverged_database_request :: "bytes \<Rightarrow> bytes option \<Rightarrow> op_params" where
  "accept_cluster_diverged_database_request database rid =
     \<lparr>op_method = ''POST'', op_path = ''/api/v1/cluster/accept-diverged/%s'', op_args = [database],
      op_query = [],
      op_header = [(''X-Request-Id'', rid)],
      op_body = None\<rparr>"

definition accept_cluster_diverged_database_responses :: "(bytes \<Rightarrow> 'a option) \<Rightarrow> 'a responses" where
  "accept_cluster_diverged_database_responses dec =
     \<lparr>rs_ok = Some (200, dec),
      rs_errors = [(400, ErrorDoc), (401, ErrorDoc), (403, ErrorDoc), (404, ErrorDoc), (409, ErrorDoc), (500, ErrorDoc)],
      rs_headers =
       [(200, [''X-Request-Id'']),
        (400, [''X-Request-Id'']),
        (401, [''X-Request-Id'']),
        (403, [''X-Request-Id'']),
        (404, [''X-Request-Id'']),
        (409, [''Retry-After'', ''X-Request-Id'']),
        (500, [''X-Request-Id''])]\<rparr>"

subsection \<open>AcceptClusterStaleSnapshot\<close>

definition accept_cluster_stale_snapshot_request :: "bytes option \<Rightarrow> op_params" where
  "accept_cluster_stale_snapshot_request rid =
     \<lparr>op_method = ''POST'', op_path = ''/api/v1/cluster/accept-stale-snapshot'', op_args = [],
      op_query = [],
      op_header = [(''X-Request-Id'', rid)],
      op_body = None\<rparr>"

definition accept_cluster_stale_snapshot_responses :: "(bytes \<Rightarrow> 'a option) \<Rightarrow> 'a responses" where
  "accept_cluster_stale_snapshot_responses dec =
     \<lparr>rs_ok = Some (200, dec),
      rs_errors = [(400, ErrorDoc), (401, ErrorDoc), (403, ErrorDoc), (404, ErrorDoc), (409, ErrorDoc), (500, ErrorDoc)],
      rs_headers =
       [(200, [''X-Request-Id'']),
        (400, [''X-Request-Id'']),
        (401, [''X-Request-Id'']),
        (403, [''X-Request-Id'']),
        (404, [''X-Request-Id'']),
        (409, [''Retry-After'', ''X-Request-Id'']),
        (500, [''X-Request-Id''])]\<rparr>"

subsection \<open>ResolveClusterAuthSession\<close>

definition resolve_cluster_auth_session_request :: "bytes option \<Rightarrow> bytes \<Rightarrow> bytes \<Rightarrow> op_params" where
  "resolve_cluster_auth_session_request rid ctype body =
     \<lparr>op_method = ''POST'', op_path = ''/api/v1/cluster/auth-session'', op_args = [],
      op_query = [],
      op_header = [(''X-Request-Id'', rid)],
      op_body = Some (ctype, body)\<rparr>"

definition resolve_cluster_auth_session_responses :: "(bytes \<Rightarrow> 'a option) \<Rightarrow> 'a responses" where
  "resolve_cluster_auth_session_responses dec =
     \<lparr>rs_ok = Some (200, dec),
      rs_errors = [(400, ErrorDoc), (401, ErrorDoc), (403, ErrorDoc), (404, ErrorDoc), (409, ErrorDoc), (500, ErrorDoc)],
      rs_headers =
       [(200, [''X-Request-Id'']),
        (204, [''X-Request-Id'']),
        (400, [''X-Request-Id'']),
        (401, [''X-Request-Id'']),
        (403, [''X-Request-Id'']),
        (404, [''X-Request-Id'']),
        (409, [''Retry-After'', ''X-Request-Id'']),
        (500, [''X-Request-Id''])]\<rparr>"

subsection \<open>GetClusterBootstrapState\<close>

definition get_cluster_bootstrap_state_request :: "bytes option \<Rightarrow> op_params" where
  "get_cluster_bootstrap_state_request rid =
     \<lparr>op_method = ''POST'', op_path = ''/api/v1/cluster/bootstrap-state'', op_args = [],
      op_query = [],
      op_header = [(''X-Request-Id'', rid)],
      op_body = None\<rparr>"

definition get_cluster_bootstrap_state_responses :: "(bytes \<Rightarrow> 'a option) \<Rightarrow> 'a responses" where
  "get_cluster_bootstrap_state_responses dec =
     \<lparr>rs_ok = Some (200, dec),
      rs_errors = [(400, ErrorDoc), (401, ErrorDoc), (403, ErrorDoc), (409, ErrorDoc), (500, ErrorDoc)],
      rs_headers =
       [(200, [''X-Request-Id'']),
        (400, [''X-Request-Id'']),
        (401, [''X-Request-Id'']),
        (403, [''X-Request-Id'']),
        (409, [''Retry-After'', ''X-Request-Id'']),
        (500, [''X-Request-Id''])]\<rparr>"

subsection \<open>GetClusterPeerCapabilities\<close>

definition get_cluster_peer_capabilities_request :: "bytes option \<Rightarrow> op_params" where
  "get_cluster_peer_capabilities_request rid =
     \<lparr>op_method = ''POST'', op_path = ''/api/v1/cluster/capabilities'', op_args = [],
      op_query = [],
      op_header = [(''X-Request-Id'', rid)],
      op_body = None\<rparr>"

definition get_cluster_peer_capabilities_responses :: "(bytes \<Rightarrow> 'a option) \<Rightarrow> 'a responses" where
  "get_cluster_peer_capabilities_responses dec =
     \<lparr>rs_ok = Some (200, dec),
      rs_errors = [(400, ErrorDoc), (401, ErrorDoc), (403, ErrorDoc), (409, ErrorDoc), (500, ErrorDoc)],
      rs_headers =
       [(200, [''X-Request-Id'']),
        (400, [''X-Request-Id'']),
        (401, [''X-Request-Id'']),
        (403, [''X-Request-Id'']),
        (409, [''Retry-After'', ''X-Request-Id'']),
        (500, [''X-Request-Id''])]\<rparr>"

subsection \<open>TransferClusterLeadership\<close>

definition transfer_cluster_leadership_request :: "bytes option \<Rightarrow> bytes \<Rightarrow> bytes \<Rightarrow> op_params" where
  "transfer_cluster_leadership_request rid ctype body =
     \<lparr>op_method = ''POST'', op_path = ''/api/v1/cluster/leader'', op_args = [],
      op_query = [],
      op_header = [(''X-Request-Id'', rid)],
      op_body = Some (ctype, body)\<rparr>"

definition transfer_cluster_leadership_responses :: "(bytes \<Rightarrow> 'a option) \<Rightarrow> 'a responses" where
  "transfer_cluster_leadership_responses dec =
     \<lparr>rs_ok = Some (200, dec),
      rs_errors = [(400, ErrorDoc), (401, ErrorDoc), (403, ErrorDoc), (409, ErrorDoc), (500, ErrorDoc)],
      rs_headers =
       [(200, [''X-Request-Id'']),
        (400, [''X-Request-Id'']),
        (401, [''X-Request-Id'']),
        (403, [''X-Request-Id'']),
        (409, [''Retry-After'', ''X-Request-Id'']),
        (500, [''X-Request-Id''])]\<rparr>"

subsection \<open>LeaveCluster\<close>

definition leave_cluster_request :: "bool option \<Rightarrow> bytes option \<Rightarrow> op_params" where
  "leave_cluster_request force rid =
     \<lparr>op_method = ''POST'', op_path = ''/api/v1/cluster/leave'', op_args = [],
      op_query = [(''force'', bool_param force)],
      op_header = [(''X-Request-Id'', rid)],
      op_body = None\<rparr>"

definition leave_cluster_responses :: "(bytes \<Rightarrow> 'a option) \<Rightarrow> 'a responses" where
  "leave_cluster_responses dec =
     \<lparr>rs_ok = Some (200, dec),
      rs_errors = [(400, ErrorDoc), (401, ErrorDoc), (403, ErrorDoc), (409, ErrorDoc), (500, ErrorDoc)],
      rs_headers =
       [(200, [''X-Request-Id'']),
        (400, [''X-Request-Id'']),
        (401, [''X-Request-Id'']),
        (403, [''X-Request-Id'']),
        (409, [''Retry-After'', ''X-Request-Id'']),
        (500, [''X-Request-Id''])]\<rparr>"

subsection \<open>AddClusterPeer\<close>

definition add_cluster_peer_request :: "bytes option \<Rightarrow> bytes \<Rightarrow> bytes \<Rightarrow> op_params" where
  "add_cluster_peer_request rid ctype body =
     \<lparr>op_method = ''POST'', op_path = ''/api/v1/cluster/peer'', op_args = [],
      op_query = [],
      op_header = [(''X-Request-Id'', rid)],
      op_body = Some (ctype, body)\<rparr>"

definition add_cluster_peer_responses :: "(bytes \<Rightarrow> 'a option) \<Rightarrow> 'a responses" where
  "add_cluster_peer_responses dec =
     \<lparr>rs_ok = Some (200, dec),
      rs_errors = [(400, ErrorDoc), (401, ErrorDoc), (403, ErrorDoc), (409, ErrorDoc), (500, ErrorDoc), (503, ErrorDoc)],
      rs_headers =
       [(200, [''X-Request-Id'']),
        (400, [''X-Request-Id'']),
        (401, [''X-Request-Id'']),
        (403, [''X-Request-Id'']),
        (409, [''Retry-After'', ''X-Request-Id'']),
        (500, [''X-Request-Id'']),
        (503, [''X-Request-Id''])]\<rparr>"

subsection \<open>RemoveClusterPeer\<close>

definition remove_cluster_peer_request :: "bytes \<Rightarrow> bool option \<Rightarrow> op_params" where
  "remove_cluster_peer_request peer force =
     \<lparr>op_method = ''DELETE'', op_path = ''/api/v1/cluster/peer/%s'', op_args = [peer],
      op_query = [(''force'', bool_param force)],
      op_header = [],
      op_body = None\<rparr>"

definition remove_cluster_peer_responses :: "(bytes \<Rightarrow> 'a option) \<Rightarrow> 'a responses" where
  "remove_cluster_peer_responses dec =
     \<lparr>rs_ok = Some (200, dec),
      rs_errors = [(400, ErrorDoc), (401, ErrorDoc), (403, ErrorDoc), (409, ErrorDoc), (500, ErrorDoc)],
      rs_headers =
       [(200, [''X-Request-Id'']),
        (400, [''X-Request-Id'']),
        (401, [''X-Request-Id'']),
        (403, [''X-Request-Id'']),
        (409, [''X-Request-Id'']),
        (500, [''X-Request-Id''])]\<rparr>"

subsection \<open>ResyncClusterDatabase\<close>

definition resync_cluster_database_request :: "bytes \<Rightarrow> bytes option \<Rightarrow> op_params" where
  "resync_cluster_database_request database rid =
     \<lparr>op_method = ''POST'', op_path = ''/api/v1/cluster/resync/%s'', op_args = [database],
      op_query = [],
      op_header = [(''X-Request-Id'', rid)],
      op_body = None\<rparr>"

definition resync_cluster_database_responses :: "(bytes \<Rightarrow> 'a option) \<Rightarrow> 'a responses" where
  "resync_cluster_database_responses dec =
     \<lparr>rs_ok = Some (200, dec),
      rs_errors = [(400, ErrorDoc), (401, ErrorDoc), (403, ErrorDoc), (409, ErrorDoc), (500, ErrorDoc), (503, ErrorDoc)],
      rs_headers =
       [(200, [''X-Request-Id'']),
        (400, [''X-Request-Id'']),
        (401, [''X-Request-Id'']),
        (403, [''X-Request-Id'']),
        (409, [''Retry-After'', ''X-Request-Id'']),
        (500, [''X-Request-Id'']),
        (503, [''X-Request-Id''])]\<rparr>"

subsection \<open>SeedClusterSecurityDocuments\<close>

definition seed_cluster_security_documents_request :: "bytes option \<Rightarrow> bytes \<Rightarrow> bytes \<Rightarrow> op_params" where
  "seed_cluster_security_documents_request rid ctype body =
     \<lparr>op_method = ''POST'', op_path = ''/api/v1/cluster/security-seed'', op_args = [],
      op_query = [],
      op_header = [(''X-Request-Id'', rid)],
      op_body = Some (ctype, body)\<rparr>"

definition seed_cluster_security_documents_responses :: "(bytes \<Rightarrow> 'a option) \<Rightarrow> (bytes \<Rightarrow> bool) \<Rightarrow> 'a responses" where
  "seed_cluster_security_documents_responses dec other =
     \<lparr>rs_ok = Some (200, dec),
      rs_errors = [(400, ErrorDoc), (401, ErrorDoc), (403, ErrorDoc), (409, ErrorDoc), (500, ErrorDoc), (503, OtherDoc other)],
      rs_headers =
       [(200, [''X-Request-Id'']),
        (400, [''X-Request-Id'']),
        (401, [''X-Request-Id'']),
        (403, [''X-Request-Id'']),
        (409, [''Retry-After'', ''X-Request-Id'']),
        (500, [''X-Request-Id'']),
        (503, [''X-Request-Id''])]\<rparr>"

subsection \<open>StepDownClusterLeader\<close>

definition step_down_cluster_leader_request :: "bytes option \<Rightarrow> op_params" where
  "step_down_cluster_leader_request rid =
     \<lparr>op_method = ''POST'', op_path = ''/api/v1/cluster/stepdown'', op_args = [],
      op_query = [],
      op_header = [(''X-Request-Id'', rid)],
      op_body = None\<rparr>"

definition step_down_cluster_leader_responses :: "(bytes \<Rightarrow> 'a option) \<Rightarrow> 'a responses" where
  "step_down_cluster_leader_responses dec =
     \<lparr>rs_ok = Some (200, dec),
      rs_errors = [(400, ErrorDoc), (401, ErrorDoc), (403, ErrorDoc), (409, ErrorDoc), (500, ErrorDoc)],
      rs_headers =
       [(200, [''X-Request-Id'']),
        (400, [''X-Request-Id'']),
        (401, [''X-Request-Id'']),
        (403, [''X-Request-Id'']),
        (409, [''Retry-After'', ''X-Request-Id'']),
        (500, [''X-Request-Id''])]\<rparr>"

subsection \<open>VerifyClusterDatabase\<close>

definition verify_cluster_database_request :: "bytes \<Rightarrow> bytes option \<Rightarrow> op_params" where
  "verify_cluster_database_request database rid =
     \<lparr>op_method = ''POST'', op_path = ''/api/v1/cluster/verify/%s'', op_args = [database],
      op_query = [],
      op_header = [(''X-Request-Id'', rid)],
      op_body = None\<rparr>"

definition verify_cluster_database_responses :: "(bytes \<Rightarrow> 'a option) \<Rightarrow> 'a responses" where
  "verify_cluster_database_responses dec =
     \<lparr>rs_ok = Some (200, dec),
      rs_errors = [(400, ErrorDoc), (401, ErrorDoc), (403, ErrorDoc), (404, ErrorDoc), (409, ErrorDoc), (500, ErrorDoc)],
      rs_headers =
       [(200, [''X-Request-Id'']),
        (400, [''X-Request-Id'']),
        (401, [''X-Request-Id'']),
        (403, [''X-Request-Id'']),
        (404, [''X-Request-Id'']),
        (409, [''Retry-After'', ''X-Request-Id'']),
        (500, [''X-Request-Id''])]\<rparr>"

end
