(* ===== verification/Operations_Support.thy ===== *)
theory Operations_Support
  imports Generated_Client
begin

text \<open>
  The operations of \<open>client.gen.go\<close> no method of the drivers uses: support bundles, issues and connections. As in \<open>Endpoints\<close>, one
  request builder and one response table each; \<open>other\<close> tests whether a document of a type of its own
  decodes.
\<close>

subsection \<open>GetSupportStatus\<close>

definition get_support_status_request :: "bytes option \<Rightarrow> op_params" where
  "get_support_status_request fresh =
     \<lparr>op_method = ''GET'', op_path = ''/api/v1/server/support'', op_args = [],
      op_query = [(''refresh'', fresh)],
      op_header = [],
      op_body = None\<rparr>"

definition get_support_status_responses :: "(bytes \<Rightarrow> 'a option) \<Rightarrow> 'a responses" where
  "get_support_status_responses dec =
     \<lparr>rs_ok = Some (200, dec),
      rs_errors = [(401, ErrorDoc), (403, ErrorDoc), (500, ErrorDoc)],
      rs_headers =
       [(200, [''X-Request-Id'']),
        (401, [''X-Request-Id'']),
        (403, [''X-Request-Id'']),
        (500, [''X-Request-Id''])]\<rparr>"

subsection \<open>DownloadSupportBundle\<close>

definition download_support_bundle_request :: "bytes option \<Rightarrow> bytes \<Rightarrow> bytes \<Rightarrow> op_params" where
  "download_support_bundle_request rid ctype body =
     \<lparr>op_method = ''POST'', op_path = ''/api/v1/server/support/bundle'', op_args = [],
      op_query = [],
      op_header = [(''X-Request-Id'', rid)],
      op_body = Some (ctype, body)\<rparr>"

definition download_support_bundle_responses :: "unit responses" where
  "download_support_bundle_responses =
     \<lparr>rs_ok = None,
      rs_errors = [(400, ErrorDoc), (401, ErrorDoc), (403, ErrorDoc), (404, ErrorDoc), (409, ErrorDoc)],
      rs_headers =
       [(200, [''X-Request-Id'']),
        (400, [''X-Request-Id'']),
        (401, [''X-Request-Id'']),
        (403, [''X-Request-Id'']),
        (404, [''X-Request-Id'']),
        (409, [''Retry-After'', ''X-Request-Id''])]\<rparr>"

subsection \<open>CancelSupportConnect\<close>

definition cancel_support_connect_request :: "op_params" where
  "cancel_support_connect_request =
     \<lparr>op_method = ''DELETE'', op_path = ''/api/v1/server/support/connect'', op_args = [],
      op_query = [],
      op_header = [],
      op_body = None\<rparr>"

definition cancel_support_connect_responses :: "unit responses" where
  "cancel_support_connect_responses =
     \<lparr>rs_ok = None,
      rs_errors = [(401, ErrorDoc), (403, ErrorDoc)],
      rs_headers =
       [(204, [''X-Request-Id'']),
        (401, [''X-Request-Id'']),
        (403, [''X-Request-Id''])]\<rparr>"

subsection \<open>GetSupportConnect\<close>

definition get_support_connect_request :: "op_params" where
  "get_support_connect_request =
     \<lparr>op_method = ''GET'', op_path = ''/api/v1/server/support/connect'', op_args = [],
      op_query = [],
      op_header = [],
      op_body = None\<rparr>"

definition get_support_connect_responses :: "unit responses" where
  "get_support_connect_responses =
     \<lparr>rs_ok = None,
      rs_errors = [(401, ErrorDoc), (403, ErrorDoc)],
      rs_headers =
       [(200, [''X-Request-Id'']),
        (401, [''X-Request-Id'']),
        (403, [''X-Request-Id''])]\<rparr>"

subsection \<open>StartSupportConnect\<close>

definition start_support_connect_request :: "bytes option \<Rightarrow> op_params" where
  "start_support_connect_request rid =
     \<lparr>op_method = ''POST'', op_path = ''/api/v1/server/support/connect'', op_args = [],
      op_query = [],
      op_header = [(''X-Request-Id'', rid)],
      op_body = None\<rparr>"

definition start_support_connect_responses :: "unit responses" where
  "start_support_connect_responses =
     \<lparr>rs_ok = None,
      rs_errors = [(401, ErrorDoc), (403, ErrorDoc), (404, ErrorDoc), (409, ErrorDoc), (429, ErrorDoc), (503, ErrorDoc)],
      rs_headers =
       [(200, [''X-Request-Id'']),
        (401, [''X-Request-Id'']),
        (403, [''X-Request-Id'']),
        (404, [''X-Request-Id'']),
        (409, [''Retry-After'', ''X-Request-Id'']),
        (429, [''X-Request-Id'']),
        (503, [''X-Request-Id''])]\<rparr>"

subsection \<open>RegisterSupportInstallation\<close>

definition register_support_installation_request :: "bytes option \<Rightarrow> op_params" where
  "register_support_installation_request rid =
     \<lparr>op_method = ''POST'', op_path = ''/api/v1/server/support/installation'', op_args = [],
      op_query = [],
      op_header = [(''X-Request-Id'', rid)],
      op_body = None\<rparr>"

definition register_support_installation_responses :: "unit responses" where
  "register_support_installation_responses =
     \<lparr>rs_ok = None,
      rs_errors = [(401, ErrorDoc), (403, ErrorDoc), (409, ErrorDoc), (503, ErrorDoc)],
      rs_headers =
       [(200, [''X-Request-Id'']),
        (401, [''X-Request-Id'']),
        (403, [''X-Request-Id'']),
        (409, [''Retry-After'', ''X-Request-Id'']),
        (503, [''X-Request-Id''])]\<rparr>"

subsection \<open>ListSupportIssues\<close>

definition list_support_issues_request :: "bytes option \<Rightarrow> op_params" where
  "list_support_issues_request status =
     \<lparr>op_method = ''GET'', op_path = ''/api/v1/server/support/issues'', op_args = [],
      op_query = [(''status'', status)],
      op_header = [],
      op_body = None\<rparr>"

definition list_support_issues_responses :: "(bytes \<Rightarrow> 'a option) \<Rightarrow> 'a responses" where
  "list_support_issues_responses dec =
     \<lparr>rs_ok = Some (200, dec),
      rs_errors = [(400, ErrorDoc), (401, ErrorDoc), (402, ErrorDoc), (403, ErrorDoc), (404, ErrorDoc), (409, ErrorDoc), (413, ErrorDoc), (429, ErrorDoc), (502, ErrorDoc), (503, ErrorDoc)],
      rs_headers =
       [(200, [''X-Request-Id'']),
        (400, [''X-Request-Id'']),
        (401, [''X-Request-Id'']),
        (402, [''X-Request-Id'']),
        (403, [''X-Request-Id'']),
        (404, [''X-Request-Id'']),
        (409, [''X-Request-Id'']),
        (413, [''X-Request-Id'']),
        (429, [''X-Request-Id'']),
        (502, [''X-Request-Id'']),
        (503, [''X-Request-Id''])]\<rparr>"

subsection \<open>CreateSupportIssue\<close>

definition create_support_issue_request :: "bytes option \<Rightarrow> bytes \<Rightarrow> bytes \<Rightarrow> op_params" where
  "create_support_issue_request rid ctype body =
     \<lparr>op_method = ''POST'', op_path = ''/api/v1/server/support/issues'', op_args = [],
      op_query = [],
      op_header = [(''X-Request-Id'', rid)],
      op_body = Some (ctype, body)\<rparr>"

definition create_support_issue_responses :: "(bytes \<Rightarrow> 'a option) \<Rightarrow> 'a responses" where
  "create_support_issue_responses dec =
     \<lparr>rs_ok = Some (201, dec),
      rs_errors = [(400, ErrorDoc), (401, ErrorDoc), (402, ErrorDoc), (403, ErrorDoc), (404, ErrorDoc), (409, ErrorDoc), (413, ErrorDoc), (429, ErrorDoc), (502, ErrorDoc), (503, ErrorDoc)],
      rs_headers =
       [(201, [''X-Request-Id'']),
        (400, [''X-Request-Id'']),
        (401, [''X-Request-Id'']),
        (402, [''X-Request-Id'']),
        (403, [''X-Request-Id'']),
        (404, [''X-Request-Id'']),
        (409, [''Retry-After'', ''X-Request-Id'']),
        (413, [''X-Request-Id'']),
        (429, [''X-Request-Id'']),
        (502, [''X-Request-Id'']),
        (503, [''X-Request-Id''])]\<rparr>"

subsection \<open>GetSupportIssue\<close>

definition get_support_issue_request :: "bytes \<Rightarrow> op_params" where
  "get_support_issue_request issue =
     \<lparr>op_method = ''GET'', op_path = ''/api/v1/server/support/issues/%s'', op_args = [issue],
      op_query = [],
      op_header = [],
      op_body = None\<rparr>"

definition get_support_issue_responses :: "(bytes \<Rightarrow> 'a option) \<Rightarrow> 'a responses" where
  "get_support_issue_responses dec =
     \<lparr>rs_ok = Some (200, dec),
      rs_errors = [(400, ErrorDoc), (401, ErrorDoc), (402, ErrorDoc), (403, ErrorDoc), (404, ErrorDoc), (409, ErrorDoc), (413, ErrorDoc), (429, ErrorDoc), (502, ErrorDoc), (503, ErrorDoc)],
      rs_headers =
       [(200, [''X-Request-Id'']),
        (400, [''X-Request-Id'']),
        (401, [''X-Request-Id'']),
        (402, [''X-Request-Id'']),
        (403, [''X-Request-Id'']),
        (404, [''X-Request-Id'']),
        (409, [''X-Request-Id'']),
        (413, [''X-Request-Id'']),
        (429, [''X-Request-Id'']),
        (502, [''X-Request-Id'']),
        (503, [''X-Request-Id''])]\<rparr>"

subsection \<open>SetSupportIssueOpen\<close>

definition set_support_issue_open_request :: "bytes \<Rightarrow> bytes \<Rightarrow> bytes \<Rightarrow> op_params" where
  "set_support_issue_open_request issue ctype body =
     \<lparr>op_method = ''PUT'', op_path = ''/api/v1/server/support/issues/%s'', op_args = [issue],
      op_query = [],
      op_header = [],
      op_body = Some (ctype, body)\<rparr>"

definition set_support_issue_open_responses :: "unit responses" where
  "set_support_issue_open_responses =
     \<lparr>rs_ok = None,
      rs_errors = [(400, ErrorDoc), (401, ErrorDoc), (402, ErrorDoc), (403, ErrorDoc), (404, ErrorDoc), (409, ErrorDoc), (413, ErrorDoc), (429, ErrorDoc), (502, ErrorDoc), (503, ErrorDoc)],
      rs_headers =
       [(204, [''X-Request-Id'']),
        (400, [''X-Request-Id'']),
        (401, [''X-Request-Id'']),
        (402, [''X-Request-Id'']),
        (403, [''X-Request-Id'']),
        (404, [''X-Request-Id'']),
        (409, [''X-Request-Id'']),
        (413, [''X-Request-Id'']),
        (429, [''X-Request-Id'']),
        (502, [''X-Request-Id'']),
        (503, [''X-Request-Id''])]\<rparr>"

subsection \<open>AttachToSupportIssue\<close>

definition attach_to_support_issue_request :: "bytes \<Rightarrow> bytes option \<Rightarrow> bytes \<Rightarrow> bytes \<Rightarrow> op_params" where
  "attach_to_support_issue_request issue rid ctype body =
     \<lparr>op_method = ''POST'', op_path = ''/api/v1/server/support/issues/%s/attachments'', op_args = [issue],
      op_query = [],
      op_header = [(''X-Request-Id'', rid)],
      op_body = Some (ctype, body)\<rparr>"

definition attach_to_support_issue_responses :: "(bytes \<Rightarrow> 'a option) \<Rightarrow> 'a responses" where
  "attach_to_support_issue_responses dec =
     \<lparr>rs_ok = Some (200, dec),
      rs_errors = [(400, ErrorDoc), (401, ErrorDoc), (402, ErrorDoc), (403, ErrorDoc), (404, ErrorDoc), (409, ErrorDoc), (413, ErrorDoc), (429, ErrorDoc), (502, ErrorDoc), (503, ErrorDoc)],
      rs_headers =
       [(200, [''X-Request-Id'']),
        (400, [''X-Request-Id'']),
        (401, [''X-Request-Id'']),
        (402, [''X-Request-Id'']),
        (403, [''X-Request-Id'']),
        (404, [''X-Request-Id'']),
        (409, [''Retry-After'', ''X-Request-Id'']),
        (413, [''X-Request-Id'']),
        (429, [''X-Request-Id'']),
        (502, [''X-Request-Id'']),
        (503, [''X-Request-Id''])]\<rparr>"

subsection \<open>CommentSupportIssue\<close>

definition comment_support_issue_request :: "bytes \<Rightarrow> bytes option \<Rightarrow> bytes \<Rightarrow> bytes \<Rightarrow> op_params" where
  "comment_support_issue_request issue rid ctype body =
     \<lparr>op_method = ''POST'', op_path = ''/api/v1/server/support/issues/%s/comments'', op_args = [issue],
      op_query = [],
      op_header = [(''X-Request-Id'', rid)],
      op_body = Some (ctype, body)\<rparr>"

definition comment_support_issue_responses :: "(bytes \<Rightarrow> 'a option) \<Rightarrow> 'a responses" where
  "comment_support_issue_responses dec =
     \<lparr>rs_ok = Some (201, dec),
      rs_errors = [(400, ErrorDoc), (401, ErrorDoc), (402, ErrorDoc), (403, ErrorDoc), (404, ErrorDoc), (409, ErrorDoc), (413, ErrorDoc), (429, ErrorDoc), (502, ErrorDoc), (503, ErrorDoc)],
      rs_headers =
       [(201, [''X-Request-Id'']),
        (400, [''X-Request-Id'']),
        (401, [''X-Request-Id'']),
        (402, [''X-Request-Id'']),
        (403, [''X-Request-Id'']),
        (404, [''X-Request-Id'']),
        (409, [''Retry-After'', ''X-Request-Id'']),
        (413, [''X-Request-Id'']),
        (429, [''X-Request-Id'']),
        (502, [''X-Request-Id'']),
        (503, [''X-Request-Id''])]\<rparr>"

subsection \<open>AnswerSupportRequest\<close>

definition answer_support_request_request :: "bytes \<Rightarrow> bytes \<Rightarrow> bytes option \<Rightarrow> bytes \<Rightarrow> bytes \<Rightarrow> op_params" where
  "answer_support_request_request issue request rid ctype body =
     \<lparr>op_method = ''POST'', op_path = ''/api/v1/server/support/issues/%s/requests/%s/response'', op_args = [issue, request],
      op_query = [],
      op_header = [(''X-Request-Id'', rid)],
      op_body = Some (ctype, body)\<rparr>"

definition answer_support_request_responses :: "(bytes \<Rightarrow> 'a option) \<Rightarrow> 'a responses" where
  "answer_support_request_responses dec =
     \<lparr>rs_ok = Some (201, dec),
      rs_errors = [(400, ErrorDoc), (401, ErrorDoc), (402, ErrorDoc), (403, ErrorDoc), (404, ErrorDoc), (409, ErrorDoc), (413, ErrorDoc), (429, ErrorDoc), (502, ErrorDoc), (503, ErrorDoc)],
      rs_headers =
       [(201, [''X-Request-Id'']),
        (400, [''X-Request-Id'']),
        (401, [''X-Request-Id'']),
        (402, [''X-Request-Id'']),
        (403, [''X-Request-Id'']),
        (404, [''X-Request-Id'']),
        (409, [''Retry-After'', ''X-Request-Id'']),
        (413, [''X-Request-Id'']),
        (429, [''X-Request-Id'']),
        (502, [''X-Request-Id'']),
        (503, [''X-Request-Id''])]\<rparr>"

subsection \<open>AnswerSupportRequests\<close>

definition answer_support_requests_request :: "bytes \<Rightarrow> bytes option \<Rightarrow> bytes \<Rightarrow> bytes \<Rightarrow> op_params" where
  "answer_support_requests_request issue rid ctype body =
     \<lparr>op_method = ''POST'', op_path = ''/api/v1/server/support/issues/%s/responses'', op_args = [issue],
      op_query = [],
      op_header = [(''X-Request-Id'', rid)],
      op_body = Some (ctype, body)\<rparr>"

definition answer_support_requests_responses :: "(bytes \<Rightarrow> 'a option) \<Rightarrow> 'a responses" where
  "answer_support_requests_responses dec =
     \<lparr>rs_ok = Some (201, dec),
      rs_errors = [(400, ErrorDoc), (401, ErrorDoc), (402, ErrorDoc), (403, ErrorDoc), (404, ErrorDoc), (409, ErrorDoc), (413, ErrorDoc), (429, ErrorDoc), (502, ErrorDoc), (503, ErrorDoc)],
      rs_headers =
       [(201, [''X-Request-Id'']),
        (400, [''X-Request-Id'']),
        (401, [''X-Request-Id'']),
        (402, [''X-Request-Id'']),
        (403, [''X-Request-Id'']),
        (404, [''X-Request-Id'']),
        (409, [''Retry-After'', ''X-Request-Id'']),
        (413, [''X-Request-Id'']),
        (429, [''X-Request-Id'']),
        (502, [''X-Request-Id'']),
        (503, [''X-Request-Id''])]\<rparr>"

subsection \<open>RunSupportPeerQuery\<close>

definition run_support_peer_query_request :: "bytes option \<Rightarrow> bytes \<Rightarrow> bytes \<Rightarrow> op_params" where
  "run_support_peer_query_request rid ctype body =
     \<lparr>op_method = ''POST'', op_path = ''/api/v1/server/support/peer-query'', op_args = [],
      op_query = [],
      op_header = [(''X-Request-Id'', rid)],
      op_body = Some (ctype, body)\<rparr>"

definition run_support_peer_query_responses :: "unit responses" where
  "run_support_peer_query_responses =
     \<lparr>rs_ok = None,
      rs_errors = [(400, ErrorDoc), (401, ErrorDoc), (403, ErrorDoc), (409, ErrorDoc)],
      rs_headers =
       [(200, [''X-Request-Id'']),
        (400, [''X-Request-Id'']),
        (401, [''X-Request-Id'']),
        (403, [''X-Request-Id'']),
        (409, [''Retry-After'', ''X-Request-Id''])]\<rparr>"

subsection \<open>GetSupportPeers\<close>

definition get_support_peers_request :: "op_params" where
  "get_support_peers_request =
     \<lparr>op_method = ''GET'', op_path = ''/api/v1/server/support/peers'', op_args = [],
      op_query = [],
      op_header = [],
      op_body = None\<rparr>"

definition get_support_peers_responses :: "unit responses" where
  "get_support_peers_responses =
     \<lparr>rs_ok = None,
      rs_errors = [(401, ErrorDoc), (403, ErrorDoc)],
      rs_headers =
       [(200, [''X-Request-Id'']),
        (401, [''X-Request-Id'']),
        (403, [''X-Request-Id''])]\<rparr>"

subsection \<open>PreviewSupportBundle\<close>

definition preview_support_bundle_request :: "bytes option \<Rightarrow> bytes \<Rightarrow> bytes \<Rightarrow> op_params" where
  "preview_support_bundle_request rid ctype body =
     \<lparr>op_method = ''POST'', op_path = ''/api/v1/server/support/preview'', op_args = [],
      op_query = [],
      op_header = [(''X-Request-Id'', rid)],
      op_body = Some (ctype, body)\<rparr>"

definition preview_support_bundle_responses :: "(bytes \<Rightarrow> 'a option) \<Rightarrow> 'a responses" where
  "preview_support_bundle_responses dec =
     \<lparr>rs_ok = Some (200, dec),
      rs_errors = [(400, ErrorDoc), (401, ErrorDoc), (403, ErrorDoc), (409, ErrorDoc), (413, ErrorDoc), (500, ErrorDoc)],
      rs_headers =
       [(200, [''X-Request-Id'']),
        (400, [''X-Request-Id'']),
        (401, [''X-Request-Id'']),
        (403, [''X-Request-Id'']),
        (409, [''Retry-After'', ''X-Request-Id'']),
        (413, [''X-Request-Id'']),
        (500, [''X-Request-Id''])]\<rparr>"

subsection \<open>UnregisterSupport\<close>

definition unregister_support_request :: "op_params" where
  "unregister_support_request =
     \<lparr>op_method = ''DELETE'', op_path = ''/api/v1/server/support/register'', op_args = [],
      op_query = [],
      op_header = [],
      op_body = None\<rparr>"

definition unregister_support_responses :: "unit responses" where
  "unregister_support_responses =
     \<lparr>rs_ok = None,
      rs_errors = [(401, ErrorDoc), (403, ErrorDoc), (409, ErrorDoc)],
      rs_headers =
       [(204, [''X-Request-Id'']),
        (401, [''X-Request-Id'']),
        (403, [''X-Request-Id'']),
        (409, [''X-Request-Id''])]\<rparr>"

subsection \<open>RegisterSupport\<close>

definition register_support_request :: "bytes option \<Rightarrow> bytes \<Rightarrow> bytes \<Rightarrow> op_params" where
  "register_support_request rid ctype body =
     \<lparr>op_method = ''POST'', op_path = ''/api/v1/server/support/register'', op_args = [],
      op_query = [],
      op_header = [(''X-Request-Id'', rid)],
      op_body = Some (ctype, body)\<rparr>"

definition register_support_responses :: "(bytes \<Rightarrow> 'a option) \<Rightarrow> 'a responses" where
  "register_support_responses dec =
     \<lparr>rs_ok = Some (200, dec),
      rs_errors = [(400, ErrorDoc), (401, ErrorDoc), (403, ErrorDoc), (409, ErrorDoc), (503, ErrorDoc)],
      rs_headers =
       [(200, [''X-Request-Id'']),
        (400, [''X-Request-Id'']),
        (401, [''X-Request-Id'']),
        (403, [''X-Request-Id'']),
        (409, [''Retry-After'', ''X-Request-Id'']),
        (503, [''X-Request-Id''])]\<rparr>"

subsection \<open>StageSupportScreenshot\<close>

definition stage_support_screenshot_request :: "bytes option \<Rightarrow> bytes \<Rightarrow> bytes \<Rightarrow> op_params" where
  "stage_support_screenshot_request rid ctype body =
     \<lparr>op_method = ''POST'', op_path = ''/api/v1/server/support/screenshots'', op_args = [],
      op_query = [],
      op_header = [(''X-Request-Id'', rid)],
      op_body = Some (ctype, body)\<rparr>"

definition stage_support_screenshot_responses :: "(bytes \<Rightarrow> 'a option) \<Rightarrow> 'a responses" where
  "stage_support_screenshot_responses dec =
     \<lparr>rs_ok = Some (201, dec),
      rs_errors = [(400, ErrorDoc), (401, ErrorDoc), (403, ErrorDoc), (409, ErrorDoc), (413, ErrorDoc)],
      rs_headers =
       [(201, [''X-Request-Id'']),
        (400, [''X-Request-Id'']),
        (401, [''X-Request-Id'']),
        (403, [''X-Request-Id'']),
        (409, [''Retry-After'', ''X-Request-Id'']),
        (413, [''X-Request-Id''])]\<rparr>"

subsection \<open>DiscardSupportScreenshot\<close>

definition discard_support_screenshot_request :: "bytes \<Rightarrow> op_params" where
  "discard_support_screenshot_request ident =
     \<lparr>op_method = ''DELETE'', op_path = ''/api/v1/server/support/screenshots/%s'', op_args = [ident],
      op_query = [],
      op_header = [],
      op_body = None\<rparr>"

definition discard_support_screenshot_responses :: "unit responses" where
  "discard_support_screenshot_responses =
     \<lparr>rs_ok = None,
      rs_errors = [(401, ErrorDoc), (403, ErrorDoc)],
      rs_headers =
       [(204, [''X-Request-Id'']),
        (401, [''X-Request-Id'']),
        (403, [''X-Request-Id''])]\<rparr>"

end
