(* ===== verification/Operations_Data.thy ===== *)
theory Operations_Data
  imports Generated_Client
begin

text \<open>
  The operations of \<open>client.gen.go\<close> no method of the drivers uses: snapshots, probes, the remaining query, dashboard and Prometheus endpoints, and the response tables of the operations the drivers call without their parsers. As in \<open>Endpoints\<close>, one
  request builder and one response table each; \<open>other\<close> tests whether a document of a type of its own
  decodes.
\<close>

subsection \<open>ExecuteBatch\<close>

definition execute_batch_responses :: "(bytes \<Rightarrow> 'a option) \<Rightarrow> (bytes \<Rightarrow> bool) \<Rightarrow> 'a responses" where
  "execute_batch_responses dec other =
     \<lparr>rs_ok = Some (200, dec),
      rs_errors = [(400, OtherDoc other), (401, ErrorDoc), (403, ErrorDoc), (404, ErrorDoc), (408, OtherDoc other), (409, ErrorDoc), (413, ErrorDoc), (500, ErrorDoc), (503, ErrorDoc)],
      rs_headers =
       [(200, [''X-Request-Id'', ''arcadedb-session-id'']),
        (400, [''X-Request-Id'']),
        (401, [''X-Request-Id'']),
        (403, [''X-Request-Id'']),
        (404, [''X-Request-Id'']),
        (408, [''X-Request-Id'']),
        (409, [''X-Request-Id'']),
        (413, [''X-Request-Id'']),
        (500, [''X-Request-Id'']),
        (503, [''X-Request-Id''])]\<rparr>"

subsection \<open>DownloadDatabaseSnapshot\<close>

definition download_database_snapshot_request :: "bytes \<Rightarrow> op_params" where
  "download_database_snapshot_request database =
     \<lparr>op_method = ''GET'', op_path = ''/api/v1/ha/snapshot/%s'', op_args = [database],
      op_query = [],
      op_header = [],
      op_body = None\<rparr>"

definition download_database_snapshot_responses :: "unit responses" where
  "download_database_snapshot_responses =
     \<lparr>rs_ok = None,
      rs_errors = [(400, ErrorDoc), (401, ErrorDoc), (403, ErrorDoc), (404, ErrorDoc), (503, ErrorDoc)],
      rs_headers =
       [(200, [''X-Request-Id'']),
        (400, [''X-Request-Id'']),
        (401, [''X-Request-Id'']),
        (403, [''X-Request-Id'']),
        (404, [''X-Request-Id'']),
        (503, [''X-Request-Id''])]\<rparr>"

subsection \<open>GetDatabaseSnapshotChecksums\<close>

definition get_database_snapshot_checksums_request :: "bytes \<Rightarrow> op_params" where
  "get_database_snapshot_checksums_request database =
     \<lparr>op_method = ''GET'', op_path = ''/api/v1/ha/snapshot/%s/checksums'', op_args = [database],
      op_query = [],
      op_header = [],
      op_body = None\<rparr>"

definition get_database_snapshot_checksums_responses :: "(bytes \<Rightarrow> 'a option) \<Rightarrow> 'a responses" where
  "get_database_snapshot_checksums_responses dec =
     \<lparr>rs_ok = Some (200, dec),
      rs_errors = [(400, ErrorDoc), (401, ErrorDoc), (403, ErrorDoc), (404, ErrorDoc), (500, ErrorDoc), (503, ErrorDoc)],
      rs_headers =
       [(200, [''X-Request-Id'']),
        (400, [''X-Request-Id'']),
        (401, [''X-Request-Id'']),
        (403, [''X-Request-Id'']),
        (404, [''X-Request-Id'']),
        (500, [''X-Request-Id'']),
        (503, [''X-Request-Id''])]\<rparr>"

subsection \<open>CheckHealthHead\<close>

definition check_health_head_request :: "op_params" where
  "check_health_head_request =
     \<lparr>op_method = ''HEAD'', op_path = ''/api/v1/health'', op_args = [],
      op_query = [],
      op_header = [],
      op_body = None\<rparr>"

definition check_health_head_responses :: "unit responses" where
  "check_health_head_responses =
     \<lparr>rs_ok = None,
      rs_errors = [],
      rs_headers =
       [(204, [''X-Request-Id'']),
        (503, [''X-Request-Id''])]\<rparr>"

subsection \<open>ExecuteQueryGet\<close>

definition execute_query_get_request :: "bytes \<Rightarrow> bytes \<Rightarrow> bytes \<Rightarrow> bytes option \<Rightarrow> bytes option \<Rightarrow> bytes option \<Rightarrow> op_params" where
  "execute_query_get_request database language statement sid tag accept =
     \<lparr>op_method = ''GET'', op_path = ''/api/v1/query/%s/%s/%s'', op_args = [database, language, statement],
      op_query = [],
      op_header = [(''arcadedb-session-id'', sid), (''X-ArcadeDB-Query-Tag'', tag), (''Accept'', accept)],
      op_body = None\<rparr>"

definition execute_query_get_responses :: "(bytes \<Rightarrow> 'a option) \<Rightarrow> 'a responses" where
  "execute_query_get_responses dec =
     \<lparr>rs_ok = Some (200, dec),
      rs_errors = [(400, ErrorDoc), (401, ErrorDoc), (404, ErrorDoc), (409, ErrorDoc), (413, ErrorDoc), (500, ErrorDoc)],
      rs_headers =
       [(200, [''X-ArcadeDB-Commit-Index'', ''X-Request-Id'', ''arcadedb-session-expired'', ''arcadedb-session-partial-commit'']),
        (400, [''X-ArcadeDB-Commit-Index'', ''X-Request-Id'', ''arcadedb-session-partial-commit'']),
        (401, [''X-Request-Id'']),
        (404, [''X-Request-Id'']),
        (409, [''X-ArcadeDB-Commit-Index'', ''X-Request-Id'', ''arcadedb-session-partial-commit'']),
        (413, [''X-ArcadeDB-Commit-Index'', ''X-Request-Id'', ''arcadedb-session-partial-commit'']),
        (500, [''X-ArcadeDB-Commit-Index'', ''X-Request-Id'', ''arcadedb-session-partial-commit''])]\<rparr>"

subsection \<open>CheckReadyHead\<close>

definition check_ready_head_request :: "op_params" where
  "check_ready_head_request =
     \<lparr>op_method = ''HEAD'', op_path = ''/api/v1/ready'', op_args = [],
      op_query = [],
      op_header = [],
      op_body = None\<rparr>"

definition check_ready_head_responses :: "unit responses" where
  "check_ready_head_responses =
     \<lparr>rs_ok = None,
      rs_errors = [],
      rs_headers =
       [(204, [''X-Request-Id'']),
        (503, [''X-Request-Id''])]\<rparr>"

subsection \<open>ExecuteServerCommand\<close>

definition execute_server_command_responses :: "(bytes \<Rightarrow> 'a option) \<Rightarrow> 'a responses" where
  "execute_server_command_responses dec =
     \<lparr>rs_ok = Some (200, dec),
      rs_errors = [(400, ErrorDoc), (401, ErrorDoc), (404, ErrorDoc), (409, ErrorDoc), (413, ErrorDoc), (500, ErrorDoc), (503, ErrorDoc), (504, ErrorDoc)],
      rs_headers =
       [(200, [''X-Request-Id'']),
        (400, [''X-Request-Id'']),
        (401, [''X-Request-Id'']),
        (404, [''X-Request-Id'']),
        (409, [''Retry-After'', ''X-Request-Id'']),
        (413, [''X-Request-Id'']),
        (500, [''X-Request-Id'']),
        (503, [''X-Request-Id'']),
        (504, [''X-Request-Id''])]\<rparr>"

subsection \<open>CheckGrafanaHealth\<close>

definition check_grafana_health_request :: "bytes \<Rightarrow> bytes option \<Rightarrow> op_params" where
  "check_grafana_health_request database sid =
     \<lparr>op_method = ''GET'', op_path = ''/api/v1/ts/%s/grafana/health'', op_args = [database],
      op_query = [],
      op_header = [(''arcadedb-session-id'', sid)],
      op_body = None\<rparr>"

definition check_grafana_health_responses :: "(bytes \<Rightarrow> 'a option) \<Rightarrow> 'a responses" where
  "check_grafana_health_responses dec =
     \<lparr>rs_ok = Some (200, dec),
      rs_errors = [(400, ErrorDoc), (401, ErrorDoc), (403, ErrorDoc), (404, ErrorDoc), (500, ErrorDoc)],
      rs_headers =
       [(200, [''X-Request-Id'', ''arcadedb-session-expired'', ''arcadedb-session-id'']),
        (400, [''X-Request-Id'']),
        (401, [''X-Request-Id'']),
        (403, [''X-Request-Id'']),
        (404, [''X-Request-Id'']),
        (500, [''X-Request-Id''])]\<rparr>"

subsection \<open>GetGrafanaMetadata\<close>

definition get_grafana_metadata_request :: "bytes \<Rightarrow> bytes option \<Rightarrow> op_params" where
  "get_grafana_metadata_request database sid =
     \<lparr>op_method = ''GET'', op_path = ''/api/v1/ts/%s/grafana/metadata'', op_args = [database],
      op_query = [],
      op_header = [(''arcadedb-session-id'', sid)],
      op_body = None\<rparr>"

definition get_grafana_metadata_responses :: "(bytes \<Rightarrow> 'a option) \<Rightarrow> 'a responses" where
  "get_grafana_metadata_responses dec =
     \<lparr>rs_ok = Some (200, dec),
      rs_errors = [(400, ErrorDoc), (401, ErrorDoc), (403, ErrorDoc), (404, ErrorDoc), (500, ErrorDoc)],
      rs_headers =
       [(200, [''X-Request-Id'', ''arcadedb-session-expired'', ''arcadedb-session-id'']),
        (400, [''X-Request-Id'']),
        (401, [''X-Request-Id'']),
        (403, [''X-Request-Id'']),
        (404, [''X-Request-Id'']),
        (500, [''X-Request-Id''])]\<rparr>"

subsection \<open>QueryGrafana\<close>

definition query_grafana_responses :: "(bytes \<Rightarrow> 'a option) \<Rightarrow> 'a responses" where
  "query_grafana_responses dec =
     \<lparr>rs_ok = Some (200, dec),
      rs_errors = [(400, ErrorDoc), (401, ErrorDoc), (403, ErrorDoc), (404, ErrorDoc), (409, ErrorDoc), (500, ErrorDoc)],
      rs_headers =
       [(200, [''X-Request-Id'', ''arcadedb-session-expired'', ''arcadedb-session-id'']),
        (400, [''X-Request-Id'']),
        (401, [''X-Request-Id'']),
        (403, [''X-Request-Id'']),
        (404, [''X-Request-Id'']),
        (409, [''Retry-After'', ''X-Request-Id'']),
        (500, [''X-Request-Id''])]\<rparr>"

subsection \<open>GetTimeSeriesLatest\<close>

definition get_time_series_latest_responses :: "(bytes \<Rightarrow> 'a option) \<Rightarrow> 'a responses" where
  "get_time_series_latest_responses dec =
     \<lparr>rs_ok = Some (200, dec),
      rs_errors = [(400, ErrorDoc), (401, ErrorDoc), (403, ErrorDoc), (404, ErrorDoc), (500, ErrorDoc)],
      rs_headers =
       [(200, [''X-Request-Id'', ''arcadedb-session-expired'', ''arcadedb-session-id'']),
        (400, [''X-Request-Id'']),
        (401, [''X-Request-Id'']),
        (403, [''X-Request-Id'']),
        (404, [''X-Request-Id'']),
        (500, [''X-Request-Id''])]\<rparr>"

subsection \<open>PrometheusRemoteRead\<close>

definition prometheus_remote_read_request :: "bytes \<Rightarrow> bytes option \<Rightarrow> bytes option \<Rightarrow> bytes \<Rightarrow> bytes \<Rightarrow> op_params" where
  "prometheus_remote_read_request database sid rid ctype body =
     \<lparr>op_method = ''POST'', op_path = ''/api/v1/ts/%s/prom/read'', op_args = [database],
      op_query = [],
      op_header = [(''arcadedb-session-id'', sid), (''X-Request-Id'', rid)],
      op_body = Some (ctype, body)\<rparr>"

definition prometheus_remote_read_responses :: "unit responses" where
  "prometheus_remote_read_responses =
     \<lparr>rs_ok = None,
      rs_errors = [(400, ErrorDoc), (401, ErrorDoc), (403, ErrorDoc), (404, ErrorDoc), (409, ErrorDoc), (413, ErrorDoc), (500, ErrorDoc)],
      rs_headers =
       [(200, [''X-Request-Id'', ''arcadedb-session-expired'', ''arcadedb-session-id'']),
        (400, [''X-Request-Id'']),
        (401, [''X-Request-Id'']),
        (403, [''X-Request-Id'']),
        (404, [''X-Request-Id'']),
        (409, [''Retry-After'', ''X-Request-Id'']),
        (413, [''X-Request-Id'']),
        (500, [''X-Request-Id''])]\<rparr>"

subsection \<open>PrometheusRemoteWrite\<close>

definition prometheus_remote_write_request :: "bytes \<Rightarrow> bytes option \<Rightarrow> bytes option \<Rightarrow> bytes \<Rightarrow> bytes \<Rightarrow> op_params" where
  "prometheus_remote_write_request database sid rid ctype body =
     \<lparr>op_method = ''POST'', op_path = ''/api/v1/ts/%s/prom/write'', op_args = [database],
      op_query = [],
      op_header = [(''arcadedb-session-id'', sid), (''X-Request-Id'', rid)],
      op_body = Some (ctype, body)\<rparr>"

definition prometheus_remote_write_responses :: "unit responses" where
  "prometheus_remote_write_responses =
     \<lparr>rs_ok = None,
      rs_errors = [(400, ErrorDoc), (401, ErrorDoc), (403, ErrorDoc), (404, ErrorDoc), (409, ErrorDoc), (413, ErrorDoc), (500, ErrorDoc)],
      rs_headers =
       [(204, [''X-Request-Id'', ''arcadedb-session-id'']),
        (400, [''X-Request-Id'']),
        (401, [''X-Request-Id'']),
        (403, [''X-Request-Id'']),
        (404, [''X-Request-Id'']),
        (409, [''Retry-After'', ''X-Request-Id'']),
        (413, [''X-Request-Id'']),
        (500, [''X-Request-Id''])]\<rparr>"

subsection \<open>QueryTimeSeries\<close>

definition query_time_series_responses :: "(bytes \<Rightarrow> 'a option) \<Rightarrow> 'a responses" where
  "query_time_series_responses dec =
     \<lparr>rs_ok = Some (200, dec),
      rs_errors = [(400, ErrorDoc), (401, ErrorDoc), (403, ErrorDoc), (404, ErrorDoc), (409, ErrorDoc), (413, ErrorDoc), (500, ErrorDoc)],
      rs_headers =
       [(200, [''X-Request-Id'', ''arcadedb-session-expired'', ''arcadedb-session-id'']),
        (400, [''X-Request-Id'']),
        (401, [''X-Request-Id'']),
        (403, [''X-Request-Id'']),
        (404, [''X-Request-Id'']),
        (409, [''Retry-After'', ''X-Request-Id'']),
        (413, [''X-Request-Id'']),
        (500, [''X-Request-Id''])]\<rparr>"

subsection \<open>WriteTimeSeries\<close>

definition write_time_series_responses :: "(bytes \<Rightarrow> bool) \<Rightarrow> unit responses" where
  "write_time_series_responses other =
     \<lparr>rs_ok = None,
      rs_errors = [(400, OtherDoc other), (401, ErrorDoc), (403, ErrorDoc), (404, ErrorDoc), (409, ErrorDoc), (413, ErrorDoc), (500, ErrorDoc)],
      rs_headers =
       [(204, [''X-Request-Id'', ''arcadedb-session-id'']),
        (400, [''X-Request-Id'']),
        (401, [''X-Request-Id'']),
        (403, [''X-Request-Id'']),
        (404, [''X-Request-Id'']),
        (409, [''Retry-After'', ''X-Request-Id'']),
        (413, [''X-Request-Id'']),
        (500, [''X-Request-Id''])]\<rparr>"

subsection \<open>ScrapePrometheusMetrics\<close>

definition scrape_prometheus_metrics_request :: "op_params" where
  "scrape_prometheus_metrics_request =
     \<lparr>op_method = ''GET'', op_path = ''/prometheus'', op_args = [],
      op_query = [],
      op_header = [],
      op_body = None\<rparr>"

definition scrape_prometheus_metrics_responses :: "unit responses" where
  "scrape_prometheus_metrics_responses =
     \<lparr>rs_ok = None,
      rs_errors = [(401, ErrorDoc), (403, ErrorDoc), (500, ErrorDoc)],
      rs_headers =
       [(200, [''X-Request-Id'']),
        (401, [''X-Request-Id'']),
        (403, [''X-Request-Id'']),
        (500, [''X-Request-Id''])]\<rparr>"

end
