(* ===== verification/Endpoints.thy ===== *)
theory Endpoints
  imports Generated_Client
begin

text \<open>
  The operations of the generated client the drivers use, one request builder and one response
  table each, as \<open>client.gen.go\<close> has them: method, path template and path arguments, query and
  header parameters in the order they are set, body; and what the parser of the response decodes
  and binds per status. The tables of the operations the drivers call without the parser are in
  \<open>Operations_Data\<close>.
\<close>

subsection \<open>BeginTransaction\<close>

definition begin_transaction_request :: "bytes \<Rightarrow> bytes option \<Rightarrow> bytes option \<Rightarrow> bytes option \<Rightarrow> bytes \<Rightarrow> bytes \<Rightarrow> op_params" where
  "begin_transaction_request database sid tag rid ctype body =
     \<lparr>op_method = ''POST'', op_path = ''/api/v1/begin/%s'', op_args = [database],
      op_query = [],
      op_header = [(''arcadedb-session-id'', sid), (''X-ArcadeDB-Query-Tag'', tag), (''X-Request-Id'', rid)],
      op_body = Some (ctype, body)\<rparr>"

definition begin_transaction_responses :: "unit responses" where
  "begin_transaction_responses =
     \<lparr>rs_ok = None,
      rs_errors = [(400, ErrorDoc), (401, ErrorDoc), (404, ErrorDoc), (409, ErrorDoc), (500, ErrorDoc)],
      rs_headers =
       [(204, [''X-Request-Id'', ''arcadedb-session-expired'', ''arcadedb-session-id'']),
        (400, [''X-Request-Id'']),
        (401, [''X-Request-Id'']),
        (404, [''X-Request-Id'']),
        (409, [''Retry-After'', ''X-Request-Id'']),
        (500, [''X-Request-Id''])]\<rparr>"

subsection \<open>CommitTransaction\<close>

definition commit_transaction_request :: "bytes \<Rightarrow> bytes option \<Rightarrow> bytes option \<Rightarrow> op_params" where
  "commit_transaction_request database sid rid =
     \<lparr>op_method = ''POST'', op_path = ''/api/v1/commit/%s'', op_args = [database],
      op_query = [],
      op_header = [(''arcadedb-session-id'', sid), (''X-Request-Id'', rid)],
      op_body = None\<rparr>"

definition commit_transaction_responses :: "unit responses" where
  "commit_transaction_responses =
     \<lparr>rs_ok = None,
      rs_errors = [(400, ErrorDoc), (401, ErrorDoc), (404, ErrorDoc), (409, ErrorDoc), (500, ErrorDoc)],
      rs_headers =
       [(204, [''X-Request-Id'', ''arcadedb-session-expired'']),
        (400, [''X-Request-Id'']),
        (401, [''X-Request-Id'']),
        (404, [''X-Request-Id'']),
        (409, [''Retry-After'', ''X-Request-Id'']),
        (500, [''X-Request-Id''])]\<rparr>"

subsection \<open>RollbackTransaction\<close>

definition rollback_transaction_request :: "bytes \<Rightarrow> bytes option \<Rightarrow> bytes option \<Rightarrow> op_params" where
  "rollback_transaction_request database sid rid =
     \<lparr>op_method = ''POST'', op_path = ''/api/v1/rollback/%s'', op_args = [database],
      op_query = [],
      op_header = [(''arcadedb-session-id'', sid), (''X-Request-Id'', rid)],
      op_body = None\<rparr>"

definition rollback_transaction_responses :: "unit responses" where
  "rollback_transaction_responses =
     \<lparr>rs_ok = None,
      rs_errors = [(400, ErrorDoc), (401, ErrorDoc), (404, ErrorDoc), (409, ErrorDoc), (500, ErrorDoc)],
      rs_headers =
       [(204, [''X-Request-Id'', ''arcadedb-session-expired'']),
        (400, [''X-Request-Id'']),
        (401, [''X-Request-Id'']),
        (404, [''X-Request-Id'']),
        (409, [''Retry-After'', ''X-Request-Id'']),
        (500, [''X-Request-Id''])]\<rparr>"

subsection \<open>ExecuteQueryPost\<close>

definition execute_query_request :: "bytes \<Rightarrow> bytes option \<Rightarrow> bytes option \<Rightarrow> bytes option \<Rightarrow> bytes option \<Rightarrow> bytes \<Rightarrow> bytes \<Rightarrow> op_params" where
  "execute_query_request database sid tag accept rid ctype body =
     \<lparr>op_method = ''POST'', op_path = ''/api/v1/query/%s'', op_args = [database],
      op_query = [],
      op_header = [(''arcadedb-session-id'', sid), (''X-ArcadeDB-Query-Tag'', tag), (''Accept'', accept), (''X-Request-Id'', rid)],
      op_body = Some (ctype, body)\<rparr>"

definition execute_query_responses :: "(bytes \<Rightarrow> 'a option) \<Rightarrow> 'a responses" where
  "execute_query_responses dec =
     \<lparr>rs_ok = Some (200, dec),
      rs_errors = [(400, ErrorDoc), (401, ErrorDoc), (404, ErrorDoc), (409, ErrorDoc), (413, ErrorDoc), (500, ErrorDoc)],
      rs_headers =
       [(200, [''X-ArcadeDB-Commit-Index'', ''X-Request-Id'', ''arcadedb-session-partial-commit'']),
        (400, [''X-ArcadeDB-Commit-Index'', ''X-Request-Id'', ''arcadedb-session-partial-commit'']),
        (401, [''X-Request-Id'']),
        (404, [''X-Request-Id'']),
        (409, [''Retry-After'', ''X-ArcadeDB-Commit-Index'', ''X-Request-Id'', ''arcadedb-session-partial-commit'']),
        (413, [''X-ArcadeDB-Commit-Index'', ''X-Request-Id'', ''arcadedb-session-partial-commit'']),
        (500, [''X-ArcadeDB-Commit-Index'', ''X-Request-Id'', ''arcadedb-session-partial-commit''])]\<rparr>"

subsection \<open>ExecuteCommand\<close>

definition execute_command_request :: "bytes \<Rightarrow> bytes option \<Rightarrow> bytes option \<Rightarrow> bytes option \<Rightarrow> bytes option \<Rightarrow> bytes \<Rightarrow> bytes \<Rightarrow> op_params" where
  "execute_command_request database sid tag accept rid ctype body =
     \<lparr>op_method = ''POST'', op_path = ''/api/v1/command/%s'', op_args = [database],
      op_query = [],
      op_header = [(''arcadedb-session-id'', sid), (''X-ArcadeDB-Query-Tag'', tag), (''Accept'', accept), (''X-Request-Id'', rid)],
      op_body = Some (ctype, body)\<rparr>"

definition execute_command_responses :: "(bytes \<Rightarrow> 'a option) \<Rightarrow> 'a responses" where
  "execute_command_responses dec =
     \<lparr>rs_ok = Some (200, dec),
      rs_errors = [(400, ErrorDoc), (401, ErrorDoc), (404, ErrorDoc), (409, ErrorDoc), (413, ErrorDoc), (500, ErrorDoc)],
      rs_headers =
       [(200, [''X-ArcadeDB-Commit-Index'', ''X-Request-Id'', ''arcadedb-session-partial-commit'']),
        (400, [''X-ArcadeDB-Commit-Index'', ''X-Request-Id'', ''arcadedb-session-partial-commit'']),
        (401, [''X-Request-Id'']),
        (404, [''X-Request-Id'']),
        (409, [''Retry-After'', ''X-ArcadeDB-Commit-Index'', ''X-Request-Id'', ''arcadedb-session-partial-commit'']),
        (413, [''X-ArcadeDB-Commit-Index'', ''X-Request-Id'', ''arcadedb-session-partial-commit'']),
        (500, [''X-ArcadeDB-Commit-Index'', ''X-Request-Id'', ''arcadedb-session-partial-commit''])]\<rparr>"

subsection \<open>ListDatabases\<close>

definition list_databases_request :: "op_params" where
  "list_databases_request =
     \<lparr>op_method = ''GET'', op_path = ''/api/v1/databases'', op_args = [],
      op_query = [],
      op_header = [],
      op_body = None\<rparr>"

definition list_databases_responses :: "(bytes \<Rightarrow> 'a option) \<Rightarrow> 'a responses" where
  "list_databases_responses dec =
     \<lparr>rs_ok = Some (200, dec),
      rs_errors = [(401, ErrorDoc), (500, ErrorDoc)],
      rs_headers =
       [(200, [''X-Request-Id'']),
        (401, [''X-Request-Id'']),
        (500, [''X-Request-Id''])]\<rparr>"

subsection \<open>CheckDatabaseExists\<close>

definition check_database_exists_request :: "bytes \<Rightarrow> op_params" where
  "check_database_exists_request database =
     \<lparr>op_method = ''GET'', op_path = ''/api/v1/exists/%s'', op_args = [database],
      op_query = [],
      op_header = [],
      op_body = None\<rparr>"

definition check_database_exists_responses :: "(bytes \<Rightarrow> 'a option) \<Rightarrow> 'a responses" where
  "check_database_exists_responses dec =
     \<lparr>rs_ok = Some (200, dec),
      rs_errors = [(400, ErrorDoc), (401, ErrorDoc), (500, ErrorDoc)],
      rs_headers =
       [(200, [''X-Request-Id'']),
        (400, [''X-Request-Id'']),
        (401, [''X-Request-Id'']),
        (500, [''X-Request-Id''])]\<rparr>"

subsection \<open>GetServerInfo\<close>

definition get_server_info_request :: "bytes option \<Rightarrow> op_params" where
  "get_server_info_request mode =
     \<lparr>op_method = ''GET'', op_path = ''/api/v1/server'', op_args = [],
      op_query = [(''mode'', mode)],
      op_header = [],
      op_body = None\<rparr>"

definition get_server_info_responses :: "(bytes \<Rightarrow> 'a option) \<Rightarrow> 'a responses" where
  "get_server_info_responses dec =
     \<lparr>rs_ok = Some (200, dec),
      rs_errors = [(401, ErrorDoc), (500, ErrorDoc)],
      rs_headers =
       [(200, [''X-Request-Id'']),
        (401, [''X-Request-Id'']),
        (500, [''X-Request-Id''])]\<rparr>"

subsection \<open>CheckHealth\<close>

definition check_health_request :: "op_params" where
  "check_health_request =
     \<lparr>op_method = ''GET'', op_path = ''/api/v1/health'', op_args = [],
      op_query = [],
      op_header = [],
      op_body = None\<rparr>"

definition check_health_responses :: "unit responses" where
  "check_health_responses =
     \<lparr>rs_ok = None,
      rs_errors = [],
      rs_headers =
       [(204, [''X-Request-Id'']),
        (503, [''X-Request-Id''])]\<rparr>"

subsection \<open>CheckReady\<close>

definition check_ready_request :: "op_params" where
  "check_ready_request =
     \<lparr>op_method = ''GET'', op_path = ''/api/v1/ready'', op_args = [],
      op_query = [],
      op_header = [],
      op_body = None\<rparr>"

definition check_ready_responses :: "unit responses" where
  "check_ready_responses =
     \<lparr>rs_ok = None,
      rs_errors = [],
      rs_headers =
       [(204, [''X-Request-Id'']),
        (503, [''X-Request-Id''])]\<rparr>"

subsection \<open>CreateUser\<close>

definition create_user_request :: "bytes option \<Rightarrow> bytes \<Rightarrow> bytes \<Rightarrow> op_params" where
  "create_user_request rid ctype body =
     \<lparr>op_method = ''POST'', op_path = ''/api/v1/server/users'', op_args = [],
      op_query = [],
      op_header = [(''X-Request-Id'', rid)],
      op_body = Some (ctype, body)\<rparr>"

definition create_user_responses :: "(bytes \<Rightarrow> 'a option) \<Rightarrow> 'a responses" where
  "create_user_responses dec =
     \<lparr>rs_ok = Some (201, dec),
      rs_errors = [(400, ErrorDoc), (401, ErrorDoc), (403, ErrorDoc), (409, ErrorDoc), (500, ErrorDoc), (504, ErrorDoc)],
      rs_headers =
       [(201, [''X-Request-Id'']),
        (400, [''X-Request-Id'']),
        (401, [''X-Request-Id'']),
        (403, [''X-Request-Id'']),
        (409, [''Retry-After'', ''X-Request-Id'']),
        (500, [''X-Request-Id'']),
        (504, [''X-Request-Id''])]\<rparr>"

subsection \<open>UpdateUser\<close>

definition update_user_request :: "bytes \<Rightarrow> bytes \<Rightarrow> bytes \<Rightarrow> op_params" where
  "update_user_request nm ctype body =
     \<lparr>op_method = ''PUT'', op_path = ''/api/v1/server/users'', op_args = [],
      op_query = [(''name'', Some nm)],
      op_header = [],
      op_body = Some (ctype, body)\<rparr>"

definition update_user_responses :: "(bytes \<Rightarrow> 'a option) \<Rightarrow> 'a responses" where
  "update_user_responses dec =
     \<lparr>rs_ok = Some (200, dec),
      rs_errors = [(400, ErrorDoc), (401, ErrorDoc), (403, ErrorDoc), (404, ErrorDoc), (500, ErrorDoc), (504, ErrorDoc)],
      rs_headers =
       [(200, [''X-Request-Id'']),
        (400, [''X-Request-Id'']),
        (401, [''X-Request-Id'']),
        (403, [''X-Request-Id'']),
        (404, [''X-Request-Id'']),
        (500, [''X-Request-Id'']),
        (504, [''X-Request-Id''])]\<rparr>"

subsection \<open>DeleteUser\<close>

definition delete_user_request :: "bytes \<Rightarrow> op_params" where
  "delete_user_request nm =
     \<lparr>op_method = ''DELETE'', op_path = ''/api/v1/server/users'', op_args = [],
      op_query = [(''name'', Some nm)],
      op_header = [],
      op_body = None\<rparr>"

definition delete_user_responses :: "(bytes \<Rightarrow> 'a option) \<Rightarrow> 'a responses" where
  "delete_user_responses dec =
     \<lparr>rs_ok = Some (200, dec),
      rs_errors = [(400, ErrorDoc), (401, ErrorDoc), (403, ErrorDoc), (404, ErrorDoc), (500, ErrorDoc), (504, ErrorDoc)],
      rs_headers =
       [(200, [''X-Request-Id'']),
        (400, [''X-Request-Id'']),
        (401, [''X-Request-Id'']),
        (403, [''X-Request-Id'']),
        (404, [''X-Request-Id'']),
        (500, [''X-Request-Id'']),
        (504, [''X-Request-Id''])]\<rparr>"

subsection \<open>ListUsers\<close>

definition list_users_request :: "op_params" where
  "list_users_request =
     \<lparr>op_method = ''GET'', op_path = ''/api/v1/server/users'', op_args = [],
      op_query = [],
      op_header = [],
      op_body = None\<rparr>"

definition list_users_responses :: "(bytes \<Rightarrow> 'a option) \<Rightarrow> 'a responses" where
  "list_users_responses dec =
     \<lparr>rs_ok = Some (200, dec),
      rs_errors = [(400, ErrorDoc), (401, ErrorDoc), (403, ErrorDoc), (500, ErrorDoc)],
      rs_headers =
       [(200, [''X-Request-Id'']),
        (400, [''X-Request-Id'']),
        (401, [''X-Request-Id'']),
        (403, [''X-Request-Id'']),
        (500, [''X-Request-Id''])]\<rparr>"

subsection \<open>CreateOrUpdateGroup\<close>

definition create_or_update_group_request :: "bytes option \<Rightarrow> bytes \<Rightarrow> bytes \<Rightarrow> op_params" where
  "create_or_update_group_request rid ctype body =
     \<lparr>op_method = ''POST'', op_path = ''/api/v1/server/groups'', op_args = [],
      op_query = [],
      op_header = [(''X-Request-Id'', rid)],
      op_body = Some (ctype, body)\<rparr>"

definition create_or_update_group_responses :: "(bytes \<Rightarrow> 'a option) \<Rightarrow> 'a responses" where
  "create_or_update_group_responses dec =
     \<lparr>rs_ok = Some (200, dec),
      rs_errors = [(400, ErrorDoc), (401, ErrorDoc), (403, ErrorDoc), (409, ErrorDoc), (500, ErrorDoc), (504, ErrorDoc)],
      rs_headers =
       [(200, [''X-Request-Id'']),
        (400, [''X-Request-Id'']),
        (401, [''X-Request-Id'']),
        (403, [''X-Request-Id'']),
        (409, [''Retry-After'', ''X-Request-Id'']),
        (500, [''X-Request-Id'']),
        (504, [''X-Request-Id''])]\<rparr>"

subsection \<open>DeleteGroup\<close>

definition delete_group_request :: "bytes \<Rightarrow> bytes \<Rightarrow> op_params" where
  "delete_group_request database nm =
     \<lparr>op_method = ''DELETE'', op_path = ''/api/v1/server/groups'', op_args = [],
      op_query = [(''database'', Some database), (''name'', Some nm)],
      op_header = [],
      op_body = None\<rparr>"

definition delete_group_responses :: "(bytes \<Rightarrow> 'a option) \<Rightarrow> 'a responses" where
  "delete_group_responses dec =
     \<lparr>rs_ok = Some (200, dec),
      rs_errors = [(400, ErrorDoc), (401, ErrorDoc), (403, ErrorDoc), (404, ErrorDoc), (500, ErrorDoc), (504, ErrorDoc)],
      rs_headers =
       [(200, [''X-Request-Id'']),
        (400, [''X-Request-Id'']),
        (401, [''X-Request-Id'']),
        (403, [''X-Request-Id'']),
        (404, [''X-Request-Id'']),
        (500, [''X-Request-Id'']),
        (504, [''X-Request-Id''])]\<rparr>"

subsection \<open>ListGroups\<close>

definition list_groups_request :: "op_params" where
  "list_groups_request =
     \<lparr>op_method = ''GET'', op_path = ''/api/v1/server/groups'', op_args = [],
      op_query = [],
      op_header = [],
      op_body = None\<rparr>"

definition list_groups_responses :: "(bytes \<Rightarrow> 'a option) \<Rightarrow> 'a responses" where
  "list_groups_responses dec =
     \<lparr>rs_ok = Some (200, dec),
      rs_errors = [(400, ErrorDoc), (401, ErrorDoc), (403, ErrorDoc), (500, ErrorDoc)],
      rs_headers =
       [(200, [''X-Request-Id'']),
        (400, [''X-Request-Id'']),
        (401, [''X-Request-Id'']),
        (403, [''X-Request-Id'']),
        (500, [''X-Request-Id''])]\<rparr>"

subsection \<open>Login\<close>

definition login_request :: "bytes option \<Rightarrow> op_params" where
  "login_request rid =
     \<lparr>op_method = ''POST'', op_path = ''/api/v1/login'', op_args = [],
      op_query = [],
      op_header = [(''X-Request-Id'', rid)],
      op_body = None\<rparr>"

definition login_responses :: "(bytes \<Rightarrow> 'a option) \<Rightarrow> 'a responses" where
  "login_responses dec =
     \<lparr>rs_ok = Some (200, dec),
      rs_errors = [(401, ErrorDoc), (403, ErrorDoc), (409, ErrorDoc), (500, ErrorDoc), (503, ErrorDoc)],
      rs_headers =
       [(200, [''X-Request-Id'']),
        (401, [''X-Request-Id'']),
        (403, [''X-Request-Id'']),
        (409, [''Retry-After'', ''X-Request-Id'']),
        (500, [''X-Request-Id'']),
        (503, [''X-Request-Id''])]\<rparr>"

subsection \<open>Logout\<close>

definition logout_request :: "bytes option \<Rightarrow> op_params" where
  "logout_request rid =
     \<lparr>op_method = ''POST'', op_path = ''/api/v1/logout'', op_args = [],
      op_query = [],
      op_header = [(''X-Request-Id'', rid)],
      op_body = None\<rparr>"

definition logout_responses :: "unit responses" where
  "logout_responses =
     \<lparr>rs_ok = None,
      rs_errors = [(401, ErrorDoc), (409, ErrorDoc), (500, ErrorDoc)],
      rs_headers =
       [(204, [''X-Request-Id'']),
        (401, [''X-Request-Id'']),
        (409, [''Retry-After'', ''X-Request-Id'']),
        (500, [''X-Request-Id''])]\<rparr>"

subsection \<open>ListSessions\<close>

definition list_sessions_request :: "op_params" where
  "list_sessions_request =
     \<lparr>op_method = ''GET'', op_path = ''/api/v1/sessions'', op_args = [],
      op_query = [],
      op_header = [],
      op_body = None\<rparr>"

definition list_sessions_responses :: "(bytes \<Rightarrow> 'a option) \<Rightarrow> 'a responses" where
  "list_sessions_responses dec =
     \<lparr>rs_ok = Some (200, dec),
      rs_errors = [(401, ErrorDoc), (403, ErrorDoc), (500, ErrorDoc)],
      rs_headers =
       [(200, [''X-Request-Id'']),
        (401, [''X-Request-Id'']),
        (403, [''X-Request-Id'']),
        (500, [''X-Request-Id''])]\<rparr>"

subsection \<open>CreateApiToken\<close>

definition create_api_token_request :: "bytes option \<Rightarrow> bytes \<Rightarrow> bytes \<Rightarrow> op_params" where
  "create_api_token_request rid ctype body =
     \<lparr>op_method = ''POST'', op_path = ''/api/v1/server/api-tokens'', op_args = [],
      op_query = [],
      op_header = [(''X-Request-Id'', rid)],
      op_body = Some (ctype, body)\<rparr>"

definition create_api_token_responses :: "(bytes \<Rightarrow> 'a option) \<Rightarrow> 'a responses" where
  "create_api_token_responses dec =
     \<lparr>rs_ok = Some (201, dec),
      rs_errors = [(400, ErrorDoc), (401, ErrorDoc), (403, ErrorDoc), (409, ErrorDoc), (412, ErrorDoc), (500, ErrorDoc), (504, ErrorDoc)],
      rs_headers =
       [(201, [''X-Request-Id'']),
        (400, [''X-Request-Id'']),
        (401, [''X-Request-Id'']),
        (403, [''X-Request-Id'']),
        (409, [''Retry-After'', ''X-Request-Id'']),
        (412, [''X-Request-Id'']),
        (500, [''X-Request-Id'']),
        (504, [''X-Request-Id''])]\<rparr>"

subsection \<open>ListApiTokens\<close>

definition list_api_tokens_request :: "op_params" where
  "list_api_tokens_request =
     \<lparr>op_method = ''GET'', op_path = ''/api/v1/server/api-tokens'', op_args = [],
      op_query = [],
      op_header = [],
      op_body = None\<rparr>"

definition list_api_tokens_responses :: "(bytes \<Rightarrow> 'a option) \<Rightarrow> 'a responses" where
  "list_api_tokens_responses dec =
     \<lparr>rs_ok = Some (200, dec),
      rs_errors = [(400, ErrorDoc), (401, ErrorDoc), (403, ErrorDoc), (500, ErrorDoc)],
      rs_headers =
       [(200, [''X-Request-Id'']),
        (400, [''X-Request-Id'']),
        (401, [''X-Request-Id'']),
        (403, [''X-Request-Id'']),
        (500, [''X-Request-Id''])]\<rparr>"

subsection \<open>DeleteApiToken\<close>

definition delete_api_token_request :: "bytes \<Rightarrow> op_params" where
  "delete_api_token_request token =
     \<lparr>op_method = ''DELETE'', op_path = ''/api/v1/server/api-tokens'', op_args = [],
      op_query = [(''token'', Some token)],
      op_header = [],
      op_body = None\<rparr>"

definition delete_api_token_responses :: "(bytes \<Rightarrow> 'a option) \<Rightarrow> 'a responses" where
  "delete_api_token_responses dec =
     \<lparr>rs_ok = Some (200, dec),
      rs_errors = [(400, ErrorDoc), (401, ErrorDoc), (403, ErrorDoc), (404, ErrorDoc), (500, ErrorDoc), (504, ErrorDoc)],
      rs_headers =
       [(200, [''X-Request-Id'']),
        (400, [''X-Request-Id'']),
        (401, [''X-Request-Id'']),
        (403, [''X-Request-Id'']),
        (404, [''X-Request-Id'']),
        (500, [''X-Request-Id'']),
        (504, [''X-Request-Id''])]\<rparr>"

subsection \<open>GetOperationProgress\<close>

definition get_operation_progress_request :: "bytes \<Rightarrow> op_params" where
  "get_operation_progress_request database =
     \<lparr>op_method = ''GET'', op_path = ''/api/v1/progress/%s'', op_args = [database],
      op_query = [],
      op_header = [],
      op_body = None\<rparr>"

definition get_operation_progress_responses :: "(bytes \<Rightarrow> 'a option) \<Rightarrow> 'a responses" where
  "get_operation_progress_responses dec =
     \<lparr>rs_ok = Some (200, dec),
      rs_errors = [(400, ErrorDoc), (401, ErrorDoc), (403, ErrorDoc), (500, ErrorDoc)],
      rs_headers =
       [(200, [''X-Request-Id'']),
        (400, [''X-Request-Id'']),
        (401, [''X-Request-Id'']),
        (403, [''X-Request-Id'']),
        (500, [''X-Request-Id''])]\<rparr>"

subsection \<open>VectorSearch\<close>

definition vector_search_request :: "bytes \<Rightarrow> bytes option \<Rightarrow> bytes option \<Rightarrow> bytes \<Rightarrow> bytes \<Rightarrow> op_params" where
  "vector_search_request database sid rid ctype body =
     \<lparr>op_method = ''POST'', op_path = ''/api/v1/vector/%s/search'', op_args = [database],
      op_query = [],
      op_header = [(''arcadedb-session-id'', sid), (''X-Request-Id'', rid)],
      op_body = Some (ctype, body)\<rparr>"

definition vector_search_responses :: "(bytes \<Rightarrow> 'a option) \<Rightarrow> 'a responses" where
  "vector_search_responses dec =
     \<lparr>rs_ok = Some (200, dec),
      rs_errors = [(400, ErrorDoc), (401, ErrorDoc), (403, ErrorDoc), (404, ErrorDoc), (409, ErrorDoc), (500, ErrorDoc)],
      rs_headers =
       [(200, [''X-Request-Id'', ''arcadedb-session-expired'', ''arcadedb-session-id'']),
        (400, [''X-Request-Id'']),
        (401, [''X-Request-Id'']),
        (403, [''X-Request-Id'']),
        (404, [''X-Request-Id'']),
        (409, [''Retry-After'', ''X-Request-Id'']),
        (500, [''X-Request-Id''])]\<rparr>"

subsection \<open>HybridSearch\<close>

definition hybrid_search_request :: "bytes \<Rightarrow> bytes option \<Rightarrow> bytes option \<Rightarrow> bytes \<Rightarrow> bytes \<Rightarrow> op_params" where
  "hybrid_search_request database sid rid ctype body =
     \<lparr>op_method = ''POST'', op_path = ''/api/v1/vector/%s/hybrid'', op_args = [database],
      op_query = [],
      op_header = [(''arcadedb-session-id'', sid), (''X-Request-Id'', rid)],
      op_body = Some (ctype, body)\<rparr>"

definition hybrid_search_responses :: "(bytes \<Rightarrow> 'a option) \<Rightarrow> 'a responses" where
  "hybrid_search_responses dec =
     \<lparr>rs_ok = Some (200, dec),
      rs_errors = [(400, ErrorDoc), (401, ErrorDoc), (403, ErrorDoc), (404, ErrorDoc), (409, ErrorDoc), (500, ErrorDoc)],
      rs_headers =
       [(200, [''X-Request-Id'', ''arcadedb-session-expired'', ''arcadedb-session-id'']),
        (400, [''X-Request-Id'']),
        (401, [''X-Request-Id'']),
        (403, [''X-Request-Id'']),
        (404, [''X-Request-Id'']),
        (409, [''Retry-After'', ''X-Request-Id'']),
        (500, [''X-Request-Id''])]\<rparr>"

subsection \<open>FullTextSearch\<close>

definition full_text_search_request :: "bytes \<Rightarrow> bytes option \<Rightarrow> bytes option \<Rightarrow> bytes \<Rightarrow> bytes \<Rightarrow> op_params" where
  "full_text_search_request database sid rid ctype body =
     \<lparr>op_method = ''POST'', op_path = ''/api/v1/vector/%s/fulltext'', op_args = [database],
      op_query = [],
      op_header = [(''arcadedb-session-id'', sid), (''X-Request-Id'', rid)],
      op_body = Some (ctype, body)\<rparr>"

definition full_text_search_responses :: "(bytes \<Rightarrow> 'a option) \<Rightarrow> 'a responses" where
  "full_text_search_responses dec =
     \<lparr>rs_ok = Some (200, dec),
      rs_errors = [(400, ErrorDoc), (401, ErrorDoc), (403, ErrorDoc), (404, ErrorDoc), (409, ErrorDoc), (500, ErrorDoc)],
      rs_headers =
       [(200, [''X-Request-Id'', ''arcadedb-session-expired'', ''arcadedb-session-id'']),
        (400, [''X-Request-Id'']),
        (401, [''X-Request-Id'']),
        (403, [''X-Request-Id'']),
        (404, [''X-Request-Id'']),
        (409, [''Retry-After'', ''X-Request-Id'']),
        (500, [''X-Request-Id''])]\<rparr>"

subsection \<open>PromQLQuery\<close>

definition promql_query_request :: "bytes \<Rightarrow> bytes \<Rightarrow> bytes option \<Rightarrow> bytes option \<Rightarrow> bytes option \<Rightarrow> op_params" where
  "promql_query_request database promql moment lookback_delta sid =
     \<lparr>op_method = ''GET'', op_path = ''/api/v1/ts/%s/prom/api/v1/query'', op_args = [database],
      op_query = [(''query'', Some promql), (''time'', moment), (''lookback_delta'', lookback_delta)],
      op_header = [(''arcadedb-session-id'', sid)],
      op_body = None\<rparr>"

definition promql_query_responses :: "(bytes \<Rightarrow> 'a option) \<Rightarrow> 'a responses" where
  "promql_query_responses dec =
     \<lparr>rs_ok = Some (200, dec),
      rs_errors = [(400, PromQLErrorDoc), (401, ErrorDoc), (403, ErrorDoc), (404, ErrorDoc), (500, ErrorDoc)],
      rs_headers =
       [(200, [''X-Request-Id'', ''arcadedb-session-expired'', ''arcadedb-session-id'']),
        (400, [''X-Request-Id'']),
        (401, [''X-Request-Id'']),
        (403, [''X-Request-Id'']),
        (404, [''X-Request-Id'']),
        (500, [''X-Request-Id''])]\<rparr>"

subsection \<open>PromQLQueryRange\<close>

definition promql_query_range_request :: "bytes \<Rightarrow> bytes \<Rightarrow> bytes \<Rightarrow> bytes \<Rightarrow> bytes \<Rightarrow> bytes option \<Rightarrow> bytes option \<Rightarrow> op_params" where
  "promql_query_range_request database promql from til step lookback_delta sid =
     \<lparr>op_method = ''GET'', op_path = ''/api/v1/ts/%s/prom/api/v1/query_range'', op_args = [database],
      op_query = [(''query'', Some promql), (''start'', Some from), (''end'', Some til), (''step'', Some step), (''lookback_delta'', lookback_delta)],
      op_header = [(''arcadedb-session-id'', sid)],
      op_body = None\<rparr>"

definition promql_query_range_responses :: "(bytes \<Rightarrow> 'a option) \<Rightarrow> 'a responses" where
  "promql_query_range_responses dec =
     \<lparr>rs_ok = Some (200, dec),
      rs_errors = [(400, PromQLErrorDoc), (401, ErrorDoc), (403, ErrorDoc), (404, ErrorDoc), (500, ErrorDoc)],
      rs_headers =
       [(200, [''X-Request-Id'', ''arcadedb-session-expired'', ''arcadedb-session-id'']),
        (400, [''X-Request-Id'']),
        (401, [''X-Request-Id'']),
        (403, [''X-Request-Id'']),
        (404, [''X-Request-Id'']),
        (500, [''X-Request-Id''])]\<rparr>"

subsection \<open>PromQLLabels\<close>

definition promql_labels_request :: "bytes \<Rightarrow> bytes option \<Rightarrow> op_params" where
  "promql_labels_request database sid =
     \<lparr>op_method = ''GET'', op_path = ''/api/v1/ts/%s/prom/api/v1/labels'', op_args = [database],
      op_query = [],
      op_header = [(''arcadedb-session-id'', sid)],
      op_body = None\<rparr>"

definition promql_labels_responses :: "(bytes \<Rightarrow> 'a option) \<Rightarrow> 'a responses" where
  "promql_labels_responses dec =
     \<lparr>rs_ok = Some (200, dec),
      rs_errors = [(400, PromQLErrorDoc), (401, ErrorDoc), (403, ErrorDoc), (404, ErrorDoc), (500, ErrorDoc)],
      rs_headers =
       [(200, [''X-Request-Id'', ''arcadedb-session-expired'', ''arcadedb-session-id'']),
        (400, [''X-Request-Id'']),
        (401, [''X-Request-Id'']),
        (403, [''X-Request-Id'']),
        (404, [''X-Request-Id'']),
        (500, [''X-Request-Id''])]\<rparr>"

subsection \<open>PromQLLabelValues\<close>

definition promql_label_values_request :: "bytes \<Rightarrow> bytes \<Rightarrow> bytes option \<Rightarrow> bytes option \<Rightarrow> bytes option \<Rightarrow> op_params" where
  "promql_label_values_request database label from til sid =
     \<lparr>op_method = ''GET'', op_path = ''/api/v1/ts/%s/prom/api/v1/label/%s/values'', op_args = [database, label],
      op_query = [(''start'', from), (''end'', til)],
      op_header = [(''arcadedb-session-id'', sid)],
      op_body = None\<rparr>"

definition promql_label_values_responses :: "(bytes \<Rightarrow> 'a option) \<Rightarrow> 'a responses" where
  "promql_label_values_responses dec =
     \<lparr>rs_ok = Some (200, dec),
      rs_errors = [(400, PromQLErrorDoc), (401, ErrorDoc), (403, ErrorDoc), (404, ErrorDoc), (500, ErrorDoc)],
      rs_headers =
       [(200, [''X-Request-Id'', ''arcadedb-session-expired'', ''arcadedb-session-id'']),
        (400, [''X-Request-Id'']),
        (401, [''X-Request-Id'']),
        (403, [''X-Request-Id'']),
        (404, [''X-Request-Id'']),
        (500, [''X-Request-Id''])]\<rparr>"

subsection \<open>PromQLSeries\<close>

definition promql_series_request :: "bytes \<Rightarrow> bytes list \<Rightarrow> bytes option \<Rightarrow> bytes option \<Rightarrow> bytes option \<Rightarrow> op_params" where
  "promql_series_request database matches from til sid =
     \<lparr>op_method = ''GET'', op_path = ''/api/v1/ts/%s/prom/api/v1/series'', op_args = [database],
      op_query = map (\<lambda>x. (''match[]'', Some x)) matches @ [(''start'', from)] @ [(''end'', til)],
      op_header = [(''arcadedb-session-id'', sid)],
      op_body = None\<rparr>"

definition promql_series_responses :: "(bytes \<Rightarrow> 'a option) \<Rightarrow> 'a responses" where
  "promql_series_responses dec =
     \<lparr>rs_ok = Some (200, dec),
      rs_errors = [(400, PromQLErrorDoc), (401, ErrorDoc), (403, ErrorDoc), (404, ErrorDoc), (500, ErrorDoc)],
      rs_headers =
       [(200, [''X-Request-Id'', ''arcadedb-session-expired'', ''arcadedb-session-id'']),
        (400, [''X-Request-Id'']),
        (401, [''X-Request-Id'']),
        (403, [''X-Request-Id'']),
        (404, [''X-Request-Id'']),
        (500, [''X-Request-Id''])]\<rparr>"

subsection \<open>QueryGrafana\<close>

definition query_grafana_request :: "bytes \<Rightarrow> bytes option \<Rightarrow> bytes option \<Rightarrow> bytes \<Rightarrow> bytes \<Rightarrow> op_params" where
  "query_grafana_request database sid rid ctype body =
     \<lparr>op_method = ''POST'', op_path = ''/api/v1/ts/%s/grafana/query'', op_args = [database],
      op_query = [],
      op_header = [(''arcadedb-session-id'', sid), (''X-Request-Id'', rid)],
      op_body = Some (ctype, body)\<rparr>"

subsection \<open>QueryTimeSeries\<close>

definition query_time_series_request :: "bytes \<Rightarrow> bytes option \<Rightarrow> bytes option \<Rightarrow> bytes \<Rightarrow> bytes \<Rightarrow> op_params" where
  "query_time_series_request database sid rid ctype body =
     \<lparr>op_method = ''POST'', op_path = ''/api/v1/ts/%s/query'', op_args = [database],
      op_query = [],
      op_header = [(''arcadedb-session-id'', sid), (''X-Request-Id'', rid)],
      op_body = Some (ctype, body)\<rparr>"

subsection \<open>GetTimeSeriesLatest\<close>

definition get_time_series_latest_request :: "bytes \<Rightarrow> bytes \<Rightarrow> bytes list \<Rightarrow> bytes option \<Rightarrow> op_params" where
  "get_time_series_latest_request database typ tag sid =
     \<lparr>op_method = ''GET'', op_path = ''/api/v1/ts/%s/latest'', op_args = [database],
      op_query = [(''type'', Some typ)] @ map (\<lambda>x. (''tag'', Some x)) tag,
      op_header = [(''arcadedb-session-id'', sid)],
      op_body = None\<rparr>"

subsection \<open>WriteTimeSeries\<close>

definition write_time_series_request :: "bytes \<Rightarrow> bytes option \<Rightarrow> bytes option \<Rightarrow> bytes option \<Rightarrow> bytes \<Rightarrow> bytes \<Rightarrow> op_params" where
  "write_time_series_request database precision sid rid ctype body =
     \<lparr>op_method = ''POST'', op_path = ''/api/v1/ts/%s/write'', op_args = [database],
      op_query = [(''precision'', precision)],
      op_header = [(''arcadedb-session-id'', sid), (''X-Request-Id'', rid)],
      op_body = Some (ctype, body)\<rparr>"

subsection \<open>ExecuteServerCommand\<close>

definition execute_server_command_request :: "bytes option \<Rightarrow> bytes \<Rightarrow> bytes \<Rightarrow> op_params" where
  "execute_server_command_request rid ctype body =
     \<lparr>op_method = ''POST'', op_path = ''/api/v1/server'', op_args = [],
      op_query = [],
      op_header = [(''X-Request-Id'', rid)],
      op_body = Some (ctype, body)\<rparr>"

end
