(* ===== verification/Ndjson.thy ===== *)
theory Ndjson
  imports Go_Errors
begin

text \<open>
  \<open>go/arcadedb/internal/ndjson\<close>: the splitter of a newline-delimited stream, over the buffered
  reader of the package \<open>bufio\<close> it uses, over any reader. The interface \<open>byte_reader\<close> is what a
  reader of finite content promises; under it the splitter yields the lines of the content however
  the reader cuts it into pieces.
\<close>

section \<open>The buffered reader\<close>

text \<open>\<open>Read\<close> into a buffer of the given length: the bytes read and an error, if any.\<close>

type_synonym 'r read_fn = "nat \<Rightarrow> 'r \<Rightarrow> (bytes \<times> go_error option) \<times> 'r"

definition buf_size :: nat where "buf_size = 4096"
definition max_empty_reads :: nat where "max_empty_reads = 100"
definition newline :: char where "newline = CHR 0x0A"

text \<open>The unread part of the buffer, the error kept for when it is used up, the reader.\<close>

record 'r breader =
  br_buf :: bytes
  br_err :: "go_error option"
  br_rd :: 'r

fun fill_tries :: "nat \<Rightarrow> 'r read_fn \<Rightarrow> 'r breader \<Rightarrow> 'r breader" where
  "fill_tries 0 read b = b\<lparr>br_err := Some (ESentinel IoErrNoProgress)\<rparr>"
| "fill_tries (Suc k) read b =
     (case read (buf_size - length (br_buf b)) (br_rd b) of ((bs, e), r) \<Rightarrow>
        let b' = b\<lparr>br_buf := br_buf b @ bs, br_rd := r\<rparr>
        in case e of
             Some x \<Rightarrow> b'\<lparr>br_err := Some x\<rparr>
           | None \<Rightarrow> if bs \<noteq> [] then b' else fill_tries k read b')"

lemma fill_tries_grows:
  "br_err (fill_tries k read b) = None \<Longrightarrow> length (br_buf b) < length (br_buf (fill_tries k read b))"
proof (induction k arbitrary: b)
  case (Suc k)
  obtain bs e r where r: "read (buf_size - length (br_buf b)) (br_rd b) = ((bs, e), r)"
    by (metis surj_pair)
  show ?case
  proof (cases "bs = [] \<and> e = None")
    case True
    with Suc.prems r have "br_err (fill_tries k read (b\<lparr>br_rd := r\<rparr>)) = None" by simp
    from Suc.IH [OF this] True r show ?thesis by simp
  next
    case False
    with Suc.prems r show ?thesis by (cases e) auto
  qed
qed simp

text \<open>\<open>ReadSlice\<close>: up to the next newline, or what there is when the reader ends or the buffer is full.\<close>

function read_slice :: "'r read_fn \<Rightarrow> 'r breader \<Rightarrow> (bytes \<times> go_error option) \<times> 'r breader" where
  "read_slice read b =
     (if newline \<in> set (br_buf b)
      then ((takeWhile (\<lambda>c. c \<noteq> newline) (br_buf b) @ [newline], None),
            b\<lparr>br_buf := tl (dropWhile (\<lambda>c. c \<noteq> newline) (br_buf b))\<rparr>)
      else case br_err b of
             Some e \<Rightarrow> ((br_buf b, Some e), b\<lparr>br_buf := [], br_err := None\<rparr>)
           | None \<Rightarrow>
               if length (br_buf b) \<ge> buf_size
               then ((br_buf b, Some (ESentinel BufioErrBufferFull)), b\<lparr>br_buf := []\<rparr>)
               else read_slice read (fill_tries max_empty_reads read b))"
  by pat_completeness auto
termination
proof (relation "measure (\<lambda>(read, b). if br_err b = None then Suc (buf_size - length (br_buf b)) else 0)", simp)
  fix read :: "'a read_fn" and b :: "'a breader"
  assume "\<not> length (br_buf b) \<ge> buf_size" and "br_err b = None"
  then show "((read, fill_tries max_empty_reads read b), read, b)
      \<in> measure (\<lambda>(read, b). if br_err b = None then Suc (buf_size - length (br_buf b)) else 0)"
    using fill_tries_grows [of max_empty_reads read b] by auto
qed

declare read_slice.simps [simp del]

section \<open>The splitter\<close>

definition blank :: "bytes \<Rightarrow> bool" where
  "blank l \<longleftrightarrow> trim_space l = []"

lemma blank_Nil [simp]: "blank []"
  by code_simp

text \<open>
  The loop of \<open>Lines\<close>. An item is a line or the read error that ends the sequence. The result is
  the state of the consumer and the reader when the sequence has ended; a stream that never ends
  and is never stopped has none.
\<close>

partial_function (option) lines_loop ::
  "'r read_fn \<Rightarrow> ('c, go_error + bytes) consumer \<Rightarrow> 'c \<Rightarrow> bytes \<Rightarrow> 'r breader \<Rightarrow> ('c \<times> 'r) option" where
  "lines_loop read yields c pending b =
     (case read_slice read b of ((chunk, err), b') \<Rightarrow>
        if (case err of None \<Rightarrow> False | Some e \<Rightarrow> err_is e BufioErrBufferFull)
        then lines_loop read yields c (pending @ chunk) b'
        else if (case err of None \<Rightarrow> False | Some e \<Rightarrow> \<not> err_is e IoEOF)
        then Some (snd (yields c (Inl (the err))), br_rd b')
        else
          (let line = trim_suffix (pending @ chunk) [newline]
           in case (if blank line then (True, c) else yields c (Inr line)) of (go, c') \<Rightarrow>
                if \<not> go then Some (c', br_rd b')
                else if err \<noteq> None then Some (c', br_rd b')
                else lines_loop read yields c' [] b'))"

definition lines :: "'r read_fn \<Rightarrow> ('c, go_error + bytes) consumer \<Rightarrow> 'c \<Rightarrow> 'r \<Rightarrow> ('c \<times> 'r) option" where
  "lines read yields c r = lines_loop read yields c [] \<lparr>br_buf = [], br_err = None, br_rd = r\<rparr>"

section \<open>The specification\<close>

text \<open>The pieces between newlines: one more than there are newlines.\<close>

fun pieces :: "bytes \<Rightarrow> bytes list" where
  "pieces [] = [[]]"
| "pieces (c # cs) =
     (if c = newline then [] # pieces cs else (c # hd (pieces cs)) # tl (pieces cs))"

text \<open>
  The items of a content that ends with an error: its terminated lines without the blank ones,
  then, at the end of file, the rest if it is not blank, and otherwise the error in its place.
\<close>

definition line_items :: "bytes \<Rightarrow> go_error \<Rightarrow> (go_error + bytes) list" where
  "line_items s e =
     map Inr (filter (\<lambda>l. \<not> blank l) (butlast (pieces s))) @
     (if err_is e IoEOF then (if blank (last (pieces s)) then [] else [Inr (last (pieces s))])
      else [Inl e])"

lemma pieces_not_Nil [simp]: "pieces s \<noteq> []"
  by (cases s) auto

lemma pieces_no_newline: "newline \<notin> set s \<Longrightarrow> pieces s = [s]"
  by (induction s) auto

lemma pieces_line: "newline \<notin> set l \<Longrightarrow> pieces (l @ newline # s) = l # pieces s"
  by (induction l) auto

lemma line_items_line:
  "newline \<notin> set l \<Longrightarrow>
     line_items (l @ newline # s) e = (if blank l then [] else [Inr l]) @ line_items s e"
  by (simp add: line_items_def pieces_line)

lemma line_items_rest:
  "newline \<notin> set s \<Longrightarrow> line_items s e =
     (if err_is e IoEOF then (if blank s then [] else [Inr s]) else [Inl e])"
  by (simp add: line_items_def pieces_no_newline)

section \<open>Any reader\<close>

text \<open>
  A reader with finite content: it delivers the content in pieces of its choice, at least one byte
  at a time, and ends with its terminal error, alone or with the last piece.
\<close>

locale byte_reader =
  fixes read :: "'r read_fn" and content :: "'r \<Rightarrow> bytes" and terminal :: "'r \<Rightarrow> go_error"
  assumes more: "0 < n \<Longrightarrow> read n r = ((bs, None), r') \<Longrightarrow>
      bs \<noteq> [] \<and> length bs \<le> n \<and> content r = bs @ content r' \<and> terminal r' = terminal r"
    and ended: "0 < n \<Longrightarrow> read n r = ((bs, Some e), r') \<Longrightarrow> content r = bs \<and> terminal r = e"
begin

text \<open>What a buffered reader still has to deliver.\<close>

definition left :: "'r breader \<Rightarrow> bytes" where
  "left b = (case br_err b of None \<Rightarrow> br_buf b @ content (br_rd b) | Some e \<Rightarrow> br_buf b)"

definition final :: "'r breader \<Rightarrow> go_error" where
  "final b = (case br_err b of None \<Rightarrow> terminal (br_rd b) | Some e \<Rightarrow> e)"

lemma fill_once:
  assumes "length (br_buf b) < buf_size" and "br_err b = None"
  shows "left (fill_tries max_empty_reads read b) = left b"
    and "final (fill_tries max_empty_reads read b) = final b"
proof -
  obtain k where k: "max_empty_reads = Suc k" by (simp add: max_empty_reads_def)
  obtain bs e r where r: "read (buf_size - length (br_buf b)) (br_rd b) = ((bs, e), r)"
    by (metis surj_pair)
  have n: "0 < buf_size - length (br_buf b)" using assms by simp
  have "left (fill_tries max_empty_reads read b) = left b \<and> final (fill_tries max_empty_reads read b) = final b"
  proof (cases e)
    case None
    with more [OF n, of "br_rd b" bs r] r assms show ?thesis
      by (auto simp: k left_def final_def)
  next
    case (Some x)
    with ended [OF n, of "br_rd b" bs x r] r assms show ?thesis
      by (auto simp: k left_def final_def)
  qed
  then show "left (fill_tries max_empty_reads read b) = left b"
    and "final (fill_tries max_empty_reads read b) = final b" by simp_all
qed

text \<open>One slice: a line, the rest at the end, or a full buffer of a longer line.\<close>

lemma read_slice_cases:
  "(\<exists>l b'. read_slice read b = ((l @ [newline], None), b') \<and> newline \<notin> set l \<and>
      left b = l @ newline # left b' \<and> final b' = final b) \<or>
   (\<exists>b'. read_slice read b = ((left b, Some (final b)), b') \<and> newline \<notin> set (left b)) \<or>
   (\<exists>chunk b'. read_slice read b = ((chunk, Some (ESentinel BufioErrBufferFull)), b') \<and>
      newline \<notin> set chunk \<and> chunk \<noteq> [] \<and> left b = chunk @ left b' \<and> final b' = final b)"
proof -
  have "rd = read \<Longrightarrow> ?thesis" for rd
  proof (induction rd b rule: read_slice.induct)
    case (1 rd b)
    then have rd: "rd = read" by simp
    show ?case
    proof (cases "newline \<in> set (br_buf b)")
      case True
      let ?l = "takeWhile (\<lambda>c. c \<noteq> newline) (br_buf b)"
      have "dropWhile (\<lambda>c. c \<noteq> newline) (br_buf b) \<noteq> []" using True by auto
      then have "br_buf b = ?l @ newline # tl (dropWhile (\<lambda>c. c \<noteq> newline) (br_buf b))"
        by (metis (mono_tags, lifting) hd_Cons_tl hd_dropWhile takeWhile_dropWhile_id)
      moreover have "newline \<notin> set ?l" by (auto dest: set_takeWhileD)
      ultimately show ?thesis
        using True by (intro disjI1) (subst read_slice.simps, auto simp: left_def final_def split: option.split)
    next
      case nl: False
      show ?thesis
      proof (cases "br_err b")
        case (Some e)
        with nl show ?thesis
          by (intro disjI2 disjI1) (subst read_slice.simps, auto simp: left_def final_def)
      next
        case None
        show ?thesis
        proof (cases "length (br_buf b) \<ge> buf_size")
          case True
          then have "br_buf b \<noteq> []" by (auto simp: buf_size_def)
          with True nl None show ?thesis
            by (intro disjI2) (subst read_slice.simps, auto simp: left_def final_def)
        next
          case False
          then have "read_slice read b = read_slice read (fill_tries max_empty_reads read b)"
            using nl None by (subst read_slice.simps) simp
          then show ?thesis
            using "1.IH" [OF nl None False rd] fill_once [of b] False None by (simp add: rd)
        qed
      qed
    qed
  qed
  then show ?thesis by blast
qed

text \<open>
  The loop yields the items of what is pending and what is left, in order, until the consumer
  stops it, and it always ends.
\<close>

lemma lines_loop_items:
  assumes "\<not> err_is (final b) BufioErrBufferFull" and "newline \<notin> set pending"
  shows "\<exists>r'. lines_loop read yields c pending b =
    Some (snd (feed yields c (line_items (pending @ left b) (final b))), r')"
  using assms
proof (induction "length (left b)" arbitrary: b c pending rule: less_induct)
  case less
  note full = less.prems(1) and pend = less.prems(2)
  consider (line) l b' where "read_slice read b = ((l @ [newline], None), b')" "newline \<notin> set l"
      "left b = l @ newline # left b'" "final b' = final b"
    | (rest) b' where "read_slice read b = ((left b, Some (final b)), b')" "newline \<notin> set (left b)"
    | (full) chunk b' where "read_slice read b = ((chunk, Some (ESentinel BufioErrBufferFull)), b')"
      "newline \<notin> set chunk" "chunk \<noteq> []" "left b = chunk @ left b'" "final b' = final b"
    using read_slice_cases [of b] by blast
  then show ?case
  proof cases
    case line
    have t: "trim_suffix (pending @ l @ [newline]) [newline] = pending @ l"
      using trim_suffix_append [of "pending @ l" "[newline]"] by simp
    have i: "line_items (pending @ left b) (final b) =
        (if blank (pending @ l) then [] else [Inr (pending @ l)]) @ line_items (left b') (final b)"
      using line_items_line [of "pending @ l" "left b'" "final b"] pend line(2,3) by simp
    have IH: "\<exists>r'. lines_loop read yields c' [] b' =
        Some (snd (feed yields c' (line_items (left b') (final b))), r')" for c'
      using less.hyps [of b' "[]" c'] full line(3,4) by simp
    show ?thesis
    proof (cases "blank (pending @ l)")
      case True
      then show ?thesis
        using IH [of c] by (subst lines_loop.simps) (simp add: line(1) t i)
    next
      case False
      obtain go c' where y: "yields c (Inr (pending @ l)) = (go, c')" by fastforce
      show ?thesis
        using IH [of c'] False y by (cases go) (subst lines_loop.simps, simp add: line(1) t i)+
    qed
  next
    case rest
    have "newline \<notin> set (pending @ left b)" using pend rest(2) by simp
    note i = line_items_rest [OF this, of "final b"]
    have t: "trim_suffix (pending @ left b) [newline] = pending @ left b"
    proof -
      have "\<not> has_prefix (rev (pending @ left b)) [newline]"
      proof
        assume "has_prefix (rev (pending @ left b)) [newline]"
        then obtain t where "rev (pending @ left b) = newline # t" by (auto simp: has_prefix_iff)
        then have "newline \<in> set (rev (pending @ left b))" by simp
        with \<open>newline \<notin> set (pending @ left b)\<close> show False unfolding set_rev by contradiction
      qed
      then show ?thesis by (simp add: trim_suffix_def)
    qed
    show ?thesis
      using full by (subst lines_loop.simps) (auto simp: rest(1) t i split: prod.split)
  next
    case full
    then have "length (left b') < length (left b)" by simp
    from less.hyps [OF this, of "pending @ chunk" c] full less.prems show ?thesis
      by (subst lines_loop.simps) simp
  qed
qed

lemma lines_items:
  assumes "\<not> err_is (terminal r) BufioErrBufferFull"
  shows "\<exists>r'. lines read yields c r = Some (snd (feed yields c (line_items (content r) (terminal r))), r')"
  using lines_loop_items [of "\<lparr>br_buf = [], br_err = None, br_rd = r\<rparr>" "[]" yields c] assms
  by (simp add: lines_def left_def final_def)

end

section \<open>The body of a response\<close>

text \<open>
  The body as the transport delivers it: the bytes still to come, the sizes of the next reads (as
  large as asked for when there are none), whether the last bytes come together with the end, and
  the error at the end, which is \<open>io.EOF\<close> for a body that is complete.
\<close>

record body =
  bd_rest :: bytes
  bd_sizes :: "nat list"
  bd_joined :: bool
  bd_end :: go_error

definition body_read :: "body read_fn" where
  "body_read n b =
     (if bd_rest b = [] then (([], Some (bd_end b)), b)
      else let k = max 1 (min n (case bd_sizes b of [] \<Rightarrow> n | m # ms \<Rightarrow> m));
               rest = drop k (bd_rest b)
           in ((take k (bd_rest b), if bd_joined b \<and> rest = [] then Some (bd_end b) else None),
               b\<lparr>bd_rest := rest, bd_sizes := tl (bd_sizes b)\<rparr>))"

interpretation body: byte_reader body_read bd_rest bd_end
proof unfold_locales
  fix n b bs b'
  assume "0 < (n :: nat)" and "body_read n b = ((bs, None), b')"
  then show "bs \<noteq> [] \<and> length bs \<le> n \<and> bd_rest b = bs @ bd_rest b' \<and> bd_end b' = bd_end b"
    by (auto simp: body_read_def Let_def split: if_splits)
next
  fix n b bs e b'
  assume "0 < (n :: nat)" and "body_read n b = ((bs, Some e), b')"
  then show "bd_rest b = bs \<and> bd_end b = e"
    by (auto simp: body_read_def Let_def split: if_splits)
qed

definition resp_body_reader :: "http_resp \<Rightarrow> nat list \<Rightarrow> bool \<Rightarrow> body" where
  "resp_body_reader resp sizes joined =
     \<lparr>bd_rest = resp_body resp, bd_sizes = sizes, bd_joined = joined,
      bd_end = (case resp_read_err resp of None \<Rightarrow> ESentinel IoEOF | Some e \<Rightarrow> e)\<rparr>"

text \<open>
  C7: whatever pieces the transport cuts a body into, longer or shorter than the buffer, \<open>Lines\<close>
  ends and has yielded to its consumer exactly the non-blank lines of the body in order, an
  unterminated rest only if the body ended cleanly, and the read error in its place otherwise; a
  consumer that stops sees nothing more.
\<close>

theorem lines_any_chunking:
  assumes "\<not> err_is (bd_end b) BufioErrBufferFull"
  shows "\<exists>b'. lines body_read yields c b = Some (snd (feed yields c (line_items (bd_rest b) (bd_end b))), b')"
  using body.lines_items [OF assms] .

theorem lines_any_chunking_witness:
  "\<exists>b'. lines body_read (taking 2) []
     \<lparr>bd_rest = ''a'' @ [newline, newline] @ ''bc'' @ [newline] @ ''d'', bd_sizes = [1, 2], bd_joined = True,
      bd_end = ESentinel IoErrClosedPipe\<rparr> = Some ([Inr ''a'', Inr ''bc''], b')"
proof -
  let ?b = "\<lparr>bd_rest = ''a'' @ [newline, newline] @ ''bc'' @ [newline] @ ''d'', bd_sizes = [1, 2],
     bd_joined = True, bd_end = ESentinel IoErrClosedPipe\<rparr>"
  have "blank []" "\<not> blank ''a''" "\<not> blank ''bc''" by code_simp+
  then have "line_items (bd_rest ?b) (bd_end ?b) = [Inr ''a'', Inr ''bc'', Inl (ESentinel IoErrClosedPipe)]"
    by (simp add: line_items_def newline_def)
  then show ?thesis
    using lines_any_chunking [of ?b "taking 2" "[]"] by (simp add: taking_def)
qed

text \<open>The lines of a written document: terminated, without newlines of their own, none blank.\<close>

definition unlines :: "bytes list \<Rightarrow> bytes" where
  "unlines ls = concat (map (\<lambda>l. l @ [newline]) ls)"

lemma line_items_unlines:
  "list_all (\<lambda>l. newline \<notin> set l \<and> \<not> blank l) ls \<Longrightarrow>
     line_items (unlines ls @ s) e = map Inr ls @ line_items s e"
  by (induction ls) (simp_all add: unlines_def line_items_line)

end
