(* ===== verification/Go_Values.thy ===== *)
theory Go_Values
  imports Json_Decode
begin

text \<open>
  The \<open>any\<close> values a caller passes for parameters and properties, and what \<open>json.Marshal\<close> makes
  of them. A float carries the text the encoder prints for it; \<open>GBad\<close> is a value the encoder
  refuses (a channel, a function, NaN, a failing marshaler).
\<close>

datatype goval =
    GNil
  | GBool bool
  | GInt int
  | GFloat bytes
  | GStr bytes
  | GList "goval list"
  | GMap "(bytes \<times> goval) list"
  | GBad

type_synonym gomap = "(bytes \<times> goval) list"

text \<open>Maps are written with their keys in byte order.\<close>

fun json_of_goval :: "goval \<Rightarrow> json option" where
  "json_of_goval GNil = Some JNull"
| "json_of_goval (GBool b) = Some (JBool b)"
| "json_of_goval (GInt i) = Some (JNum (dec_of_int i))"
| "json_of_goval (GFloat l) = Some (JNum l)"
| "json_of_goval (GStr s) = Some (JStr s)"
| "json_of_goval (GList vs) = map_option JArr (all_some (map json_of_goval vs))"
| "json_of_goval (GMap kvs) =
     map_option (\<lambda>js. JObj (sort_key fst (zip (map fst kvs) js))) (all_some (map (\<lambda>(k, v). json_of_goval v) kvs))"
| "json_of_goval GBad = None"

text \<open>\<open>json.Marshal\<close> of a value (HTML characters escaped), and of a map that may be nil.\<close>

definition marshal :: "goval \<Rightarrow> bytes option" where
  "marshal v = map_option (encode True) (json_of_goval v)"

definition goval_of_map :: "gomap option \<Rightarrow> goval" where
  "goval_of_map m = (case m of None \<Rightarrow> GNil | Some kvs \<Rightarrow> GMap kvs)"

text \<open>The keys of a Go map are distinct; the values the encoder prints as numbers are numbers.\<close>

fun goval_ok :: "goval \<Rightarrow> bool" where
  "goval_ok (GFloat l) = (scan_num l = Some l)"
| "goval_ok (GList vs) = list_all goval_ok vs"
| "goval_ok (GMap kvs) = (distinct (map fst kvs) \<and> list_all (\<lambda>(k, v). goval_ok v) kvs)"
| "goval_ok _ = True"

lemma all_some_map_Some [simp]: "all_some (map Some ys) = Some ys"
  by (induction ys) auto

lemma all_some_SomeD: "all_some xs = Some ys \<Longrightarrow> xs = map Some ys"
  by (induction xs arbitrary: ys) (auto split: option.splits)

lemma all_some_Some_iff: "all_some xs = Some ys \<longleftrightarrow> xs = map Some ys"
  using all_some_SomeD by auto

lemma nums_ok_of_goval: "goval_ok v \<Longrightarrow> json_of_goval v = Some j \<Longrightarrow> nums_ok j"
proof (induction v arbitrary: j)
  case (GList vs)
  then obtain js where js: "map json_of_goval vs = map Some js" "j = JArr js"
    by (auto simp: all_some_Some_iff)
  have "nums_ok x" if "x \<in> set js" for x
  proof -
    from that obtain i where i: "i < length js" "js ! i = x" by (auto simp: in_set_conv_nth)
    moreover have len: "length vs = length js" using js(1) map_eq_imp_length_eq by blast
    ultimately have "json_of_goval (vs ! i) = Some x" using arg_cong [OF js(1), of "\<lambda>l. l ! i"] by simp
    moreover have "vs ! i \<in> set vs" using i len by simp
    ultimately show ?thesis using GList by (auto simp: list_all_iff)
  qed
  with js show ?case by (simp add: list_all_iff)
next
  case (GMap kvs)
  then obtain js where js: "map (\<lambda>(k, v). json_of_goval v) kvs = map Some js"
    "j = JObj (sort_key fst (zip (map fst kvs) js))"
    by (auto simp: all_some_Some_iff)
  have len: "length kvs = length js" using js(1) map_eq_imp_length_eq by blast
  have "nums_ok x" if "x \<in> set js" for x
  proof -
    from that obtain i where i: "i < length js" "js ! i = x" by (auto simp: in_set_conv_nth)
    then have "json_of_goval (snd (kvs ! i)) = Some x"
      using arg_cong [OF js(1), of "\<lambda>l. l ! i"] len by (simp add: case_prod_beta)
    moreover have m: "kvs ! i \<in> set kvs" using i len by simp
    moreover have "snd (kvs ! i) \<in> Basic_BNFs.snds (kvs ! i)" by (simp add: snds.simps)
    ultimately show ?thesis using GMap.IH [OF m] GMap.prems(1) by (auto simp: list_all_iff case_prod_beta)
  qed
  moreover have "snd ` set (zip (map fst kvs) js) \<subseteq> set js" by (auto dest: set_zip_rightD)
  ultimately show ?case using js(2) by (auto simp: list_all_iff dest: set_zip_rightD)
qed (auto simp: scan_num_dec_of_int)

text \<open>What the receiver parses is the value, strings coerced to valid UTF-8.\<close>

lemma marshal_parses:
  assumes "goval_ok v" and "marshal v = Some s"
  shows "\<exists>j. json_of_goval v = Some j \<and> json_parse s = Some (coerce_json j)"
  using assms nums_ok_of_goval json_parse_encode by (auto simp: marshal_def)

end
