(* ===== verification/Batch_Rows.thy ===== *)
theory Batch_Rows
  imports Ndjson Go_Values
begin

text \<open>
  \<open>go/arcadedb/internal/batchrows\<close>: vertices and edges as lines of the GraphBatch format. A row
  sequence is the list of its rows, a property map the list of its entries (keys distinct), and a
  writer is a function of its state that may fail.
\<close>

section \<open>Rows and lines\<close>

record vertex =
  vx_type :: bytes
  vx_id :: bytes
  vx_props :: gomap

record edge =
  ed_type :: bytes
  ed_from :: bytes
  ed_to :: bytes
  ed_props :: gomap

definition control_keys :: "bytes list" where
  "control_keys = [''@type'', ''@class'', ''@id'', ''@from'', ''@to'']"

definition row_message :: "bytes \<Rightarrow> nat \<Rightarrow> bytes \<Rightarrow> bytes" where
  "row_message kind i k = ''arcadedb: '' @ kind @ '' '' @ dec_of_nat i @ '': '' @ k"

text \<open>\<open>encoder.value\<close>: HTML characters are not escaped.\<close>

definition encode_value :: "goval \<Rightarrow> bytes option" where
  "encode_value v = map_option (encode False) (json_of_goval v)"

definition control_text :: "(bytes \<times> bytes) list \<Rightarrow> bytes" where
  "control_text cs = join '','' (map (\<lambda>(k, v). quote False k @ '':'' @ quote False v) cs)"

text \<open>The properties in key order, or the first that does not encode.\<close>

fun props_text :: "gomap \<Rightarrow> bytes + bytes" where
  "props_text [] = Inr []"
| "props_text ((k, v) # kvs) =
     (case encode_value v of
        None \<Rightarrow> Inl k
      | Some t \<Rightarrow> bind_res (props_text kvs) (\<lambda>r. Inr ('','' @ quote False k @ '':'' @ t @ r)))"

definition row_line :: "bytes \<Rightarrow> nat \<Rightarrow> (bytes \<times> bytes) list \<Rightarrow> gomap \<Rightarrow> go_error + bytes" where
  "row_line kind i control props =
     (case find (\<lambda>(k, v). k \<in> set control_keys) props of
        Some (k, v) \<Rightarrow> Inl (EWrap (row_message kind i k) (ESentinel ErrPropertyShadowsControlKey))
      | None \<Rightarrow>
          (case props_text (sort_key fst props) of
             Inl k \<Rightarrow> Inl (EWrap (row_message kind i (''property '' @ k)) (EPlain ''json''))
           | Inr t \<Rightarrow> Inr (''{'' @ control_text control @ t @ ''}'' @ [newline])))"

definition vertex_control :: "vertex \<Rightarrow> (bytes \<times> bytes) list" where
  "vertex_control v = [(''@type'', ''vertex''), (''@class'', vx_type v)]
     @ (if vx_id v \<noteq> [] then [(''@id'', vx_id v)] else [])"

definition edge_control :: "edge \<Rightarrow> (bytes \<times> bytes) list" where
  "edge_control e = [(''@type'', ''edge''), (''@class'', ed_type e), (''@from'', ed_from e), (''@to'', ed_to e)]"

section \<open>Writing\<close>

type_synonym 'w writer = "bytes \<Rightarrow> 'w \<Rightarrow> go_error option \<times> 'w"

text \<open>\<open>encoder.line\<close>: encoded in full, then written at once.\<close>

definition write_line ::
  "'w writer \<Rightarrow> bytes \<Rightarrow> nat \<Rightarrow> (bytes \<times> bytes) list \<Rightarrow> gomap \<Rightarrow> 'w \<Rightarrow> go_error option \<times> 'w" where
  "write_line wr kind i control props w =
     (case row_line kind i control props of Inl e \<Rightarrow> (Some e, w) | Inr t \<Rightarrow> wr t w)"

fun write_vertices :: "'w writer \<Rightarrow> nat \<Rightarrow> vertex list \<Rightarrow> 'w \<Rightarrow> go_error option \<times> 'w" where
  "write_vertices wr i [] w = (None, w)"
| "write_vertices wr i (v # vs) w =
     (case write_line wr ''vertex'' i (vertex_control v) (vx_props v) w of
        (Some e, w') \<Rightarrow> (Some e, w')
      | (None, w') \<Rightarrow> write_vertices wr (Suc i) vs w')"

fun write_edges :: "'w writer \<Rightarrow> nat \<Rightarrow> edge list \<Rightarrow> 'w \<Rightarrow> go_error option \<times> 'w" where
  "write_edges wr i [] w = (None, w)"
| "write_edges wr i (e # es) w =
     (case write_line wr ''edge'' i (edge_control e) (ed_props e) w of
        (Some x, w') \<Rightarrow> (Some x, w')
      | (None, w') \<Rightarrow> write_edges wr (Suc i) es w')"

definition batch_write :: "'w writer \<Rightarrow> vertex list \<Rightarrow> edge list \<Rightarrow> 'w \<Rightarrow> go_error option \<times> 'w" where
  "batch_write wr vs es w =
     (case write_vertices wr 0 vs w of
        (Some e, w') \<Rightarrow> (Some e, w')
      | (None, w') \<Rightarrow> write_edges wr 0 es w')"

section \<open>The lines of a load\<close>

text \<open>The lines a load consists of, rows that fail included, vertices first.\<close>

definition load_lines :: "vertex list \<Rightarrow> edge list \<Rightarrow> (go_error + bytes) list" where
  "load_lines vs es =
     map (\<lambda>(i, v). row_line ''vertex'' i (vertex_control v) (vx_props v)) (enumerate 0 vs) @
     map (\<lambda>(i, e). row_line ''edge'' i (edge_control e) (ed_props e)) (enumerate 0 es)"

text \<open>Handing lines to a writer, up to the first that failed to encode or to be written.\<close>

fun write_lines :: "'w writer \<Rightarrow> (go_error + bytes) list \<Rightarrow> 'w \<Rightarrow> go_error option \<times> 'w" where
  "write_lines wr [] w = (None, w)"
| "write_lines wr (Inl e # ls) w = (Some e, w)"
| "write_lines wr (Inr t # ls) w =
     (case wr t w of (Some e, w') \<Rightarrow> (Some e, w') | (None, w') \<Rightarrow> write_lines wr ls w')"

lemma write_lines_append:
  "write_lines wr (ls @ ms) w =
     (case write_lines wr ls w of (Some e, w') \<Rightarrow> (Some e, w') | (None, w') \<Rightarrow> write_lines wr ms w')"
  by (induction wr ls w rule: write_lines.induct) (auto split: prod.splits option.splits)

lemma write_vertices_lines:
  "write_vertices wr i vs w =
     write_lines wr (map (\<lambda>(i, v). row_line ''vertex'' i (vertex_control v) (vx_props v)) (enumerate i vs)) w"
proof (induction vs arbitrary: i w)
  case (Cons v vs)
  then show ?case
    by (cases "row_line ''vertex'' i (vertex_control v) (vx_props v)")
      (auto simp: write_line_def split: prod.splits option.splits)
qed simp

lemma write_edges_lines:
  "write_edges wr i es w =
     write_lines wr (map (\<lambda>(i, e). row_line ''edge'' i (edge_control e) (ed_props e)) (enumerate i es)) w"
proof (induction es arbitrary: i w)
  case (Cons e es)
  then show ?case
    by (cases "row_line ''edge'' i (edge_control e) (ed_props e)")
      (auto simp: write_line_def split: prod.splits option.splits)
qed simp

lemma batch_write_lines: "batch_write wr vs es w = write_lines wr (load_lines vs es) w"
  by (auto simp: batch_write_def load_lines_def write_lines_append write_vertices_lines write_edges_lines
      split: prod.split option.split)

text \<open>A writer that takes everything: what reaches it is a prefix of whole lines.\<close>

definition sink :: "bytes writer" where
  "sink t out = (None, out @ t)"

fun good_prefix :: "(go_error + bytes) list \<Rightarrow> bytes list" where
  "good_prefix (Inr t # ls) = t # good_prefix ls"
| "good_prefix _ = []"

fun first_error :: "(go_error + bytes) list \<Rightarrow> go_error option" where
  "first_error [] = None"
| "first_error (Inl e # ls) = Some e"
| "first_error (Inr t # ls) = first_error ls"

lemma write_lines_sink: "write_lines sink ls out = (first_error ls, out @ concat (good_prefix ls))"
  by (induction ls arbitrary: out rule: first_error.induct) (simp_all add: sink_def)

lemma shadowed_row:
  assumes "k \<in> fst ` set props" and "k \<in> set control_keys"
  shows "\<exists>e. row_line kind i control props = Inl e \<and> err_is e ErrPropertyShadowsControlKey"
proof (cases "find (\<lambda>(k, v). k \<in> set control_keys) props")
  case None
  with assms show ?thesis by (auto simp: find_None_iff)
next
  case (Some kv)
  then show ?thesis by (cases kv) (simp add: row_line_def)
qed

text \<open>
  A load writes whole lines only, those of the rows before the first one that fails, vertices
  before edges, and reports that failure. A row with a property named like a control key is such a
  failure, recognised by \<open>errors.Is\<close>, and none of it is written.
\<close>

theorem batch_write_prefix:
  "batch_write sink vs es out = (first_error (load_lines vs es), out @ concat (good_prefix (load_lines vs es))) \<and>
   (\<forall>v. k \<in> set control_keys \<and> k \<in> fst ` set (vx_props v) \<longrightarrow>
     (\<exists>e. batch_write sink (v # vs) es out = (Some e, out) \<and> err_is e ErrPropertyShadowsControlKey))"
proof -
  have "\<exists>e. batch_write sink (v # vs) es out = (Some e, out) \<and> err_is e ErrPropertyShadowsControlKey"
    if k: "k \<in> set control_keys" "k \<in> fst ` set (vx_props v)" for v
    using shadowed_row [OF k(2,1), of "''vertex''" 0 "vertex_control v"]
    by (auto simp: batch_write_lines write_lines_sink load_lines_def)
  then show ?thesis by (simp add: batch_write_lines write_lines_sink)
qed

theorem batch_write_prefix_witness:
  "\<exists>e. batch_write sink [\<lparr>vx_type = ''P'', vx_id = [], vx_props = [(''@id'', GInt 1)]\<rparr>] [] [] = (Some e, []) \<and>
     err_is e ErrPropertyShadowsControlKey"
proof -
  have "''@id'' \<in> set control_keys" by (simp add: control_keys_def)
  then show ?thesis
    using conjunct2 [OF batch_write_prefix [of "[]" "[]" "[]" "''@id''"]]
    by (metis (no_types, lifting) fst_conv image_eqI list.set_intros(1) vertex.select_convs(3))
qed

section \<open>What the server reads\<close>

definition row_doc :: "(bytes \<times> bytes) list \<Rightarrow> gomap \<Rightarrow> json option" where
  "row_doc control props =
     map_option (\<lambda>js. JObj (map (\<lambda>(k, s). (k, JStr s)) control @ zip (map fst (sort_key fst props)) js))
       (all_some (map (\<lambda>p. json_of_goval (snd p)) (sort_key fst props)))"

lemma join_cons: "join sep (x # xs) = x @ concat (map (\<lambda>y. sep @ y) xs)"
  by (induction xs arbitrary: x) simp_all

lemma props_text_encode:
  "map (\<lambda>p. json_of_goval (snd p)) kvs = map Some js \<Longrightarrow>
     props_text kvs = Inr (concat (map (\<lambda>p. '','' @ quote False (fst p) @ '':'' @ encode False (snd p)) (zip (map fst kvs) js)))"
proof (induction kvs arbitrary: js)
  case (Cons kv kvs)
  then obtain j js' where "js = j # js'" "json_of_goval (snd kv) = Some j" "map (\<lambda>p. json_of_goval (snd p)) kvs = map Some js'"
    by (cases js) auto
  with Cons.IH show ?case by (cases kv) (simp add: encode_value_def)
qed simp

lemma row_line_doc:
  assumes "control \<noteq> []" and "row_doc control props = Some d" and "fst ` set props \<inter> set control_keys = {}"
  shows "row_line kind i control props = Inr (encode False d @ [newline])"
proof -
  obtain js where js: "map (\<lambda>p. json_of_goval (snd p)) (sort_key fst props) = map Some js"
    and d: "d = JObj (map (\<lambda>(k, s). (k, JStr s)) control @ zip (map fst (sort_key fst props)) js)"
    using assms(2) by (auto simp: row_doc_def all_some_Some_iff)
  obtain c cs where c: "control = c # cs" using assms(1) by (cases control) auto
  have "find (\<lambda>(k, v). k \<in> set control_keys) props = None"
    using assms(3) by (auto simp: find_None_iff)
  then show ?thesis
    by (simp add: row_line_def props_text_encode [OF js] d c control_text_def join_cons case_prod_beta comp_def)
qed

definition row_accepted :: "(bytes \<times> bytes) list \<Rightarrow> gomap \<Rightarrow> bool" where
  "row_accepted control props \<longleftrightarrow> fst ` set props \<inter> set control_keys = {} \<and>
     goval_ok (GMap props) \<and> row_doc control props \<noteq> None"

lemma row_doc_nums: "goval_ok (GMap props) \<Longrightarrow> row_doc control props = Some d \<Longrightarrow> nums_ok d"
proof -
  assume ok: "goval_ok (GMap props)" and doc: "row_doc control props = Some d"
  then obtain js where js: "map (\<lambda>p. json_of_goval (snd p)) (sort_key fst props) = map Some js"
    and d: "d = JObj (map (\<lambda>(k, s). (k, JStr s)) control @ zip (map fst (sort_key fst props)) js)"
    by (auto simp: row_doc_def all_some_Some_iff)
  have "nums_ok j" if "j \<in> set js" for j
  proof -
    have "Some j \<in> set (map (\<lambda>p. json_of_goval (snd p)) (sort_key fst props))" using that js by simp
    then obtain kv where "kv \<in> set props" "json_of_goval (snd kv) = Some j" by auto
    then show ?thesis using ok nums_ok_of_goval by (auto simp: list_all_iff)
  qed
  then show "nums_ok d" by (auto simp: d list_all_iff dest: set_zip_rightD)
qed

lemma accepted_line:
  assumes "control \<noteq> []" and "row_accepted control props"
  obtains d where "row_doc control props = Some d" "row_line kind i control props = Inr (encode False d @ [newline])"
    "json_parse (encode False d) = Some (coerce_json d)" "newline \<notin> set (encode False d)" "\<not> blank (encode False d)"
proof -
  obtain d where d: "row_doc control props = Some d" using assms by (auto simp: row_accepted_def)
  have "nums_ok d" using row_doc_nums assms d by (auto simp: row_accepted_def)
  moreover obtain kvs where "d = JObj kvs" using d by (auto simp: row_doc_def)
  ultimately show thesis
    using that [OF d] row_line_doc [OF assms(1) d] assms(2) json_parse_encode
      printable_no_newline [OF printable_encode] object_not_blank
    by (metis blank_def insert_iff newline_def row_accepted_def)
qed

definition row_text :: "(bytes \<times> bytes) list \<Rightarrow> gomap \<Rightarrow> bytes" where
  "row_text control props = (case row_doc control props of None \<Rightarrow> [] | Some d \<Rightarrow> encode False d)"

lemma accepted_text:
  assumes "control \<noteq> []" and "row_accepted control props"
  shows "row_line kind i control props = Inr (row_text control props @ [newline])"
    and "json_parse (row_text control props) = map_option coerce_json (row_doc control props)"
    and "newline \<notin> set (row_text control props) \<and> \<not> blank (row_text control props)"
  by (rule accepted_line [OF assms, of kind i]; simp add: row_text_def)+

lemma map_enumerate: "map (\<lambda>(i, x). f x) (enumerate n xs) = map f xs"
  by (induction xs arbitrary: n) auto

lemma all_lines_good:
  "first_error (map (\<lambda>t. Inr (t @ [newline])) ts) = None"
  "concat (good_prefix (map (\<lambda>t. Inr (t @ [newline])) ts)) = unlines ts"
  by (induction ts) (simp_all add: unlines_def)

definition load_texts :: "vertex list \<Rightarrow> edge list \<Rightarrow> bytes list" where
  "load_texts vs es = map (\<lambda>v. row_text (vertex_control v) (vx_props v)) vs
     @ map (\<lambda>e. row_text (edge_control e) (ed_props e)) es"

definition load_accepted :: "vertex list \<Rightarrow> edge list \<Rightarrow> bool" where
  "load_accepted vs es \<longleftrightarrow> list_all (\<lambda>v. row_accepted (vertex_control v) (vx_props v)) vs \<and>
     list_all (\<lambda>e. row_accepted (edge_control e) (ed_props e)) es"

lemma load_lines_texts:
  assumes "load_accepted vs es"
  shows "load_lines vs es = map (\<lambda>t. Inr (t @ [newline])) (load_texts vs es)"
proof -
  have v: "row_line ''vertex'' i (vertex_control v) (vx_props v) = Inr (row_text (vertex_control v) (vx_props v) @ [newline])"
    if "v \<in> set vs" for i v
    using assms that by (intro accepted_text) (auto simp: load_accepted_def list_all_iff vertex_control_def)
  have e: "row_line ''edge'' i (edge_control x) (ed_props x) = Inr (row_text (edge_control x) (ed_props x) @ [newline])"
    if "x \<in> set es" for i x
    using assms that by (intro accepted_text) (auto simp: load_accepted_def list_all_iff edge_control_def)
  have "map (\<lambda>(i, v). row_line ''vertex'' i (vertex_control v) (vx_props v)) (enumerate 0 vs) =
      map (\<lambda>(i, v). Inr (row_text (vertex_control v) (vx_props v) @ [newline])) (enumerate 0 vs)"
    using v by (auto simp: in_set_enumerate_eq)
  moreover have "map (\<lambda>(i, x). row_line ''edge'' i (edge_control x) (ed_props x)) (enumerate 0 es) =
      map (\<lambda>(i, x). Inr (row_text (edge_control x) (ed_props x) @ [newline])) (enumerate 0 es)"
    using e by (auto simp: in_set_enumerate_eq)
  ultimately show ?thesis
    by (simp add: load_lines_def load_texts_def map_enumerate comp_def)
qed

text \<open>
  C15: a load all of whose rows are acceptable is written without error as one line per row, every
  vertex before any edge, and a reader of the lines gets back each row: its control keys, then its
  properties flattened beside them in key order, whatever the type names, ids and values are.
\<close>

theorem batch_roundtrip:
  assumes "load_accepted vs es"
  shows "\<exists>out ls. batch_write sink vs es [] = (None, out) \<and> line_items out (ESentinel IoEOF) = map Inr ls \<and>
    map json_parse ls =
      map (\<lambda>v. map_option coerce_json (row_doc (vertex_control v) (vx_props v))) vs @
      map (\<lambda>e. map_option coerce_json (row_doc (edge_control e) (ed_props e))) es"
proof -
  let ?ls = "load_texts vs es"
  have out: "batch_write sink vs es [] = (None, unlines ?ls)"
    using load_lines_texts [OF assms] all_lines_good [of ?ls] by (simp add: batch_write_lines write_lines_sink)
  have acc: "json_parse t = map_option coerce_json (row_doc control props) \<and> newline \<notin> set t \<and> \<not> blank t"
    if "t = row_text control props" "control \<noteq> []" "row_accepted control props" for t control props
    using accepted_text(2,3) [OF that(2,3)] that(1) by simp
  have c: "vertex_control v \<noteq> []" "edge_control x \<noteq> []" for v x
    by (simp_all add: vertex_control_def edge_control_def)
  have "list_all (\<lambda>l. newline \<notin> set l \<and> \<not> blank l) ?ls"
    using acc [OF refl] c assms by (auto simp: load_texts_def load_accepted_def list_all_iff)
  from line_items_unlines [OF this, of "[]"] have "line_items (unlines ?ls) (ESentinel IoEOF) = map Inr ?ls"
    by (simp add: line_items_rest)
  moreover have "map json_parse ?ls =
      map (\<lambda>v. map_option coerce_json (row_doc (vertex_control v) (vx_props v))) vs @
      map (\<lambda>e. map_option coerce_json (row_doc (edge_control e) (ed_props e))) es"
    using acc [OF refl] c assms by (auto simp: load_texts_def load_accepted_def list_all_iff)
  ultimately show ?thesis using out by blast
qed

theorem batch_roundtrip_witness:
  "\<exists>out. batch_write sink [\<lparr>vx_type = ''P'', vx_id = ''p1'', vx_props = [(''b'', GInt 2), (''a'', GBool True)]\<rparr>]
       [\<lparr>ed_type = ''K'', ed_from = ''p1'', ed_to = ''p1'', ed_props = []\<rparr>] [] = (None, out)"
proof -
  have "load_accepted [\<lparr>vx_type = ''P'', vx_id = ''p1'', vx_props = [(''b'', GInt 2), (''a'', GBool True)]\<rparr>]
      [\<lparr>ed_type = ''K'', ed_from = ''p1'', ed_to = ''p1'', ed_props = []\<rparr>]"
    by (simp add: load_accepted_def row_accepted_def row_doc_def control_keys_def)
  from batch_roundtrip [OF this] show ?thesis by blast
qed

end
