(* ===== verification/Upload_Pipe.thy ===== *)
theory Upload_Pipe
  imports Batch_Rows
begin

text \<open>
  The upload of \<open>go/arcadedb/batch.go\<close>: a goroutine that takes rows from the caller's sequences and
  writes their lines through a buffer into a pipe, the transport that reads the pipe, and the
  closing of the read side, by the transport or by \<open>stop\<close>. All interleavings are the runs of one
  step relation. A sequence may be infinite, block, panic or end its goroutine.
\<close>

section \<open>Sequences\<close>

text \<open>
  An \<open>iter.Seq\<close> as the loop over it sees it. \<open>PanicsWith None\<close> is a panic whose value recovers as
  nil.
\<close>

codatatype 'a seq =
    SeqReturns
  | SeqPanics "bytes option"
  | SeqExits
  | SeqBlocks
  | SeqYields 'a "'a seq"

fun seq_of :: "'a list \<Rightarrow> 'a seq \<Rightarrow> 'a seq" where
  "seq_of [] q = q"
| "seq_of (x # xs) q = SeqYields x (seq_of xs q)"

text \<open>The two loops of \<open>batchrows.Write\<close>, as the lines they come to write or fail to encode.\<close>

primcorec edge_lines :: "nat \<Rightarrow> edge seq \<Rightarrow> (go_error + bytes) seq" where
  "edge_lines i es = (case es of
       SeqReturns \<Rightarrow> SeqReturns
     | SeqPanics v \<Rightarrow> SeqPanics v
     | SeqExits \<Rightarrow> SeqExits
     | SeqBlocks \<Rightarrow> SeqBlocks
     | SeqYields e es' \<Rightarrow> SeqYields (row_line ''edge'' i (edge_control e) (ed_props e)) (edge_lines (Suc i) es'))"

primcorec vertex_lines :: "nat \<Rightarrow> vertex seq \<Rightarrow> edge seq \<Rightarrow> (go_error + bytes) seq" where
  "vertex_lines i vs es = (case vs of
       SeqReturns \<Rightarrow> edge_lines 0 es
     | SeqPanics v \<Rightarrow> SeqPanics v
     | SeqExits \<Rightarrow> SeqExits
     | SeqBlocks \<Rightarrow> SeqBlocks
     | SeqYields v vs' \<Rightarrow> SeqYields (row_line ''vertex'' i (vertex_control v) (vx_props v)) (vertex_lines (Suc i) vs' es))"

text \<open>A nil sequence means none.\<close>

definition row_seq :: "'a seq option \<Rightarrow> 'a seq" where
  "row_seq s = (case s of None \<Rightarrow> SeqReturns | Some q \<Rightarrow> q)"

section \<open>The buffered writer\<close>

definition upload_buffer_size :: nat where "upload_buffer_size = 65536"

text \<open>
  \<open>bufio.Writer.Write\<close>: the writes it makes to the writer below, and what it keeps. What does not
  fit fills the buffer, which is then written; with nothing buffered it is written directly.
\<close>

definition bufio_write :: "nat \<Rightarrow> bytes \<Rightarrow> bytes \<Rightarrow> bytes list \<times> bytes" where
  "bufio_write sz buf t =
     (if length t \<le> sz - length buf then ([], buf @ t)
      else if buf = [] then ([t], [])
      else let n = sz - length buf; r = drop n t
           in if length r \<le> sz then ([buf @ take n t], r) else ([buf @ take n t, r], []))"

section \<open>The states\<close>

record upload_result =
  ur_err :: "go_error option"
  ur_panic :: "bytes option"

text \<open>
  The goroutine: before it takes a row, with what is buffered; within a write to the pipe, with the
  writes to make and how it goes on (\<open>None\<close>: the final flush); ended.
\<close>

datatype writer =
    Taking "(go_error + bytes) seq" bytes
  | Sending bytes "bytes list" "((go_error + bytes) seq \<times> bytes) option"
  | Ended upload_result

text \<open>The pipe: whether its read side is closed, with what its write side is closed (nil is EOF), what was read.\<close>

record upload_state =
  us_writer :: writer
  us_read_closed :: bool
  us_write_end :: "go_error option option"
  us_wire :: bytes

definition start_upload :: "vertex seq option \<Rightarrow> edge seq option \<Rightarrow> upload_state" where
  "start_upload vs es = \<lparr>us_writer = Taking (vertex_lines 0 (row_seq vs) (row_seq es)) [],
     us_read_closed = False, us_write_end = None, us_wire = []\<rparr>"

text \<open>The normal end, with the error of \<open>Write\<close> or \<open>Flush\<close>, and the deferred function's.\<close>

definition finish_upload :: "go_error option \<Rightarrow> upload_state \<Rightarrow> upload_state" where
  "finish_upload e s = s\<lparr>us_writer := Ended \<lparr>ur_err = e, ur_panic = None\<rparr>, us_write_end := Some e\<rparr>"

definition abandon_upload :: "bytes option \<Rightarrow> upload_state \<Rightarrow> upload_state" where
  "abandon_upload v s = s\<lparr>us_writer := Ended \<lparr>ur_err = Some (ESentinel ErrUploadAbandoned), ur_panic = v\<rparr>,
     us_write_end := Some (Some (ESentinel ErrUploadAbandoned))\<rparr>"

fun send_chunks :: "bytes list \<Rightarrow> (go_error + bytes) seq \<times> bytes \<Rightarrow> writer" where
  "send_chunks [] (ls, buf) = Taking ls buf"
| "send_chunks (c # cs) nxt = Sending c cs (Some nxt)"

text \<open>
  The steps of the goroutine: a line is encoded and buffered, a row does not encode, the sequences
  return, panic or exit, a write finds the read side closed; of the transport: part of a write is
  read; and the closing of the read side.
\<close>

inductive upload_step :: "upload_state \<Rightarrow> upload_state \<Rightarrow> bool" where
  line: "us_writer s = Taking (SeqYields (Inr t) ls) buf \<Longrightarrow> bufio_write upload_buffer_size buf t = (cs, buf') \<Longrightarrow>
     upload_step s (s\<lparr>us_writer := send_chunks cs (ls, buf')\<rparr>)"
| row_fails: "us_writer s = Taking (SeqYields (Inl e) ls) buf \<Longrightarrow> upload_step s (finish_upload (Some e) s)"
| all_taken: "us_writer s = Taking SeqReturns [] \<Longrightarrow> upload_step s (finish_upload None s)"
| flush: "us_writer s = Taking SeqReturns (b # buf) \<Longrightarrow>
     upload_step s (s\<lparr>us_writer := Sending (b # buf) [] None\<rparr>)"
| panics: "us_writer s = Taking (SeqPanics v) buf \<Longrightarrow> upload_step s (abandon_upload v s)"
| exits: "us_writer s = Taking SeqExits buf \<Longrightarrow> upload_step s (abandon_upload None s)"
| broken: "us_writer s = Sending c cs nxt \<Longrightarrow> us_read_closed s \<Longrightarrow>
     upload_step s (finish_upload (Some (ESentinel IoErrClosedPipe)) s)"
| read_part: "us_writer s = Sending c cs nxt \<Longrightarrow> \<not> us_read_closed s \<Longrightarrow> 0 < n \<Longrightarrow> n < length c \<Longrightarrow>
     upload_step s (s\<lparr>us_writer := Sending (drop n c) cs nxt, us_wire := us_wire s @ take n c\<rparr>)"
| read_next: "us_writer s = Sending c cs (Some nxt) \<Longrightarrow> \<not> us_read_closed s \<Longrightarrow>
     upload_step s (s\<lparr>us_writer := send_chunks cs nxt, us_wire := us_wire s @ c\<rparr>)"
| read_last: "us_writer s = Sending c cs None \<Longrightarrow> \<not> us_read_closed s \<Longrightarrow>
     upload_step s (finish_upload None (s\<lparr>us_wire := us_wire s @ c\<rparr>))"
| close_read: "\<not> us_read_closed s \<Longrightarrow> upload_step s (s\<lparr>us_read_closed := True\<rparr>)"

inductive_cases upload_stepE: "upload_step s t"

section \<open>The invariant\<close>

lemma seq_of_append: "seq_of (xs @ ys) q = seq_of xs (seq_of ys q)"
  by (induction xs) simp_all

lemma edge_lines_simps [simp]:
  "edge_lines i SeqReturns = SeqReturns" "edge_lines i (SeqPanics v) = SeqPanics v"
  "edge_lines i SeqExits = SeqExits" "edge_lines i SeqBlocks = SeqBlocks"
  "edge_lines i (SeqYields e es) = SeqYields (row_line ''edge'' i (edge_control e) (ed_props e)) (edge_lines (Suc i) es)"
  by (simp_all add: edge_lines.code)

lemma vertex_lines_simps [simp]:
  "vertex_lines i SeqReturns es = edge_lines 0 es" "vertex_lines i (SeqPanics v) es = SeqPanics v"
  "vertex_lines i SeqExits es = SeqExits" "vertex_lines i SeqBlocks es = SeqBlocks"
  "vertex_lines i (SeqYields x vs) es = SeqYields (row_line ''vertex'' i (vertex_control x) (vx_props x)) (vertex_lines (Suc i) vs es)"
  by (subst vertex_lines.code; simp)+

lemma edge_lines_seq_of:
  "edge_lines i (seq_of es q) =
     seq_of (map (\<lambda>(i, e). row_line ''edge'' i (edge_control e) (ed_props e)) (enumerate i es)) (edge_lines (i + length es) q)"
  by (induction es arbitrary: i) simp_all

lemma vertex_lines_seq_of:
  "vertex_lines i (seq_of vs q) es =
     seq_of (map (\<lambda>(i, v). row_line ''vertex'' i (vertex_control v) (vx_props v)) (enumerate i vs)) (vertex_lines (i + length vs) q es)"
  by (induction vs arbitrary: i) simp_all

lemma lines_of_lists:
  "vertex_lines 0 (seq_of vs SeqReturns) (seq_of es SeqReturns) = seq_of (load_lines vs es) SeqReturns"
  by (simp add: load_lines_def seq_of_append vertex_lines_seq_of edge_lines_seq_of)

text \<open>Every line that comes out is at least its newline.\<close>

lemma row_line_not_Nil: "row_line kind i control props = Inr t \<Longrightarrow> t \<noteq> []"
  by (auto simp: row_line_def split: option.splits sum.splits)

lemma edge_lines_not_Nil: "edge_lines i es = seq_of ts (SeqYields (Inr t) q) \<Longrightarrow> t \<noteq> []"
proof (induction ts arbitrary: i es)
  case Nil
  then show ?case by (cases es) (auto dest: row_line_not_Nil)
next
  case (Cons x ts)
  then show ?case by (cases es) auto
qed

lemma vertex_lines_not_Nil: "vertex_lines i vs es = seq_of ts (SeqYields (Inr t) q) \<Longrightarrow> t \<noteq> []"
proof (induction ts arbitrary: i vs)
  case Nil
  then show ?case
    by (cases vs) (auto dest: row_line_not_Nil edge_lines_not_Nil [where ts = "[]", simplified])
next
  case (Cons x ts)
  then show ?case
    by (cases vs) (auto dest: edge_lines_not_Nil [where ts = "x # ts", simplified])
qed

lemma bufio_write_keeps:
  "bufio_write sz buf t = (cs, buf') \<Longrightarrow> length buf \<le> sz \<Longrightarrow> concat cs @ buf' = buf @ t \<and> length buf' \<le> sz"
  by (auto simp: bufio_write_def Let_def split: if_splits)

lemma bufio_write_grows:
  "bufio_write sz buf t = ([], buf') \<Longrightarrow> t \<noteq> [] \<Longrightarrow> length buf < length buf'"
  by (auto simp: bufio_write_def Let_def split: if_splits)

fun pending :: "writer \<Rightarrow> bytes" where
  "pending (Taking ls buf) = buf"
| "pending (Sending c cs None) = c @ concat cs"
| "pending (Sending c cs (Some (ls, buf))) = c @ concat cs @ buf"
| "pending (Ended r) = []"

fun rest_of :: "writer \<Rightarrow> (go_error + bytes) seq" where
  "rest_of (Taking ls buf) = ls"
| "rest_of (Sending c cs nxt) = (case nxt of None \<Rightarrow> SeqReturns | Some (ls, buf) \<Rightarrow> ls)"
| "rest_of (Ended r) = SeqBlocks"

fun buffered :: "writer \<Rightarrow> bytes" where
  "buffered (Taking ls buf) = buf"
| "buffered (Sending c cs (Some (ls, buf))) = buf"
| "buffered _ = []"

text \<open>
  Running: what was read and what is on its way are the lines taken so far. Ended: what was read is
  a prefix of them, the write side is closed with the error of the result, and the result says why
  the goroutine stopped where it did.
\<close>

definition running_inv :: "(go_error + bytes) seq \<Rightarrow> upload_state \<Rightarrow> bool" where
  "running_inv q s \<longleftrightarrow> us_write_end s = None \<and> length (buffered (us_writer s)) \<le> upload_buffer_size \<and>
     (\<forall>c cs. us_writer s = Sending c cs None \<longrightarrow> cs = []) \<and>
     (\<exists>ts. q = seq_of (map Inr ts) (rest_of (us_writer s)) \<and> us_wire s @ pending (us_writer s) = concat ts)"

definition ended_for :: "upload_result \<Rightarrow> (go_error + bytes) seq \<Rightarrow> upload_state \<Rightarrow> bytes \<Rightarrow> bool" where
  "ended_for r q s out \<longleftrightarrow>
     r = \<lparr>ur_err = None, ur_panic = None\<rparr> \<and> q = SeqReturns \<and> us_wire s = out \<or>
     (\<exists>e q'. r = \<lparr>ur_err = Some e, ur_panic = None\<rparr> \<and> q = SeqYields (Inl e) q') \<or>
     (\<exists>v. r = \<lparr>ur_err = Some (ESentinel ErrUploadAbandoned), ur_panic = v\<rparr> \<and> (q = SeqPanics v \<or> v = None \<and> q = SeqExits)) \<or>
     r = \<lparr>ur_err = Some (ESentinel IoErrClosedPipe), ur_panic = None\<rparr> \<and> us_read_closed s"

definition ended_inv :: "(go_error + bytes) seq \<Rightarrow> upload_result \<Rightarrow> upload_state \<Rightarrow> bool" where
  "ended_inv q r s \<longleftrightarrow> us_write_end s = Some (ur_err r) \<and>
     (\<exists>ts q' more. q = seq_of (map Inr ts) q' \<and> concat ts = us_wire s @ more \<and> ended_for r q' s (concat ts))"

definition upload_inv :: "(go_error + bytes) seq \<Rightarrow> upload_state \<Rightarrow> bool" where
  "upload_inv q s \<longleftrightarrow> (case us_writer s of Ended r \<Rightarrow> ended_inv q r s | _ \<Rightarrow> running_inv q s)"

lemma upload_inv_start: "upload_inv (vertex_lines 0 (row_seq vs) (row_seq es)) (start_upload vs es)"
  by (simp add: upload_inv_def running_inv_def start_upload_def) (rule exI [of _ "[]"], simp)

lemma pending_send_chunks [simp]: "pending (send_chunks cs (ls, buf)) = concat cs @ buf"
  by (cases cs) simp_all

lemma buffered_send_chunks [simp]: "buffered (send_chunks cs (ls, buf)) = buf"
  by (cases cs) simp_all

lemma rest_of_send_chunks [simp]: "rest_of (send_chunks cs (ls, buf)) = ls"
  by (cases cs) simp_all

lemma send_chunks_running [simp]: "send_chunks cs nxt \<noteq> Ended r" "send_chunks cs nxt \<noteq> Sending c ds None"
  by (cases nxt; cases cs; simp)+

lemma upload_inv_running: "(\<forall>r. us_writer s \<noteq> Ended r) \<Longrightarrow> upload_inv q s = running_inv q s"
  by (cases "us_writer s") (simp_all add: upload_inv_def)

lemma running_inv_finish:
  assumes "running_inv q s" and "us_writer s = w" and "\<forall>r. w \<noteq> Ended r"
    and "\<And>out more. us_wire s @ pending w = out \<Longrightarrow> out = us_wire t @ more \<Longrightarrow> ended_for r (rest_of w) t out"
    and "us_writer t = Ended r" "us_write_end t = Some (ur_err r)" "\<exists>more. us_wire s @ pending w = us_wire t @ more"
  shows "upload_inv q t"
  using assms by (auto simp: upload_inv_def running_inv_def ended_inv_def) metis

lemma ended_for_closed: "ended_for r q s out \<Longrightarrow> ended_for r q (s\<lparr>us_read_closed := True\<rparr>) out"
  by (auto simp: ended_for_def)

lemma upload_inv_step: "upload_step s t \<Longrightarrow> upload_inv q s \<Longrightarrow> upload_inv q t"
proof (induction rule: upload_step.induct)
  case (line s t ls buf cs buf')
  then obtain ts where "q = seq_of (map Inr ts) (SeqYields (Inr t) ls)" "us_wire s @ buf = concat ts"
    "length buf \<le> upload_buffer_size" "us_write_end s = None"
    by (auto simp: upload_inv_def running_inv_def)
  moreover from this(3) have "concat cs @ buf' = buf @ t" "length buf' \<le> upload_buffer_size"
    using bufio_write_keeps [OF line(2)] by auto
  ultimately have "q = seq_of (map Inr (ts @ [t])) ls \<and> us_wire s @ concat cs @ buf' = concat (ts @ [t])"
    by (simp add: seq_of_append flip: append_assoc)
  then have "\<exists>ts. q = seq_of (map Inr ts) ls \<and> us_wire s @ concat cs @ buf' = concat ts" by blast
  with \<open>length buf' \<le> _\<close> \<open>us_write_end s = None\<close> show ?case
    by (simp add: upload_inv_running running_inv_def)
next
  case (row_fails s e ls buf)
  from row_fails show ?case
    by (intro running_inv_finish [where s = s])
      (auto simp: upload_inv_running ended_for_def finish_upload_def)
next
  case (all_taken s)
  from all_taken show ?case
    by (intro running_inv_finish [where s = s])
      (auto simp: upload_inv_running ended_for_def finish_upload_def)
next
  case (flush s b buf)
  then show ?case by (auto simp: upload_inv_def running_inv_def)
next
  case (panics s v buf)
  from panics show ?case
    by (intro running_inv_finish [where s = s])
      (auto simp: upload_inv_running ended_for_def abandon_upload_def)
next
  case (exits s buf)
  from exits show ?case
    by (intro running_inv_finish [where s = s])
      (auto simp: upload_inv_running ended_for_def abandon_upload_def)
next
  case (broken s c cs nxt)
  from broken show ?case
    by (intro running_inv_finish [where s = s])
      (auto simp: upload_inv_running ended_for_def finish_upload_def)
next
  case (read_part s c cs nxt n)
  have "us_wire s @ take n c @ pending (Sending (drop n c) cs nxt) = us_wire s @ pending (Sending c cs nxt)"
    by (cases nxt) auto
  with read_part show ?case
    by (cases nxt) (auto simp: upload_inv_running running_inv_def)
next
  case (read_next s c cs nxt)
  then show ?case by (cases nxt) (auto simp: upload_inv_running running_inv_def)
next
  case (read_last s c cs)
  from read_last have "cs = []" by (auto simp: upload_inv_running running_inv_def)
  with read_last show ?case
    by (intro running_inv_finish [where s = s])
      (auto simp: upload_inv_running ended_for_def finish_upload_def)
next
  case (close_read s)
  then show ?case
    by (cases "us_writer s") (auto simp: upload_inv_def running_inv_def ended_inv_def intro: ended_for_closed)
qed

definition reachable_upload :: "vertex seq option \<Rightarrow> edge seq option \<Rightarrow> upload_state \<Rightarrow> bool" where
  "reachable_upload vs es s \<longleftrightarrow> upload_step\<^sup>*\<^sup>* (start_upload vs es) s"

lemma reachable_upload_inv:
  "reachable_upload vs es s \<Longrightarrow> upload_inv (vertex_lines 0 (row_seq vs) (row_seq es)) s"
  unfolding reachable_upload_def
  by (induction rule: rtranclp_induct) (auto intro: upload_inv_start upload_inv_step)

section \<open>The body and the synchronous writer\<close>

lemma seq_of_split:
  "seq_of (map Inr ts) q = seq_of ls SeqReturns \<Longrightarrow> \<exists>ls'. ls = map Inr ts @ ls' \<and> q = seq_of ls' SeqReturns"
proof (induction ts arbitrary: ls)
  case (Cons t ts)
  then show ?case by (cases ls) auto
qed simp

lemma good_prefix_append: "good_prefix (map Inr ts @ ls) = ts @ good_prefix ls"
  by (induction ts) simp_all

lemma first_error_append: "first_error (map Inr ts @ ls) = first_error ls"
  by (induction ts) simp_all

text \<open>What the goroutine came to, on lists of rows: the error of its first failing row, if it was not stopped.\<close>

definition upload_ends_like :: "vertex list \<Rightarrow> edge list \<Rightarrow> upload_state \<Rightarrow> upload_result \<Rightarrow> bool" where
  "upload_ends_like vs es s r \<longleftrightarrow> ur_panic r = None \<and>
     (ur_err r = fst (batch_write sink vs es []) \<or> ur_err r = Some (ESentinel IoErrClosedPipe) \<and> us_read_closed s)"

lemma upload_of_lists:
  assumes "upload_inv (seq_of (load_lines vs es) SeqReturns) s"
  shows "\<exists>more. us_wire s @ more = concat (good_prefix (load_lines vs es))"
    and "us_write_end s = Some None \<Longrightarrow>
      first_error (load_lines vs es) = None \<and> us_wire s = concat (good_prefix (load_lines vs es))"
    and "us_writer s = Ended r \<Longrightarrow> upload_ends_like vs es s r"
proof -
  let ?ls = "load_lines vs es"
  have "(\<exists>more. us_wire s @ more = concat (good_prefix ?ls)) \<and>
      (us_write_end s = Some None \<longrightarrow> first_error ?ls = None \<and> us_wire s = concat (good_prefix ?ls)) \<and>
      (us_writer s = Ended r \<longrightarrow> upload_ends_like vs es s r)"
  proof (cases "\<exists>r. us_writer s = Ended r")
    case False
    with assms have run: "running_inv (seq_of ?ls SeqReturns) s" by (simp add: upload_inv_running)
    then obtain ts where ts: "seq_of ?ls SeqReturns = seq_of (map Inr ts) (rest_of (us_writer s))"
      "us_wire s @ pending (us_writer s) = concat ts" by (auto simp: running_inv_def)
    obtain ls' where "?ls = map Inr ts @ ls'" using seq_of_split [OF ts(1) [symmetric]] by blast
    then have "us_wire s @ (pending (us_writer s) @ concat (good_prefix ls')) = concat (good_prefix ?ls)"
      using ts(2) by (simp add: good_prefix_append flip: append_assoc)
    with run False show ?thesis by (auto simp: running_inv_def)
  next
    case True
    then obtain r' where r': "us_writer s = Ended r'" by blast
    with assms obtain ts q more where ts: "seq_of ?ls SeqReturns = seq_of (map Inr ts) q"
      "concat ts = us_wire s @ more" and e: "ended_for r' q s (concat ts)" and w: "us_write_end s = Some (ur_err r')"
      by (auto simp: upload_inv_def ended_inv_def)
    obtain ls' where ls': "?ls = map Inr ts @ ls'" "q = seq_of ls' SeqReturns"
      using seq_of_split [OF ts(1) [symmetric]] by blast
    have ex: "\<exists>more. us_wire s @ more = concat (good_prefix ?ls)"
      using ts(2) ls'(1) by (auto simp: good_prefix_append)
    have "fst (batch_write sink vs es []) = first_error ls'"
      by (simp add: batch_write_lines write_lines_sink ls'(1) first_error_append)
    with e w r' ls' show ?thesis
      by (intro conjI ex; cases ls')
        (auto simp: ended_for_def upload_ends_like_def good_prefix_append good_prefix_append [where ls = "[]", simplified]
          first_error_append first_error_append [where ls = "[]", simplified])
  qed
  then show "\<exists>more. us_wire s @ more = concat (good_prefix ?ls)"
    and "us_write_end s = Some None \<Longrightarrow> first_error ?ls = None \<and> us_wire s = concat (good_prefix ?ls)"
    and "us_writer s = Ended r \<Longrightarrow> upload_ends_like vs es s r" by auto
qed

text \<open>
  C5: however the transport reads and closes the pipe, what it has read of the body is always a
  prefix of what \<open>Write\<close> would give to a writer that takes everything; the body ends, with EOF,
  only when it is all of that and no row failed; and the goroutine ends with the very error
  \<open>Write\<close> would return, or with \<open>io.ErrClosedPipe\<close> after the read side was closed.
\<close>

theorem upload_refines_write:
  assumes "reachable_upload (Some (seq_of vs SeqReturns)) (Some (seq_of es SeqReturns)) s"
  shows "(\<exists>more. us_wire s @ more = snd (batch_write sink vs es [])) \<and>
    (us_write_end s = Some None \<longrightarrow> batch_write sink vs es [] = (None, us_wire s)) \<and>
    (\<forall>r. us_writer s = Ended r \<longrightarrow> upload_ends_like vs es s r)"
proof -
  have "upload_inv (seq_of (load_lines vs es) SeqReturns) s"
    using reachable_upload_inv [OF assms] by (simp add: row_seq_def lines_of_lists)
  from upload_of_lists [OF this] show ?thesis
    by (simp add: batch_write_lines write_lines_sink)
qed

section \<open>Stopping\<close>

text \<open>What is left to do once the read side is closed: rows until the buffer overflows, and an end.\<close>

fun steps_left :: "writer \<Rightarrow> nat" where
  "steps_left (Taking ls buf) = upload_buffer_size + 2 - length buf"
| "steps_left (Sending c cs nxt) = 1"
| "steps_left (Ended r) = 0"

lemma steps_left_decreases:
  assumes "upload_step s t" and "us_read_closed s" and "upload_inv (vertex_lines 0 vs es) s"
  shows "us_read_closed t \<and> steps_left (us_writer t) < steps_left (us_writer s)"
  using assms(1)
proof cases
  case (line t' ls buf cs buf')
  with assms(3) obtain ts where ts: "vertex_lines 0 vs es = seq_of (map Inr ts) (SeqYields (Inr t') ls)"
    "length buf \<le> upload_buffer_size" by (auto simp: upload_inv_def running_inv_def)
  then have "t' \<noteq> []" using vertex_lines_not_Nil by blast
  with line ts assms(2) bufio_write_grows [of _ buf t' buf'] bufio_write_keeps [of _ buf t' cs buf'] show ?thesis
    by (cases cs) fastforce+
next
  case (flush b buf)
  with assms show ?thesis by (auto simp: upload_inv_def running_inv_def)
qed (use assms in \<open>auto simp: finish_upload_def abandon_upload_def upload_inv_def running_inv_def\<close>)

text \<open>
  C13: once the read side of the pipe is closed the goroutine makes at most as many further steps as
  the buffer has bytes, and two: it stops iterating even a sequence that never ends.
\<close>

theorem upload_stops:
  assumes "reachable_upload vs es s" and "us_read_closed s" and "(upload_step ^^ n) s t"
  shows "n \<le> upload_buffer_size + 2"
proof -
  let ?q = "vertex_lines 0 (row_seq vs) (row_seq es)"
  have "us_read_closed t \<and> upload_inv ?q t \<and> n + steps_left (us_writer t) \<le> steps_left (us_writer s)"
    using assms(3)
  proof (induction n arbitrary: t)
    case 0
    then show ?case using assms(2) reachable_upload_inv [OF assms(1)] by simp
  next
    case (Suc n)
    then obtain u where u: "(upload_step ^^ n) s u" "upload_step u t" by auto
    with Suc.IH [OF u(1)] steps_left_decreases [OF u(2)] upload_inv_step [OF u(2)] show ?case by fastforce
  qed
  moreover have "steps_left (us_writer s) \<le> upload_buffer_size + 2" by (cases "us_writer s") simp_all
  ultimately show ?thesis by linarith
qed

text \<open>A sequence none of whose rows blocks; infinite ones included.\<close>

definition never_blocks :: "'a seq \<Rightarrow> bool" where
  "never_blocks q \<longleftrightarrow> (\<forall>xs. q \<noteq> seq_of xs SeqBlocks)"

lemma seq_of_blocks [simp]:
  "SeqReturns \<noteq> seq_of xs SeqBlocks" "SeqPanics v \<noteq> seq_of xs SeqBlocks" "SeqExits \<noteq> seq_of xs SeqBlocks"
  by (cases xs; simp)+

lemma never_blocks_simps [simp]:
  "never_blocks SeqReturns" "never_blocks (SeqPanics v)" "never_blocks SeqExits" "\<not> never_blocks SeqBlocks"
  "never_blocks (SeqYields x q) \<longleftrightarrow> never_blocks q"
proof -
  show "never_blocks SeqReturns" "never_blocks (SeqPanics v)" "never_blocks SeqExits"
    by (simp_all add: never_blocks_def)
  show "\<not> never_blocks SeqBlocks" by (simp add: never_blocks_def) (rule exI [of _ "[]"], simp)
  show "never_blocks (SeqYields x q) \<longleftrightarrow> never_blocks q"
  proof
    assume "never_blocks (SeqYields x q)"
    then have "SeqYields x q \<noteq> seq_of (x # xs) SeqBlocks" for xs unfolding never_blocks_def by blast
    then show "never_blocks q" by (simp add: never_blocks_def)
  next
    assume q: "never_blocks q"
    have "SeqYields x q \<noteq> seq_of xs SeqBlocks" for xs
      using q by (cases xs) (simp_all add: never_blocks_def)
    then show "never_blocks (SeqYields x q)" by (simp add: never_blocks_def)
  qed
qed

lemma edge_lines_block: "never_blocks es \<Longrightarrow> edge_lines i es \<noteq> seq_of ts SeqBlocks"
proof (induction ts arbitrary: i es)
  case Nil
  then show ?case by (cases es) auto
next
  case (Cons t ts)
  then show ?case by (cases es) auto
qed

lemma vertex_lines_block: "never_blocks vs \<Longrightarrow> never_blocks es \<Longrightarrow> vertex_lines i vs es \<noteq> seq_of ts SeqBlocks"
proof (induction ts arbitrary: i vs)
  case Nil
  then show ?case using edge_lines_block [of es 0 "[]"] by (cases vs) auto
next
  case (Cons t ts)
  then show ?case using edge_lines_block [of es 0 "t # ts"] by (cases vs) auto
qed

lemma closed_step_exists:
  assumes "upload_inv (vertex_lines 0 vs es) s" and "us_read_closed s" and "never_blocks vs" "never_blocks es"
  shows "(\<exists>r. us_writer s = Ended r) \<or> (\<exists>t. upload_step s t)"
proof (cases "us_writer s")
  case (Taking ls buf)
  with assms(1) obtain ts where "vertex_lines 0 vs es = seq_of (map Inr ts) ls"
    by (auto simp: upload_inv_def running_inv_def)
  then have "ls \<noteq> SeqBlocks" using vertex_lines_block [OF assms(3,4)] by metis
  with Taking show ?thesis
  proof (cases ls)
    case (SeqYields x q)
    with Taking show ?thesis by (cases x) (metis row_fails, metis line surj_pair)
  qed (cases buf; auto intro: upload_step.intros)+
qed (use assms(2) broken in blast)+

lemma closed_run:
  "upload_step\<^sup>*\<^sup>* s t \<Longrightarrow> upload_inv q s \<Longrightarrow> us_read_closed s \<Longrightarrow> upload_inv q t \<and> us_read_closed t"
proof (induction rule: rtranclp_induct)
  case (step t u)
  from step(2) have "us_read_closed t \<Longrightarrow> us_read_closed u"
    by cases (simp_all add: finish_upload_def abandon_upload_def)
  with step upload_inv_step show ?case by blast
qed simp

text \<open>
  C12: unless a sequence blocks for good, \<open>stop\<close> gets its answer: once the read side is closed no
  state of the upload is stuck before the goroutine has ended, and it comes to its end.
\<close>

theorem stopped_upload_ends:
  assumes "reachable_upload vs es s" and "us_read_closed s"
    and "never_blocks (row_seq vs)" and "never_blocks (row_seq es)"
  shows "(\<forall>t. upload_step\<^sup>*\<^sup>* s t \<longrightarrow> (\<exists>r. us_writer t = Ended r) \<or> (\<exists>u. upload_step t u)) \<and>
    (\<exists>t r. upload_step\<^sup>*\<^sup>* s t \<and> us_writer t = Ended r)"
proof -
  let ?q = "vertex_lines 0 (row_seq vs) (row_seq es)"
  have inv: "upload_inv ?q s" by (rule reachable_upload_inv [OF assms(1)])
  have live: "(\<exists>r. us_writer t = Ended r) \<or> (\<exists>u. upload_step t u)" if "upload_step\<^sup>*\<^sup>* s t" for t
    using closed_run [OF that inv assms(2)] closed_step_exists assms(3,4) by blast
  have "\<exists>u r. upload_step\<^sup>*\<^sup>* t u \<and> us_writer u = Ended r" if "upload_step\<^sup>*\<^sup>* s t" for t
    using that
  proof (induction "steps_left (us_writer t)" arbitrary: t rule: less_induct)
    case less
    from live [OF less(2)] show ?case
    proof
      assume "\<exists>u. upload_step t u"
      then obtain u where u: "upload_step t u" by blast
      then have "steps_left (us_writer u) < steps_left (us_writer t)"
        using steps_left_decreases closed_run [OF less(2) inv assms(2)] by blast
      with less(1) [of u] less(2) u show ?thesis by (meson converse_rtranclp_into_rtranclp rtranclp.rtrancl_into_rtrancl)
    qed blast
  qed
  from this [of s] live show ?thesis by blast
qed

text \<open>An upload of a sequence that never ends, stopped at once.\<close>

primcorec forever :: "'a \<Rightarrow> 'a seq" where
  "forever x = SeqYields x (forever x)"

lemma never_blocks_forever: "never_blocks (forever x)"
proof -
  have "forever x \<noteq> seq_of xs SeqBlocks" for xs
  proof (induction xs)
    case Nil
    show ?case by (subst forever.code) simp
  next
    case (Cons y xs)
    then show ?case by (subst forever.code) simp
  qed
  then show ?thesis by (simp add: never_blocks_def)
qed

definition endless :: "vertex seq option" where
  "endless = Some (forever \<lparr>vx_type = ''P'', vx_id = [], vx_props = []\<rparr>)"

definition stopped_at_once :: upload_state where
  "stopped_at_once = start_upload endless None\<lparr>us_read_closed := True\<rparr>"

lemma reachable_stopped_at_once: "reachable_upload endless None stopped_at_once"
  unfolding reachable_upload_def stopped_at_once_def
  by (rule r_into_rtranclp, rule close_read) (simp add: start_upload_def)

lemma closed_stopped_at_once: "us_read_closed stopped_at_once"
  by (simp add: stopped_at_once_def)

lemma upload_stops_witness: "\<not> (\<exists>t. (upload_step ^^ (upload_buffer_size + 3)) stopped_at_once t)"
  using upload_stops [OF reachable_stopped_at_once closed_stopped_at_once] by fastforce

lemma stopped_upload_ends_witness: "\<exists>t r. upload_step\<^sup>*\<^sup>* stopped_at_once t \<and> us_writer t = Ended r"
  using stopped_upload_ends [OF reachable_stopped_at_once closed_stopped_at_once]
  by (simp add: endless_def row_seq_def never_blocks_forever)

definition bad_vertex :: vertex where
  "bad_vertex = \<lparr>vx_type = ''P'', vx_id = [], vx_props = [(''@id'', GInt 1)]\<rparr>"

lemma upload_refines_write_witness:
  "\<exists>s e. us_writer s = Ended \<lparr>ur_err = Some e, ur_panic = None\<rparr> \<and> err_is e ErrPropertyShadowsControlKey \<and>
     upload_ends_like [bad_vertex] [] s \<lparr>ur_err = Some e, ur_panic = None\<rparr>"
proof -
  let ?vs = "Some (seq_of [bad_vertex] SeqReturns)" and ?es = "Some (seq_of ([] :: edge list) SeqReturns)"
  obtain e where e: "row_line ''vertex'' 0 (vertex_control bad_vertex) (vx_props bad_vertex) = Inl e"
    "err_is e ErrPropertyShadowsControlKey"
    using shadowed_row [of "''@id''" "vx_props bad_vertex" "''vertex''" 0 "vertex_control bad_vertex"]
    by (auto simp: bad_vertex_def control_keys_def)
  let ?s = "finish_upload (Some e) (start_upload ?vs ?es)"
  have "reachable_upload ?vs ?es ?s"
    unfolding reachable_upload_def
    by (rule r_into_rtranclp, rule row_fails) (simp add: start_upload_def row_seq_def e(1))
  from upload_refines_write [OF this] e(2) show ?thesis
    by (intro exI [of _ ?s] exI [of _ e]) (simp add: finish_upload_def)
qed

end
