(* ===== verification/Json_Valid.thy ===== *)
theory Json_Valid
  imports Json_Decode Complex_Main
begin

text \<open>
  What \<open>json_parse\<close> gives is a value the encoder writes back unchanged: every string in it is valid
  UTF-8, because an escape or a byte that is none is read as the replacement character, and every
  number in it is one whole literal. A literal decoded as a float is one: its mantissa and exponent are
  within the bounds of the format.
\<close>

section \<open>Strings\<close>

lemma valid_utf8_append:
  assumes "valid_utf8 x" and "valid_utf8 y"
  shows "valid_utf8 (x @ y)"
  using assms(1)
proof (induction x rule: coerce_utf8.induct)
  case (1 s)
  show ?case
  proof (cases s)
    case (Cons c cs)
    have n: "rune_len s \<noteq> 0"
    proof
      assume z: "rune_len s = 0"
      have "coerce_utf8 s = repl_char @ coerce_utf8 cs" by (subst coerce_utf8.simps) (simp add: Cons z [unfolded Cons])
      with 1(3) have s: "s = repl_char @ coerce_utf8 cs" by (simp add: valid_utf8_def)
      then have "rune_len s = 3"
        by (simp add: rune_len_def repl_char_def lead_len_def tail_ok_def second_ok_def byte_in_def byte_def)
      with z show False by simp
    qed
    let ?d = "drop (rune_len s) s"
    have "coerce_utf8 s = take (rune_len s) s @ coerce_utf8 ?d"
      by (subst coerce_utf8.simps) (simp add: Cons n [unfolded Cons])
    with 1(3) have "take (rune_len s) s @ coerce_utf8 ?d = s" by (simp add: valid_utf8_def)
    then have "valid_utf8 ?d" unfolding valid_utf8_def by (metis append_take_drop_id same_append_eq)
    then have rest: "coerce_utf8 (?d @ y) = ?d @ y"
      using 1(2) Cons n by (simp add: valid_utf8_def)
    have r: "rune_len (s @ y) = rune_len s"
      using rune_len_append [of s "?d @ y"] n by (simp flip: append_assoc)
    obtain d ds where sy: "s @ y = d # ds" using Cons by simp
    have "coerce_utf8 (s @ y) = take (rune_len s) (s @ y) @ coerce_utf8 (drop (rune_len s) (s @ y))"
      using n r sy by (subst coerce_utf8.simps) simp
    also have "\<dots> = s @ y" using rune_len_le [of s] rest by (simp flip: append_assoc)
    finally show ?thesis by (simp add: valid_utf8_def)
  qed (simp add: assms(2))
qed

lemma valid_utf8_rune: "0 < rune_len s \<Longrightarrow> valid_utf8 (take (rune_len s) s)"
proof -
  assume n: "0 < rune_len s"
  let ?r = "take (rune_len s) s"
  have r: "rune_len ?r = rune_len s" using rune_len_append [OF n, of "[]"] by simp
  obtain c cs where "?r = c # cs" using n rune_len_le [of s] by (cases ?r) auto
  then have "coerce_utf8 ?r = take (rune_len s) ?r @ coerce_utf8 (drop (rune_len s) ?r)"
    using n r by (subst coerce_utf8.simps) simp
  then show ?thesis by (simp add: valid_utf8_def)
qed

lemma rune_valid: "rune_len s = length s \<Longrightarrow> s \<noteq> [] \<Longrightarrow> valid_utf8 s"
  using valid_utf8_rune [of s] by simp

lemma valid_repl_char: "valid_utf8 repl_char"
  by (rule rune_valid)
     (simp_all add: rune_len_def repl_char_def lead_len_def tail_ok_def second_ok_def byte_in_def byte_def)

lemma base64_split: "r = 4096 * (r div 4096) + 64 * (r div 64 mod 64) + r mod 64" for r :: nat
proof -
  have "r = 64 * (r div 64) + r mod 64" by simp
  moreover have "r div 64 = 64 * (r div 64 div 64) + r div 64 mod 64" by simp
  moreover have "r div 64 div 64 = r div 4096" by (simp add: div_mult2_eq [symmetric])
  ultimately show ?thesis by linarith
qed

lemma utf8_encode_valid:
  assumes "r < 1114112" and "\<not> (55296 \<le> r \<and> r < 57344)"
  shows "valid_utf8 (utf8_encode r)"
proof -
  have b: "byte (char_of n) = n" if "n < 256" for n using that by (rule byte_char_of)
  consider "r < 128" | "128 \<le> r" "r < 2048" | "2048 \<le> r" "r < 65536" | "65536 \<le> r" by linarith
  then show ?thesis
  proof cases
    case 1
    then show ?thesis by (simp add: valid_utf8_ascii b)
  next
    case 2
    have r: "r = 64 * (r div 64) + r mod 64" by simp
    define x where "x = r div 64"
    define y where "y = r mod 64"
    have u: "utf8_encode r = [char_of (192 + x), char_of (128 + y)]" using 2 by (simp add: x_def y_def)
    have y: "y < 64" by (simp add: y_def)
    have "r = 64 * x + y" using r by (simp only: x_def y_def)
    with 2 y have "2 \<le> x" "x < 32" by linarith+
    with y show ?thesis
      unfolding u by (intro rune_valid) (simp_all add: b rune_len_def lead_len_def tail_ok_def second_ok_def byte_in_def)
  next
    case 3
    define x where "x = r div 4096"
    define y where "y = r div 64 mod 64"
    define z where "z = r mod 64"
    have u: "utf8_encode r = [char_of (224 + x), char_of (128 + y), char_of (128 + z)]"
      using 3 by (simp add: x_def y_def z_def)
    have yz: "y < 64" "z < 64" by (simp_all add: y_def z_def)
    have "r = 4096 * x + 64 * y + z" unfolding x_def y_def z_def by (rule base64_split)
    with 3 yz assms(2) have "x < 16" "x = 0 \<longrightarrow> 32 \<le> y" "x = 13 \<longrightarrow> y < 32" by linarith+
    with yz show ?thesis
      unfolding u by (intro rune_valid) (auto simp: b rune_len_def lead_len_def tail_ok_def second_ok_def byte_in_def)
  next
    case 4
    define x where "x = r div 262144"
    define y where "y = r div 4096 mod 64"
    define z where "z = r div 64 mod 64"
    define t where "t = r mod 64"
    have u: "utf8_encode r = [char_of (240 + x), char_of (128 + y), char_of (128 + z), char_of (128 + t)]"
      using 4 by (simp add: x_def y_def z_def t_def)
    have yz: "y < 64" "z < 64" "t < 64" by (simp_all add: y_def z_def t_def)
    have "r div 64 = 4096 * (r div 64 div 4096) + 64 * (r div 64 div 64 mod 64) + r div 64 mod 64" by (rule base64_split)
    moreover have "r = 64 * (r div 64) + t" by (simp add: t_def)
    ultimately have "r = 262144 * x + 4096 * y + 64 * z + t"
      unfolding x_def y_def z_def by (simp add: div_mult2_eq [symmetric])
    with 4 yz assms(1) have "x < 5" "x = 0 \<longrightarrow> 16 \<le> y" "x = 4 \<longrightarrow> y < 16" by linarith+
    with yz show ?thesis
      unfolding u by (intro rune_valid) (auto simp: b rune_len_def lead_len_def tail_ok_def second_ok_def byte_in_def)
  qed
qed

lemma hex_val_less: "hex_val c = Some n \<Longrightarrow> n < 16"
  by (auto simp: hex_val_def byte_in_def split: if_splits)

lemma hex4_less: "hex4 s = Some (r, t) \<Longrightarrow> r < 65536"
  by (auto simp: hex4_def split: list.splits option.splits dest!: hex_val_less)

lemma low_surrogate_range: "low_surrogate s = Some (r, t) \<Longrightarrow> 56320 \<le> r \<and> r < 57344"
  by (auto simp: low_surrogate_def split: list.splits option.splits if_splits)

lemma escape_u_valid: "escape_u es = SEmit x t \<Longrightarrow> valid_utf8 x"
  by (auto simp: escape_u_def valid_repl_char simp del: utf8_encode.simps split: option.splits if_splits
      dest!: hex4_less low_surrogate_range intro!: utf8_encode_valid)

lemma simple_escape_valid: "simple_escape e = Some d \<Longrightarrow> valid_utf8 [d]"
  by (rule valid_utf8_ascii)
     (auto simp: simple_escape_def quote_char_def backslash_def byte_def split: if_splits)

lemma str_step_valid: "str_step s = SEmit x t \<Longrightarrow> valid_utf8 x"
  using valid_utf8_rune [of s]
  by (auto simp: str_step_def valid_repl_char escape_u_valid simple_escape_valid
      simp del: take_Cons' split: list.splits option.splits if_splits)

lemma unquote_valid: "unquote s = Some (x, t) \<Longrightarrow> valid_utf8 x"
proof (induction s arbitrary: x rule: unquote.induct)
  case (1 s)
  show ?case
  proof (cases "str_step s")
    case (SEmit y rest)
    with 1 show ?thesis
      by (auto simp: unquote.simps [of s] dest: str_step_valid intro!: valid_utf8_append)
  qed (use 1 in \<open>auto simp: unquote.simps [of s] valid_utf8_def\<close>)
qed

section \<open>Numbers\<close>

text \<open>What can follow a part of a literal inside the literal: nothing that belongs to the part.\<close>

lemma scan_digits_stop: "t = [] \<or> \<not> is_digit (hd t) \<Longrightarrow> scan_digits (scan_digits s @ t) = scan_digits s"
  by (cases t) (auto simp: scan_digits_def takeWhile_append takeWhile_tail dest: set_takeWhileD)

lemma scan_digits_again [simp]: "scan_digits (scan_digits s) = scan_digits s"
  using scan_digits_stop [of "[]" s] by simp

lemma scan_digits_unsigned: "\<not> is_digit c \<Longrightarrow> \<not> has_prefix (scan_digits s) [c]"
  by (cases s) (auto simp: scan_digits_def has_prefix_def)

lemma scan_exp_again: "scan_exp s = Some e \<Longrightarrow> scan_exp e = Some e \<and> (e = [] \<or> hd e \<in> {CHR ''e'', CHR ''E''})"
proof -
  assume e: "scan_exp s = Some e"
  have d: "\<not> is_digit (CHR ''+'')" "\<not> is_digit (CHR ''-'')" by (simp_all add: is_digit_def byte_def)
  show ?thesis
  proof (cases s)
    case Nil
    then show ?thesis using e by (simp add: scan_exp_def)
  next
    case (Cons c t)
    show ?thesis
    proof (cases "c \<in> {CHR ''e'', CHR ''E''}")
      case True
      define sg where "sg = (if has_prefix t ''+'' then ''+'' else if has_prefix t ''-'' then ''-'' else [])"
      define ds where "ds = scan_digits (drop (length sg) t)"
      have "ds \<noteq> []" "e = c # sg @ ds" using e True Cons by (auto simp: scan_exp_def sg_def ds_def Let_def split: if_splits)
      moreover have "\<not> has_prefix ds ''+''" "\<not> has_prefix ds ''-''" "scan_digits ds = ds"
        using scan_digits_unsigned d by (simp_all add: ds_def)
      moreover have "sg = [] \<or> sg = ''+'' \<or> sg = ''-''" by (simp add: sg_def)
      ultimately show ?thesis using True by (auto simp: scan_exp_def Let_def) (auto simp: has_prefix_def)
    qed (use e Cons in \<open>simp add: scan_exp_def\<close>)
  qed
qed

lemma scan_frac_again:
  assumes "scan_frac s = Some f" and "t = [] \<or> hd t \<in> {CHR ''e'', CHR ''E''}"
  shows "scan_frac (f @ t) = Some f"
proof -
  have "t = [] \<or> \<not> is_digit (hd t)" and "\<not> has_prefix t ''.''"
    using assms(2) by (cases t; auto simp: is_digit_def byte_def has_prefix_def)+
  then show ?thesis using assms(1) scan_digits_stop [of t]
    by (auto simp: scan_frac_def has_prefix_def split: if_splits)
qed

lemma scan_frac_head: "scan_frac s = Some f \<Longrightarrow> f = [] \<or> hd f = CHR ''.''"
  by (auto simp: scan_frac_def split: if_splits)

lemma scan_num_again:
  assumes "scan_num s = Some l"
  shows "scan_num l = Some l"
proof -
  define s1 where "s1 = drop (length (scan_sign s)) s"
  obtain f e where ip: "scan_int s1 \<noteq> []" and f: "scan_frac (drop (length (scan_int s1)) s1) = Some f"
    and e: "scan_exp (drop (length f) (drop (length (scan_int s1)) s1)) = Some e"
    and l: "l = scan_sign s @ scan_int s1 @ f @ e"
    using assms by (auto simp: scan_num_def Let_def s1_def split: option.splits if_splits)
  note e2 = scan_exp_again [OF e]
  have fe: "f @ e = [] \<or> \<not> is_digit (hd (f @ e))"
    using scan_frac_head [OF f] e2 by (cases f) (auto simp: is_digit_def byte_def)
  have hd: "is_digit (hd (scan_int s1))"
    using ip by (cases s1) (auto simp: scan_int_def has_prefix_def is_digit_def byte_def scan_digits_def split: if_splits)
  then have minus: "\<not> has_prefix (scan_int s1 @ f @ e) ''-''"
    using ip by (cases "scan_int s1") (auto simp: has_prefix_def is_digit_def byte_def)
  have 1: "scan_int (scan_int s1 @ f @ e) = scan_int s1"
  proof (cases "has_prefix s1 ''0''")
    case True
    then show ?thesis by (simp add: scan_int_def has_prefix_def)
  next
    case False
    with ip obtain c cs where "s1 = c # cs" "is_digit c" "c \<noteq> CHR ''0''"
      by (cases s1) (auto simp: scan_int_def has_prefix_def scan_digits_def split: if_splits)
    then show ?thesis using False scan_digits_stop [OF fe, of s1]
      by (simp add: scan_int_def has_prefix_def) (simp add: scan_digits_def)
  qed
  have 2: "scan_frac (f @ e) = Some f" using scan_frac_again [OF f] e2 by blast
  have 3: "scan_sign l = scan_sign s" "drop (length (scan_sign s)) l = scan_int s1 @ f @ e"
    using minus by (auto simp: l scan_sign_def has_prefix_def)
  have "scan_num l = Some (scan_sign s @ scan_int s1 @ f @ e)"
    unfolding scan_num_def Let_def 3 1 using ip 2 e2 by simp
  then show ?thesis by (simp add: l)
qed

text \<open>A rounded number has at most \<open>p\<close> bits (or is \<open>2 ^ p\<close>, rounded up to), and no exponent below the range.\<close>

lemma bit_len_pos: "0 < n \<Longrightarrow> 0 < bit_len n"
  by (subst bit_len.simps) simp

lemma bit_len_lower: "0 < n \<Longrightarrow> 2 ^ (bit_len n - 1) \<le> n"
proof (induction n rule: bit_len.induct)
  case (1 n)
  show ?case
  proof (cases "n div 2 = 0")
    case True
    with 1(2) have "n = 1" by linarith
    then show ?thesis by (simp add: bit_len.simps)
  next
    case False
    then have "2 ^ (bit_len (n div 2) - 1) \<le> n div 2" using 1 by simp
    moreover have "bit_len n - 1 = Suc (bit_len (n div 2) - 1)"
      using 1(2) bit_len_pos [of "n div 2"] False by (simp add: bit_len.simps [of n])
    ultimately show ?thesis by simp
  qed
qed

text \<open>\<open>n / q\<close> is below \<open>2 ^ (p + x)\<close>, without fractions.\<close>

definition below_exp :: "nat \<Rightarrow> nat \<Rightarrow> nat \<Rightarrow> int \<Rightarrow> bool" where
  "below_exp p n q x \<longleftrightarrow> n * 2 ^ nat (- x) < 2 ^ p * (q * 2 ^ nat x)"

lemma below_exp_powi: "below_exp p n q x \<longleftrightarrow> rat_of_nat n < rat_of_nat q * 2 powi (int p + x)"
proof -
  have x: "(2 :: rat) powi x * 2 ^ nat (- x) = 2 ^ nat x"
    by (cases "0 \<le> x") (simp_all add: power_int_def flip: power_mult_distrib)
  have q: "rat_of_nat q * 2 powi (int p + x) * 2 ^ nat (- x) = rat_of_nat (2 ^ p * (q * 2 ^ nat x))"
    by (simp add: power_int_add mult.assoc x)
  have "below_exp p n q x \<longleftrightarrow> rat_of_nat (n * 2 ^ nat (- x)) < rat_of_nat (2 ^ p * (q * 2 ^ nat x))"
    by (simp only: below_exp_def of_nat_less_iff)
  also have "\<dots> \<longleftrightarrow> rat_of_nat n * 2 ^ nat (- x) < rat_of_nat q * 2 powi (int p + x) * 2 ^ nat (- x)"
    unfolding q by simp
  also have "\<dots> \<longleftrightarrow> rat_of_nat n < rat_of_nat q * 2 powi (int p + x)" by simp
  finally show ?thesis .
qed

lemma below_exp_mono: "below_exp p n q x \<Longrightarrow> x \<le> y \<Longrightarrow> below_exp p n q y"
proof -
  assume x: "below_exp p n q x" "x \<le> y"
  have "(2 :: rat) powi (int p + x) \<le> 2 powi (int p + y)" using x(2) by (intro power_int_increasing) auto
  then have "rat_of_nat q * 2 powi (int p + x) \<le> rat_of_nat q * 2 powi (int p + y)"
    by (intro mult_left_mono) auto
  with x(1) show ?thesis unfolding below_exp_powi by linarith
qed

lemma round_exp_enough:
  assumes "0 < q" and "0 < n"
  shows "n * 2 ^ nat (- round_exp p lo n q) < 2 ^ p * (q * 2 ^ nat (round_exp p lo n q))"
proof -
  define e0 where "e0 = int (bit_len n) - int (bit_len q) - int p"
  have "rat_of_nat n < rat_of_nat (2 ^ bit_len n)" using bit_len_less [of n] by (simp only: of_nat_less_iff)
  also have "rat_of_nat (2 ^ bit_len n) = 2 ^ (bit_len q - 1) * 2 powi (int p + (e0 + 1))"
  proof -
    have "int p + (e0 + 1) = int (bit_len n) + - int (bit_len q - 1)"
      using bit_len_pos [OF assms(1)] by (simp add: e0_def)
    then show ?thesis by (simp add: power_int_diff)
  qed
  also have "\<dots> \<le> rat_of_nat q * 2 powi (int p + (e0 + 1))"
  proof (rule mult_right_mono)
    have "rat_of_nat (2 ^ (bit_len q - 1)) \<le> rat_of_nat q"
      using bit_len_lower [OF assms(1)] by (simp only: of_nat_le_iff)
    then show "2 ^ (bit_len q - 1) \<le> rat_of_nat q" by simp
  qed simp
  finally have "below_exp p n q (e0 + 1)" by (simp add: below_exp_powi)
  moreover have "round_exp p lo n q = max (if below_exp p n q e0 then e0 else e0 + 1) lo"
    by (auto simp: round_exp_def below_exp_def e0_def Let_def mult_ac not_less)
  ultimately have "below_exp p n q (round_exp p lo n q)"
    using below_exp_mono [of p n q] by (auto split: if_splits)
  then show ?thesis by (simp add: below_exp_def)
qed

lemma round_ratio_bounds:
  assumes "round_ratio p lo n q = (m, e)" and "0 < q" and "lo \<le> 0"
  shows "m \<le> 2 ^ p" and "lo \<le> e"
proof -
  have "m \<le> 2 ^ p \<and> lo \<le> e"
  proof (cases "n = 0")
    case False
    let ?e = "round_exp p lo n q"
    have "n * 2 ^ nat (- ?e) div (q * 2 ^ nat ?e) < 2 ^ p"
      using round_exp_enough [of q n p lo] False assms(2) by (simp add: less_mult_imp_div_less)
    moreover have "lo \<le> ?e" by (simp add: round_exp_def Let_def)
    ultimately show ?thesis using assms(1) False by (auto simp: round_ratio_def Let_def split: if_splits)
  qed (use assms in \<open>auto simp: round_ratio_def\<close>)
  then show "m \<le> 2 ^ p" and "lo \<le> e" by auto
qed

lemma float_lit_bounds:
  assumes "float_lit p lo hi l = Some (m, e)" and "lo \<le> 0"
  shows "\<bar>m\<bar> \<le> 2 ^ p" and "lo \<le> e" and "int (bit_len (nat \<bar>m\<bar>)) + e \<le> hi"
proof -
  obtain neg d x where l: "lit_parts l = (neg, d, x)" by (cases "lit_parts l")
  obtain k y where k: "round_ratio p lo (d * 10 ^ nat x) (10 ^ nat (- x)) = (k, y)" by fastforce
  then have m: "\<bar>m\<bar> = int k" "y = e" "int (bit_len k) + e \<le> hi"
    using assms(1) by (auto simp: float_lit_def l split: if_splits)
  have b: "k \<le> 2 ^ p" "lo \<le> y" using round_ratio_bounds [OF k] assms(2) by auto
  show "\<bar>m\<bar> \<le> 2 ^ p" using b(1) by (simp add: m(1))
  show "lo \<le> e" using b m by simp
  show "int (bit_len (nat \<bar>m\<bar>)) + e \<le> hi" using m by simp
qed

section \<open>Documents\<close>

definition json_ok :: "json \<Rightarrow> bool" where
  "json_ok v \<longleftrightarrow> nums_ok v \<and> strs_ok v"

lemma json_ok_simps [simp]:
  "json_ok JNull" "json_ok (JBool b)" "json_ok (JNum l) \<longleftrightarrow> scan_num l = Some l" "json_ok (JStr s) \<longleftrightarrow> valid_utf8 s"
  "json_ok (JArr vs) \<longleftrightarrow> list_all json_ok vs"
  "json_ok (JObj kvs) \<longleftrightarrow> list_all (\<lambda>(k, v). valid_utf8 k \<and> json_ok v) kvs"
  by (auto simp: json_ok_def list_all_iff)

fun token_ok :: "token \<Rightarrow> bool" where
  "token_ok (TNum l) = (scan_num l = Some l)"
| "token_ok (TStr s) = valid_utf8 s"
| "token_ok _ = True"

lemma punct_token_ok: "punct c = Some t \<Longrightarrow> token_ok t"
  by (auto simp: punct_def split: if_splits)

lemma next_token_ok: "next_token s = Some (t, r) \<Longrightarrow> token_ok t"
  by (auto simp: next_token_def split: list.splits option.splits if_splits
      dest: unquote_valid scan_num_again punct_token_ok)

lemma lex_ok: "lex s = Some ts \<Longrightarrow> list_all token_ok ts"
proof (induction s arbitrary: ts rule: lex.induct)
  case (1 s)
  then show ?case
    by (auto simp: lex.simps [of s] split: list.splits option.splits if_splits dest: next_token_ok)
qed

fun frame_ok :: "frame \<Rightarrow> bool" where
  "frame_ok (FArr vs) = list_all json_ok vs"
| "frame_ok (FObj kvs k) = (valid_utf8 k \<and> list_all (\<lambda>(k, v). valid_utf8 k \<and> json_ok v) kvs)"

fun pstate_ok :: "pstate \<Rightarrow> bool" where
  "pstate_ok (PDone v) = json_ok v"
| "pstate_ok (PObj0 kvs) = list_all (\<lambda>(k, v). valid_utf8 k \<and> json_ok v) kvs"
| "pstate_ok (PKey kvs) = list_all (\<lambda>(k, v). valid_utf8 k \<and> json_ok v) kvs"
| "pstate_ok _ = True"

lemma start_value_ok: "start_value t = Some p \<Longrightarrow> token_ok t \<Longrightarrow> pstate_ok p"
  by (cases t) auto

lemma run_parser_ok:
  "run_parser p fs ts = Some v \<Longrightarrow> pstate_ok p \<Longrightarrow> list_all frame_ok fs \<Longrightarrow> list_all token_ok ts \<Longrightarrow> json_ok v"
  by (induction p fs ts rule: run_parser.induct)
     (auto simp: list_all_iff split: if_splits option.splits token.splits list.splits dest: start_value_ok)

theorem json_parse_ok: "json_parse s = Some v \<Longrightarrow> json_ok v"
  by (auto simp: json_parse_def split: option.splits dest: lex_ok run_parser_ok)

lemma json_parse_encode_ok: "json_ok v \<Longrightarrow> json_parse (encode html v) = Some v"
  by (simp add: json_ok_def json_parse_encode coerce_json_id)

end
