(* ===== verification/Go_Types.thy ===== *)
theory Go_Types
  imports Json_Valid Go_Values
begin

text \<open>
  What \<open>encoding/json\<close> does with the generated models, as \<open>reflect\<close> sees them: the type of a model is
  a value of \<open>go_type\<close>, one of its values a \<open>gv\<close>, and \<open>into\<close> and \<open>to_json\<close> decode and encode by the type. A
  member goes into the value the field already has, so that a \<open>null\<close> leaves a string alone and a second
  member of one name is decoded into what the first one left (an element of a slice that an earlier,
  longer member of the same name had filled is not kept). Errors stop the call that gets them, so only
  whether there was one matters. A type with additional properties decodes and encodes itself by the
  methods the generator wrote for it.
\<close>

section \<open>Types and values\<close>

text \<open>
  Fields have their JSON name, whether an empty one is omitted, and their type. \<open>GTRaw\<close> is a union,
  which keeps the document; \<open>GTOpen\<close> is a struct with a map of additional properties.
\<close>

datatype go_type =
    GTStr
  | GTInt
  | GTBool
  | GTFloat32
  | GTAny
  | GTRaw
  | GTPtr go_type
  | GTSlice go_type
  | GTMap go_type
  | GTStruct "(bytes \<times> bool \<times> go_type) list"
  | GTOpen "(bytes \<times> bool \<times> go_type) list" go_type

text \<open>
  \<open>VNil\<close> is the nil of a pointer, a slice, a map or an interface; a float knows its size in bits; the
  keys of a map are in order. \<open>VBad\<close> is in an interface what the encoder refuses: a channel, a NaN.
\<close>

datatype gv =
    VNil
  | VBool bool
  | VInt int
  | VFloat nat "int \<times> int"
  | VStr bytes
  | VPtr gv
  | VSlice "gv list"
  | VMap "(bytes \<times> gv) list"
  | VRaw "json option"
  | VStruct "gv list"
  | VOpen "gv list" gv
  | VBad

fun zero_value :: "go_type \<Rightarrow> gv" where
  "zero_value GTStr = VStr []"
| "zero_value GTInt = VInt 0"
| "zero_value GTBool = VBool False"
| "zero_value GTFloat32 = VFloat 32 (0, 0)"
| "zero_value GTRaw = VRaw None"
| "zero_value (GTStruct fs) = VStruct (map (\<lambda>(n, om, t). zero_value t) fs)"
| "zero_value (GTOpen fs t) = VOpen (map (\<lambda>(n, om, t). zero_value t) fs) VNil"
| "zero_value _ = VNil"

text \<open>A Go map made from members: of several of one name the last, in key order.\<close>

definition go_map :: "(bytes \<times> 'a) list \<Rightarrow> (bytes \<times> 'a) list" where
  "go_map kvs = sort_key fst (last_members kvs)"

definition ordered_keys :: "(bytes \<times> 'a) list \<Rightarrow> bool" where
  "ordered_keys kvs \<longleftrightarrow> sorted (map fst kvs) \<and> distinct (map fst kvs)"

fun all_some2 :: "('a \<Rightarrow> 'b \<Rightarrow> 'c option) \<Rightarrow> 'a list \<Rightarrow> 'b list \<Rightarrow> 'c list option" where
  "all_some2 f [] [] = Some []"
| "all_some2 f (a # as) (b # bs) =
     (case (f a b, all_some2 f as bs) of (Some c, Some cs) \<Rightarrow> Some (c # cs) | _ \<Rightarrow> None)"
| "all_some2 f _ _ = None"

section \<open>Decoding\<close>

fun any_of_json :: "json \<Rightarrow> gv option" where
  "any_of_json JNull = Some VNil"
| "any_of_json (JBool b) = Some (VBool b)"
| "any_of_json (JNum l) = map_option (VFloat 64) (float_of_lit l)"
| "any_of_json (JStr s) = Some (VStr s)"
| "any_of_json (JArr vs) = map_option VSlice (all_some (map any_of_json vs))"
| "any_of_json (JObj kvs) =
     map_option (\<lambda>vs. VMap (go_map (zip (map fst kvs) vs))) (all_some (map (\<lambda>(k, v). any_of_json v) kvs))"

text \<open>The members a field receives, one after the other into the same field.\<close>

fun into_seq :: "('a \<Rightarrow> json \<Rightarrow> 'a option) \<Rightarrow> 'a \<Rightarrow> json list \<Rightarrow> 'a option" where
  "into_seq f a [] = Some a"
| "into_seq f a (v # vs) = (case f a v of None \<Rightarrow> None | Some b \<Rightarrow> into_seq f b vs)"

definition struct_into :: "(bytes \<times> (gv \<Rightarrow> json \<Rightarrow> gv option)) list \<Rightarrow> members \<Rightarrow> gv list \<Rightarrow> gv list option" where
  "struct_into fs kvs olds =
     all_some2 (\<lambda>(n, f) old. into_seq f old (field_vals (map fst fs) kvs n)) fs olds"

text \<open>The elements of an array go into those the slice has, then into fresh ones.\<close>

fun elems_into :: "(gv \<Rightarrow> json \<Rightarrow> gv option) \<Rightarrow> gv \<Rightarrow> gv list \<Rightarrow> json list \<Rightarrow> gv list option" where
  "elems_into f z olds [] = Some []"
| "elems_into f z olds (v # vs) =
     (case (f (case olds of [] \<Rightarrow> z | a # _ \<Rightarrow> a) v, elems_into f z (tl olds) vs) of
        (Some a, Some as) \<Rightarrow> Some (a # as) | _ \<Rightarrow> None)"

text \<open>
  \<open>UnmarshalJSON\<close> of a struct with additional properties: the members by their exact names, each of its
  last value; what is left over is the new map, if anything is.
\<close>

definition open_into ::
  "(bytes \<times> (gv \<Rightarrow> json \<Rightarrow> gv option)) list \<Rightarrow> (json \<Rightarrow> gv option) \<Rightarrow> members \<Rightarrow> gv list \<Rightarrow> gv \<Rightarrow> gv option" where
  "open_into fs elem kvs olds ap =
     (let obj = go_map kvs; rest = filter (\<lambda>kv. fst kv \<notin> fst ` set fs) obj
      in case (all_some2 (\<lambda>(n, f) old. case map_of obj n of None \<Rightarrow> Some old | Some v \<Rightarrow> f old v) fs olds,
               all_some (map (elem \<circ> snd) rest)) of
           (Some vs, Some as) \<Rightarrow> Some (VOpen vs (if rest = [] then ap else VMap (zip (map fst rest) as)))
         | _ \<Rightarrow> None)"

fun into :: "go_type \<Rightarrow> (gv \<Rightarrow> json \<Rightarrow> gv option)" where
  "into GTStr = (\<lambda>old j. case j of JStr s \<Rightarrow> Some (VStr s) | JNull \<Rightarrow> Some old | _ \<Rightarrow> None)"
| "into GTInt = (\<lambda>old j. case j of JNum l \<Rightarrow> map_option VInt (int_of_lit l) | JNull \<Rightarrow> Some old | _ \<Rightarrow> None)"
| "into GTBool = (\<lambda>old j. case j of JBool b \<Rightarrow> Some (VBool b) | JNull \<Rightarrow> Some old | _ \<Rightarrow> None)"
| "into GTFloat32 = (\<lambda>old j. case j of JNum l \<Rightarrow> map_option (VFloat 32) (float32_of_lit l) | JNull \<Rightarrow> Some old | _ \<Rightarrow> None)"
| "into GTAny = (\<lambda>old j. any_of_json j)"
| "into GTRaw = (\<lambda>old j. Some (VRaw (Some j)))"
| "into (GTPtr t) = (\<lambda>old j. if j = JNull then Some VNil
     else map_option VPtr (into t (case old of VPtr v \<Rightarrow> v | _ \<Rightarrow> zero_value t) j))"
| "into (GTSlice t) = (\<lambda>old j. case j of
       JNull \<Rightarrow> Some VNil
     | JArr vs \<Rightarrow> map_option VSlice (elems_into (into t) (zero_value t) (case old of VSlice os \<Rightarrow> os | _ \<Rightarrow> []) vs)
     | _ \<Rightarrow> None)"
| "into (GTMap t) = (\<lambda>old j. case j of
       JNull \<Rightarrow> Some VNil
     | JObj kvs \<Rightarrow> map_option (\<lambda>vs. VMap (go_map ((case old of VMap m \<Rightarrow> m | _ \<Rightarrow> []) @ zip (map fst kvs) vs)))
         (all_some (map (into t (zero_value t) \<circ> snd) kvs))
     | _ \<Rightarrow> None)"
| "into (GTStruct fs) = (\<lambda>old j. case (j, old) of
       (JNull, _) \<Rightarrow> Some old
     | (JObj kvs, VStruct olds) \<Rightarrow> map_option VStruct (struct_into (map (\<lambda>(n, om, t). (n, into t)) fs) kvs olds)
     | _ \<Rightarrow> None)"
| "into (GTOpen fs t) = (\<lambda>old j. case (j, old) of
       (JNull, _) \<Rightarrow> Some old
     | (JObj kvs, VOpen olds ap) \<Rightarrow>
         open_into (map (\<lambda>(n, om, t). (n, into t)) fs) (into t (zero_value t)) kvs olds ap
     | _ \<Rightarrow> None)"

text \<open>\<open>json.Unmarshal\<close> into a fresh variable of the type.\<close>

definition unmarshal_type :: "go_type \<Rightarrow> bytes \<Rightarrow> gv option" where
  "unmarshal_type t s = (case json_parse s of None \<Rightarrow> None | Some j \<Rightarrow> into t (zero_value t) j)"

section \<open>Encoding\<close>

text \<open>What \<open>omitempty\<close> leaves out; an interface is empty only when it is nil.\<close>

fun empty_value :: "gv \<Rightarrow> bool" where
  "empty_value VNil = True"
| "empty_value (VBool b) = (\<not> b)"
| "empty_value (VInt i) = (i = 0)"
| "empty_value (VFloat k f) = (fst f = 0)"
| "empty_value (VStr s) = (s = [])"
| "empty_value (VSlice vs) = (vs = [])"
| "empty_value (VMap kvs) = (kvs = [])"
| "empty_value _ = False"

definition omits :: "go_type \<Rightarrow> gv \<Rightarrow> bool" where
  "omits t v \<longleftrightarrow> (if t = GTAny then v = VNil else empty_value v)"

text \<open>\<open>ft k f\<close> is the text \<open>strconv\<close> prints for a float of \<open>k\<close> bits.\<close>

type_synonym float_text = "nat \<Rightarrow> int \<times> int \<Rightarrow> bytes"

fun any_to_json :: "float_text \<Rightarrow> gv \<Rightarrow> json option" where
  "any_to_json ft VNil = Some JNull"
| "any_to_json ft (VBool b) = Some (JBool b)"
| "any_to_json ft (VInt i) = Some (JNum (dec_of_int i))"
| "any_to_json ft (VFloat k f) = Some (JNum (ft k f))"
| "any_to_json ft (VStr s) = Some (JStr s)"
| "any_to_json ft (VSlice vs) = map_option JArr (all_some (map (any_to_json ft) vs))"
| "any_to_json ft (VMap kvs) =
     map_option (\<lambda>js. JObj (sort_key fst (zip (map fst kvs) js))) (all_some (map (\<lambda>(k, v). any_to_json ft v) kvs))"
| "any_to_json ft _ = None"

text \<open>The members of a struct: each field that is not left out, in order.\<close>

fun struct_members :: "(bytes \<times> (gv \<Rightarrow> bool) \<times> (gv \<Rightarrow> json option)) list \<Rightarrow> gv list \<Rightarrow> members option" where
  "struct_members [] [] = Some []"
| "struct_members ((n, skip, f) # fs) (v # vs) =
     (if skip v then struct_members fs vs
      else (case (f v, struct_members fs vs) of (Some j, Some kvs) \<Rightarrow> Some ((n, j) # kvs) | _ \<Rightarrow> None))"
| "struct_members _ _ = None"

text \<open>
  \<open>MarshalJSON\<close> of a struct with additional properties: a map of its members, over which the additional
  ones are laid, so that one named like a field replaces it.
\<close>

definition open_to_json :: "members option \<Rightarrow> (gv \<Rightarrow> json option) \<Rightarrow> gv \<Rightarrow> json option" where
  "open_to_json own elem ap =
     (let kvs = (case ap of VMap kvs \<Rightarrow> kvs | _ \<Rightarrow> [])
      in case (own, all_some (map (elem \<circ> snd) kvs)) of
           (Some ms, Some js) \<Rightarrow> Some (JObj (go_map (ms @ zip (map fst kvs) js)))
         | _ \<Rightarrow> None)"

fun to_json :: "float_text \<Rightarrow> go_type \<Rightarrow> (gv \<Rightarrow> json option)" where
  "to_json ft (GTAny) = any_to_json ft"
| "to_json ft GTRaw = (\<lambda>v. case v of VRaw None \<Rightarrow> Some JNull | VRaw (Some j) \<Rightarrow> Some j | _ \<Rightarrow> None)"
| "to_json ft (GTPtr t) = (\<lambda>v. case v of VNil \<Rightarrow> Some JNull | VPtr x \<Rightarrow> to_json ft t x | _ \<Rightarrow> None)"
| "to_json ft (GTSlice t) = (\<lambda>v. case v of
       VNil \<Rightarrow> Some JNull | VSlice vs \<Rightarrow> map_option JArr (all_some (map (to_json ft t) vs)) | _ \<Rightarrow> None)"
| "to_json ft (GTMap t) = (\<lambda>v. case v of
       VNil \<Rightarrow> Some JNull
     | VMap kvs \<Rightarrow> map_option (\<lambda>js. JObj (sort_key fst (zip (map fst kvs) js))) (all_some (map (to_json ft t \<circ> snd) kvs))
     | _ \<Rightarrow> None)"
| "to_json ft (GTStruct fs) = (\<lambda>v. case v of
       VStruct vs \<Rightarrow> map_option JObj
         (struct_members (map (\<lambda>(n, om, t). (n, (\<lambda>x. om \<and> omits t x), to_json ft t)) fs) vs)
     | _ \<Rightarrow> None)"
| "to_json ft (GTOpen fs t) = (\<lambda>v. case v of
       VOpen vs ap \<Rightarrow> open_to_json
         (struct_members (map (\<lambda>(n, om, t). (n, (\<lambda>x. om \<and> x = VNil), to_json ft t)) fs) vs) (to_json ft t) ap
     | _ \<Rightarrow> None)"
| "to_json ft _ = any_to_json ft"

definition marshal_type :: "float_text \<Rightarrow> go_type \<Rightarrow> gv \<Rightarrow> bytes option" where
  "marshal_type ft t v = map_option (encode True) (to_json ft t v)"

end
