(* ===== verification/Go_Codec.thy ===== *)
theory Go_Codec
  imports Go_Types
begin

text \<open>
  What holds of decoding and encoding by type, for every type: what is decoded has its type
  (\<open>into_typed\<close>), a value is read back from what is written of it (\<open>to_json_into\<close>), and what a decoder
  gave is such a value (\<open>into_plain\<close>).
\<close>

section \<open>Maps from members\<close>

lemma last_members_keys [simp]: "fst ` set (last_members kvs) = fst ` set kvs"
  by (induction kvs rule: last_members.induct) auto

lemma last_members_distinct: "distinct (map fst (last_members kvs))"
proof (induction kvs rule: last_members.induct)
  case (2 k v kvs)
  then show ?case using last_members_keys [of kvs] by (auto simp del: last_members_keys)
qed simp

lemma last_members_sub: "set (last_members kvs) \<subseteq> set kvs"
  by (induction kvs rule: last_members.induct) auto

lemma last_members_id: "distinct (map fst kvs) \<Longrightarrow> last_members kvs = kvs"
  by (induction kvs rule: last_members.induct) auto

lemma go_map_ordered: "ordered_keys (go_map kvs)"
  using last_members_distinct [of kvs]
  by (auto simp: ordered_keys_def go_map_def distinct_map simp del: sorted_map)

lemma go_map_sub: "set (go_map kvs) \<subseteq> set kvs"
  using last_members_sub by (simp add: go_map_def)

lemma go_map_keys [simp]: "fst ` set (go_map kvs) = fst ` set kvs"
  by (simp add: go_map_def)

lemma go_map_set: "distinct (map fst kvs) \<Longrightarrow> set (go_map kvs) = set kvs"
  by (simp add: go_map_def last_members_id)

lemma go_map_id: "ordered_keys kvs \<Longrightarrow> go_map kvs = kvs"
  by (simp add: ordered_keys_def go_map_def last_members_id sort_key_id_if_sorted)

lemma ordered_keys_zip: "ordered_keys (zip (map fst kvs) vs) = ordered_keys kvs" if "length vs = length kvs"
  using that by (simp add: ordered_keys_def)

lemma all_some2_Some_iff:
  "all_some2 f as bs = Some cs \<longleftrightarrow>
     length as = length bs \<and> length cs = length bs \<and> (\<forall>i < length bs. f (as ! i) (bs ! i) = Some (cs ! i))"
proof (induction f as bs arbitrary: cs rule: all_some2.induct)
  case (2 f a as b bs)
  then show ?case
    by (cases cs) (auto simp: All_less_Suc2 split: option.splits intro: nth_equalityI)
qed auto

lemma all_some2_cong: "(\<And>a b. a \<in> set as \<Longrightarrow> f a b = g a b) \<Longrightarrow> all_some2 f as bs = all_some2 g as bs"
  by (induction f as bs rule: all_some2.induct) auto

lemma all_some_map_iff:
  "all_some (map f xs) = Some ys \<longleftrightarrow> length ys = length xs \<and> (\<forall>i < length xs. f (xs ! i) = Some (ys ! i))"
  by (auto simp: all_some_Some_iff list_eq_iff_nth_eq)

lemma into_seq_rule:
  assumes "into_seq f a vs = Some b" and "P a" and "\<And>a v b. P a \<Longrightarrow> v \<in> set vs \<Longrightarrow> f a v = Some b \<Longrightarrow> P b"
  shows "P b"
  using assms
proof (induction vs arbitrary: a)
  case (Cons v vs)
  from Cons.prems(1) obtain c where c: "f a v = Some c" "into_seq f c vs = Some b" by (auto split: option.splits)
  show ?case
  proof (rule Cons.IH [OF c(2)])
    show "P c" by (rule Cons.prems(3) [OF Cons.prems(2) _ c(1)]) simp
    show "P y" if "P x" "w \<in> set vs" "f x w = Some y" for x w y
      by (rule Cons.prems(3) [OF that(1) _ that(3)]) (simp add: that(2))
  qed
qed simp

section \<open>Types as induction sees them\<close>

lemma go_type_induct [case_names Str Int Bool Float Any Raw Ptr Slice Map Struct Open]:
  assumes "P GTStr" "P GTInt" "P GTBool" "P GTFloat32" "P GTAny" "P GTRaw"
    and "\<And>t. P t \<Longrightarrow> P (GTPtr t)" "\<And>t. P t \<Longrightarrow> P (GTSlice t)" "\<And>t. P t \<Longrightarrow> P (GTMap t)"
    and "\<And>fs. (\<And>n om t. (n, om, t) \<in> set fs \<Longrightarrow> P t) \<Longrightarrow> P (GTStruct fs)"
    and "\<And>fs e. (\<And>n om t. (n, om, t) \<in> set fs \<Longrightarrow> P t) \<Longrightarrow> P e \<Longrightarrow> P (GTOpen fs e)"
  shows "P t"
proof (induction t)
  case (GTStruct fs)
  then have "P t" if "(n, om, t) \<in> set fs" for n om t using that GTStruct(1) [of "(n, om, t)" "(om, t)" t] by (simp add: snds.simps)
  then show ?case by (rule assms)
next
  case (GTOpen fs e)
  then have "P t" if "(n, om, t) \<in> set fs" for n om t using that GTOpen(1) [of "(n, om, t)" "(om, t)" t] by (simp add: snds.simps)
  then show ?case using GTOpen by (blast intro: assms)
qed (auto intro: assms)

section \<open>Typing\<close>

text \<open>A float of \<open>k\<close> bits is one of its format; a string of \<open>interface{}\<close> may hold any bytes.\<close>

definition float_ok :: "nat \<Rightarrow> int \<times> int \<Rightarrow> bool" where
  "float_ok k f = (case f of (m, e) \<Rightarrow>
     if k = 32 then \<bar>m\<bar> \<le> 2 ^ 24 \<and> -149 \<le> e \<and> int (bit_len (nat \<bar>m\<bar>)) + e \<le> 128
     else k = 64 \<and> \<bar>m\<bar> \<le> 2 ^ 53 \<and> -1074 \<le> e \<and> int (bit_len (nat \<bar>m\<bar>)) + e \<le> 1024)"

fun any_ok :: "gv \<Rightarrow> bool" where
  "any_ok VNil = True"
| "any_ok (VBool b) = True"
| "any_ok (VInt i) = in_int64 i"
| "any_ok (VFloat k f) = float_ok k f"
| "any_ok (VStr s) = True"
| "any_ok (VSlice vs) = list_all any_ok vs"
| "any_ok (VMap kvs) = (ordered_keys kvs \<and> list_all (\<lambda>(k, v). any_ok v) kvs)"
| "any_ok VBad = True"
| "any_ok _ = False"

definition fields_ok :: "(gv \<Rightarrow> bool) list \<Rightarrow> gv list \<Rightarrow> bool" where
  "fields_ok ps vs \<longleftrightarrow> list_all2 (\<lambda>p v. p v) ps vs"

fun has_type :: "go_type \<Rightarrow> (gv \<Rightarrow> bool)" where
  "has_type GTStr = (\<lambda>v. case v of VStr s \<Rightarrow> True | _ \<Rightarrow> False)"
| "has_type GTInt = (\<lambda>v. case v of VInt i \<Rightarrow> in_int64 i | _ \<Rightarrow> False)"
| "has_type GTBool = (\<lambda>v. case v of VBool b \<Rightarrow> True | _ \<Rightarrow> False)"
| "has_type GTFloat32 = (\<lambda>v. case v of VFloat k f \<Rightarrow> k = 32 \<and> float_ok k f | _ \<Rightarrow> False)"
| "has_type GTAny = any_ok"
| "has_type GTRaw = (\<lambda>v. case v of VRaw r \<Rightarrow> True | _ \<Rightarrow> False)"
| "has_type (GTPtr t) = (\<lambda>v. case v of VNil \<Rightarrow> True | VPtr x \<Rightarrow> has_type t x | _ \<Rightarrow> False)"
| "has_type (GTSlice t) = (\<lambda>v. case v of VNil \<Rightarrow> True | VSlice vs \<Rightarrow> list_all (has_type t) vs | _ \<Rightarrow> False)"
| "has_type (GTMap t) = (\<lambda>v. case v of
       VNil \<Rightarrow> True | VMap kvs \<Rightarrow> ordered_keys kvs \<and> list_all (has_type t \<circ> snd) kvs | _ \<Rightarrow> False)"
| "has_type (GTStruct fs) = (\<lambda>v. case v of VStruct vs \<Rightarrow> fields_ok (map (\<lambda>(n, om, t). has_type t) fs) vs | _ \<Rightarrow> False)"
| "has_type (GTOpen fs t) = (\<lambda>v. case v of
       VOpen vs ap \<Rightarrow> fields_ok (map (\<lambda>(n, om, t). has_type t) fs) vs \<and>
         (case ap of VNil \<Rightarrow> True | VMap kvs \<Rightarrow> ordered_keys kvs \<and> list_all (has_type t \<circ> snd) kvs | _ \<Rightarrow> False)
     | _ \<Rightarrow> False)"

lemma fields_ok_nth:
  "fields_ok (map (\<lambda>(n, om, t). p t) fs) vs \<longleftrightarrow>
     length vs = length fs \<and> (\<forall>i < length fs. p (snd (snd (fs ! i))) (vs ! i))"
  by (auto simp: fields_ok_def list_all2_conv_all_nth case_prod_beta)

lemma float_lit_ok:
  "float_of_lit l = Some f \<Longrightarrow> float_ok 64 f" "float32_of_lit l = Some f \<Longrightarrow> float_ok 32 f"
  using float_lit_bounds [of 53 "-1074" 1024 l] float_lit_bounds [of 24 "-149" 128 l]
  by (cases f; auto simp: float_ok_def float_of_lit_def float32_of_lit_def)+

lemma int_of_lit_range: "int_of_lit l = Some i \<Longrightarrow> in_int64 i"
  by (auto simp: int_of_lit_def Let_def split: if_splits)

lemma list_all_go_map: "list_all (p \<circ> snd) kvs \<Longrightarrow> list_all (p \<circ> snd) (go_map kvs)"
  using go_map_sub [of kvs] by (auto simp: list_all_iff)

lemma list_all_zip_snd: "list_all p vs \<Longrightarrow> list_all (p \<circ> snd) (zip ks vs)"
  by (auto simp: list_all_iff dest: set_zip_rightD)

lemma any_of_json_ok: "any_of_json j = Some v \<Longrightarrow> any_ok v"
proof (induction j arbitrary: v rule: any_of_json.induct)
  case (5 vs)
  then show ?case by (auto simp: all_some_map_iff list_all_length in_set_conv_nth) (metis nth_mem)
next
  case (6 kvs)
  then obtain vs where vs: "all_some (map (\<lambda>(k, v). any_of_json v) kvs) = Some vs"
    and v: "v = VMap (go_map (zip (map fst kvs) vs))" by auto
  have "any_ok x" if "x \<in> set vs" for x
  proof -
    obtain i where i: "i < length vs" "vs ! i = x" using \<open>x \<in> set vs\<close> by (auto simp: in_set_conv_nth)
    moreover have "length vs = length kvs" using vs by (simp add: all_some_map_iff)
    ultimately have i: "i < length kvs" "vs ! i = x" by simp_all
    then have "any_of_json (snd (kvs ! i)) = Some x" using vs by (auto simp: all_some_map_iff case_prod_beta)
    with 6(1) [of "kvs ! i" "fst (kvs ! i)" "snd (kvs ! i)"] i show ?thesis by simp
  qed
  then have "list_all (any_ok \<circ> snd) (go_map (zip (map fst kvs) vs))"
    by (intro list_all_go_map list_all_zip_snd) (simp add: list_all_iff)
  then show ?case by (simp add: v go_map_ordered case_prod_beta' comp_def)
qed (auto dest: float_lit_ok)

lemma field_nth: "i < length fs \<Longrightarrow> (fst (fs ! i), fst (snd (fs ! i)), snd (snd (fs ! i))) \<in> set fs"
  by simp

lemma zero_typed: "has_type t (zero_value t)"
proof (induction t rule: go_type_induct)
  case (Struct fs)
  then show ?case by (auto simp: fields_ok_nth case_prod_beta dest: field_nth)
next
  case (Open fs e)
  then show ?case by (auto simp: fields_ok_nth case_prod_beta dest: field_nth)
qed (auto simp: in_int64_def max_int64_def min_int64_def float_ok_def bit_len_eval)

section \<open>Decoding is type sound\<close>

lemma elems_into_typed:
  assumes "elems_into f z os js = Some vs" and "p z" and "list_all p os"
    and "\<And>a j b. p a \<Longrightarrow> j \<in> set js \<Longrightarrow> f a j = Some b \<Longrightarrow> p b"
  shows "list_all p vs"
  using assms
proof (induction f z os js arbitrary: vs rule: elems_into.induct)
  case (2 f z os j js)
  from 2(2) obtain a as where a: "f (case os of [] \<Rightarrow> z | a # _ \<Rightarrow> a) j = Some a" and as: "elems_into f z (tl os) js = Some as"
    and vs: "vs = a # as"
    by (auto split: option.splits)
  have "p (case os of [] \<Rightarrow> z | a # _ \<Rightarrow> a)" using 2(3,4) by (cases os) auto
  then have "p a" by (rule 2(5) [OF _ _ a]) simp
  moreover have "list_all p as"
  proof (rule 2(1) [OF as 2(3)])
    show "list_all p (tl os)" using 2(4) by (cases os) auto
    show "p y" if "p x" "w \<in> set js" "f x w = Some y" for x w y
      by (rule 2(5) [OF that(1) _ that(3)]) (simp add: that(2))
  qed
  ultimately show ?case by (simp add: vs)
qed simp

lemma struct_into_nth:
  assumes "struct_into (map (\<lambda>(n, om, t). (n, g t)) fs) kvs olds = Some vs" and "i < length fs"
  shows "into_seq (g (snd (snd (fs ! i)))) (olds ! i) (field_vals (map fst fs) kvs (fst (fs ! i))) = Some (vs ! i)"
    and "length vs = length fs" and "length olds = length fs"
  using assms by (auto simp: struct_into_def all_some2_Some_iff case_prod_beta comp_def)

definition open_rest :: "(bytes \<times> 'a) list \<Rightarrow> members \<Rightarrow> members" where
  "open_rest fs kvs = filter (\<lambda>kv. fst kv \<notin> fst ` set fs) (go_map kvs)"

lemma open_into_parts:
  assumes "open_into (map (\<lambda>(n, om, t). (n, g t)) fs) elem kvs olds ap = Some v"
  obtains vs as where "v = VOpen vs (if open_rest fs kvs = [] then ap else VMap (zip (map fst (open_rest fs kvs)) as))"
    and "length vs = length fs" and "length olds = length fs"
    and "\<And>i. i < length fs \<Longrightarrow> (case map_of (go_map kvs) (fst (fs ! i)) of None \<Rightarrow> Some (olds ! i)
       | Some j \<Rightarrow> g (snd (snd (fs ! i))) (olds ! i) j) = Some (vs ! i)"
    and "all_some (map (elem \<circ> snd) (open_rest fs kvs)) = Some as"
proof -
  let ?fs = "map (\<lambda>(n, om, t). (n, g t)) fs"
  let ?f = "\<lambda>(n, f) old. case map_of (go_map kvs) n of None \<Rightarrow> Some old | Some v \<Rightarrow> f old v"
  have "fst ` set ?fs = fst ` set fs" by (force simp: image_iff)
  then have rest: "filter (\<lambda>kv. fst kv \<notin> fst ` set ?fs) (go_map kvs) = open_rest fs kvs" by (simp add: open_rest_def)
  obtain vs as where vs: "all_some2 ?f ?fs olds = Some vs" and as: "all_some (map (elem \<circ> snd) (open_rest fs kvs)) = Some as"
    and v: "v = VOpen vs (if open_rest fs kvs = [] then ap else VMap (zip (map fst (open_rest fs kvs)) as))"
    using assms unfolding open_into_def Let_def rest
    by (cases "all_some2 ?f ?fs olds"; cases "all_some (map (elem \<circ> snd) (open_rest fs kvs))") auto
  show ?thesis
  proof (rule that [OF v _ _ _ as])
    show "length vs = length fs" "length olds = length fs" using vs by (simp_all add: all_some2_Some_iff)
    fix i assume i: "i < length fs"
    then have e: "?fs ! i = (case fs ! i of (n, om, t) \<Rightarrow> (n, g t))" by simp
    have "i < length olds" using vs i by (simp add: all_some2_Some_iff)
    then have "?f (?fs ! i) (olds ! i) = Some (vs ! i)" using vs unfolding all_some2_Some_iff by blast
    moreover obtain n om t where "fs ! i = (n, om, t)" by (cases "fs ! i")
    ultimately show "(case map_of (go_map kvs) (fst (fs ! i)) of None \<Rightarrow> Some (olds ! i)
       | Some j \<Rightarrow> g (snd (snd (fs ! i))) (olds ! i) j) = Some (vs ! i)" by (simp add: e cong: option.case_cong)
  qed
qed

lemma ordered_keys_filter: "ordered_keys kvs \<Longrightarrow> ordered_keys (filter p kvs)"
  by (simp add: ordered_keys_def distinct_map_filter sorted_filter)

theorem into_typed: "has_type t old \<Longrightarrow> into t old j = Some v \<Longrightarrow> has_type t v"
proof (induction t arbitrary: old j v rule: go_type_induct)
  case (Ptr t)
  let ?old = "case old of VPtr v \<Rightarrow> v | _ \<Rightarrow> zero_value t"
  have "has_type t ?old" using Ptr(2) zero_typed [of t] by (cases old) auto
  then show ?case using Ptr(1) [of ?old j] Ptr(3) by (auto split: if_splits)
next
  case (Slice t)
  let ?os = "case old of VSlice os \<Rightarrow> os | _ \<Rightarrow> []"
  have "list_all (has_type t) ?os" using Slice(2) by (cases old) auto
  then have "list_all (has_type t) vs" if "elems_into (into t) (zero_value t) ?os js = Some vs" for js vs
    using elems_into_typed [OF that, of "has_type t"] zero_typed [of t] Slice(1) by blast
  then show ?case using Slice(3) by (cases j) auto
next
  case (Map t)
  show ?case
  proof (cases j)
    case (JObj kvs)
    then obtain vs where vs: "all_some (map (into t (zero_value t) \<circ> snd) kvs) = Some vs"
      and v: "v = VMap (go_map ((case old of VMap m \<Rightarrow> m | _ \<Rightarrow> []) @ zip (map fst kvs) vs))"
      using Map(3) by auto
    have "list_all (has_type t) vs"
      using vs Map(1) [OF zero_typed] by (auto simp: all_some_map_iff list_all_length)
    moreover have "list_all (has_type t \<circ> snd) (case old of VMap m \<Rightarrow> m | _ \<Rightarrow> [])"
      using Map(2) by (auto split: gv.splits)
    ultimately show ?thesis
      using list_all_go_map [of "has_type t"] list_all_zip_snd [of "has_type t" vs "map fst kvs"]
      by (simp add: v go_map_ordered)
  qed (use Map in auto)
next
  case (Struct fs)
  show ?case
  proof (cases j)
    case (JObj kvs)
    then obtain olds vs where o: "old = VStruct olds" "v = VStruct vs"
      and vs: "struct_into (map (\<lambda>(n, om, t). (n, into t)) fs) kvs olds = Some vs"
      using Struct(3) by (auto split: gv.splits)
    have "has_type (snd (snd (fs ! i))) (vs ! i)" if i: "i < length fs" for i
    proof (rule into_seq_rule [OF struct_into_nth(1) [OF vs i]])
      show "has_type (snd (snd (fs ! i))) (olds ! i)" using Struct(2) i by (simp add: o fields_ok_nth)
      show "has_type (snd (snd (fs ! i))) b" if "has_type (snd (snd (fs ! i))) a" "into (snd (snd (fs ! i))) a x = Some b" for a x b
        by (rule Struct(1) [OF field_nth [OF i] that])
    qed
    moreover have "length vs = length fs"
      using vs by (auto simp: struct_into_def all_some2_Some_iff)
    ultimately show ?thesis by (simp add: o fields_ok_nth)
  qed (use Struct in auto)
next
  case (Open fs e)
  show ?case
  proof (cases j)
    case (JObj kvs)
    then obtain olds ap where o: "old = VOpen olds ap"
      and w: "open_into (map (\<lambda>(n, om, t). (n, into t)) fs) (into e (zero_value e)) kvs olds ap = Some v"
      using Open(4) by (auto split: gv.splits)
    let ?rest = "open_rest fs kvs"
    obtain vs as where v: "v = VOpen vs (if ?rest = [] then ap else VMap (zip (map fst ?rest) as))"
      and len: "length vs = length fs"
      and f: "\<And>i. i < length fs \<Longrightarrow> (case map_of (go_map kvs) (fst (fs ! i)) of None \<Rightarrow> Some (olds ! i)
         | Some j \<Rightarrow> into (snd (snd (fs ! i))) (olds ! i) j) = Some (vs ! i)"
      and as: "all_some (map (into e (zero_value e) \<circ> snd) ?rest) = Some as"
      by (rule open_into_parts [OF w]) (rule that)
    have "has_type (snd (snd (fs ! i))) (vs ! i)" if i: "i < length fs" for i
    proof -
      have "has_type (snd (snd (fs ! i))) (olds ! i)" using Open(3) i by (simp add: o fields_ok_nth)
      then show ?thesis using f [OF i] Open(1) [OF field_nth [OF i]] by (auto split: option.splits)
    qed
    moreover have "list_all (has_type e) as"
      using as Open(2) [OF zero_typed] by (auto simp: all_some_map_iff list_all_length)
    moreover have "length as = length ?rest" using as by (simp add: all_some_map_iff)
    moreover have "ordered_keys ?rest" by (simp add: open_rest_def ordered_keys_filter go_map_ordered)
    ultimately show ?thesis
      using Open(3) len by (auto simp: v o fields_ok_nth list_all_zip_snd ordered_keys_zip)
  qed (use Open in auto)
qed (auto simp: any_of_json_ok dest: int_of_lit_range float_lit_ok split: json.splits)

end
