(* ===== verification/Go_Roundtrip.thy ===== *)
theory Go_Roundtrip
  imports Go_Codec "HOL-Library.Multiset"
begin

text \<open>
  Decoding what was encoded, by type. A value comes back unless JSON cannot say what it is: a pointer to
  nil is written as the nil pointer, an integer in an interface comes back as a float, a nil union as
  the document \<open>null\<close>, and an empty list that \<open>omitempty\<close> leaves out as nil. \<open>plain_value\<close> excludes these, and
  everything a decoder gives is plain.
\<close>

section \<open>Plain values\<close>

fun any_plain :: "gv \<Rightarrow> bool" where
  "any_plain VNil = True"
| "any_plain (VBool b) = True"
| "any_plain (VFloat k f) = (k = 64)"
| "any_plain (VStr s) = valid_utf8 s"
| "any_plain (VSlice vs) = list_all any_plain vs"
| "any_plain (VMap kvs) = list_all (\<lambda>(k, v). valid_utf8 k \<and> any_plain v) kvs"
| "any_plain _ = False"

text \<open>What is written as \<open>null\<close>.\<close>

definition null_value :: "gv \<Rightarrow> bool" where
  "null_value v \<longleftrightarrow> v = VNil \<or> v = VRaw None \<or> v = VRaw (Some JNull)"

fun plain_value :: "go_type \<Rightarrow> (gv \<Rightarrow> bool)" where
  "plain_value GTStr = (\<lambda>v. case v of VStr s \<Rightarrow> valid_utf8 s | _ \<Rightarrow> True)"
| "plain_value GTAny = any_plain"
| "plain_value GTRaw = (\<lambda>v. case v of VRaw (Some j) \<Rightarrow> json_ok j | _ \<Rightarrow> True)"
| "plain_value (GTPtr t) = (\<lambda>v. case v of VPtr x \<Rightarrow> plain_value t x \<and> \<not> null_value x | _ \<Rightarrow> True)"
| "plain_value (GTSlice t) = (\<lambda>v. case v of VSlice vs \<Rightarrow> list_all (plain_value t) vs | _ \<Rightarrow> True)"
| "plain_value (GTMap t) = (\<lambda>v. case v of VMap kvs \<Rightarrow> list_all (\<lambda>kv. valid_utf8 (fst kv) \<and> plain_value t (snd kv)) kvs | _ \<Rightarrow> True)"
| "plain_value (GTStruct fs) = (\<lambda>v. case v of VStruct vs \<Rightarrow> fields_ok (map (\<lambda>(n, om, t). plain_value t) fs) vs | _ \<Rightarrow> True)"
| "plain_value (GTOpen fs t) = (\<lambda>v. case v of
       VOpen vs ap \<Rightarrow> fields_ok (map (\<lambda>(n, om, t). plain_value t) fs) vs \<and>
         (case ap of VMap kvs \<Rightarrow> kvs \<noteq> [] \<and>
            list_all (\<lambda>kv. valid_utf8 (fst kv) \<and> fst kv \<notin> fst ` set fs \<and> plain_value t (snd kv)) kvs | _ \<Rightarrow> True)
     | _ \<Rightarrow> True)"
| "plain_value _ = (\<lambda>v. True)"

text \<open>Every union holds a document, and the floats of a value.\<close>

fun raws_set :: "gv \<Rightarrow> bool" where
  "raws_set (VRaw r) = (r \<noteq> None)"
| "raws_set (VPtr v) = raws_set v"
| "raws_set (VSlice vs) = list_all raws_set vs"
| "raws_set (VMap kvs) = list_all (\<lambda>(k, v). raws_set v) kvs"
| "raws_set (VStruct vs) = list_all raws_set vs"
| "raws_set (VOpen vs ap) = (list_all raws_set vs \<and> raws_set ap)"
| "raws_set _ = True"

text \<open>What \<open>strconv\<close> promises of the text it prints for a float: it is a number and reads as the float.\<close>

definition reads_back :: "float_text \<Rightarrow> nat \<Rightarrow> int \<times> int \<Rightarrow> bool" where
  "reads_back ft k f \<longleftrightarrow> scan_num (ft k f) = Some (ft k f) \<and>
     (if k = 32 then float32_of_lit (ft k f) else float_of_lit (ft k f)) = Some f"

fun floats_print :: "float_text \<Rightarrow> gv \<Rightarrow> bool" where
  "floats_print ft (VFloat k f) = reads_back ft k f"
| "floats_print ft (VPtr v) = floats_print ft v"
| "floats_print ft (VSlice vs) = list_all (floats_print ft) vs"
| "floats_print ft (VMap kvs) = list_all (\<lambda>(k, v). floats_print ft v) kvs"
| "floats_print ft (VStruct vs) = list_all (floats_print ft) vs"
| "floats_print ft (VOpen vs ap) = (list_all (floats_print ft) vs \<and> floats_print ft ap)"
| "floats_print ft _ = True"

text \<open>
  What the generator keeps to: field names in ASCII and distinct, \<open>omitempty\<close> only
  where the empty value is the zero value, and additional properties beside distinct names, tested for
  nil only where a field can be.
\<close>

definition omit_safe :: "go_type \<Rightarrow> bool" where
  "omit_safe t \<longleftrightarrow> (case t of GTSlice _ \<Rightarrow> False | GTMap _ \<Rightarrow> False | GTFloat32 \<Rightarrow> False | _ \<Rightarrow> True)"

definition ascii_name :: "bytes \<Rightarrow> bool" where
  "ascii_name n \<longleftrightarrow> list_all (\<lambda>c. byte c < 128) n"

fun schema_ok :: "go_type \<Rightarrow> bool" where
  "schema_ok (GTPtr t) = schema_ok t"
| "schema_ok (GTSlice t) = schema_ok t"
| "schema_ok (GTMap t) = schema_ok t"
| "schema_ok (GTStruct fs) = (distinct (map fst fs) \<and>
     list_all (\<lambda>(n, om, t). ascii_name n \<and> (om \<longrightarrow> omit_safe t) \<and> schema_ok t) fs)"
| "schema_ok (GTOpen fs t) = (distinct (map fst fs) \<and> schema_ok t \<and>
     list_all (\<lambda>(n, om, t). ascii_name n \<and> (om \<longrightarrow> zero_value t = VNil) \<and> schema_ok t) fs)"
| "schema_ok _ = True"

section \<open>Interfaces\<close>

lemma all_some_map_ex:
  assumes "\<And>x. x \<in> set xs \<Longrightarrow> \<exists>y. f x = Some y \<and> p x y"
  obtains ys where "all_some (map f xs) = Some ys" and "length ys = length xs"
    and "\<And>i. i < length xs \<Longrightarrow> f (xs ! i) = Some (ys ! i) \<and> p (xs ! i) (ys ! i)"
proof -
  let ?ys = "map (the \<circ> f) xs"
  have f: "f x = Some (the (f x)) \<and> p x (the (f x))" if "x \<in> set xs" for x using assms [OF that] by auto
  then have "all_some (map f xs) = Some ?ys" by (simp add: all_some_map_iff)
  then show ?thesis by (rule that) (use f in auto)
qed

lemma sort_zip_keys: "ordered_keys kvs \<Longrightarrow> length js = length kvs \<Longrightarrow> sort_key fst (zip (map fst kvs) js) = zip (map fst kvs) js"
  by (rule sort_key_id_if_sorted) (simp add: ordered_keys_def)

lemma zip_fst_snd: "length vs = length kvs \<Longrightarrow> (\<And>i. i < length kvs \<Longrightarrow> vs ! i = snd (kvs ! i)) \<Longrightarrow> zip (map fst kvs) vs = kvs"
  by (rule nth_equalityI) (auto simp: prod_eq_iff)

lemma any_roundtrip:
  assumes "any_ok v" and "any_plain v" and "floats_print ft v"
  shows "\<exists>j. any_to_json ft v = Some j \<and> json_ok j \<and> (j = JNull \<longleftrightarrow> v = VNil) \<and> any_of_json j = Some v"
  using assms
proof (induction ft v rule: any_to_json.induct)
  case (6 ft vs)
  have "\<exists>j. any_to_json ft v = Some j \<and> (json_ok j \<and> any_of_json j = Some v)" if "v \<in> set vs" for v
    using 6(1) [OF that] 6(2-4) that by (auto simp: list_all_iff)
  then obtain js where js: "all_some (map (any_to_json ft) vs) = Some js" "length js = length vs"
    "\<And>i. i < length vs \<Longrightarrow> any_to_json ft (vs ! i) = Some (js ! i) \<and> (json_ok (js ! i) \<and> any_of_json (js ! i) = Some (vs ! i))"
    by (rule all_some_map_ex [where xs = vs and f = "any_to_json ft"]) (assumption | rule that)+
  then have "all_some (map any_of_json js) = Some vs" by (simp add: all_some_map_iff)
  with js show ?case by (auto simp: list_all_length)
next
  case (7 ft kvs)
  have "\<exists>j. any_to_json ft (snd kv) = Some j \<and> (json_ok j \<and> any_of_json j = Some (snd kv))" if "kv \<in> set kvs" for kv
    using 7(1) [OF that, of "fst kv" "snd kv"] 7(2-4) that by (fastforce simp: list_all_iff)
  then obtain js where js: "all_some (map (\<lambda>kv. any_to_json ft (snd kv)) kvs) = Some js" "length js = length kvs"
    "\<And>i. i < length kvs \<Longrightarrow> any_to_json ft (snd (kvs ! i)) = Some (js ! i) \<and> (json_ok (js ! i) \<and> any_of_json (js ! i) = Some (snd (kvs ! i)))"
    by (rule all_some_map_ex [where xs = kvs and f = "\<lambda>kv. any_to_json ft (snd kv)"]) (assumption | rule that)+
  let ?kjs = "zip (map fst kvs) js"
  have ord: "ordered_keys kvs" using 7(2) by simp
  have "json_ok (JObj ?kjs)"
    using 7(3) js(2,3) by (auto simp: list_all_length)
  moreover have "any_of_json (JObj ?kjs) = Some (VMap kvs)"
  proof -
    have "all_some (map (\<lambda>(k, v). any_of_json v) ?kjs) = Some (map snd kvs)"
      using js(2,3) by (simp add: all_some_map_iff)
    moreover have "zip (map fst ?kjs) (map snd kvs) = kvs" using js(2) by (simp add: zip_map_fst_snd)
    ultimately show ?thesis using go_map_id [OF ord] by simp
  qed
  moreover have "any_to_json ft (VMap kvs) = Some (JObj ?kjs)"
    using js(1) sort_zip_keys [OF ord js(2)] by (simp add: case_prod_beta')
  ultimately show ?case by blast
qed (auto simp: reads_back_def)

section \<open>Structs\<close>

text \<open>
  The members a struct is written as: under every field's name its encoding, or nothing when it is left
  out, and no others.
\<close>

lemma struct_members_spec:
  assumes "struct_members fs vs = Some kvs" and "distinct (map fst fs)"
  shows "length vs = length fs \<and> fst ` set kvs \<subseteq> fst ` set fs \<and> distinct (map fst kvs) \<and>
    (\<forall>i < length fs. filter (\<lambda>kv. fst kv = fst (fs ! i)) kvs =
       (if fst (snd (fs ! i)) (vs ! i) then [] else [(fst (fs ! i), the (snd (snd (fs ! i)) (vs ! i)))]))"
  using assms
proof (induction fs vs arbitrary: kvs rule: struct_members.induct)
  case (2 n skip f fs v vs)
  obtain rest where rest: "struct_members fs vs = Some rest"
    and kvs: "kvs = (if skip v then rest else (n, the (f v)) # rest)"
    using 2(3) by (auto split: if_splits option.splits)
  have n: "n \<notin> fst ` set fs" and d: "distinct (map fst fs)" using 2(4) by auto
  have IH: "length vs = length fs \<and> fst ` set rest \<subseteq> fst ` set fs \<and> distinct (map fst rest) \<and>
    (\<forall>i < length fs. filter (\<lambda>kv. fst kv = fst (fs ! i)) rest =
       (if fst (snd (fs ! i)) (vs ! i) then [] else [(fst (fs ! i), the (snd (snd (fs ! i)) (vs ! i)))]))"
    using 2(1,2) rest d by (cases "skip v") (auto split: option.splits)
  have none: "filter (\<lambda>kv. fst kv = n) rest = []" using IH n by (auto simp: filter_empty_conv)
  have "n \<noteq> fst (fs ! i)" if "i < length fs" for i using n that by (metis imageI nth_mem)
  then show ?case using IH none n by (auto simp: kvs All_less_Suc2)
qed auto

lemma struct_members_total:
  assumes "length vs = length fs"
    and "\<And>i. i < length fs \<Longrightarrow> fst (snd (fs ! i)) (vs ! i) \<or> snd (snd (fs ! i)) (vs ! i) \<noteq> None"
  shows "\<exists>kvs. struct_members fs vs = Some kvs"
  using assms
proof (induction fs vs rule: struct_members.induct)
  case (2 n skip f fs v vs)
  have "fst (snd (fs ! i)) (vs ! i) \<or> snd (snd (fs ! i)) (vs ! i) \<noteq> None" if "i < length fs" for i
    using 2(4) [of "Suc i"] that by simp
  then have "\<exists>kvs. struct_members fs vs = Some kvs" using 2(1,2,3) by (cases "skip v") auto
  then show ?case using 2(4) [of 0] by auto
qed auto

text \<open>A member of the object, and where it comes from.\<close>

lemma struct_member_field:
  assumes "struct_members fs vs = Some kvs" and "distinct (map fst fs)" and "(k, j) \<in> set kvs"
  obtains i where "i < length fs" and "k = fst (fs ! i)" and "\<not> fst (snd (fs ! i)) (vs ! i)"
    and "j = the (snd (snd (fs ! i)) (vs ! i))"
proof -
  note spec = struct_members_spec [OF assms(1,2)]
  have "k \<in> fst ` set kvs" using imageI [OF assms(3), of fst] by simp
  then have "k \<in> fst ` set fs" using spec by blast
  then obtain f where "f \<in> set fs" "k = fst f" by blast
  then obtain i where i: "i < length fs" "k = fst (fs ! i)" by (metis in_set_conv_nth)
  have "(k, j) \<in> set (filter (\<lambda>kv. fst kv = fst (fs ! i)) kvs)" using assms(3) i(2) by simp
  then show ?thesis using spec i that by (auto split: if_splits)
qed

text \<open>An omitted field of a type that may be omitted is zero.\<close>

lemma omits_zero: "has_type t v \<Longrightarrow> omit_safe t \<Longrightarrow> omits t v \<Longrightarrow> v = zero_value t"
  by (cases t; cases v) (auto simp: omit_safe_def omits_def split: if_splits)

definition readable :: "float_text \<Rightarrow> go_type \<Rightarrow> gv \<Rightarrow> bool" where
  "readable ft t v \<longleftrightarrow> has_type t v \<and> plain_value t v \<and> raws_set v \<and> floats_print ft v"

text \<open>Every field of a struct is encoded, and read back from the object its members make.\<close>

lemma fields_roundtrip:
  assumes names: "distinct (map fst fs)" and ascii: "\<And>n om t. (n, om, t) \<in> set fs \<Longrightarrow> ascii_name n"
    and len: "length vs = length fs"
    and skip: "\<And>i. i < length fs \<Longrightarrow> skip (fs ! i) (vs ! i) \<Longrightarrow> vs ! i = zero_value (snd (snd (fs ! i)))"
    and field: "\<And>i. i < length fs \<Longrightarrow> \<exists>j. to_json ft (snd (snd (fs ! i))) (vs ! i) = Some j \<and> json_ok j \<and>
      into (snd (snd (fs ! i))) (zero_value (snd (snd (fs ! i)))) j = Some (vs ! i)"
  obtains kvs where "struct_members (map (\<lambda>f. (fst f, skip f, to_json ft (snd (snd f)))) fs) vs = Some kvs"
    and "json_ok (JObj kvs)" and "fst ` set kvs \<subseteq> fst ` set fs" and "distinct (map fst kvs)"
    and "\<And>i. i < length fs \<Longrightarrow> (filter (\<lambda>kv. fst kv = fst (fs ! i)) kvs = [] \<and> vs ! i = zero_value (snd (snd (fs ! i)))) \<or>
      (\<exists>j. filter (\<lambda>kv. fst kv = fst (fs ! i)) kvs = [(fst (fs ! i), j)] \<and>
         into (snd (snd (fs ! i))) (zero_value (snd (snd (fs ! i)))) j = Some (vs ! i))"
proof -
  let ?fs = "map (\<lambda>f. (fst f, skip f, to_json ft (snd (snd f)))) fs"
  have d: "distinct (map fst ?fs)" using names by (simp add: comp_def)
  have "\<exists>kvs. struct_members ?fs vs = Some kvs" by (rule struct_members_total) (use len field in force)+
  then obtain kvs where kvs: "struct_members ?fs vs = Some kvs" ..
  note spec = struct_members_spec [OF kvs d]
  show ?thesis
  proof (rule that [OF kvs])
    have "valid_utf8 k \<and> json_ok j" if kj: "(k, j) \<in> set kvs" for k j
    proof -
      obtain i where i: "i < length fs" "k = fst (fs ! i)" "j = the (to_json ft (snd (snd (fs ! i))) (vs ! i))"
        by (rule struct_member_field [OF kvs d kj]) auto
      moreover have "valid_utf8 k" using ascii [OF field_nth [OF i(1)]] i(2) by (simp add: ascii_name_def valid_utf8_ascii)
      ultimately show ?thesis using field by force
    qed
    then show "json_ok (JObj kvs)" by (auto simp: list_all_iff)
    have "fst ` set ?fs = fst ` set fs" by (simp add: image_image)
    then show "fst ` set kvs \<subseteq> fst ` set fs" using spec by simp
    show "distinct (map fst kvs)" using spec by blast
    fix i assume i: "i < length fs"
    then show "(filter (\<lambda>kv. fst kv = fst (fs ! i)) kvs = [] \<and> vs ! i = zero_value (snd (snd (fs ! i)))) \<or>
      (\<exists>j. filter (\<lambda>kv. fst kv = fst (fs ! i)) kvs = [(fst (fs ! i), j)] \<and>
         into (snd (snd (fs ! i))) (zero_value (snd (snd (fs ! i)))) j = Some (vs ! i))"
      using conjunct2 [OF conjunct2 [OF conjunct2 [OF spec]], rule_format, of i] skip [OF i] field [OF i]
      by (cases "skip (fs ! i) (vs ! i)") auto
  qed
qed

section \<open>The round trip\<close>

lemma readable_parts:
  "readable ft (GTPtr t) (VPtr x) \<longleftrightarrow> readable ft t x \<and> \<not> null_value x"
  "readable ft (GTSlice t) (VSlice vs) \<longleftrightarrow> list_all (readable ft t) vs"
  "readable ft (GTMap t) (VMap kvs) \<longleftrightarrow> ordered_keys kvs \<and> list_all (\<lambda>kv. valid_utf8 (fst kv) \<and> readable ft t (snd kv)) kvs"
  "readable ft (GTStruct fs) (VStruct vs) \<longleftrightarrow>
     length vs = length fs \<and> (\<forall>i < length fs. readable ft (snd (snd (fs ! i))) (vs ! i))"
  by (auto simp: readable_def list_all_iff fields_ok_nth) (auto simp: in_set_conv_nth)

lemma elems_into_zero:
  "length vs = length js \<Longrightarrow> (\<And>i. i < length js \<Longrightarrow> f z (js ! i) = Some (vs ! i)) \<Longrightarrow> elems_into f z [] js = Some vs"
proof (induction js arbitrary: vs)
  case (Cons j js)
  then obtain a as where vs: "vs = a # as" by (cases vs) auto
  have "f z j = Some a" using Cons(3) [of 0] by (simp add: vs)
  moreover have "elems_into f z [] js = Some as"
  proof (rule Cons.IH)
    show "f z (js ! i) = Some (as ! i)" if "i < length js" for i using Cons(3) [of "Suc i"] that by (simp add: vs)
  qed (use Cons(2) vs in simp)
  ultimately show ?case by (simp add: vs)
qed simp

text \<open>The same for a struct with additional properties, whose own names come first.\<close>

lemma open_rest_own:
  assumes "distinct (map fst (kvs @ ap))" and "fst ` set kvs \<subseteq> fst ` set fs" and "fst ` set ap \<inter> fst ` set fs = {}"
    and "ordered_keys ap"
  shows "open_rest fs (go_map (kvs @ ap)) = ap"
proof -
  have "filter (\<lambda>kv. fst kv \<notin> fst ` set fs) (kvs @ ap) = ap"
  proof -
    have "filter (\<lambda>kv. fst kv \<notin> fst ` set fs) kvs = []" using assms(2) by (auto simp: filter_empty_conv)
    moreover have "filter (\<lambda>kv. fst kv \<notin> fst ` set fs) ap = ap" using assms(3) by (auto simp: filter_id_conv)
    ultimately show ?thesis by simp
  qed
  moreover have "open_rest fs (go_map (kvs @ ap)) = sort_key fst (filter (\<lambda>kv. fst kv \<notin> fst ` set fs) (kvs @ ap))"
    unfolding open_rest_def go_map_id [OF go_map_ordered]
    by (simp add: go_map_def last_members_id [OF assms(1)] filter_sort)
  ultimately show ?thesis using assms(4) by (simp add: ordered_keys_def sort_key_id_if_sorted)
qed

lemma open_into_own:
  assumes d: "distinct (map fst (kvs @ ap))" and sub: "fst ` set kvs \<subseteq> fst ` set fs"
    and disj: "fst ` set ap \<inter> fst ` set fs = {}" and ord: "ordered_keys ap"
    and len: "length vs = length fs" "length ws = length ap"
    and parts: "\<And>i. i < length fs \<Longrightarrow> (filter (\<lambda>kv. fst kv = fst (fs ! i)) kvs = [] \<and> vs ! i = zs ! i) \<or>
      (\<exists>j. filter (\<lambda>kv. fst kv = fst (fs ! i)) kvs = [(fst (fs ! i), j)] \<and> g (snd (snd (fs ! i))) (zs ! i) j = Some (vs ! i))"
    and zs: "length zs = length fs"
    and elems: "\<And>i. i < length ap \<Longrightarrow> elem (snd (ap ! i)) = Some (ws ! i)"
  shows "open_into (map (\<lambda>(n, om, t). (n, g t)) fs) elem (go_map (kvs @ ap)) zs rest =
    Some (VOpen vs (if ap = [] then rest else VMap (zip (map fst ap) ws)))"
proof -
  let ?obj = "go_map (kvs @ ap)"
  let ?fs = "map (\<lambda>(n, om, t). (n, g t)) fs"
  let ?f = "\<lambda>(n, f) old. case map_of ?obj n of None \<Rightarrow> Some old | Some v \<Rightarrow> f old v"
  have obj: "go_map ?obj = ?obj" by (rule go_map_id [OF go_map_ordered])
  have dobj: "distinct (map fst ?obj)" using go_map_ordered [of "kvs @ ap"] by (simp add: ordered_keys_def)
  have "fst ` set ?fs = fst ` set fs" by (force simp: image_iff)
  then have rest: "filter (\<lambda>kv. fst kv \<notin> fst ` set ?fs) ?obj = ap"
    using open_rest_own [OF d sub disj ord] by (simp add: open_rest_def obj)
  have "?f (?fs ! i) (zs ! i) = Some (vs ! i)" if i: "i < length fs" for i
  proof -
    have e: "?fs ! i = (fst (fs ! i), g (snd (snd (fs ! i))))" using i by (simp add: case_prod_beta)
    have n: "fst (fs ! i) \<notin> fst ` set ap" using disj i by (metis IntI empty_iff imageI nth_mem)
    from parts [OF i] show ?thesis
    proof (elim disjE exE conjE)
      assume none: "filter (\<lambda>kv. fst kv = fst (fs ! i)) kvs = []" and z: "vs ! i = zs ! i"
      have "fst (fs ! i) \<notin> fst ` set kvs" using none by (auto simp: filter_empty_conv)
      with n have "fst (fs ! i) \<notin> fst ` set ?obj" by (simp add: image_Un)
      then have "map_of ?obj (fst (fs ! i)) = None" by (simp add: map_of_eq_None_iff)
      then show ?thesis by (simp add: e z)
    next
      fix j assume one: "filter (\<lambda>kv. fst kv = fst (fs ! i)) kvs = [(fst (fs ! i), j)]"
        and v: "g (snd (snd (fs ! i))) (zs ! i) j = Some (vs ! i)"
      have "(fst (fs ! i), j) \<in> set (filter (\<lambda>kv. fst kv = fst (fs ! i)) kvs)" by (simp add: one)
      then have "(fst (fs ! i), j) \<in> set ?obj" by (simp add: go_map_set [OF d])
      then have "map_of ?obj (fst (fs ! i)) = Some j" using dobj by simp
      then show ?thesis by (simp add: e v)
    qed
  qed
  then have "all_some2 ?f ?fs zs = Some vs" unfolding all_some2_Some_iff using len zs by simp
  moreover have "all_some (map (elem \<circ> snd) ap) = Some ws" using len elems by (simp add: all_some_map_iff)
  ultimately show ?thesis unfolding open_into_def Let_def obj rest by simp
qed

theorem to_json_into:
  assumes "schema_ok t" and "readable ft t v"
  shows "\<exists>j. to_json ft t v = Some j \<and> json_ok j \<and> (j = JNull \<longleftrightarrow> null_value v) \<and> into t (zero_value t) j = Some v"
  using assms
proof (induction t arbitrary: v rule: go_type_induct)
  case Any
  then show ?case using any_roundtrip [of v ft] by (fastforce simp: readable_def null_value_def)
next
  case (Ptr t)
  show ?case
  proof (cases v)
    case (VPtr x)
    with Ptr show ?thesis by (fastforce simp: readable_parts null_value_def)
  qed (use Ptr in \<open>auto simp: readable_def null_value_def\<close>)
next
  case (Slice t)
  show ?case
  proof (cases v)
    case (VSlice vs)
    have "\<exists>j. to_json ft t x = Some j \<and> (json_ok j \<and> into t (zero_value t) j = Some x)" if "x \<in> set vs" for x
      using Slice(1) [of x] Slice(2,3) that by (auto simp: VSlice readable_parts list_all_iff)
    then obtain js where js: "all_some (map (to_json ft t) vs) = Some js" "length js = length vs"
      "\<And>i. i < length vs \<Longrightarrow> to_json ft t (vs ! i) = Some (js ! i) \<and> (json_ok (js ! i) \<and> into t (zero_value t) (js ! i) = Some (vs ! i))"
      by (rule all_some_map_ex [where xs = vs and f = "to_json ft t"]) (assumption | rule that)+
    then have "elems_into (into t) (zero_value t) [] js = Some vs" by (intro elems_into_zero) auto
    with js show ?thesis by (auto simp: VSlice null_value_def list_all_length)
  qed (use Slice in \<open>auto simp: readable_def null_value_def\<close>)
next
  case (Map t)
  show ?case
  proof (cases v)
    case (VMap kvs)
    have ord: "ordered_keys kvs" and keys: "list_all (\<lambda>kv. valid_utf8 (fst kv)) kvs"
      using Map(3) by (auto simp: VMap readable_parts list_all_iff)
    have "\<exists>j. to_json ft t (snd kv) = Some j \<and> (json_ok j \<and> into t (zero_value t) j = Some (snd kv))" if "kv \<in> set kvs" for kv
      using Map(1) [of "snd kv"] Map(2,3) that by (auto simp: VMap readable_parts list_all_iff)
    then obtain js where js: "all_some (map (\<lambda>kv. to_json ft t (snd kv)) kvs) = Some js" "length js = length kvs"
      "\<And>i. i < length kvs \<Longrightarrow> to_json ft t (snd (kvs ! i)) = Some (js ! i) \<and>
         (json_ok (js ! i) \<and> into t (zero_value t) (js ! i) = Some (snd (kvs ! i)))"
      by (rule all_some_map_ex [where xs = kvs and f = "\<lambda>kv. to_json ft t (snd kv)"]) (assumption | rule that)+
    let ?kjs = "zip (map fst kvs) js"
    have "json_ok (JObj ?kjs)" using keys js(2,3) by (auto simp: list_all_length)
    moreover have "into (GTMap t) (zero_value (GTMap t)) (JObj ?kjs) = Some (VMap kvs)"
    proof -
      have "all_some (map (into t (zero_value t) \<circ> snd) ?kjs) = Some (map snd kvs)"
        using js(2,3) by (simp add: all_some_map_iff)
      moreover have "zip (map fst ?kjs) (map snd kvs) = kvs" using js(2) by (simp add: zip_map_fst_snd)
      ultimately show ?thesis using go_map_id [OF ord] by simp
    qed
    moreover have "to_json ft (GTMap t) (VMap kvs) = Some (JObj ?kjs)"
      using js(1) sort_zip_keys [OF ord js(2)] by (simp add: comp_def)
    moreover have "(JObj ?kjs = JNull) = null_value (VMap kvs)" by (simp add: null_value_def)
    ultimately show ?thesis unfolding VMap by blast
  qed (use Map in \<open>auto simp: readable_def null_value_def\<close>)
next
  case (Struct fs)
  show ?case
  proof (cases v)
    case (VStruct vs)
    have names: "distinct (map fst fs)" using Struct(2) by simp
    have "\<exists>j. to_json ft t x = Some j \<and> json_ok j \<and> into t (zero_value t) j = Some x"
      if "(n, om, t) \<in> set fs" "readable ft t x" for n om t x
      using Struct(1) [OF that(1), of x] Struct(2) that by (fastforce simp: list_all_iff)
    note field = this [OF field_nth]
    have fv: "length vs = length fs" "\<And>i. i < length fs \<Longrightarrow> readable ft (snd (snd (fs ! i))) (vs ! i)"
      using Struct(3) by (simp_all add: VStruct readable_parts)
    have safe: "fst (snd (fs ! i)) \<longrightarrow> omit_safe (snd (snd (fs ! i)))" if "i < length fs" for i
      using Struct(2) field_nth [OF that] by (auto simp: list_all_iff)
    obtain kvs where kvs: "struct_members (map (\<lambda>f. (fst f, (\<lambda>x. fst (snd f) \<and> omits (snd (snd f)) x), to_json ft (snd (snd f)))) fs) vs = Some kvs"
      and ok: "json_ok (JObj kvs)" and sub: "fst ` set kvs \<subseteq> fst ` set fs"
      and parts: "\<And>i. i < length fs \<Longrightarrow> (filter (\<lambda>kv. fst kv = fst (fs ! i)) kvs = [] \<and> vs ! i = zero_value (snd (snd (fs ! i)))) \<or>
        (\<exists>j. filter (\<lambda>kv. fst kv = fst (fs ! i)) kvs = [(fst (fs ! i), j)] \<and>
           into (snd (snd (fs ! i))) (zero_value (snd (snd (fs ! i)))) j = Some (vs ! i))"
    proof (rule fields_roundtrip [OF names _ fv(1), of "\<lambda>f x. fst (snd f) \<and> omits (snd (snd f)) x" ft])
      show "ascii_name n" if "(n, om, t) \<in> set fs" for n om t using Struct(2) that by (auto simp: list_all_iff)
      show "vs ! i = zero_value (snd (snd (fs ! i)))" if "i < length fs" "fst (snd (fs ! i)) \<and> omits (snd (snd (fs ! i))) (vs ! i)" for i
        using omits_zero fv(2) [OF that(1)] safe [OF that(1)] that(2) by (auto simp: readable_def)
      show "\<exists>j. to_json ft (snd (snd (fs ! i))) (vs ! i) = Some j \<and> json_ok j \<and>
          into (snd (snd (fs ! i))) (zero_value (snd (snd (fs ! i)))) j = Some (vs ! i)" if "i < length fs" for i
        by (rule field [OF that fv(2) [OF that]])
    qed (rule that)
    have "struct_into (map (\<lambda>(n, om, t). (n, into t)) fs) kvs (map (\<lambda>(n, om, t). zero_value t) fs) = Some vs"
    proof -
      have exact: "field_vals (map fst fs) kvs n = map snd (filter (\<lambda>kv. fst kv = n) kvs)" for n
        by (rule field_vals_exact) (use sub in simp)
      have "into_seq (into (snd (snd (fs ! i)))) (zero_value (snd (snd (fs ! i)))) (field_vals (map fst fs) kvs (fst (fs ! i))) = Some (vs ! i)"
        if "i < length fs" for i
        using parts [OF that] by (auto simp: exact)
      then show ?thesis using fv(1) by (simp add: struct_into_def all_some2_Some_iff case_prod_beta comp_def)
    qed
    with kvs ok show ?thesis by (auto simp: VStruct null_value_def case_prod_beta')
  qed (use Struct in \<open>auto simp: readable_def null_value_def\<close>)
next
  case (Open fs e)
  show ?case
  proof (cases v)
    case (VOpen vs ap)
    define kl where "kl = (case ap of VMap kvs \<Rightarrow> kvs | _ \<Rightarrow> [])"
    have names: "distinct (map fst fs)" using Open(3) by simp
    have "\<exists>j. to_json ft t x = Some j \<and> json_ok j \<and> into t (zero_value t) j = Some x"
      if "(n, om, t) \<in> set fs" "readable ft t x" for n om t x
      using Open(1) [OF that(1), of x] Open(3) that by (fastforce simp: list_all_iff)
    note field = this [OF field_nth]
    have fv: "length vs = length fs" "\<And>i. i < length fs \<Longrightarrow> readable ft (snd (snd (fs ! i))) (vs ! i)"
      using Open(4) by (auto simp: VOpen readable_def fields_ok_nth list_all_length)
    have ap: "ordered_keys kl" "fst ` set kl \<inter> fst ` set fs = {}" "\<And>kv. kv \<in> set kl \<Longrightarrow> valid_utf8 (fst kv) \<and> readable ft e (snd kv)"
      and ap_nil: "ap = (if kl = [] then VNil else VMap kl)"
      using Open(4) by (auto simp: VOpen kl_def readable_def list_all_iff ordered_keys_def split: gv.splits)
    obtain kvs where kvs: "struct_members (map (\<lambda>f. (fst f, (\<lambda>x. fst (snd f) \<and> x = VNil), to_json ft (snd (snd f)))) fs) vs = Some kvs"
      and ok: "json_ok (JObj kvs)" and sub: "fst ` set kvs \<subseteq> fst ` set fs" and d: "distinct (map fst kvs)"
      and parts: "\<And>i. i < length fs \<Longrightarrow> (filter (\<lambda>kv. fst kv = fst (fs ! i)) kvs = [] \<and> vs ! i = zero_value (snd (snd (fs ! i)))) \<or>
        (\<exists>j. filter (\<lambda>kv. fst kv = fst (fs ! i)) kvs = [(fst (fs ! i), j)] \<and>
           into (snd (snd (fs ! i))) (zero_value (snd (snd (fs ! i)))) j = Some (vs ! i))"
    proof (rule fields_roundtrip [OF names _ fv(1), of "\<lambda>f x. fst (snd f) \<and> x = VNil" ft])
      show "ascii_name n" if "(n, om, t) \<in> set fs" for n om t using Open(3) that by (auto simp: list_all_iff)
      show "vs ! i = zero_value (snd (snd (fs ! i)))" if "i < length fs" "fst (snd (fs ! i)) \<and> vs ! i = VNil" for i
        using Open(3) field_nth [OF that(1)] that(2) by (auto simp: list_all_iff)
      show "\<exists>j. to_json ft (snd (snd (fs ! i))) (vs ! i) = Some j \<and> json_ok j \<and>
          into (snd (snd (fs ! i))) (zero_value (snd (snd (fs ! i)))) j = Some (vs ! i)" if "i < length fs" for i
        by (rule field [OF that fv(2) [OF that]])
    qed (rule that)
    have "\<exists>j. to_json ft e (snd kv) = Some j \<and> (json_ok j \<and> into e (zero_value e) j = Some (snd kv))" if "kv \<in> set kl" for kv
      using Open(2) [of "snd kv"] Open(3) ap(3) [OF that] by auto
    then obtain js where js: "all_some (map (\<lambda>kv. to_json ft e (snd kv)) kl) = Some js" "length js = length kl"
      "\<And>i. i < length kl \<Longrightarrow> to_json ft e (snd (kl ! i)) = Some (js ! i) \<and>
         (json_ok (js ! i) \<and> into e (zero_value e) (js ! i) = Some (snd (kl ! i)))"
      by (rule all_some_map_ex [where xs = kl and f = "\<lambda>kv. to_json ft e (snd kv)"]) (assumption | rule that)+
    let ?kjs = "zip (map fst kl) js"
    have keys: "map fst ?kjs = map fst kl" using js(2) by simp
    then have fkeys: "fst ` set ?kjs = fst ` set kl" by (metis list.set_map)
    have dist: "distinct (map fst (kvs @ ?kjs))"
    proof -
      have "set (map fst kvs) \<inter> set (map fst ?kjs) = {}" using sub ap(2) unfolding keys by auto
      moreover have "distinct (map fst ?kjs)" using ap(1) unfolding keys by (simp add: ordered_keys_def)
      ultimately show ?thesis using d by (simp only: map_append distinct_append)
    qed
    have "json_ok (JObj (go_map (kvs @ ?kjs)))"
    proof -
      have "json_ok (JObj ?kjs)" using ap(3) js(2,3) by (auto simp: list_all_length)
      then show ?thesis using ok go_map_sub [of "kvs @ ?kjs"] by (auto simp: list_all_iff)
    qed
    moreover have "into (GTOpen fs e) (zero_value (GTOpen fs e)) (JObj (go_map (kvs @ ?kjs))) = Some v"
    proof -
      have "open_into (map (\<lambda>(n, om, t). (n, into t)) fs) (into e (zero_value e)) (go_map (kvs @ ?kjs))
          (map (\<lambda>(n, om, t). zero_value t) fs) VNil =
        Some (VOpen vs (if ?kjs = [] then VNil else VMap (zip (map fst ?kjs) (map snd kl))))"
      proof (rule open_into_own [OF dist sub])
        show "fst ` set ?kjs \<inter> fst ` set fs = {}" using ap(2) fkeys by simp
        show "ordered_keys ?kjs" using ap(1) js(2) by (simp add: ordered_keys_def)
        show "length (map snd kl) = length ?kjs" using js(2) by simp
        show "(filter (\<lambda>kv. fst kv = fst (fs ! i)) kvs = [] \<and> vs ! i = map (\<lambda>(n, om, t). zero_value t) fs ! i) \<or>
          (\<exists>j. filter (\<lambda>kv. fst kv = fst (fs ! i)) kvs = [(fst (fs ! i), j)] \<and>
           into (snd (snd (fs ! i))) (map (\<lambda>(n, om, t). zero_value t) fs ! i) j = Some (vs ! i))" if "i < length fs" for i
          using parts [OF that] that by (simp add: case_prod_beta)
        show "into e (zero_value e) (snd (?kjs ! i)) = Some (map snd kl ! i)" if "i < length ?kjs" for i
          using js(2,3) that by simp
      qed (use fv(1) in simp_all)
      moreover have "(if ?kjs = [] then VNil else VMap (zip (map fst ?kjs) (map snd kl))) = ap"
        using js(2) ap_nil by (cases "kl = []"; cases js) (simp_all add: zip_map_fst_snd)
      ultimately show ?thesis by (simp add: VOpen)
    qed
    moreover have "to_json ft (GTOpen fs e) v = Some (JObj (go_map (kvs @ ?kjs)))"
      using kvs js(1) by (simp add: VOpen open_to_json_def case_prod_beta' comp_def flip: kl_def)
    moreover have "(JObj (go_map (kvs @ ?kjs)) = JNull) = null_value v" by (simp add: VOpen null_value_def)
    ultimately show ?thesis by blast
  qed (use Open in \<open>auto simp: readable_def null_value_def\<close>)
qed (auto simp: readable_def null_value_def int_of_lit_dec scan_num_dec_of_int reads_back_def split: gv.splits option.splits)

section \<open>What a decoder gives is plain\<close>

lemma any_of_json_plain: "any_of_json j = Some v \<Longrightarrow> json_ok j \<Longrightarrow> any_plain v"
proof (induction j arbitrary: v rule: any_of_json.induct)
  case (5 vs)
  then show ?case by (auto simp: all_some_map_iff list_all_length in_set_conv_nth) (metis nth_mem)
next
  case (6 kvs)
  then obtain vs where vs: "all_some (map (\<lambda>(k, v). any_of_json v) kvs) = Some vs"
    and v: "v = VMap (go_map (zip (map fst kvs) vs))" by auto
  have len: "length vs = length kvs" using vs by (simp add: all_some_map_iff)
  have "valid_utf8 k \<and> any_plain x" if kx: "(k, x) \<in> set (zip (map fst kvs) vs)" for k x
  proof -
    obtain i where i: "i < length kvs" "fst (kvs ! i) = k" "vs ! i = x"
      using kx len by (auto simp: set_zip)
    then have "any_of_json (snd (kvs ! i)) = Some x" using vs by (auto simp: all_some_map_iff case_prod_beta)
    moreover have "valid_utf8 (fst (kvs ! i)) \<and> json_ok (snd (kvs ! i))"
      using 6(3) i(1) by (auto simp: list_all_length case_prod_beta)
    ultimately show ?thesis using 6(1) [of "kvs ! i" "fst (kvs ! i)" "snd (kvs ! i)"] i by (auto simp: prod_eq_iff)
  qed
  then show ?case using go_map_sub [of "zip (map fst kvs) vs"] by (auto simp: v list_all_iff)
qed auto

lemma into_not_null: "into t old j = Some v \<Longrightarrow> j \<noteq> JNull \<Longrightarrow> \<not> null_value v"
proof (cases t)
  case GTAny
  assume "into t old j = Some v" "j \<noteq> JNull"
  then show ?thesis by (cases j) (auto simp: GTAny null_value_def)
next
  case (GTOpen fs e)
  assume "into t old j = Some v" "j \<noteq> JNull"
  then show ?thesis
    by (auto simp: GTOpen null_value_def elim!: open_into_parts split: json.splits gv.splits)
qed (auto simp: null_value_def split: json.splits gv.splits if_splits)

lemma zero_plain: "plain_value t (zero_value t)"
proof (induction t rule: go_type_induct)
  case (Struct fs)
  then show ?case by (auto simp: fields_ok_nth case_prod_beta dest: field_nth)
next
  case (Open fs e)
  then show ?case by (auto simp: fields_ok_nth case_prod_beta dest: field_nth)
qed (auto simp: valid_utf8_def)

lemma elems_into_plain:
  assumes "elems_into f z os js = Some vs" and "p z" and "list_all p os" and "list_all json_ok js"
    and "\<And>a j b. p a \<Longrightarrow> json_ok j \<Longrightarrow> f a j = Some b \<Longrightarrow> p b"
  shows "list_all p vs"
proof (rule elems_into_typed [OF assms(1,2,3)])
  show "p b" if "p a" "j \<in> set js" "f a j = Some b" for a j b
    by (rule assms(5) [OF that(1) _ that(3)]) (use assms(4) that(2) in \<open>simp add: list_all_iff\<close>)
qed

theorem into_plain: "plain_value t old \<Longrightarrow> json_ok j \<Longrightarrow> into t old j = Some v \<Longrightarrow> plain_value t v"
proof (induction t arbitrary: old j v rule: go_type_induct)
  case (Ptr t)
  let ?old = "case old of VPtr v \<Rightarrow> v | _ \<Rightarrow> zero_value t"
  have "plain_value t ?old" using Ptr(2) zero_plain [of t] by (cases old) auto
  then show ?case using Ptr(1) [of ?old j] Ptr(3,4) into_not_null [of t ?old j] by (auto split: if_splits)
next
  case (Slice t)
  let ?os = "case old of VSlice os \<Rightarrow> os | _ \<Rightarrow> []"
  have "list_all (plain_value t) ?os" using Slice(2) by (cases old) auto
  then have "list_all (plain_value t) vs" if "elems_into (into t) (zero_value t) ?os js = Some vs" "list_all json_ok js" for js vs
    using elems_into_plain [OF that(1), of "plain_value t"] that(2) zero_plain [of t] Slice(1) by blast
  then show ?case using Slice(3,4) by (cases j) auto
next
  case (Map t)
  show ?case
  proof (cases j)
    case (JObj kvs)
    then obtain vs where vs: "all_some (map (into t (zero_value t) \<circ> snd) kvs) = Some vs"
      and v: "v = VMap (go_map ((case old of VMap m \<Rightarrow> m | _ \<Rightarrow> []) @ zip (map fst kvs) vs))"
      using Map(4) by auto
    have len: "length vs = length kvs" using vs by (simp add: all_some_map_iff)
    let ?p = "\<lambda>kv. valid_utf8 (fst kv) \<and> plain_value t (snd kv)"
    have "?p (zip (map fst kvs) vs ! i)" if "i < length kvs" for i
      using that vs len Map(1) [OF zero_plain, of "snd (kvs ! i)" "vs ! i"] Map(3)
      by (auto simp: JObj all_some_map_iff list_all_length case_prod_beta)
    then have "list_all ?p (zip (map fst kvs) vs)" using len by (simp add: list_all_length)
    moreover have "list_all ?p (case old of VMap m \<Rightarrow> m | _ \<Rightarrow> [])" using Map(2) by (auto split: gv.splits)
    ultimately have "list_all ?p ((case old of VMap m \<Rightarrow> m | _ \<Rightarrow> []) @ zip (map fst kvs) vs)" by simp
    then have "list_all ?p (go_map ((case old of VMap m \<Rightarrow> m | _ \<Rightarrow> []) @ zip (map fst kvs) vs))"
      using go_map_sub [of "(case old of VMap m \<Rightarrow> m | _ \<Rightarrow> []) @ zip (map fst kvs) vs"] by (auto simp only: list_all_iff)
    then show ?thesis by (simp add: v)
  qed (use Map in auto)
next
  case (Struct fs)
  show ?case
  proof (cases j)
    case (JObj kvs)
    then obtain olds vs where o: "old = VStruct olds" "v = VStruct vs"
      and vs: "struct_into (map (\<lambda>(n, om, t). (n, into t)) fs) kvs olds = Some vs"
      using Struct(4) by (auto split: gv.splits)
    have "plain_value (snd (snd (fs ! i))) (vs ! i)" if i: "i < length fs" for i
    proof (rule into_seq_rule [OF struct_into_nth(1) [OF vs i]])
      show "plain_value (snd (snd (fs ! i))) (olds ! i)" using Struct(2) i by (simp add: o fields_ok_nth)
      show "plain_value (snd (snd (fs ! i))) b" if "plain_value (snd (snd (fs ! i))) a"
        "x \<in> set (field_vals (map fst fs) kvs (fst (fs ! i)))" "into (snd (snd (fs ! i))) a x = Some b" for a x b
      proof (rule Struct(1) [OF field_nth [OF i] that(1) _ that(3)])
        show "json_ok x" using that(2) Struct(3) by (auto simp: JObj field_vals_def list_all_iff)
      qed
    qed
    moreover have "length vs = length fs"
      using vs by (auto simp: struct_into_def all_some2_Some_iff)
    ultimately show ?thesis by (simp add: o fields_ok_nth)
  qed (use Struct in auto)
next
  case (Open fs e)
  show ?case
  proof (cases j)
    case (JObj kvs)
    then obtain olds ap where o: "old = VOpen olds ap"
      and w: "open_into (map (\<lambda>(n, om, t). (n, into t)) fs) (into e (zero_value e)) kvs olds ap = Some v"
      using Open(5) by (auto split: gv.splits)
    let ?rest = "open_rest fs kvs"
    obtain vs as where v: "v = VOpen vs (if ?rest = [] then ap else VMap (zip (map fst ?rest) as))"
      and len: "length vs = length fs"
      and f: "\<And>i. i < length fs \<Longrightarrow> (case map_of (go_map kvs) (fst (fs ! i)) of None \<Rightarrow> Some (olds ! i)
         | Some j \<Rightarrow> into (snd (snd (fs ! i))) (olds ! i) j) = Some (vs ! i)"
      and as: "all_some (map (into e (zero_value e) \<circ> snd) ?rest) = Some as"
      by (rule open_into_parts [OF w]) (rule that)
    have members: "\<And>k x. (k, x) \<in> set (go_map kvs) \<Longrightarrow> valid_utf8 k \<and> json_ok x"
      using Open(4) go_map_sub [of kvs] by (auto simp: JObj list_all_iff)
    have "plain_value (snd (snd (fs ! i))) (vs ! i)" if i: "i < length fs" for i
    proof -
      have "plain_value (snd (snd (fs ! i))) (olds ! i)" using Open(3) i by (simp add: o fields_ok_nth)
      then show ?thesis
      proof (cases "map_of (go_map kvs) (fst (fs ! i))")
        case (Some x)
        then have "json_ok x" using members by (blast dest: map_of_SomeD)
        moreover have "into (snd (snd (fs ! i))) (olds ! i) x = Some (vs ! i)" using f [OF i] Some by simp
        ultimately show ?thesis using Open(1) [OF field_nth [OF i]] \<open>plain_value (snd (snd (fs ! i))) (olds ! i)\<close> by blast
      qed (use f [OF i] in simp)
    qed
    moreover have "list_all (\<lambda>kv. valid_utf8 (fst kv) \<and> fst kv \<notin> fst ` set fs \<and> plain_value e (snd kv)) (zip (map fst ?rest) as)"
    proof -
      have len: "length as = length ?rest" using as by (simp add: all_some_map_iff)
      have "valid_utf8 (fst (?rest ! i)) \<and> fst (?rest ! i) \<notin> fst ` set fs \<and> plain_value e (as ! i)" if "i < length ?rest" for i
      proof -
        have "?rest ! i \<in> set ?rest" using that by simp
        then have r: "?rest ! i \<in> set (go_map kvs)" "fst (?rest ! i) \<notin> fst ` set fs" by (auto simp: open_rest_def)
        moreover have "into e (zero_value e) (snd (?rest ! i)) = Some (as ! i)" using as that by (auto simp: all_some_map_iff)
        ultimately show ?thesis using members [of "fst (?rest ! i)" "snd (?rest ! i)"] Open(2) [OF zero_plain] by auto
      qed
      then show ?thesis using len by (simp add: list_all_length)
    qed
    moreover have "?rest \<noteq> [] \<Longrightarrow> zip (map fst ?rest) as \<noteq> []" using as by (cases as) (auto simp: all_some_map_iff)
    ultimately show ?thesis
      using Open(3) len by (auto simp: v o fields_ok_nth)
  qed (use Open in auto)
qed (auto simp: any_of_json_plain split: json.splits)

section \<open>Documents\<close>

lemma unmarshal_typed: "unmarshal_type t s = Some v \<Longrightarrow> has_type t v \<and> plain_value t v"
  by (auto simp: unmarshal_type_def split: option.splits
      dest: json_parse_ok intro: into_typed [OF zero_typed] into_plain [OF zero_plain])

lemma marshal_unmarshal:
  assumes "schema_ok t" and "readable ft t v"
  shows "\<exists>b. marshal_type ft t v = Some b \<and> unmarshal_type t b = Some v"
proof -
  obtain j where "to_json ft t v = Some j" "json_ok j" "into t (zero_value t) j = Some v"
    using to_json_into [OF assms] by blast
  then show ?thesis by (simp add: marshal_type_def unmarshal_type_def json_parse_encode_ok)
qed

lemma unmarshal_marshal:
  assumes "schema_ok t" and "unmarshal_type t s = Some v" and "raws_set v" and "floats_print ft v"
  shows "\<exists>b. marshal_type ft t v = Some b \<and> unmarshal_type t b = Some v"
  using marshal_unmarshal [OF assms(1)] unmarshal_typed [OF assms(2)] assms(3,4) by (simp add: readable_def)

text \<open>Members in any order, and members of no field, decode the same.\<close>

lemma filter_mset_one:
  assumes "mset xs = mset ys" and "length (filter p xs) \<le> 1"
  shows "filter p xs = filter p ys"
proof -
  have m: "mset (filter p xs) = mset (filter p ys)" using assms(1) by (simp add: mset_filter)
  then have "length (filter p xs) = length (filter p ys)" by (rule mset_eq_length)
  then show ?thesis using m assms(2)
    by (cases "filter p xs"; cases "filter p ys") auto
qed

lemma field_vals_any_order:
  assumes "mset kvs' = mset (kvs @ extra)" and "distinct (map (fold_name \<circ> fst) kvs)"
    and "\<forall>(k, v) \<in> set extra. fold_name k \<notin> fold_name ` set names" and "n \<in> set names"
  shows "field_vals names kvs' n = field_vals names kvs n"
proof -
  let ?p = "\<lambda>(k, v). k = n \<or> k \<notin> set names \<and> fold_name k = fold_name n"
  have q: "?p kv \<Longrightarrow> fold_name (fst kv) = fold_name n" for kv by auto
  have extra: "filter ?p extra = []" using assms(3,4) by (fastforce simp: filter_empty_conv)
  have dp: "distinct (map (fold_name \<circ> fst) (filter ?p kvs))" using assms(2) by (simp add: distinct_map_filter)
  have one: "length (filter ?p kvs) \<le> 1"
  proof (cases "filter ?p kvs" rule: remdups_adj.cases)
    case (3 a b xs)
    then have "a \<in> set (filter ?p kvs)" "b \<in> set (filter ?p kvs)" by simp_all
    then have "?p a" "?p b" unfolding set_filter by blast+
    then have "fold_name (fst a) = fold_name (fst b)" by (simp only: q)
    then show ?thesis using dp 3 by simp
  qed simp_all
  have "filter ?p (kvs @ extra) = filter ?p kvs'"
    by (rule filter_mset_one) (use assms(1) one extra in simp_all)
  then show ?thesis using extra by (simp add: field_vals_def)
qed

lemma into_struct_any_order:
  assumes "mset kvs' = mset (kvs @ extra)" and "distinct (map (fold_name \<circ> fst) kvs)"
    and "\<forall>(k, v) \<in> set extra. fold_name k \<notin> fold_name ` fst ` set fs"
  shows "into (GTStruct fs) old (JObj kvs') = into (GTStruct fs) old (JObj kvs)"
proof -
  let ?fs = "map (\<lambda>(n, om, t). (n, into t)) fs"
  have n: "map fst ?fs = map fst fs" by (simp add: case_prod_beta comp_def)
  have "struct_into ?fs kvs' olds = struct_into ?fs kvs olds" for olds
    unfolding struct_into_def
  proof (rule all_some2_cong)
    fix f old assume "f \<in> set ?fs"
    then have "fst f \<in> set (map fst ?fs)" unfolding set_map by (rule imageI)
    then have "fst f \<in> set (map fst fs)" by (simp only: n)
    then have "field_vals (map fst ?fs) kvs' (fst f) = field_vals (map fst ?fs) kvs (fst f)"
      unfolding n by (intro field_vals_any_order [OF assms(1,2)]) (use assms(3) in simp_all)
    then show "(case f of (n, f) \<Rightarrow> \<lambda>old. into_seq f old (field_vals (map fst ?fs) kvs' n)) old =
        (case f of (n, f) \<Rightarrow> \<lambda>old. into_seq f old (field_vals (map fst ?fs) kvs n)) old"
      by (simp add: case_prod_beta)
  qed
  then show ?thesis by (simp split: gv.split)
qed

end
