(* ===== verification/Models_Server.thy ===== *)
theory Models_Server
  imports Go_Roundtrip
begin

text \<open>
  The models of \<open>client.gen.go\<close> for the server and its cluster: users, groups, tokens, sessions, databases,
  peers and their security documents.
  Each is the Go type as \<open>encoding/json\<close> sees it; an enum is a string.
\<close>

definition add_peer_request_model :: go_type where
  "add_peer_request_model = GTStruct
     [(''address'', False, GTStr),
      (''name'', True, GTPtr GTStr),
      (''peerId'', False, GTStr),
      (''priority'', True, GTPtr GTInt)]"

definition api_token_list_model :: go_type where
  "api_token_list_model = GTStruct
     [(''count'', False, GTInt),
      (''result'', False, GTSlice (GTStruct
       [(''createdAt'', False, GTInt),
        (''database'', False, GTStr),
        (''expired'', True, GTPtr GTBool),
        (''expiresAt'', False, GTInt),
        (''name'', False, GTStr),
        (''permissions'', False, GTMap GTAny),
        (''tokenHash'', False, GTStr),
        (''tokenSuffix'', False, GTStr)]))]"

definition bootstrap_state_response_model :: go_type where
  "bootstrap_state_response_model = GTStruct
     [(''databases'', False, GTSlice (GTStruct
       [(''error'', True, GTPtr GTStr),
        (''fingerprint'', False, GTStr),
        (''lastTxId'', False, GTInt),
        (''name'', False, GTStr)])),
      (''peerId'', False, GTStr)]"

definition cluster_action_response_model :: go_type where
  "cluster_action_response_model = GTStruct
     [(''appliedIndex'', True, GTPtr GTInt),
      (''database'', True, GTPtr GTStr),
      (''divergenceCause'', True, GTPtr GTStr),
      (''leaderId'', True, GTPtr GTStr),
      (''localServer'', True, GTPtr GTStr),
      (''overriddenRefusal'', True, GTPtr GTStr),
      (''readFloor'', True, GTPtr GTInt),
      (''result'', False, GTStr),
      (''snapshotIndex'', True, GTPtr GTInt)]"

definition cluster_auth_session_request_model :: go_type where
  "cluster_auth_session_request_model = GTStruct
     [(''action'', True, GTPtr GTStr),
      (''token'', False, GTStr)]"

definition cluster_auth_session_response_model :: go_type where
  "cluster_auth_session_response_model = GTStruct
     [(''createdAt'', False, GTInt),
      (''user'', False, GTStr)]"

definition cluster_status_model :: go_type where
  "cluster_status_model = GTStruct
     [(''alerts'', False, GTSlice (GTStruct
       [(''details'', False, GTMap GTAny),
        (''id'', False, GTStr),
        (''message'', False, GTStr),
        (''recommendation'', False, GTStr),
        (''severity'', False, GTStr),
        (''title'', False, GTStr)])),
      (''bootstrapDeciding'', False, GTStruct
       [(''count'', False, GTInt),
        (''databases'', False, GTSlice GTStr),
        (''inProgress'', False, GTBool)]),
      (''bootstrapInstalls'', False, GTStruct
       [(''count'', False, GTInt),
        (''databases'', False, GTSlice GTStr),
        (''inProgress'', False, GTBool)]),
      (''capabilities'', False, GTSlice GTStr),
      (''clusterName'', False, GTStr),
      (''crashLoopEscalated'', False, GTBool),
      (''criticalHalt'', False, GTPtr (GTStruct
       [(''index'', False, GTInt),
        (''reason'', False, GTStr),
        (''timestamp'', False, GTInt)])),
      (''databasePresence'', True, GTPtr (GTStruct
       [(''databases'', True, GTPtr (GTSlice (GTStruct
         [(''missing'', True, GTPtr (GTSlice GTStr)),
          (''name'', True, GTPtr GTStr),
          (''present'', True, GTPtr (GTSlice GTStr))]))),
        (''nodes'', True, GTPtr (GTSlice GTStr)),
        (''notInConfiguration'', True, GTPtr (GTSlice GTStr)),
        (''unreachable'', True, GTPtr (GTSlice GTStr))])),
      (''databases'', False, GTSlice (GTStruct
       [(''acquireError'', True, GTPtr GTStr),
        (''acquireStatus'', True, GTPtr GTStr),
        (''acquireTimestamp'', True, GTPtr GTInt),
        (''bootstrapFingerprint'', True, GTPtr GTStr),
        (''bootstrapLastTxId'', True, GTPtr GTInt),
        (''name'', False, GTStr)])),
      (''electionCount'', False, GTInt),
      (''implementation'', False, GTStr),
      (''isLeader'', False, GTBool),
      (''lastElectionTime'', False, GTInt),
      (''leaderCommitIndex'', False, GTInt),
      (''leaderContactElapsedMs'', False, GTInt),
      (''leaderHttpAddress'', False, GTPtr GTStr),
      (''leaderId'', False, GTPtr GTStr),
      (''leaderReady'', False, GTBool),
      (''localAppliedIndex'', False, GTInt),
      (''localCommitIndex'', False, GTInt),
      (''localInPlaceRestarts'', False, GTStruct
       [(''recovered'', False, GTInt),
        (''reformatted'', False, GTInt)]),
      (''localLeaderUnreachableSinceRestart'', False, GTBool),
      (''localPeerId'', False, GTStr),
      (''localReplicationLag'', False, GTInt),
      (''localReplicationPathUnproven'', False, GTBool),
      (''localResync'', False, GTStruct
       [(''databaseAppliedFloors'', False, GTMap GTInt),
        (''divergedDatabases'', False, GTSlice GTStr),
        (''divergenceCauses'', False, GTMap GTStr),
        (''inProgress'', False, GTBool),
        (''snapshotAppliedFloor'', False, GTInt),
        (''snapshotDownloadInProgress'', False, GTBool),
        (''snapshotDownloadQueued'', False, GTBool)]),
      (''localStalledBehindLeader'', False, GTBool),
      (''localStuckAtStaleTerm'', False, GTBool),
      (''peers'', False, GTSlice (GTStruct
       [(''address'', False, GTStr),
        (''capabilities'', True, GTPtr (GTSlice GTStr)),
        (''capabilitiesUnknownKind'', True, GTPtr GTStr),
        (''capabilitiesUnknownReason'', True, GTPtr GTStr),
        (''httpAddress'', True, GTPtr GTStr),
        (''httpAddressAmbiguous'', True, GTPtr GTBool),
        (''id'', False, GTStr),
        (''lagging'', True, GTPtr GTBool),
        (''laggingForMs'', True, GTPtr GTInt),
        (''lastContactMs'', True, GTPtr GTInt),
        (''matchIndex'', True, GTPtr GTInt),
        (''nextIndex'', True, GTPtr GTInt),
        (''replicaStatus'', True, GTPtr GTStr),
        (''replicationLag'', True, GTPtr GTInt),
        (''replicationRttMs'', True, GTPtr GTInt),
        (''replicationRttP99Ms'', True, GTPtr GTInt),
        (''role'', False, GTStr),
        (''version'', True, GTPtr GTStr)])),
      (''raftLogFailure'', False, GTPtr (GTStruct
       [(''cause'', False, GTStr),
        (''index'', False, GTInt),
        (''timestamp'', False, GTInt)])),
      (''raftState'', False, GTStr),
      (''securityConvergence'', False, GTStruct
       [(''armed'', False, GTBool),
        (''gaveUp'', False, GTBool),
        (''held'', False, GTBool),
        (''sinceIndex'', False, GTInt),
        (''skippedBecauseLeading'', False, GTBool),
        (''unconvergedDocuments'', False, GTSlice GTStr),
        (''windowOpenedAt'', False, GTInt)]),
      (''uptime'', False, GTInt)]"

definition create_api_token_request_model :: go_type where
  "create_api_token_request_model = GTStruct
     [(''database'', True, GTPtr GTStr),
      (''expiresAt'', True, GTPtr GTInt),
      (''name'', False, GTStr),
      (''permissions'', True, GTPtr (GTMap GTAny))]"

definition create_api_token_response_model :: go_type where
  "create_api_token_response_model = GTStruct
     [(''result'', False, GTStruct
       [(''createdAt'', False, GTInt),
        (''database'', False, GTStr),
        (''expired'', True, GTPtr GTBool),
        (''expiresAt'', False, GTInt),
        (''name'', False, GTStr),
        (''permissions'', False, GTMap GTAny),
        (''token'', False, GTStr),
        (''tokenHash'', False, GTStr),
        (''tokenSuffix'', False, GTStr)])]"

definition create_user_request_model :: go_type where
  "create_user_request_model = GTStruct
     [(''databases'', True, GTPtr (GTMap (GTSlice GTStr))),
      (''name'', False, GTStr),
      (''password'', False, GTStr)]"

definition database_exists_model :: go_type where
  "database_exists_model = GTStruct
     [(''result'', False, GTBool)]"

definition database_list_model :: go_type where
  "database_list_model = GTStruct
     [(''result'', False, GTSlice GTStr),
      (''user'', False, GTStr),
      (''version'', False, GTStr)]"

definition group_definition_model :: go_type where
  "group_definition_model = GTStruct
     [(''access'', False, GTSlice GTStr),
      (''readTimeout'', False, GTInt),
      (''resultSetLimit'', False, GTInt),
      (''types'', False, GTMap GTAny)]"

definition group_list_model :: go_type where
  "group_list_model = GTStruct
     [(''result'', False, GTStruct
       [(''databases'', False, GTMap (GTStruct
         [(''groups'', False, GTMap group_definition_model)])),
        (''version'', False, GTInt)])]"

definition login_response_model :: go_type where
  "login_response_model = GTStruct
     [(''token'', False, GTStr),
      (''user'', False, GTStr)]"

definition peer_capabilities_response_model :: go_type where
  "peer_capabilities_response_model = GTStruct
     [(''capabilities'', False, GTSlice GTStr),
      (''peerId'', False, GTStr),
      (''version'', False, GTStr)]"

definition save_group_request_model :: go_type where
  "save_group_request_model = GTStruct
     [(''access'', True, GTPtr (GTSlice GTStr)),
      (''database'', False, GTStr),
      (''name'', False, GTStr),
      (''readTimeout'', True, GTPtr GTInt),
      (''resultSetLimit'', True, GTPtr GTInt),
      (''types'', True, GTPtr (GTMap GTAny))]"

definition security_admin_result_model :: go_type where
  "security_admin_result_model = GTStruct
     [(''result'', False, GTStr)]"

definition security_seed_request_model :: go_type where
  "security_seed_request_model = GTStruct
     [(''admittedPeerId'', True, GTPtr GTStr),
      (''catchUp'', True, GTPtr GTBool),
      (''declaredHttpAddress'', True, GTPtr GTStr),
      (''fingerprints'', True, GTPtr (GTStruct
       [(''apiTokens'', True, GTPtr GTStr),
        (''groups'', True, GTPtr GTStr),
        (''users'', True, GTPtr GTStr)])),
      (''reason'', True, GTPtr GTStr)]"

definition security_seed_response_model :: go_type where
  "security_seed_response_model = GTStruct
     [(''error'', True, GTPtr GTStr),
      (''failedSeeds'', True, GTPtr (GTSlice GTStr)),
      (''seeded'', False, GTBool),
      (''upToDate'', True, GTPtr GTBool)]"

definition server_info_model :: go_type where
  "server_info_model = GTStruct
     [(''ha'', True, GTPtr (GTMap GTAny)),
      (''instanceId'', True, GTPtr GTStr),
      (''languages'', False, GTSlice GTStr),
      (''metrics'', True, GTPtr (GTMap GTAny)),
      (''ports'', True, GTPtr (GTMap GTInt)),
      (''serverName'', False, GTStr),
      (''settings'', True, GTPtr (GTSlice (GTStruct
       [(''default'', False, GTAny),
        (''description'', False, GTStr),
        (''key'', False, GTStr),
        (''overridden'', False, GTBool),
        (''value'', False, GTAny)]))),
      (''user'', False, GTPtr GTStr),
      (''version'', False, GTStr)]"

definition session_list_model :: go_type where
  "session_list_model = GTStruct
     [(''count'', False, GTInt),
      (''result'', False, GTSlice (GTStruct
       [(''city'', False, GTPtr GTStr),
        (''country'', False, GTPtr GTStr),
        (''createdAt'', False, GTInt),
        (''elapsedMs'', False, GTInt),
        (''issuer'', True, GTPtr GTStr),
        (''lastUpdate'', False, GTInt),
        (''sourceIp'', False, GTPtr GTStr),
        (''token'', False, GTStr),
        (''user'', False, GTStr),
        (''userAgent'', False, GTPtr GTStr)]))]"

definition transfer_leader_request_model :: go_type where
  "transfer_leader_request_model = GTStruct
     [(''peerId'', True, GTPtr GTStr),
      (''timeoutMs'', True, GTPtr GTInt)]"

definition update_user_request_model :: go_type where
  "update_user_request_model = GTStruct
     [(''databases'', True, GTPtr (GTMap (GTSlice GTStr))),
      (''password'', True, GTPtr GTStr)]"

definition user_list_model :: go_type where
  "user_list_model = GTStruct
     [(''result'', False, GTSlice (GTStruct
       [(''databases'', False, GTMap (GTSlice GTStr)),
        (''name'', False, GTStr)]))]"

definition get_database_snapshot_checksums200_json_response_body_model :: go_type where
  "get_database_snapshot_checksums200_json_response_body_model = GTOpen
     [(''/unreadableFiles'', True, GTPtr (GTSlice GTStr))] GTInt"

text \<open>All of them, by the names of the source, and that the generator kept its rules in each.\<close>

definition server_models :: "(bytes \<times> go_type) list" where
  "server_models =
    [(''AddPeerRequest'', add_peer_request_model),
     (''ApiTokenList'', api_token_list_model),
     (''BootstrapStateResponse'', bootstrap_state_response_model),
     (''ClusterActionResponse'', cluster_action_response_model),
     (''ClusterAuthSessionRequest'', cluster_auth_session_request_model),
     (''ClusterAuthSessionResponse'', cluster_auth_session_response_model),
     (''ClusterStatus'', cluster_status_model),
     (''CreateApiTokenRequest'', create_api_token_request_model),
     (''CreateApiTokenResponse'', create_api_token_response_model),
     (''CreateUserRequest'', create_user_request_model),
     (''DatabaseExists'', database_exists_model),
     (''DatabaseList'', database_list_model),
     (''GroupDefinition'', group_definition_model),
     (''GroupList'', group_list_model),
     (''LoginResponse'', login_response_model),
     (''PeerCapabilitiesResponse'', peer_capabilities_response_model),
     (''SaveGroupRequest'', save_group_request_model),
     (''SecurityAdminResult'', security_admin_result_model),
     (''SecuritySeedRequest'', security_seed_request_model),
     (''SecuritySeedResponse'', security_seed_response_model),
     (''ServerInfo'', server_info_model),
     (''SessionList'', session_list_model),
     (''TransferLeaderRequest'', transfer_leader_request_model),
     (''UpdateUserRequest'', update_user_request_model),
     (''UserList'', user_list_model),
     (''GetDatabaseSnapshotChecksums200JSONResponseBody'', get_database_snapshot_checksums200_json_response_body_model)]"

lemma server_models_ok: "list_all (\<lambda>(n, t). schema_ok t) server_models"
  by (simp add: server_models_def ascii_name_def byte_def omit_safe_def
      add_peer_request_model_def api_token_list_model_def bootstrap_state_response_model_def
      cluster_action_response_model_def cluster_auth_session_request_model_def
      cluster_auth_session_response_model_def cluster_status_model_def create_api_token_request_model_def
      create_api_token_response_model_def create_user_request_model_def database_exists_model_def
      database_list_model_def group_definition_model_def group_list_model_def login_response_model_def
      peer_capabilities_response_model_def save_group_request_model_def security_admin_result_model_def
      security_seed_request_model_def security_seed_response_model_def server_info_model_def
      session_list_model_def transfer_leader_request_model_def update_user_request_model_def
      user_list_model_def get_database_snapshot_checksums200_json_response_body_model_def)

end
