(* ===== verification/Server_Config.thy ===== *)
theory Server_Config
  imports Endpoints Models_Server
begin

text \<open>
  \<open>go/arcadedb/auth.go\<close>, \<open>server.go\<close> and the handle of \<open>database.go\<close>: credentials, the options of
  \<open>NewServer\<close>, the headers every request carries, and the methods on a server's own state.
\<close>

section \<open>Base64\<close>

definition b64_char :: "nat \<Rightarrow> char" where
  "b64_char n =
     (if n < 26 then char_of (65 + n) else if n < 52 then char_of (71 + n)
      else if n < 62 then char_of (n - 4) else if n = 62 then CHR ''+'' else CHR ''/'')"

text \<open>\<open>base64.StdEncoding.EncodeToString\<close>: three bytes to four characters, the rest padded.\<close>

fun b64_encode :: "bytes \<Rightarrow> bytes" where
  "b64_encode [] = []"
| "b64_encode [a] = [b64_char (byte a div 4), b64_char (byte a mod 4 * 16), CHR ''='', CHR ''='']"
| "b64_encode [a, b] =
     [b64_char (byte a div 4), b64_char (byte a mod 4 * 16 + byte b div 16),
      b64_char (byte b mod 16 * 4), CHR ''='']"
| "b64_encode (a # b # c # s) =
     b64_char (byte a div 4) # b64_char (byte a mod 4 * 16 + byte b div 16)
     # b64_char (byte b mod 16 * 4 + byte c div 64) # b64_char (byte c mod 64) # b64_encode s"

text \<open>The reader of the specification: what the server makes of the value.\<close>

definition b64_val :: "char \<Rightarrow> nat" where
  "b64_val c =
     (if byte_in 65 90 c then byte c - 65 else if byte_in 97 122 c then byte c - 71
      else if is_digit c then byte c + 4 else if c = CHR ''+'' then 62 else 63)"

fun b64_decode :: "bytes \<Rightarrow> bytes" where
  "b64_decode (p # q # r # s # t) =
     (char_of (b64_val p * 4 + b64_val q div 16)
       # (if r = CHR ''='' then [] else char_of (b64_val q mod 16 * 16 + b64_val r div 4)
       # (if s = CHR ''='' then [] else char_of (b64_val r mod 4 * 64 + b64_val s) # b64_decode t)))"
| "b64_decode _ = []"

lemma byte_eqs: "byte (CHR ''+'') = 43" "byte (CHR ''/'') = 47" "byte (CHR ''='') = 61"
  by (simp_all add: byte_def)

lemma b64_val_char: "n < 64 \<Longrightarrow> b64_val (b64_char n) = n"
  by (auto simp: b64_val_def b64_char_def byte_in_def is_digit_def byte_char_of byte_eqs)

lemma b64_char_not_pad: "n < 64 \<Longrightarrow> b64_char n \<noteq> CHR ''=''"
proof
  assume n: "n < 64" and "b64_char n = CHR ''=''"
  then have "byte (b64_char n) = 61" by (simp add: byte_eqs)
  with n show False by (auto simp: b64_char_def byte_char_of byte_eqs split: if_splits)
qed

lemma char_of_byte: "n = byte a \<Longrightarrow> char_of n = a"
  by (simp add: byte_def)

lemma b64_sextets:
  "byte a div 4 < 64" "byte a mod 4 * 16 < 64" "byte a mod 4 * 16 + byte b div 16 < 64"
  "byte b mod 16 * 4 < 64" "byte b mod 16 * 4 + byte c div 64 < 64" "byte c mod 64 < 64"
  using byte_bound [of a] byte_bound [of b] byte_bound [of c] by (auto simp: div_less_iff_less_mult)

lemma byte_bits:
  "byte b div 16 div 16 = 0" "byte b div 64 div 4 = 0"
  "byte b div 16 mod 16 = byte b div 16" "byte b div 64 mod 4 = byte b div 64"
  using byte_bound [of b] by (simp_all add: div_mult2_eq [symmetric] less_mult_imp_div_less)

lemma b64_decode_encode: "b64_decode (b64_encode s) = s"
  by (induction s rule: b64_encode.induct)
    (simp_all add: b64_val_char b64_char_not_pad b64_sextets byte_bits char_of_byte)

section \<open>Credentials\<close>

text \<open>How a server splits decoded Basic credentials: at the first colon.\<close>

definition span_colon :: "bytes \<Rightarrow> bytes \<times> bytes" where
  "span_colon s = (takeWhile (\<lambda>c. c \<noteq> CHR '':'') s, drop 1 (dropWhile (\<lambda>c. c \<noteq> CHR '':'') s))"

definition basic_auth_value :: "bytes \<Rightarrow> bytes \<Rightarrow> bytes" where
  "basic_auth_value user password = ''Basic '' @ b64_encode (user @ '':'' @ password)"

definition bearer_auth_value :: "bytes \<Rightarrow> bytes" where
  "bearer_auth_value token = ''Bearer '' @ token"

lemma span_colon_join: "CHR '':'' \<notin> set u \<Longrightarrow> span_colon (u @ CHR '':'' # p) = (u, p)"
  by (induction u) (auto simp: span_colon_def)

text \<open>
  A server reads back from the Basic credentials exactly the user and the password they were
  built from, a password with colons in it included, as long as the user name has none.
\<close>

theorem basic_auth_roundtrip:
  assumes "CHR '':'' \<notin> set user"
  shows "has_prefix (basic_auth_value user password) ''Basic '' \<and>
    (case span_colon (b64_decode (drop 6 (basic_auth_value user password))) of
       (u, p) \<Rightarrow> u = user \<and> p = password)"
  using assms by (simp add: basic_auth_value_def b64_decode_encode span_colon_join has_prefix_def)

theorem basic_auth_roundtrip_witness:
  "case span_colon (b64_decode (drop 6 (basic_auth_value ''root'' ''a:b''))) of (u, p) \<Rightarrow> u = ''root'' \<and> p = ''a:b''"
  using basic_auth_roundtrip [of "''root''" "''a:b''"] by simp

section \<open>Servers\<close>

datatype server_option =
    WithBasicAuth bytes bytes
  | WithBearerToken bytes
  | WithHeader bytes bytes
  | WithHTTPClient

text \<open>The header map of a \<open>config\<close>; a key is there once. The transport is not part of it.\<close>

definition put_header :: "bytes \<Rightarrow> bytes \<Rightarrow> header \<Rightarrow> header" where
  "put_header = hdr_set"

definition apply_option :: "header \<Rightarrow> server_option \<Rightarrow> header" where
  "apply_option h opt = (case opt of
       WithBasicAuth user password \<Rightarrow> put_header ''Authorization'' (basic_auth_value user password) h
     | WithBearerToken token \<Rightarrow> put_header ''Authorization'' (bearer_auth_value token) h
     | WithHeader name v \<Rightarrow> put_header name v h
     | WithHTTPClient \<Rightarrow> h)"

definition version :: bytes where "version = ''0.4.0''"

definition new_server :: "bytes \<Rightarrow> server_option list \<Rightarrow> server" where
  "new_server base opts =
     \<lparr>sv_base_url = base,
      sv_headers = foldl apply_option [(''User-Agent'', ''arcadedb-go/'' @ version)] opts\<rparr>"

text \<open>
  A header map has every key once and in canonical form. Go ranges over such a map in any order;
  the lookup in the request does not depend on it.
\<close>

definition headers_ok :: "header \<Rightarrow> bool" where
  "headers_ok hs \<longleftrightarrow> distinct (map fst hs) \<and> (\<forall>k \<in> set (map fst hs). canonical_key k = k)"

lemma byte_char_of_sub: "byte (char_of (byte c - n)) = byte c - n"
  by (rule byte_char_of) (use byte_bound [of c] in linarith)

lemma byte_char_of_add: "byte_in 65 90 c \<Longrightarrow> byte (char_of (byte c + 32)) = byte c + 32"
  by (rule byte_char_of) (simp add: byte_in_def)

lemma byte_minus: "c = CHR ''-'' \<longleftrightarrow> byte c = 45"
  using byte_inject [of c "CHR ''-''"] by (simp add: byte_def [of "CHR ''-''"])

lemma ascii_upper_idem: "ascii_upper (ascii_upper c) = ascii_upper c"
  by (auto simp: ascii_upper_def byte_in_def byte_char_of_sub)

lemma title_char_minus:
  "(if up then ascii_upper c else if byte_in 65 90 c then char_of (byte c + 32) else c) = CHR ''-''
     \<longleftrightarrow> c = CHR ''-''"
  unfolding byte_minus by (auto simp: ascii_upper_def byte_in_def byte_char_of_sub byte_char_of_add)

lemma title_case_idem: "title_case up (title_case up s) = title_case up s"
proof (induction s arbitrary: up)
  case (Cons c s)
  have "byte_in 65 90 c \<Longrightarrow> \<not> byte_in 65 90 (char_of (byte c + 32))"
    using byte_char_of_add [of c] by (simp add: byte_in_def)
  then show ?case
    using Cons by (simp add: title_char_minus ascii_upper_idem)
qed simp

lemma token_char_letter: "byte_in 65 90 c \<or> byte_in 97 122 c \<Longrightarrow> token_char c"
  by (auto simp: token_char_def)

lemma title_case_token: "list_all token_char s \<Longrightarrow> list_all token_char (title_case up s)"
proof (induction s arbitrary: up)
  case (Cons c s)
  have "token_char (ascii_upper c)"
    using Cons.prems by (auto simp: ascii_upper_def byte_in_def byte_char_of_sub intro!: token_char_letter)
  moreover have "byte_in 65 90 c \<Longrightarrow> token_char (char_of (byte c + 32))"
    using byte_char_of_add [of c] by (intro token_char_letter) (simp add: byte_in_def)
  ultimately show ?case using Cons by simp
qed simp

lemma canonical_key_idem [simp]: "canonical_key (canonical_key k) = canonical_key k"
  by (simp add: canonical_key_def title_case_idem title_case_token)

lemma map_of_filter_key: "map_of (filter (\<lambda>kv. fst kv \<noteq> k) h) k' = (if k' = k then None else map_of h k')"
  by (induction h) auto

lemma hdr_set_lookup: "map_of (hdr_set k v h) k' = (if k' = canonical_key k then Some v else map_of h k')"
  by (simp add: hdr_set_def map_of_filter_key)

lemma hdr_get_set [simp]:
  "hdr_get (hdr_set k v h) k' = (if canonical_key k' = canonical_key k then v else hdr_get h k')"
  by (simp add: hdr_get_def hdr_set_lookup)

lemma hdr_set_keys: "headers_ok h \<Longrightarrow> headers_ok (hdr_set k v h)"
  by (auto simp: headers_ok_def hdr_set_def distinct_map inj_on_def)

lemma apply_headers_snoc: "apply_headers (hs @ [(k, v)]) h = hdr_set k v (apply_headers hs h)"
  by (simp add: apply_headers_def)

lemma apply_headers_lookup:
  assumes "headers_ok hs"
  shows "map_of (apply_headers hs h) k = (case map_of hs k of Some v \<Rightarrow> Some v | None \<Rightarrow> map_of h k)"
  using assms
proof (induction hs rule: rev_induct)
  case (snoc kv hs)
  obtain x v where kv: "kv = (x, v)" by (cases kv)
  have "headers_ok hs" and x: "canonical_key x = x" "x \<notin> fst ` set hs"
    using snoc.prems by (auto simp: headers_ok_def kv)
  with snoc.IH have "map_of (apply_headers hs h) k = (case map_of hs k of Some v \<Rightarrow> Some v | None \<Rightarrow> map_of h k)"
    by simp
  moreover have "map_of hs x = None" using x by (simp add: map_of_eq_None_iff)
  ultimately show ?case
    using x by (auto simp: kv apply_headers_snoc hdr_set_lookup map_add_def split: option.split)
qed (simp add: apply_headers_def)

lemma new_server_headers_ok: "headers_ok (sv_headers (new_server base opts))"
proof -
  have start: "headers_ok [(''User-Agent'', ''arcadedb-go/'' @ version)]"
    by (simp add: headers_ok_def) code_simp
  have step: "headers_ok h \<Longrightarrow> headers_ok (apply_option h opt)" for h opt
    by (auto simp: apply_option_def put_header_def intro: hdr_set_keys split: server_option.split)
  have "headers_ok (foldl apply_option h opts)" if "headers_ok h" for h
    using that step by (induction opts arbitrary: h) auto
  with start show ?thesis by (simp add: new_server_def)
qed

text \<open>The requests of a call: none, or the one built and edited.\<close>

lemma client_call_sent:
  assumes "client_call net sv ctx extra op w = (r, w')"
  shows "w_sent w' = w_sent w \<or>
    (\<exists>rq. new_request net (sv_base_url sv) op = Inr rq \<and> w_sent w' = w_sent w @ [apply_editors sv extra rq])"
  using assms
  by (auto simp: client_call_def do_request_def split: sum.splits option.splits prod.splits)

text \<open>The request an operation amounts to on a server, if its URL can be built.\<close>

definition built :: "'w net \<Rightarrow> server \<Rightarrow> (bytes \<times> bytes) list \<Rightarrow> op_params \<Rightarrow> http_req list" where
  "built net sv extra op =
     (case new_request net (sv_base_url sv) op of Inl e \<Rightarrow> [] | Inr q \<Rightarrow> [apply_editors sv extra q])"

lemma client_call_trace:
  "w_sent (snd (client_call net sv ctx extra op w)) =
     w_sent w @ (if ctx_done net ctx w = None then built net sv extra op else [])"
  by (auto simp: client_call_def do_request_def built_def split: sum.split option.split prod.split)

lemma call_checked_trace:
  "w_sent (snd (call_checked net sv ctx extra rs op w)) =
     w_sent w @ (if ctx_done net ctx w = None then built net sv extra op else [])"
proof -
  have "snd (call_checked net sv ctx extra rs op w) = snd (client_call net sv ctx extra op w)"
    by (auto simp: call_checked_def call_parsed_def split: prod.split sum.split option.split)
  then show ?thesis by (simp add: client_call_trace)
qed

lemma ctx_done_without_cancel [simp]: "ctx_done net CtxWithoutCancel w = None"
  by (simp add: ctx_done_def)

text \<open>A header parameter reaches the transport unless a configured header of that name replaces it.\<close>

lemma header_params_lookup:
  assumes "\<forall>(k', v) \<in> set after. canonical_key k' \<noteq> canonical_key k"
  shows "map_of (header_params style (before @ (k, Some v) # after) h) (canonical_key k) = Some (style v)"
proof -
  have keep: "map_of (header_params style after g) (canonical_key k) = map_of g (canonical_key k)" for g
    using assms
  proof (induction after arbitrary: g)
    case (Cons kv after)
    obtain k' x where kv: "kv = (k', x)" by (cases kv)
    show ?case using Cons by (cases x) (auto simp: kv header_params_def hdr_set_lookup)
  qed (simp add: header_params_def)
  show ?thesis using keep by (simp add: header_params_def hdr_set_lookup)
qed

lemma built_header:
  assumes "headers_ok (sv_headers sv)" and "map_of (sv_headers sv) (canonical_key k) = None"
    and "op_header op = before @ (k, Some v) # after"
    and "\<forall>(k', v) \<in> set after. canonical_key k' \<noteq> canonical_key k"
    and "rq \<in> set (built net sv [] op)"
  shows "hdr_get (rq_header rq) k = net_style net v"
proof -
  obtain q where q: "new_request net (sv_base_url sv) op = Inr q" "rq = apply_editors sv [] q"
    using assms(5) by (cases "new_request net (sv_base_url sv) op") (auto simp: built_def)
  then have "map_of (rq_header q) (canonical_key k) = Some (net_style net v)"
    using header_params_lookup [OF assms(4)] by (auto simp: new_request_def bind_res_Inr_iff assms(3))
  then show ?thesis
    using apply_headers_lookup [OF assms(1)] assms(2)
    by (simp add: q apply_editors_def hdr_get_def apply_headers_def [of "[]"])
qed

definition option_key :: "server_option \<Rightarrow> bytes option" where
  "option_key opt = (case opt of
       WithHeader name v \<Rightarrow> Some (canonical_key name)
     | WithHTTPClient \<Rightarrow> None
     | _ \<Rightarrow> Some ''Authorization'')"

lemma canonical_authorization [simp]: "canonical_key ''Authorization'' = ''Authorization''"
  by code_simp

lemma apply_option_other:
  "option_key opt \<noteq> Some (canonical_key k) \<Longrightarrow> map_of (apply_option h opt) (canonical_key k) = map_of h (canonical_key k)"
  by (auto simp: option_key_def apply_option_def put_header_def hdr_set_lookup split: server_option.splits)

text \<open>
  Every request a client sends carries the value of the last \<open>WithHeader\<close> option naming a
  header, in any spelling: it overrides the built-in User-Agent, the credentials and whatever the
  operation itself put there.
\<close>

theorem last_header_option_wins:
  assumes call: "client_call net (new_server base (before @ WithHeader name v # after)) ctx [] op w = (r, w')"
    and last: "\<forall>opt \<in> set after. option_key opt \<noteq> Some (canonical_key name)"
    and sent: "rq \<in> set (drop (length (w_sent w)) (w_sent w'))"
  shows "hdr_get (rq_header rq) name = v"
proof -
  let ?sv = "new_server base (before @ WithHeader name v # after)"
  obtain q where rq: "rq = apply_editors ?sv [] q"
    using client_call_sent [OF call] sent by auto
  have keep: "map_of (foldl apply_option h after) (canonical_key name) = map_of h (canonical_key name)" for h
    using last by (induction after arbitrary: h) (auto simp: apply_option_other)
  have "map_of (sv_headers ?sv) (canonical_key name) = Some v"
    by (simp add: new_server_def keep apply_option_def put_header_def hdr_set_lookup)
  then show ?thesis
    using apply_headers_lookup [OF new_server_headers_ok, of base "before @ WithHeader name v # after"]
    by (simp add: rq apply_editors_def apply_headers_def [of "[]"] hdr_get_def)
qed

text \<open>A transport that always answers 204, for the witnesses.\<close>

definition ok_resp :: http_resp where
  "ok_resp = \<lparr>resp_status = 204, resp_header = [], resp_body = [], resp_read_err = None\<rparr>"

definition demo_net :: "unit net" where
  "demo_net = \<lparr>net_url = (\<lambda>base tmpl args. Inr (base @ tmpl)), net_style = (\<lambda>s. s), net_bind = Inr,
     net_send = (\<lambda>r w. (Inr ok_resp, w)), net_ctx_err = (\<lambda>w. None)\<rparr>"

theorem last_header_option_wins_witness:
  "\<exists>rq. hdr_get (rq_header rq) ''x-trace'' = ''t1'' \<and>
     w_sent (snd (client_call demo_net (new_server ''http://h'' [WithHeader ''X-Trace'' ''t1'', WithBearerToken ''k''])
       CtxCaller [] check_ready_request \<lparr>w_sent = [], w_rest = ()\<rparr>)) = [rq]"
proof -
  let ?sv = "new_server ''http://h'' ([] @ WithHeader ''x-trace'' ''t1'' # [WithBearerToken ''k''])"
  let ?w = "\<lparr>w_sent = [], w_rest = ()\<rparr>"
  have key: "canonical_key ''x-trace'' = canonical_key ''X-Trace''" by code_simp
  have sv: "?sv = new_server ''http://h'' [WithHeader ''X-Trace'' ''t1'', WithBearerToken ''k'']"
    by (simp add: new_server_def apply_option_def put_header_def hdr_set_def key)
  obtain r w' where c: "client_call demo_net ?sv CtxCaller [] check_ready_request ?w = (r, w')"
    by fastforce
  then obtain rq where rq: "w_sent w' = [rq]"
    by (auto simp: client_call_def demo_net_def new_request_def do_request_def ctx_done_def)
  have "\<forall>opt \<in> set [WithBearerToken ''k'']. option_key opt \<noteq> Some (canonical_key ''x-trace'')"
    by (simp add: option_key_def) code_simp
  from last_header_option_wins [OF c this, of rq] rq
  have "hdr_get (rq_header rq) ''x-trace'' = ''t1''" by simp
  with rq c show ?thesis unfolding sv by auto
qed

section \<open>Handles\<close>

record database =
  db_srv :: server
  db_name :: bytes
  db_session :: bytes

definition server_db :: "server \<Rightarrow> bytes \<Rightarrow> database" where
  "server_db sv name = \<lparr>db_srv = sv, db_name = name, db_session = []\<rparr>"

definition session_param :: "database \<Rightarrow> bytes option" where
  "session_param d = (if db_session d = [] then None else Some (db_session d))"

section \<open>The methods of a server\<close>

definition on_result :: "('a \<Rightarrow> go_error + 'b) \<Rightarrow> (go_error + 'a) \<times> 'w \<Rightarrow> (go_error + 'b) \<times> 'w" where
  "on_result f rw = (case rw of (r, w) \<Rightarrow> (bind_res r f, w))"

text \<open>The decoded body of a checked response: what the parser filled in, or the body decoded here.\<close>

definition decoded :: "(bytes \<Rightarrow> 'a option) \<Rightarrow> 'a parsed \<Rightarrow> go_error + 'a option" where
  "decoded dec p = decode_body (pr_typed p) dec (resp_body (pr_resp p))"

text \<open>\<open>DatabaseList\<close> and \<open>DatabaseExists\<close>.\<close>

record database_list =
  dl_result :: "bytes list option"
  dl_user :: bytes
  dl_version :: bytes

definition decode_database_list :: "bytes \<Rightarrow> database_list option" where
  "decode_database_list = unmarshal_struct (\<lambda>kvs.
     let fv = field_vals [''result'', ''user'', ''version''] kvs;
         (r, ok1) = decode_field (into_slice (into_string [])) None (fv ''result'');
         (u, ok2) = decode_field into_string [] (fv ''user'');
         (v, ok3) = decode_field into_string [] (fv ''version'')
     in (\<lparr>dl_result = r, dl_user = u, dl_version = v\<rparr>, ok1 \<and> ok2 \<and> ok3))"

definition decode_database_exists :: "bytes \<Rightarrow> bool option" where
  "decode_database_exists = unmarshal_struct (\<lambda>kvs.
     decode_field into_bool False (field_vals [''result''] kvs ''result''))"

definition list_databases ::
  "'w net \<Rightarrow> server \<Rightarrow> ctx \<Rightarrow> 'w world \<Rightarrow> (go_error + bytes list) \<times> 'w world" where
  "list_databases net sv ctx w =
     on_result (\<lambda>p. bind_res (decoded decode_database_list p) (\<lambda>l.
         Inr (case l of None \<Rightarrow> [] | Some d \<Rightarrow> (case dl_result d of None \<Rightarrow> [] | Some names \<Rightarrow> names))))
       (call_checked net sv ctx [] (list_databases_responses decode_database_list) list_databases_request w)"

definition exists_database ::
  "'w net \<Rightarrow> server \<Rightarrow> ctx \<Rightarrow> bytes \<Rightarrow> 'w world \<Rightarrow> (go_error + bool) \<times> 'w world" where
  "exists_database net sv ctx name w =
     on_result (\<lambda>p. bind_res (decoded decode_database_exists p) (\<lambda>r. Inr (r = Some True)))
       (call_checked net sv ctx [] (check_database_exists_responses decode_database_exists)
         (check_database_exists_request name) w)"

text \<open>The generated model is returned whole.\<close>

definition server_info ::
  "'w net \<Rightarrow> server \<Rightarrow> ctx \<Rightarrow> 'w world \<Rightarrow> (go_error + gv) \<times> 'w world" where
  "server_info net sv ctx w =
     on_result (\<lambda>p. non_empty (decoded (unmarshal_type server_info_model) p))
       (call_checked net sv ctx [] (get_server_info_responses (unmarshal_type server_info_model))
         (get_server_info_request None) w)"

definition health :: "'w net \<Rightarrow> server \<Rightarrow> ctx \<Rightarrow> 'w world \<Rightarrow> go_error option \<times> 'w world" where
  "health net sv ctx w =
     (case call_parsed net sv ctx [] check_health_responses check_health_request w of
        (Inl e, w') \<Rightarrow> (Some e, w')
      | (Inr p, w') \<Rightarrow>
          (if resp_status (pr_resp p) \<noteq> 204 then Some (EArcade (error_from_response (pr_resp p))) else None, w'))"

definition ready :: "'w net \<Rightarrow> server \<Rightarrow> ctx \<Rightarrow> 'w world \<Rightarrow> (go_error + bool) \<times> 'w world" where
  "ready net sv ctx w =
     (case call_parsed net sv ctx [] check_ready_responses check_ready_request w of
        (Inl e, w') \<Rightarrow> (Inl e, w')
      | (Inr p, w') \<Rightarrow>
          if resp_status (pr_resp p) = 503 then (Inr False, w')
          else (case check_response (pr_resp p) (resp_body (pr_resp p)) of
                  Some e \<Rightarrow> (Inl e, w') | None \<Rightarrow> (Inr True, w')))"

section \<open>What a response becomes\<close>

lemma call_parsed_of_send:
  assumes "client_call net sv ctx extra op w = (Inr resp, w')"
  shows "call_parsed net sv ctx extra rs op w = (parse_resp (net_bind net) rs resp, w')"
  using assms by (simp add: call_parsed_def)

text \<open>The header binding of the runtime library, as it behaves on string headers: it never fails.\<close>

lemma bind_headers_total:
  assumes "\<And>s. \<exists>x. bind s = Inr x"
  shows "\<exists>hs. bind_headers bind ks h = Inr hs"
proof (induction ks)
  case (Cons k ks)
  then obtain hs where hs: "bind_headers bind ks h = Inr hs" by blast
  show ?case
  proof (cases "map_of h (canonical_key k)")
    case (Some v)
    obtain x where "bind v = Inr x" using assms by blast
    with Some hs show ?thesis by simp
  qed (simp add: hs)
qed simp

lemma parse_resp_total:
  assumes "\<And>s. \<exists>x. net_bind net s = Inr x" and "resp_read_err resp = None"
  shows "(\<exists>e. parse_typed rs resp = Inl e \<and> parse_resp (net_bind net) rs resp = Inl e) \<or>
    (\<exists>t hs. parse_typed rs resp = Inr t \<and>
       parse_resp (net_bind net) rs resp = Inr \<lparr>pr_typed = t, pr_headers = hs, pr_resp = resp\<rparr>)"
proof (cases "parse_typed rs resp")
  case (Inr t)
  obtain hs where "bind_headers (net_bind net)
      (case map_of (rs_headers rs) (resp_status resp) of None \<Rightarrow> [] | Some ks \<Rightarrow> ks) (resp_header resp) = Inr hs"
    using bind_headers_total assms(1) by blast
  with Inr assms(2) show ?thesis by (simp add: parse_resp_def)
qed (simp add: parse_resp_def assms(2))

definition hides_error :: "'a responses \<Rightarrow> http_resp \<Rightarrow> bool" where
  "hides_error rs resp \<longleftrightarrow> is_json (resp_header resp) \<and>
     (\<exists>d. map_of (rs_errors rs) (resp_status resp) = Some d \<and> \<not> error_doc_ok d (resp_body resp))"

lemma parse_typed_failure:
  assumes "\<not> is_success (resp_status resp)" and "\<forall>st dec. rs_ok rs = Some (st, dec) \<longrightarrow> is_success st"
  shows "parse_typed rs resp = (if hides_error rs resp then Inl json_error else Inr None)"
  using assms by (auto simp: parse_typed_def hides_error_def split: option.splits)

text \<open>
  C24: a call answered outside 2xx fails with an \<open>*ArcadeDBError\<close> built from that answer, except in
  one case: a JSON content type on a status the contract declares, with a body that is not the
  declared error document. Then the generated parser fails first and the caller gets a plain
  decoding error that no \<open>errors.As\<close> recognises.
\<close>

theorem failed_answer_error:
  assumes sent: "client_call net sv ctx extra op w = (Inr resp, w')"
    and read: "resp_read_err resp = None"
    and bind: "\<And>s. \<exists>x. net_bind net s = Inr x"
    and fail: "\<not> is_success (resp_status resp)"
    and ok: "\<forall>st dec. rs_ok rs = Some (st, dec) \<longrightarrow> is_success st"
  shows "call_checked net sv ctx extra rs op w =
    (Inl (if hides_error rs resp then json_error else EArcade (error_from_response resp)), w')"
  using parse_resp_total [of net resp rs, OF bind read] parse_typed_failure [OF fail ok] fail
  by (auto simp: call_checked_def call_parsed_of_send [OF sent] check_response_def error_from_response_def
      split: if_splits)

text \<open>The uncovered case happens: an empty 500 whose content type says JSON.\<close>

definition empty_500 :: http_resp where
  "empty_500 = \<lparr>resp_status = 500, resp_header = [(''Content-Type'', ''application/json'')],
     resp_body = [], resp_read_err = None\<rparr>"

definition failing_net :: "unit net" where
  "failing_net = demo_net\<lparr>net_send := \<lambda>r w. (Inr empty_500, w)\<rparr>"

lemma failing_net_sends: "\<exists>w'. client_call failing_net \<lparr>sv_base_url = [], sv_headers = []\<rparr> CtxCaller [] op w = (Inr empty_500, w')"
  by (simp add: client_call_def new_request_def failing_net_def demo_net_def do_request_def ctx_done_def)

lemma empty_500_hides: "hides_error (list_databases_responses decode_database_list) empty_500"
proof -
  have "canonical_key ''Content-Type'' = ''Content-Type''" by code_simp
  then have "is_json (resp_header empty_500)"
    by (simp add: is_json_def hdr_get_def empty_500_def has_prefix_def)
  moreover have "json_parse [] = None" by code_simp
  then have "\<not> error_doc_ok ErrorDoc []" by (simp add: error_doc_ok_def unmarshal_struct_def)
  ultimately show ?thesis
    by (simp add: hides_error_def list_databases_responses_def empty_500_def)
qed

theorem failed_answer_error_witness:
  "\<exists>w'. list_databases failing_net \<lparr>sv_base_url = [], sv_headers = []\<rparr> CtxCaller \<lparr>w_sent = [], w_rest = ()\<rparr>
     = (Inl json_error, w') \<and> as_arcade json_error = None"
proof -
  obtain w' where c: "client_call failing_net \<lparr>sv_base_url = [], sv_headers = []\<rparr> CtxCaller []
      list_databases_request \<lparr>w_sent = [], w_rest = ()\<rparr> = (Inr empty_500, w')"
    using failing_net_sends by blast
  have "\<And>s. \<exists>x. net_bind failing_net s = Inr x" by (simp add: failing_net_def demo_net_def)
  moreover have "resp_read_err empty_500 = None" and "\<not> is_success (resp_status empty_500)"
    by (simp_all add: empty_500_def is_success_def)
  moreover have "\<forall>st dec. rs_ok (list_databases_responses decode_database_list) = Some (st, dec) \<longrightarrow> is_success st"
    by (simp add: list_databases_responses_def is_success_def)
  ultimately have "call_checked failing_net \<lparr>sv_base_url = [], sv_headers = []\<rparr> CtxCaller []
      (list_databases_responses decode_database_list) list_databases_request \<lparr>w_sent = [], w_rest = ()\<rparr>
      = (Inl json_error, w')"
    using failed_answer_error [OF c, of "list_databases_responses decode_database_list"] empty_500_hides by simp
  then show ?thesis by (simp add: list_databases_def on_result_def json_error_def)
qed

text \<open>
  An answered health check is healthy exactly on 204, another 2xx being an error too; an
  answered readiness check is true on every 2xx, false without an error on 503 and an error on
  anything else. Errors are built from the answer.
\<close>

theorem health_ready_status:
  assumes h: "client_call net sv ctx [] check_health_request w1 = (Inr resp, w1')"
    and r: "client_call net sv ctx [] check_ready_request w2 = (Inr resp, w2')"
    and read: "resp_read_err resp = None" and bind: "\<And>s. \<exists>x. net_bind net s = Inr x"
  shows "health net sv ctx w1 =
      (if resp_status resp = 204 then None else Some (EArcade (error_from_response resp)), w1') \<and>
    ready net sv ctx w2 =
      (if is_success (resp_status resp) then Inr True else if resp_status resp = 503 then Inr False
       else Inl (EArcade (error_from_response resp)), w2')"
proof -
  have t: "parse_typed check_health_responses resp = Inr None" "parse_typed check_ready_responses resp = Inr None"
    by (simp_all add: parse_typed_def check_health_responses_def check_ready_responses_def)
  obtain hs hs' where
    "parse_resp (net_bind net) check_health_responses resp = Inr \<lparr>pr_typed = None, pr_headers = hs, pr_resp = resp\<rparr>"
    "parse_resp (net_bind net) check_ready_responses resp = Inr \<lparr>pr_typed = None, pr_headers = hs', pr_resp = resp\<rparr>"
    using parse_resp_total [of net resp check_health_responses, OF bind read]
      parse_resp_total [of net resp check_ready_responses, OF bind read] t by auto
  then show ?thesis
    by (auto simp: health_def ready_def call_parsed_of_send [OF h] call_parsed_of_send [OF r]
        check_response_def error_from_response_def is_success_def)
qed

theorem health_ready_status_witness:
  "fst (health demo_net \<lparr>sv_base_url = [], sv_headers = []\<rparr> CtxCaller \<lparr>w_sent = [], w_rest = ()\<rparr>) = None \<and>
   fst (ready demo_net \<lparr>sv_base_url = [], sv_headers = []\<rparr> CtxCaller \<lparr>w_sent = [], w_rest = ()\<rparr>) = Inr True"
proof -
  have "\<exists>w'. client_call demo_net \<lparr>sv_base_url = [], sv_headers = []\<rparr> CtxCaller [] op \<lparr>w_sent = [], w_rest = ()\<rparr>
      = (Inr ok_resp, w')" for op
    by (simp add: client_call_def new_request_def demo_net_def do_request_def ctx_done_def)
  then obtain a b where "client_call demo_net \<lparr>sv_base_url = [], sv_headers = []\<rparr> CtxCaller []
        check_health_request \<lparr>w_sent = [], w_rest = ()\<rparr> = (Inr ok_resp, a)"
      "client_call demo_net \<lparr>sv_base_url = [], sv_headers = []\<rparr> CtxCaller []
        check_ready_request \<lparr>w_sent = [], w_rest = ()\<rparr> = (Inr ok_resp, b)" by blast
  from health_ready_status [OF this] show ?thesis
    by (simp add: ok_resp_def demo_net_def is_success_def)
qed

end
