(* ===== verification/Envelope.thy ===== *)
theory Envelope
  imports Server_Config Go_Values
begin

text \<open>
  \<open>go/arcadedb/envelope.go\<close>, \<open>isolation.go\<close> and the statement methods of \<open>database.go\<close>: the options
  of a call, the request of a query or command, and the envelope made of its answer.
\<close>

section \<open>Options\<close>

record call_options =
  co_limit :: "int option"
  co_tag :: bytes
  co_isolation :: "bytes option"

text \<open>The option types; which call takes which is a matter of Go's types.\<close>

datatype call_option = LimitOption int | QueryTagOption bytes | IsolationLevelOption bytes

definition no_options :: call_options where
  "no_options = \<lparr>co_limit = None, co_tag = [], co_isolation = None\<rparr>"

definition apply_query :: "call_options \<Rightarrow> call_option \<Rightarrow> call_options" where
  "apply_query opts opt = (case opt of
       LimitOption n \<Rightarrow> opts\<lparr>co_limit := Some n\<rparr>
     | QueryTagOption tag \<Rightarrow> opts\<lparr>co_tag := tag\<rparr>
     | IsolationLevelOption l \<Rightarrow> opts)"

definition apply_command :: "call_options \<Rightarrow> call_option \<Rightarrow> call_options" where
  "apply_command = apply_query"

definition apply_transaction :: "call_options \<Rightarrow> call_option \<Rightarrow> call_options" where
  "apply_transaction opts opt = (case opt of
       LimitOption n \<Rightarrow> opts
     | QueryTagOption tag \<Rightarrow> opts\<lparr>co_tag := tag\<rparr>
     | IsolationLevelOption l \<Rightarrow> opts\<lparr>co_isolation := Some l\<rparr>)"

definition query_call_options :: "call_option list \<Rightarrow> call_options" where
  "query_call_options opts = foldl apply_query no_options opts"

definition command_call_options :: "call_option list \<Rightarrow> call_options" where
  "command_call_options opts = foldl apply_command no_options opts"

definition transaction_options :: "call_option list \<Rightarrow> call_options" where
  "transaction_options opts = foldl apply_transaction no_options opts"

definition query_tag_param :: "bytes \<Rightarrow> bytes option" where
  "query_tag_param tag = (if tag = [] then None else Some tag)"

section \<open>Requests\<close>

definition opt_member :: "bytes \<Rightarrow> json option \<Rightarrow> members" where
  "opt_member k v = (case v of None \<Rightarrow> [] | Some x \<Rightarrow> [(k, x)])"

text \<open>
  The request bodies in the order of their struct fields; a nil parameter map is left out.
  \<open>None\<close> means that a parameter does not marshal.
\<close>

definition request_body :: "bytes \<Rightarrow> bytes \<Rightarrow> gomap option \<Rightarrow> int option \<Rightarrow> json option" where
  "request_body lang command params limit =
     (case (case params of None \<Rightarrow> Some None | Some m \<Rightarrow> map_option Some (json_of_goval (GMap m))) of
        None \<Rightarrow> None
      | Some ps \<Rightarrow> Some (JObj ([(''command'', JStr command), (''language'', JStr lang)]
          @ opt_member ''limit'' (map_option (\<lambda>n. JNum (dec_of_int n)) limit)
          @ opt_member ''params'' ps)))"

definition build_query_request :: "bytes \<Rightarrow> bytes \<Rightarrow> gomap option \<Rightarrow> call_options \<Rightarrow> json option" where
  "build_query_request lang command params opts = request_body lang command params (co_limit opts)"

definition build_command_request :: "bytes \<Rightarrow> bytes \<Rightarrow> gomap option \<Rightarrow> call_options \<Rightarrow> json option" where
  "build_command_request lang command params opts = request_body lang command params (co_limit opts)"

section \<open>Responses\<close>

record query_response =
  qr_explain :: "bytes option"
  qr_plan :: "members option option"
  qr_limit :: int
  qr_result :: "json option"
  qr_returned :: int
  qr_truncated :: bool

definition query_response_fields :: "bytes list" where
  "query_response_fields = [''explain'', ''explainPlan'', ''limit'', ''result'', ''returned'', ''truncated'']"

definition decode_query_response :: "bytes \<Rightarrow> query_response option" where
  "decode_query_response = unmarshal_struct (\<lambda>kvs.
     let fv = field_vals query_response_fields kvs;
         (e, ok1) = decode_field (into_ptr into_string []) None (fv ''explain'');
         (p, ok2) = decode_field (into_ptr into_map None) None (fv ''explainPlan'');
         (l, ok3) = decode_field into_int 0 (fv ''limit'');
         (r, ok4) = decode_field (into_ptr (\<lambda>a v. Some v) JNull) None (fv ''result'');
         (n, ok5) = decode_field into_int 0 (fv ''returned'');
         (t, ok6) = decode_field into_bool False (fv ''truncated'')
     in (\<lparr>qr_explain = e, qr_plan = p, qr_limit = l, qr_result = r, qr_returned = n, qr_truncated = t\<rparr>,
         ok1 \<and> ok2 \<and> ok3 \<and> ok4 \<and> ok5 \<and> ok6))"

text \<open>The two views of the result union. A row that is \<open>null\<close> decodes as a nil map.\<close>

definition as_rows :: "json \<Rightarrow> members option list option option" where
  "as_rows v = into_slice (into_map None) None v"

definition as_graph :: "json \<Rightarrow> bool" where
  "as_graph v = (case v of
       JNull \<Rightarrow> True
     | JObj kvs \<Rightarrow>
         (let fv = field_vals [''edges'', ''records'', ''vertices''] kvs
          in snd (decode_field (into_slice (into_map None)) None (fv ''edges'')) \<and>
             snd (decode_field (into_ptr (into_slice (into_map None)) None) None (fv ''records'')) \<and>
             snd (decode_field (into_slice (into_map None)) None (fv ''vertices'')))
     | _ \<Rightarrow> False)"

record envelope =
  en_result :: "members option list"
  en_limit :: int
  en_returned :: int
  en_truncated :: bool
  en_explain :: bytes
  en_plan :: "members option"

definition graph_result_error :: arcade_error where
  "graph_result_error =
     \<lparr>ae_status = 200,
      ae_message = ''the server answered with a graph-serializer result object, but this call expected rows'',
      ae_exception = [],
      ae_detail = ''QueryResponse.result is {vertices, edges}, which QueryEnvelope cannot represent. This client never asks for a graph serializer.'',
      ae_request_id = [], ae_help = [], ae_args = [], ae_retry_after = 0, ae_commit_index = 0\<rparr>"

definition to_envelope :: "query_response \<Rightarrow> go_error + envelope" where
  "to_envelope qr =
     (let env = \<lparr>en_result = [], en_limit = qr_limit qr, en_returned = qr_returned qr,
                 en_truncated = qr_truncated qr,
                 en_explain = (case qr_explain qr of None \<Rightarrow> [] | Some e \<Rightarrow> e),
                 en_plan = (case qr_plan qr of None \<Rightarrow> None | Some p \<Rightarrow> p)\<rparr>
      in case qr_result qr of
           None \<Rightarrow> Inr env
         | Some u \<Rightarrow> (case as_rows u of
             None \<Rightarrow> if as_graph u then Inl (EArcade graph_result_error)
                     else Inl (EWrap ''arcadedb: decode result rows'' json_error)
           | Some None \<Rightarrow> Inr env
           | Some (Some rows) \<Rightarrow> Inr (env\<lparr>en_result := rows\<rparr>)))"

text \<open>\<open>json.Unmarshal\<close> into a map of raw messages: the keys as written.\<close>

definition has_key :: "bytes \<Rightarrow> bytes \<Rightarrow> bool" where
  "has_key body k = (case json_parse body of Some (JObj kvs) \<Rightarrow> k \<in> fst ` set kvs | _ \<Rightarrow> False)"

definition envelope_from_body :: "query_response option \<Rightarrow> bytes \<Rightarrow> go_error + envelope" where
  "envelope_from_body typed body =
     bind_res (decode_body typed decode_query_response body) (\<lambda>qr. case qr of
         None \<Rightarrow> Inr \<lparr>en_result = [], en_limit = - 1, en_returned = 0, en_truncated = False,
                      en_explain = [], en_plan = None\<rparr>
       | Some q \<Rightarrow> bind_res (to_envelope q) (\<lambda>env.
           Inr (if has_key body ''limit'' then env else env\<lparr>en_limit := - 1\<rparr>)))"

section \<open>Query and Command\<close>

definition query ::
  "'w net \<Rightarrow> database \<Rightarrow> ctx \<Rightarrow> bytes \<Rightarrow> bytes \<Rightarrow> gomap option \<Rightarrow> call_option list \<Rightarrow> 'w world
     \<Rightarrow> (go_error + envelope) \<times> 'w world" where
  "query net d ctx lang command params options w =
     (let opts = query_call_options options
      in case build_query_request lang command params opts of
           None \<Rightarrow> (Inl json_error, w)
         | Some j \<Rightarrow>
             on_result (\<lambda>p. envelope_from_body (pr_typed p) (resp_body (pr_resp p)))
               (call_checked net (db_srv d) ctx [] (execute_query_responses decode_query_response)
                 (execute_query_request (db_name d) (session_param d) (query_tag_param (co_tag opts))
                   None None ''application/json'' (encode True j)) w))"

definition command ::
  "'w net \<Rightarrow> database \<Rightarrow> ctx \<Rightarrow> bytes \<Rightarrow> bytes \<Rightarrow> gomap option \<Rightarrow> call_option list \<Rightarrow> 'w world
     \<Rightarrow> (go_error + envelope) \<times> 'w world" where
  "command net d ctx lang text params options w =
     (let opts = command_call_options options
      in case build_command_request lang text params opts of
           None \<Rightarrow> (Inl json_error, w)
         | Some j \<Rightarrow>
             on_result (\<lambda>p. envelope_from_body (pr_typed p) (resp_body (pr_resp p)))
               (call_checked net (db_srv d) ctx [] (execute_command_responses decode_query_response)
                 (execute_command_request (db_name d) (session_param d) (query_tag_param (co_tag opts))
                   None None ''application/json'' (encode True j)) w))"

section \<open>What an answer becomes\<close>

text \<open>A server's answer: any of its members may be missing.\<close>

definition answer_doc :: "members list option \<Rightarrow> int option \<Rightarrow> int option \<Rightarrow> bool option \<Rightarrow> json" where
  "answer_doc rows limit returned truncated =
     JObj (opt_member ''result'' (map_option (\<lambda>r. JArr (map JObj r)) rows)
       @ opt_member ''limit'' (map_option (\<lambda>n. JNum (dec_of_int n)) limit)
       @ opt_member ''returned'' (map_option (\<lambda>n. JNum (dec_of_int n)) returned)
       @ opt_member ''truncated'' (map_option JBool truncated))"

lemma opt_member_simps [simp]: "opt_member k None = []" "opt_member k (Some v) = [(k, v)]"
  by (simp_all add: opt_member_def)

lemma into_map_rows: "list_all (\<lambda>r. floats_ok (JObj r)) rows \<Longrightarrow>
    all_some (map (into_map None) (map JObj rows)) = Some (map Some rows)"
  by (induction rows) (auto simp: into_map_def nil_members_def)

lemma key_ascii: "valid_utf8 ''result''" "valid_utf8 ''limit''" "valid_utf8 ''returned''" "valid_utf8 ''truncated''"
  by (simp_all add: valid_utf8_ascii byte_def)

lemma answer_doc_parses:
  assumes "list_all (\<lambda>r. nums_ok (JObj r) \<and> strs_ok (JObj r)) (case rows of None \<Rightarrow> [] | Some r \<Rightarrow> r)"
  shows "json_parse (encode html (answer_doc rows l n t)) = Some (answer_doc rows l n t)"
proof -
  have "nums_ok (answer_doc rows l n t)"
    using assms by (cases rows; cases l; cases n; cases t)
      (auto simp: answer_doc_def scan_num_dec_of_int list_all_iff)
  moreover have "strs_ok (answer_doc rows l n t)"
    using assms by (cases rows; cases l; cases n; cases t)
      (auto simp: answer_doc_def key_ascii list_all_iff)
  ultimately show ?thesis using json_parse_encode coerce_json_id by metis
qed

lemma decode_answer_doc:
  assumes ok: "list_all (\<lambda>r. nums_ok (JObj r) \<and> strs_ok (JObj r)) (case rows of None \<Rightarrow> [] | Some r \<Rightarrow> r)"
    and ints: "\<forall>x. l = Some x \<or> n = Some x \<longrightarrow> in_int64 x"
  shows "decode_query_response (encode html (answer_doc rows l n t)) =
    Some \<lparr>qr_explain = None, qr_plan = None, qr_limit = (case l of None \<Rightarrow> 0 | Some x \<Rightarrow> x),
      qr_result = map_option (\<lambda>r. JArr (map JObj r)) rows, qr_returned = (case n of None \<Rightarrow> 0 | Some x \<Rightarrow> x),
      qr_truncated = (case t of None \<Rightarrow> False | Some x \<Rightarrow> x)\<rparr>"
proof -
  have fv: "field_vals query_response_fields kvs f = map snd (filter (\<lambda>kv. fst kv = f) kvs)"
    if "set (map fst kvs) \<subseteq> {''result'', ''limit'', ''returned'', ''truncated''}" for kvs f
    using that by (intro field_vals_exact) (auto simp: query_response_fields_def)
  show ?thesis
    unfolding decode_query_response_def unmarshal_struct_def answer_doc_parses [OF ok]
    using ints
    by (cases rows; cases l; cases n; cases t)
      (auto simp: answer_doc_def fv decode_field_single into_ptr_def into_int_def into_bool_def int_of_lit_dec)
qed

text \<open>
  C31: the envelope says what the server's answer said, row by row, and gives a member the answer
  leaves out its documented default: no rows, no cap, zero returned, not truncated. It is the same
  whether the parser of the generated client or the fallback decoded the body.
\<close>

theorem envelope_roundtrip:
  assumes ok: "list_all (\<lambda>r. nums_ok (JObj r) \<and> strs_ok (JObj r) \<and> floats_ok (JObj r))
      (case rows of None \<Rightarrow> [] | Some r \<Rightarrow> r)"
    and ints: "\<forall>x. limit = Some x \<or> returned = Some x \<longrightarrow> in_int64 x"
    and body: "body = encode html (answer_doc rows limit returned truncated)"
    and typed: "typed \<in> {None, decode_query_response body}"
  shows "envelope_from_body typed body = Inr
    \<lparr>en_result = map Some (case rows of None \<Rightarrow> [] | Some r \<Rightarrow> r),
     en_limit = (case limit of None \<Rightarrow> - 1 | Some n \<Rightarrow> n),
     en_returned = (case returned of None \<Rightarrow> 0 | Some n \<Rightarrow> n),
     en_truncated = (case truncated of None \<Rightarrow> False | Some b \<Rightarrow> b), en_explain = [], en_plan = None\<rparr>"
proof -
  have ok': "list_all (\<lambda>r. nums_ok (JObj r) \<and> strs_ok (JObj r)) (case rows of None \<Rightarrow> [] | Some r \<Rightarrow> r)"
    and fl: "list_all (\<lambda>r. floats_ok (JObj r)) (case rows of None \<Rightarrow> [] | Some r \<Rightarrow> r)"
    using ok by (simp_all add: list_all_iff)
  note dec = decode_answer_doc [OF ok' ints, of html truncated]
  have "trim_space body \<notin> {[], ''null''}"
    unfolding body answer_doc_def by (rule object_not_blank)
  then have "decode_body typed decode_query_response body = Inr (decode_query_response body)"
    using typed by (auto simp: decode_body_def dec [folded body] Let_def)
  moreover have "has_key body ''limit'' \<longleftrightarrow> limit \<noteq> None"
    using answer_doc_parses [OF ok', of html limit returned truncated]
    by (cases rows; cases limit; cases returned; cases truncated) (simp_all add: has_key_def body answer_doc_def)
  moreover have "as_rows (JArr (map JObj r)) = Some (Some (map Some r))" if "rows = Some r" for r
    using into_map_rows [of r] fl that by (simp add: as_rows_def into_slice_def del: map_map)
  ultimately show ?thesis
    using dec body by (cases rows; cases limit) (simp_all add: envelope_from_body_def to_envelope_def)
qed

theorem envelope_roundtrip_witness:
  "envelope_from_body None (encode True (answer_doc (Some [[(''n'', JStr ''a'')]]) None (Some 1) (Some True))) = Inr
    \<lparr>en_result = [Some [(''n'', JStr ''a'')]], en_limit = - 1, en_returned = 1, en_truncated = True,
     en_explain = [], en_plan = None\<rparr>"
  using envelope_roundtrip [of "Some [[(''n'', JStr ''a'')]]" None "Some 1" _ True "Some True" None]
  by (simp add: in_int64_def min_int64_def max_int64_def valid_utf8_ascii byte_def)

text \<open>
  A result that is an object is never read as rows. In the shape of the graph serializers it
  is an \<open>*ArcadeDBError\<close> of status 200, in any other shape a decoding error.
\<close>

theorem graph_result_rejected:
  assumes "nums_ok (JObj g)" and "strs_ok (JObj g)"
  shows "envelope_from_body None (encode html (JObj [(''result'', JObj g)])) =
    Inl (if as_graph (JObj g) then EArcade graph_result_error
         else EWrap ''arcadedb: decode result rows'' json_error)"
proof -
  have "json_parse (encode html (JObj [(''result'', JObj g)])) = Some (JObj [(''result'', JObj g)])"
    using assms json_parse_encode [of "JObj [(''result'', JObj g)]" html] coerce_json_id [of "JObj [(''result'', JObj g)]"]
    by (simp add: key_ascii del: encode.simps)
  then have "decode_query_response (encode html (JObj [(''result'', JObj g)])) = Some
      \<lparr>qr_explain = None, qr_plan = None, qr_limit = 0, qr_result = Some (JObj g), qr_returned = 0, qr_truncated = False\<rparr>"
    by (simp add: decode_query_response_def unmarshal_struct_def field_vals_exact query_response_fields_def
        decode_field_single into_ptr_def del: encode.simps)
  moreover have "as_rows (JObj g) = None" by (simp add: as_rows_def into_slice_def)
  ultimately show ?thesis
    using object_not_blank [of html "[(''result'', JObj g)]"]
    by (simp add: envelope_from_body_def decode_body_def Let_def to_envelope_def del: encode.simps)
qed

theorem graph_result_rejected_witness:
  "envelope_from_body None (encode True (JObj [(''result'', JObj [(''vertices'', JArr []), (''edges'', JArr [])])])) =
    Inl (EArcade graph_result_error)"
proof -
  have "as_graph (JObj [(''vertices'', JArr []), (''edges'', JArr [])])"
    by (simp add: as_graph_def field_vals_exact decode_field_single into_slice_def)
  then show ?thesis
    using graph_result_rejected [of "[(''vertices'', JArr []), (''edges'', JArr [])]" True]
    by (simp add: valid_utf8_ascii byte_def del: encode.simps)
qed

text \<open>
  The probe for the limit is case-sensitive, the decoder is not. A cap the answer spells
  \<open>Limit\<close> is decoded into the response and then replaced by \<open>- 1\<close>, "uncapped".
\<close>

theorem limit_probe_case:
  assumes "in_int64 n"
  shows "\<exists>qr. decode_query_response (encode html (JObj [(''Limit'', JNum (dec_of_int n))])) = Some qr \<and>
     qr_limit qr = n \<and>
     envelope_from_body None (encode html (JObj [(''Limit'', JNum (dec_of_int n))])) = Inr
       \<lparr>en_result = [], en_limit = - 1, en_returned = 0, en_truncated = False, en_explain = [], en_plan = None\<rparr>"
proof -
  have v: "valid_utf8 ''Limit''" by (simp add: valid_utf8_ascii byte_def)
  have p: "json_parse (encode html (JObj [(''Limit'', JNum (dec_of_int n))])) = Some (JObj [(''Limit'', JNum (dec_of_int n))])"
    using json_parse_encode [of "JObj [(''Limit'', JNum (dec_of_int n))]" html] v
    by (simp add: scan_num_dec_of_int valid_utf8_def del: encode.simps)
  have u: "ascii_upper (CHR ''L'') = ascii_upper (CHR ''l'')"
    unfolding byte_inject [symmetric] by (simp add: ascii_upper_def byte_in_def byte_def)
  have "fold_name ''Limit'' = map ascii_upper ''Limit''" by (simp add: fold_name_ascii byte_def)
  then have fv: "field_vals query_response_fields [(''Limit'', v)] f = (if f = ''limit'' then [v] else [])"
    if "f \<in> set query_response_fields" for f v
    using that by (auto simp: field_vals_def query_response_fields_def fold_name_ascii u byte_def)
  then have d: "decode_query_response (encode html (JObj [(''Limit'', JNum (dec_of_int n))])) = Some
      \<lparr>qr_explain = None, qr_plan = None, qr_limit = n, qr_result = None, qr_returned = 0, qr_truncated = False\<rparr>"
    using assms
    by (simp add: decode_query_response_def unmarshal_struct_def p fv [unfolded query_response_fields_def]
        query_response_fields_def decode_field_single into_int_def int_of_lit_dec del: encode.simps)
  moreover have "\<not> has_key (encode html (JObj [(''Limit'', JNum (dec_of_int n))])) ''limit''"
    by (simp add: has_key_def p del: encode.simps)
  ultimately show ?thesis
    using object_not_blank [of html "[(''Limit'', JNum (dec_of_int n))]"]
    by (simp add: envelope_from_body_def decode_body_def Let_def to_envelope_def del: encode.simps)
qed

theorem limit_probe_case_witness:
  "\<exists>qr. decode_query_response (encode True (JObj [(''Limit'', JNum (dec_of_int 5))])) = Some qr \<and> qr_limit qr = 5"
  using limit_probe_case [of 5 True] by (auto simp: in_int64_def min_int64_def max_int64_def)

end
