(* ===== verification/Query_Stream.thy ===== *)
theory Query_Stream
  imports Envelope Ndjson
begin

text \<open>
  \<open>go/arcadedb/stream.go\<close>: \<open>QueryStream\<close> and \<open>CommandStream\<close>, which ask for newline-delimited JSON
  and hand each event to the consumer of the iterator. \<open>ind\<close> is the platform's conversion of
  \<open>2 ^ 63\<close> (see \<open>json_non_negative\<close>).
\<close>

record stream_stats =
  ss_limit :: int
  ss_returned :: int
  ss_truncated :: bool

datatype stream_event = Record members | Stats stream_stats

definition default_stream_error :: bytes where
  "default_stream_error = ''the stream reported an error''"

section \<open>The wire format\<close>

record stats_wire =
  sw_limit :: "int option"
  sw_returned :: int
  sw_truncated :: bool

record event_wire =
  ew_record :: "members option"
  ew_stats :: "stats_wire option"
  ew_error :: "members option"

definition zero_stats :: stats_wire where
  "zero_stats = \<lparr>sw_limit = None, sw_returned = 0, sw_truncated = False\<rparr>"

definition into_stats :: "stats_wire \<Rightarrow> json \<Rightarrow> stats_wire option" where
  "into_stats s v = (case v of
       JNull \<Rightarrow> Some s
     | JObj kvs \<Rightarrow>
         (let fv = field_vals [''limit'', ''returned'', ''truncated''] kvs;
              (l, ok1) = decode_field (into_ptr into_int 0) (sw_limit s) (fv ''limit'');
              (n, ok2) = decode_field into_int (sw_returned s) (fv ''returned'');
              (t, ok3) = decode_field into_bool (sw_truncated s) (fv ''truncated'')
          in if ok1 \<and> ok2 \<and> ok3 then Some \<lparr>sw_limit = l, sw_returned = n, sw_truncated = t\<rparr> else None)
     | _ \<Rightarrow> None)"

definition decode_event_wire :: "bytes \<Rightarrow> event_wire option" where
  "decode_event_wire = unmarshal_struct (\<lambda>kvs.
     let fv = field_vals [''record'', ''stats'', ''error''] kvs;
         (r, ok1) = decode_field into_map None (fv ''record'');
         (s, ok2) = decode_field (into_ptr into_stats zero_stats) None (fv ''stats'');
         (e, ok3) = decode_field into_map None (fv ''error'')
     in (\<lparr>ew_record = r, ew_stats = s, ew_error = e\<rparr>, ok1 \<and> ok2 \<and> ok3))"

definition stream_error :: "int \<Rightarrow> members \<Rightarrow> bytes \<Rightarrow> arcade_error" where
  "stream_error ind evt rid =
     (let str = (\<lambda>key. as_string (map_get evt key));
          msg1 = str ''error'';
          msg2 = (if msg1 = [] then str ''message'' else msg1);
          msg3 = (if msg2 = [] then default_stream_error else msg2);
          (n, ok) = json_non_negative ind (map_get evt ''retryAfter'')
      in \<lparr>ae_status = in_band_status ind (map_get evt ''status'') 200,
          ae_message = msg3, ae_exception = str ''exception'', ae_detail = str ''detail'',
          ae_request_id = (if rid = [] then str ''requestId'' else rid),
          ae_help = [], ae_args = str ''exceptionArgs'',
          ae_retry_after = (if ok then seconds_duration n else 0), ae_commit_index = 0\<rparr>)"

text \<open>A decoded line: an error, an event, or nothing for an event of an unknown kind.\<close>

definition decode_stream_line :: "int \<Rightarrow> bytes \<Rightarrow> bytes \<Rightarrow> go_error + stream_event option" where
  "decode_stream_line ind line rid =
     (case decode_event_wire line of
        None \<Rightarrow> Inl (EWrap ''arcadedb: decode stream event'' json_error)
      | Some w \<Rightarrow>
          (case ew_error w of
             Some e \<Rightarrow> Inl (EArcade (stream_error ind e rid))
           | None \<Rightarrow>
               (case ew_stats w of
                  Some s \<Rightarrow> Inr (Some (Stats \<lparr>ss_limit = (case sw_limit s of None \<Rightarrow> - 1 | Some l \<Rightarrow> l),
                      ss_returned = sw_returned s, ss_truncated = sw_truncated s\<rparr>))
                | None \<Rightarrow>
                    (case ew_record w of Some r \<Rightarrow> Inr (Some (Record r)) | None \<Rightarrow> Inr None))))"

section \<open>The iterators\<close>

definition unpack_stream :: "go_error + http_resp \<Rightarrow> go_error + http_resp" where
  "unpack_stream r = (case r of
       Inl e \<Rightarrow> Inl e
     | Inr resp \<Rightarrow> if \<not> is_success (resp_status resp) then Inl (EArcade (error_from_response resp)) else Inr resp)"

text \<open>The body of the loop over the lines, as the consumer of \<open>Lines\<close>.\<close>

definition stream_step ::
  "int \<Rightarrow> bytes \<Rightarrow> ('c, go_error + stream_event) consumer \<Rightarrow> ('c, go_error + bytes) consumer" where
  "stream_step ind rid yields c item = (case item of
       Inl e \<Rightarrow> (False, snd (yields c (Inl e)))
     | Inr line \<Rightarrow>
         (case decode_stream_line ind line rid of
            Inl e \<Rightarrow> (False, snd (yields c (Inl e)))
          | Inr None \<Rightarrow> (True, c)
          | Inr (Some ev) \<Rightarrow> yields c (Inr ev)))"

text \<open>
  \<open>stream\<close> on an opened response, whose body the transport delivers in pieces of the given sizes.
\<close>

definition stream ::
  "int \<Rightarrow> nat list \<Rightarrow> bool \<Rightarrow> go_error + http_resp \<Rightarrow> ('c, go_error + stream_event) consumer \<Rightarrow> 'c \<Rightarrow> 'c option" where
  "stream ind sizes joined opened yields c =
     (case unpack_stream opened of
        Inl e \<Rightarrow> Some (snd (yields c (Inl e)))
      | Inr resp \<Rightarrow>
          map_option fst (lines body_read (stream_step ind (hdr_get (resp_header resp) request_id_header) yields) c
            (resp_body_reader resp sizes joined)))"

definition ndjson_type :: bytes where "ndjson_type = ''application/x-ndjson''"

definition query_stream ::
  "int \<Rightarrow> nat list \<Rightarrow> bool \<Rightarrow> 'w net \<Rightarrow> database \<Rightarrow> ctx \<Rightarrow> bytes \<Rightarrow> bytes \<Rightarrow> gomap option \<Rightarrow> call_option list
     \<Rightarrow> ('c, go_error + stream_event) consumer \<Rightarrow> 'c \<Rightarrow> 'w world \<Rightarrow> 'c option \<times> 'w world" where
  "query_stream ind sizes joined net d ctx lang text params options yields c w =
     (let opts = query_call_options options
      in case (case build_query_request lang text params opts of
           None \<Rightarrow> (Inl json_error, w)
         | Some j \<Rightarrow> client_call net (db_srv d) ctx []
             (execute_query_request (db_name d) (session_param d) (query_tag_param (co_tag opts))
               (Some ndjson_type) None ''application/json'' (encode True j)) w) of
         (opened, w') \<Rightarrow> (stream ind sizes joined opened yields c, w'))"

definition command_stream ::
  "int \<Rightarrow> nat list \<Rightarrow> bool \<Rightarrow> 'w net \<Rightarrow> database \<Rightarrow> ctx \<Rightarrow> bytes \<Rightarrow> bytes \<Rightarrow> gomap option \<Rightarrow> call_option list
     \<Rightarrow> ('c, go_error + stream_event) consumer \<Rightarrow> 'c \<Rightarrow> 'w world \<Rightarrow> 'c option \<times> 'w world" where
  "command_stream ind sizes joined net d ctx lang text params options yields c w =
     (let opts = command_call_options options
      in case (case build_command_request lang text params opts of
           None \<Rightarrow> (Inl json_error, w)
         | Some j \<Rightarrow> client_call net (db_srv d) ctx []
             (execute_command_request (db_name d) (session_param d) (query_tag_param (co_tag opts))
               (Some ndjson_type) None ''application/json'' (encode True j)) w) of
         (opened, w') \<Rightarrow> (stream ind sizes joined opened yields c, w'))"

section \<open>What the consumer sees\<close>

text \<open>The events of the items of a body: up to the first error, unknown kinds left out.\<close>

fun stream_items :: "int \<Rightarrow> bytes \<Rightarrow> (go_error + bytes) list \<Rightarrow> (go_error + stream_event) list" where
  "stream_items ind rid [] = []"
| "stream_items ind rid (Inl e # xs) = [Inl e]"
| "stream_items ind rid (Inr line # xs) =
     (case decode_stream_line ind line rid of
        Inl e \<Rightarrow> [Inl e]
      | Inr None \<Rightarrow> stream_items ind rid xs
      | Inr (Some ev) \<Rightarrow> Inr ev # stream_items ind rid xs)"

lemma feed_stream_step:
  "snd (feed (stream_step ind rid yields) c xs) = snd (feed yields c (stream_items ind rid xs))"
proof (induction ind rid xs arbitrary: c rule: stream_items.induct)
  case (2 ind rid e xs)
  then show ?case by (simp add: stream_step_def split: prod.split)
next
  case (3 ind rid line xs)
  show ?case
  proof (cases "decode_stream_line ind line rid")
    case (Inl e)
    then show ?thesis by (simp add: stream_step_def split: prod.split)
  next
    case (Inr ev)
    show ?thesis
    proof (cases ev)
      case None
      with Inr 3 show ?thesis by (simp add: stream_step_def)
    next
      case (Some x)
      with Inr 3 show ?thesis by (simp add: stream_step_def split: prod.split)
    qed
  qed
qed simp

lemma stream_items_shape:
  "\<exists>evs errs. stream_items ind rid xs = map Inr evs @ map Inl errs \<and> length errs \<le> 1"
proof (induction ind rid xs rule: stream_items.induct)
  case (1 ind rid)
  show ?case by (rule exI [of _ "[]"], rule exI [of _ "[]"]) simp
next
  case (2 ind rid e xs)
  show ?case by (rule exI [of _ "[]"], rule exI [of _ "[e]"]) simp
next
  case (3 ind rid line xs)
  show ?case
  proof (cases "decode_stream_line ind line rid")
    case (Inl e)
    then show ?thesis by (intro exI [of _ "[]"] exI [of _ "[e]"]) simp
  next
    case (Inr ev)
    then obtain evs errs where xs: "ev = None \<Longrightarrow> stream_items ind rid xs = map Inr evs @ map Inl errs"
      "\<And>x. ev = Some x \<Longrightarrow> stream_items ind rid xs = map Inr evs @ map Inl errs" "length errs \<le> 1"
      using 3 by (cases ev) auto
    then show ?thesis
    proof (cases ev)
      case None
      with Inr xs show ?thesis by auto
    next
      case (Some x)
      with Inr xs(2) [OF Some] have "stream_items ind rid (Inr line # xs) = map Inr (x # evs) @ map Inl errs" by simp
      with xs(3) show ?thesis by blast
    qed
  qed
qed

text \<open>
  C17: ranging over a stream always ends. On a 2xx answer the consumer is given the events of the
  body's lines in order, whatever pieces it arrives in: events first, then at most one error and
  nothing after it, and nothing at all once it has stopped. Any other answer is one error.
\<close>

theorem stream_delivers:
  assumes "\<forall>resp e. opened = Inr resp \<and> resp_read_err resp = Some e \<longrightarrow> \<not> err_is e BufioErrBufferFull"
  shows "\<exists>evs errs. length errs \<le> 1 \<and>
    stream ind sizes joined opened yields c = Some (snd (feed yields c (map Inr evs @ map Inl errs))) \<and>
    map Inr evs @ map Inl errs =
      (case opened of
         Inl e \<Rightarrow> [Inl e]
       | Inr resp \<Rightarrow>
           if is_success (resp_status resp)
           then stream_items ind (hdr_get (resp_header resp) request_id_header)
             (line_items (resp_body resp) (case resp_read_err resp of None \<Rightarrow> ESentinel IoEOF | Some e \<Rightarrow> e))
           else [Inl (EArcade (error_from_response resp))])"
proof (cases opened)
  case (Inl e)
  then show ?thesis
    by (intro exI [of _ "[]"] exI [of _ "[e]"]) (simp add: stream_def unpack_stream_def split: prod.split)
next
  case (Inr resp)
  show ?thesis
  proof (cases "is_success (resp_status resp)")
    case False
    with Inr show ?thesis
      by (intro exI [of _ "[]"] exI [of _ "[EArcade (error_from_response resp)]"])
        (simp add: stream_def unpack_stream_def split: prod.split)
  next
    case True
    let ?fin = "case resp_read_err resp of None \<Rightarrow> ESentinel IoEOF | Some e \<Rightarrow> e"
    let ?rid = "hdr_get (resp_header resp) request_id_header"
    have "\<not> err_is (bd_end (resp_body_reader resp sizes joined)) BufioErrBufferFull"
      using assms Inr by (auto simp: resp_body_reader_def split: option.splits)
    from body.lines_items [OF this, of "stream_step ind ?rid yields" c]
    have run: "stream ind sizes joined opened yields c =
        Some (snd (feed yields c (stream_items ind ?rid (line_items (resp_body resp) ?fin))))"
      using Inr True by (auto simp: stream_def unpack_stream_def feed_stream_step resp_body_reader_def)
    obtain evs errs where "stream_items ind ?rid (line_items (resp_body resp) ?fin) = map Inr evs @ map Inl errs"
      "length errs \<le> 1" using stream_items_shape by blast
    with run Inr True show ?thesis
      by (intro exI [of _ evs] exI [of _ errs]) simp
  qed
qed

text \<open>The lines a server writes: one per row, and the trailer.\<close>

definition record_line :: "members \<Rightarrow> json" where
  "record_line r = JObj [(''record'', JObj r)]"

definition stats_line :: "stream_stats \<Rightarrow> json" where
  "stats_line s = JObj [(''stats'', JObj [(''limit'', JNum (dec_of_int (ss_limit s))),
     (''returned'', JNum (dec_of_int (ss_returned s))), (''truncated'', JBool (ss_truncated s))])]"

definition stats_ok :: "stream_stats \<Rightarrow> bool" where
  "stats_ok s \<longleftrightarrow> in_int64 (ss_limit s) \<and> in_int64 (ss_returned s)"

definition row_ok :: "members \<Rightarrow> bool" where
  "row_ok r \<longleftrightarrow> nums_ok (JObj r) \<and> strs_ok (JObj r) \<and> floats_ok (JObj r)"

lemma event_keys: "valid_utf8 ''record''" "valid_utf8 ''stats''" "valid_utf8 ''error''"
  by (simp_all add: valid_utf8_ascii byte_def)

lemma document_line:
  assumes "nums_ok (JObj kvs)"
  shows "newline \<notin> set (encode html (JObj kvs)) \<and> \<not> blank (encode html (JObj kvs))"
  using printable_no_newline [OF printable_encode [OF assms]] object_not_blank [of html kvs]
  by (auto simp: newline_def blank_def)

lemma parse_document: "nums_ok v \<Longrightarrow> strs_ok v \<Longrightarrow> json_parse (encode html v) = Some v"
  using json_parse_encode [of v html] coerce_json_id [of v] by simp

lemma decode_record_line:
  assumes "row_ok r"
  shows "decode_stream_line ind (encode html (record_line r)) rid = Inr (Some (Record r))"
proof -
  have "json_parse (encode html (record_line r)) = Some (record_line r)"
    using assms by (intro parse_document) (auto simp: record_line_def row_ok_def event_keys)
  then have "decode_event_wire (encode html (record_line r)) =
      Some \<lparr>ew_record = Some r, ew_stats = None, ew_error = None\<rparr>"
    using assms by (simp add: decode_event_wire_def unmarshal_struct_def record_line_def field_vals_exact
        decode_field_single into_map_def nil_members_def row_ok_def)
  then show ?thesis by (simp add: decode_stream_line_def)
qed

lemma decode_stats_line:
  assumes "stats_ok s"
  shows "decode_stream_line ind (encode html (stats_line s)) rid = Inr (Some (Stats s))"
proof -
  have "json_parse (encode html (stats_line s)) = Some (stats_line s)"
    by (intro parse_document) (auto simp: stats_line_def scan_num_dec_of_int event_keys key_ascii)
  then have "decode_event_wire (encode html (stats_line s)) =
      Some \<lparr>ew_record = None, ew_stats = Some \<lparr>sw_limit = Some (ss_limit s), sw_returned = ss_returned s,
        sw_truncated = ss_truncated s\<rparr>, ew_error = None\<rparr>"
    using assms by (simp add: decode_event_wire_def unmarshal_struct_def stats_line_def field_vals_exact
        decode_field_single into_ptr_def into_stats_def into_int_def into_bool_def int_of_lit_dec stats_ok_def)
  then show ?thesis by (simp add: decode_stream_line_def)
qed

definition written_stream :: "bool \<Rightarrow> members list \<Rightarrow> stream_stats option \<Rightarrow> bytes" where
  "written_stream html rows trailer =
     unlines (map (encode html \<circ> record_line) rows @
       (case trailer of None \<Rightarrow> [] | Some s \<Rightarrow> [encode html (stats_line s)]))"

lemma written_stream_items:
  assumes "list_all row_ok rows" and "\<forall>s. trailer = Some s \<longrightarrow> stats_ok s"
  shows "stream_items ind rid (line_items (written_stream html rows trailer) (ESentinel IoEOF)) =
    map (Inr \<circ> Record) rows @ (case trailer of None \<Rightarrow> [] | Some s \<Rightarrow> [Inr (Stats s)])"
proof -
  let ?ls = "map (encode html \<circ> record_line) rows @ (case trailer of None \<Rightarrow> [] | Some s \<Rightarrow> [encode html (stats_line s)])"
  have "nums_ok (record_line r)" if "row_ok r" for r
    using that by (simp add: record_line_def row_ok_def)
  then have "list_all (\<lambda>l. newline \<notin> set l \<and> \<not> blank l) ?ls"
    using assms document_line [where html = html]
    by (auto simp: list_all_iff record_line_def stats_line_def scan_num_dec_of_int
        simp del: encode.simps split: option.split)
  from line_items_unlines [OF this, of "[]" "ESentinel IoEOF"]
  have items: "line_items (written_stream html rows trailer) (ESentinel IoEOF) = map Inr ?ls"
    by (simp add: written_stream_def line_items_rest)
  have t: "stream_items ind rid (map Inr (case trailer of None \<Rightarrow> [] | Some s \<Rightarrow> [encode html (stats_line s)])) =
      (case trailer of None \<Rightarrow> [] | Some s \<Rightarrow> [Inr (Stats s)])"
    using assms(2) decode_stats_line by (cases trailer) (simp_all del: encode.simps)
  show ?thesis
    unfolding items map_append using assms(1)
    by (induction rows) (simp_all add: t decode_record_line del: encode.simps)
qed

text \<open>
  C18: a stream as the server writes it arrives row by row and value by value, followed by the
  trailer if there was one: a Stats event says that the stream was complete, its absence that it
  was cut short.
\<close>

theorem stream_roundtrip:
  assumes "list_all row_ok rows" and "\<forall>s. trailer = Some s \<longrightarrow> stats_ok s"
    and "is_success (resp_status resp)" and "resp_read_err resp = None"
    and "resp_body resp = written_stream html rows trailer"
  shows "stream ind sizes joined (Inr resp) yields c =
    Some (snd (feed yields c (map (Inr \<circ> Record) rows @ (case trailer of None \<Rightarrow> [] | Some s \<Rightarrow> [Inr (Stats s)]))))"
proof -
  let ?rid = "hdr_get (resp_header resp) request_id_header"
  have "\<not> err_is (bd_end (resp_body_reader resp sizes joined)) BufioErrBufferFull"
    by (simp add: resp_body_reader_def assms(4))
  from body.lines_items [OF this, of "stream_step ind ?rid yields" c] show ?thesis
    using assms(3-5) written_stream_items [OF assms(1,2), of ind ?rid html]
    by (auto simp: stream_def unpack_stream_def feed_stream_step resp_body_reader_def)
qed

definition demo_stream_resp :: http_resp where
  "demo_stream_resp = \<lparr>resp_status = 200, resp_header = [],
     resp_body = written_stream False [[(''n'', JStr ''a'')]] (Some \<lparr>ss_limit = 5, ss_returned = 1, ss_truncated = True\<rparr>),
     resp_read_err = None\<rparr>"

theorem stream_roundtrip_witness:
  "stream 0 [1, 3] True (Inr demo_stream_resp) (taking 9) [] =
    Some [Inr (Record [(''n'', JStr ''a'')]), Inr (Stats \<lparr>ss_limit = 5, ss_returned = 1, ss_truncated = True\<rparr>)]"
proof -
  have "list_all row_ok [[(''n'', JStr ''a'')]]"
    by (simp add: row_ok_def valid_utf8_ascii byte_def)
  moreover have "stats_ok \<lparr>ss_limit = 5, ss_returned = 1, ss_truncated = True\<rparr>"
    by (simp add: stats_ok_def in_int64_def min_int64_def max_int64_def)
  ultimately show ?thesis
    using stream_roundtrip [of "[[(''n'', JStr ''a'')]]" "Some \<lparr>ss_limit = 5, ss_returned = 1, ss_truncated = True\<rparr>"
        demo_stream_resp False 0 "[1, 3]" True "taking 9" "[]"]
    by (simp add: demo_stream_resp_def is_success_def taking_def)
qed

theorem stream_delivers_witness:
  "\<exists>evs errs. length errs \<le> 1 \<and> stream 0 [] False (Inr ok_resp) (taking 3) [] = Some (snd (feed (taking 3) [] (map Inr evs @ map Inl errs)))"
  using stream_delivers [of "Inr ok_resp" 0 "[]" False "taking 3" "[]"] by (auto simp: ok_resp_def)

end
