(* ===== verification/Batch_Load.thy ===== *)
theory Batch_Load
  imports Upload_Pipe Query_Stream
begin

text \<open>
  \<open>go/arcadedb/batch.go\<close>: \<open>BatchLoad\<close> and \<open>BatchLoadStream\<close> over the upload of \<open>Upload_Pipe\<close>. Both
  take how that upload went: the bytes of the body the transport read and the result the goroutine
  sent, which a run of the upload relates. \<open>ind\<close> is as in \<open>json_non_negative\<close>; \<open>ftext\<close> is the text
  \<open>encoding/json\<close> prints for the float64 read from a literal.
\<close>

section \<open>The request\<close>

record batch_params =
  bp_batch_size :: "int option"
  bp_light_edges :: "bool option"
  bp_wal :: "bool option"
  bp_parallel_flush :: "bool option"
  bp_pre_allocate_edge_chunks :: "bool option"
  bp_edge_list_initial_size :: "int option"
  bp_bidirectional :: "bool option"
  bp_commit_every :: "int option"
  bp_expected_edge_count :: "int option"
  bp_commit_retries :: "int option"
  bp_commit_retry_delay_ms :: "int option"
  bp_vertex_batch_size :: "int option"
  bp_expected_vertex_count :: "int option"
  bp_expected_records :: "int option"
  bp_ordinal_base :: "int option"
  bp_id_mapping :: "bytes option"
  bp_ref_mode :: "bytes option"
  bp_accept :: "bytes option"
  bp_session :: "bytes option"
  bp_tag :: "bytes option"

definition no_batch_params :: batch_params where
  "no_batch_params = \<lparr>bp_batch_size = None, bp_light_edges = None, bp_wal = None, bp_parallel_flush = None,
     bp_pre_allocate_edge_chunks = None, bp_edge_list_initial_size = None, bp_bidirectional = None,
     bp_commit_every = None, bp_expected_edge_count = None, bp_commit_retries = None,
     bp_commit_retry_delay_ms = None, bp_vertex_batch_size = None, bp_expected_vertex_count = None,
     bp_expected_records = None, bp_ordinal_base = None, bp_id_mapping = None, bp_ref_mode = None,
     bp_accept = None, bp_session = None, bp_tag = None\<rparr>"

definition batch_query :: "batch_params \<Rightarrow> (bytes \<times> bytes option) list" where
  "batch_query p =
     [(''batchSize'', int_param (bp_batch_size p)), (''lightEdges'', bool_param (bp_light_edges p)),
      (''wal'', bool_param (bp_wal p)), (''parallelFlush'', bool_param (bp_parallel_flush p)),
      (''preAllocateEdgeChunks'', bool_param (bp_pre_allocate_edge_chunks p)),
      (''edgeListInitialSize'', int_param (bp_edge_list_initial_size p)),
      (''bidirectional'', bool_param (bp_bidirectional p)), (''commitEvery'', int_param (bp_commit_every p)),
      (''expectedEdgeCount'', int_param (bp_expected_edge_count p)), (''commitRetries'', int_param (bp_commit_retries p)),
      (''commitRetryDelayMs'', int_param (bp_commit_retry_delay_ms p)),
      (''vertexBatchSize'', int_param (bp_vertex_batch_size p)),
      (''expectedVertexCount'', int_param (bp_expected_vertex_count p)),
      (''expectedRecords'', int_param (bp_expected_records p)), (''ordinalBase'', int_param (bp_ordinal_base p)),
      (''idMapping'', bp_id_mapping p), (''refMode'', bp_ref_mode p)]"

definition execute_batch_request :: "bytes \<Rightarrow> batch_params \<Rightarrow> bytes \<Rightarrow> bytes \<Rightarrow> op_params" where
  "execute_batch_request database p ctype body =
     \<lparr>op_method = ''POST'', op_path = ''/api/v1/batch/%s'', op_args = [database],
      op_query = batch_query p,
      op_header = [(''Accept'', bp_accept p), (''arcadedb-session-id'', bp_session p), (''X-ArcadeDB-Query-Tag'', bp_tag p)],
      op_body = Some (ctype, body)\<rparr>"

definition copy_batch_params :: "batch_params option \<Rightarrow> batch_params" where
  "copy_batch_params params =
     (case params of
        None \<Rightarrow> no_batch_params
      | Some p \<Rightarrow> if bp_tag p = Some [] then p\<lparr>bp_tag := None\<rparr> else p)"

section \<open>Stopping the upload\<close>

text \<open>The fields \<open>stop\<close> keeps; how a call that may re-raise a panic ends.\<close>

record upload =
  up_once :: bool
  up_err :: "go_error option"
  up_panic :: "bytes option"
  up_rethrown :: bool

definition fresh_upload :: upload where
  "fresh_upload = \<lparr>up_once = False, up_err = None, up_panic = None, up_rethrown = False\<rparr>"

datatype 'a ended = Done 'a | Repanics bytes

text \<open>What \<open>once.Do\<close> runs with the result of the goroutine, and then the panic, the first time only.\<close>

definition note_result :: "upload_result \<Rightarrow> upload \<Rightarrow> upload" where
  "note_result r u =
     (if up_once u then u
      else u\<lparr>up_once := True, up_panic := ur_panic r,
             up_err := (case ur_err r of
                 None \<Rightarrow> up_err u | Some e \<Rightarrow> if err_is e IoErrClosedPipe then up_err u else Some e)\<rparr>)"

definition up_stop :: "upload_result \<Rightarrow> upload \<Rightarrow> go_error option ended \<times> upload" where
  "up_stop r u =
     (let u1 = note_result r u
      in case up_panic u1 of
           None \<Rightarrow> (Done (up_err u1), u1)
         | Some v \<Rightarrow>
             if up_rethrown u1 then (Done (up_err u1), u1) else (Repanics v, u1\<lparr>up_rethrown := True\<rparr>))"

definition up_fail :: "upload_result \<Rightarrow> go_error \<Rightarrow> upload \<Rightarrow> go_error ended \<times> upload" where
  "up_fail r e u =
     (case up_stop r u of
        (Repanics v, u1) \<Rightarrow> (Repanics v, u1)
      | (Done (Some own), u1) \<Rightarrow> (Done own, u1)
      | (Done None, u1) \<Rightarrow> (Done e, u1))"

section \<open>BatchLoad\<close>

fun map_ended :: "('a \<Rightarrow> 'b) \<Rightarrow> 'a ended \<Rightarrow> 'b ended" where
  "map_ended f (Done x) = Done (f x)"
| "map_ended f (Repanics v) = Repanics v"

definition batch_failed :: "upload_result \<Rightarrow> go_error \<Rightarrow> (go_error + members option) ended" where
  "batch_failed r e = map_ended Inl (fst (up_fail r e fresh_upload))"

definition batch_load ::
  "'w net \<Rightarrow> database \<Rightarrow> ctx \<Rightarrow> batch_params option \<Rightarrow> upload_result \<Rightarrow> bytes \<Rightarrow> 'w world
     \<Rightarrow> (go_error + members option) ended \<times> 'w world" where
  "batch_load net d ctx params r body w =
     (if db_session d \<noteq> [] then (Done (Inl (ESentinel ErrBatchInTransaction)), w)
      else case client_call net (db_srv d) ctx []
          (execute_batch_request (db_name d) (copy_batch_params params\<lparr>bp_accept := None\<rparr>) ndjson_type body) w of
        (Inl e, w1) \<Rightarrow> (batch_failed r e, w1)
      | (Inr resp, w1) \<Rightarrow>
          if \<not> is_success (resp_status resp) then (batch_failed r (EArcade (error_from_response resp)), w1)
          else (case resp_read_err resp of
              Some e \<Rightarrow> (batch_failed r e, w1)
            | None \<Rightarrow>
                (case fst (up_stop r fresh_upload) of
                   Repanics v \<Rightarrow> (Repanics v, w1)
                 | Done (Some e) \<Rightarrow> (Done (Inl e), w1)
                 | Done None \<Rightarrow>
                     (case unmarshal_map (resp_body resp) of
                        None \<Rightarrow> (Done (Inl (EWrap ''arcadedb: decode batch response'' json_error)), w1)
                      | Some summary \<Rightarrow> (Done (Inr summary), w1)))))"

section \<open>Events\<close>

text \<open>
  \<open>json.Marshal\<close> of a decoded value: numbers as their float64 prints, members in key order, of
  several of one name the last.
\<close>

fun any_json :: "(bytes \<Rightarrow> bytes) \<Rightarrow> json \<Rightarrow> json" where
  "any_json ftext (JNum l) = JNum (ftext l)"
| "any_json ftext (JArr vs) = JArr (map (any_json ftext) vs)"
| "any_json ftext (JObj kvs) = JObj (sort_key fst (last_members (map (\<lambda>(k, v). (k, any_json ftext v)) kvs)))"
| "any_json ftext v = v"

definition default_batch_error :: bytes where
  "default_batch_error = ''the batch load reported an error''"

definition batch_error :: "int \<Rightarrow> (bytes \<Rightarrow> bytes) \<Rightarrow> members \<Rightarrow> bytes \<Rightarrow> arcade_error" where
  "batch_error ind ftext flds rid =
     (let msg = as_string (map_get flds ''error'');
          (ra, ra_ok) = json_non_negative ind (map_get flds ''retryAfter'');
          (ci, ci_ok) = json_non_negative ind (map_get flds ''commitIndex'')
      in \<lparr>ae_status = in_band_status ind (map_get flds ''status'') 500,
          ae_message = (if msg \<noteq> [] then msg else default_batch_error),
          ae_exception = as_string (map_get flds ''exception''), ae_detail = [],
          ae_request_id = rid, ae_help = [],
          ae_args = (case map_get flds ''exceptionArgs'' of
              None \<Rightarrow> [] | Some JNull \<Rightarrow> [] | Some (JStr s) \<Rightarrow> s
            | Some args \<Rightarrow> encode True (any_json ftext args)),
          ae_retry_after = (if ra_ok then seconds_duration ra else 0),
          ae_commit_index = (if ci_ok then ci else 0)\<rparr>)"

definition decode_batch_event ::
  "int \<Rightarrow> (bytes \<Rightarrow> bytes) \<Rightarrow> bytes \<Rightarrow> bytes \<Rightarrow> go_error + members option" where
  "decode_batch_event ind ftext line rid =
     (case unmarshal_map line of
        None \<Rightarrow> Inl (EWrap ''arcadedb: decode batch event'' json_error)
      | Some ev \<Rightarrow>
          (case map_get (nil_members ev) ''error'' of
             None \<Rightarrow> Inr ev
           | Some JNull \<Rightarrow> Inr ev
           | Some (JObj flds) \<Rightarrow> Inl (EArcade (batch_error ind ftext flds rid))
           | Some v \<Rightarrow> Inl (EArcade (batch_error ind ftext [] rid))))"

section \<open>BatchLoadStream\<close>

text \<open>
  The loop over the lines: the consumer's state, the upload, and how the function is left, if it
  is. A failure is yielded, unless \<open>stop\<close> panics before that.
\<close>

type_synonym 'c batch_state = "'c \<times> upload \<times> unit ended option"

definition batch_fail ::
  "upload_result \<Rightarrow> ('c, go_error + members option) consumer \<Rightarrow> go_error \<Rightarrow> 'c batch_state \<Rightarrow> 'c batch_state" where
  "batch_fail r yields e st = (case st of (c, u, x) \<Rightarrow>
     (case up_fail r e u of
        (Done e', u1) \<Rightarrow> (snd (yields c (Inl e')), u1, Some (Done ()))
      | (Repanics v, u1) \<Rightarrow> (c, u1, Some (Repanics v))))"

definition batch_step ::
  "int \<Rightarrow> (bytes \<Rightarrow> bytes) \<Rightarrow> bytes \<Rightarrow> upload_result \<Rightarrow> ('c, go_error + members option) consumer
     \<Rightarrow> ('c batch_state, go_error + bytes) consumer" where
  "batch_step ind ftext rid r yields st item =
     (case item of
        Inl e \<Rightarrow> (False, batch_fail r yields e st)
      | Inr line \<Rightarrow>
          (case decode_batch_event ind ftext line rid of
             Inl e \<Rightarrow> (False, batch_fail r yields e st)
           | Inr ev \<Rightarrow> (case st of (c, u, x) \<Rightarrow> (case yields c (Inr ev) of
                 (True, c') \<Rightarrow> (True, (c', u, x))
               | (False, c') \<Rightarrow> (False, (c', u, Some (Done ())))))))"

text \<open>After the loop, \<open>stop\<close> unless it was left; then the deferred \<open>stop\<close>.\<close>

definition batch_loop_end ::
  "upload_result \<Rightarrow> ('c, go_error + members option) consumer \<Rightarrow> 'c batch_state \<Rightarrow> 'c batch_state" where
  "batch_loop_end r yields st = (case st of (c, u, x) \<Rightarrow>
     (case x of
        Some y \<Rightarrow> st
      | None \<Rightarrow> (case up_stop r u of
            (Repanics v, u1) \<Rightarrow> (c, u1, Some (Repanics v))
          | (Done (Some e), u1) \<Rightarrow> (snd (yields c (Inl e)), u1, Some (Done ()))
          | (Done None, u1) \<Rightarrow> (c, u1, Some (Done ())))))"

definition deferred_stop :: "upload_result \<Rightarrow> 'c batch_state \<Rightarrow> unit ended \<times> 'c" where
  "deferred_stop r st = (case st of (c, u, x) \<Rightarrow>
     (case up_stop r u of
        (Repanics v, u1) \<Rightarrow> (Repanics v, c)
      | (Done e, u1) \<Rightarrow> (case x of Some y \<Rightarrow> y | None \<Rightarrow> Done (), c)))"

definition batch_stream ::
  "int \<Rightarrow> (bytes \<Rightarrow> bytes) \<Rightarrow> nat list \<Rightarrow> bool \<Rightarrow> upload_result \<Rightarrow> go_error + http_resp
     \<Rightarrow> ('c, go_error + members option) consumer \<Rightarrow> 'c \<Rightarrow> (unit ended \<times> 'c) option" where
  "batch_stream ind ftext sizes joined r opened yields c =
     map_option (deferred_stop r)
       (case unpack_stream opened of
          Inl e \<Rightarrow> Some (batch_fail r yields e (c, fresh_upload, None))
        | Inr resp \<Rightarrow>
            map_option (\<lambda>(st, b). batch_loop_end r yields st)
              (lines body_read (batch_step ind ftext (hdr_get (resp_header resp) request_id_header) r yields)
                (c, fresh_upload, None) (resp_body_reader resp sizes joined)))"

definition batch_load_stream ::
  "int \<Rightarrow> (bytes \<Rightarrow> bytes) \<Rightarrow> nat list \<Rightarrow> bool \<Rightarrow> 'w net \<Rightarrow> database \<Rightarrow> ctx \<Rightarrow> batch_params option
     \<Rightarrow> upload_result \<Rightarrow> bytes \<Rightarrow> ('c, go_error + members option) consumer \<Rightarrow> 'c \<Rightarrow> 'w world
     \<Rightarrow> (unit ended \<times> 'c) option \<times> 'w world" where
  "batch_load_stream ind ftext sizes joined net d ctx params r body yields c w =
     (if db_session d \<noteq> [] then (Some (Done (), snd (yields c (Inl (ESentinel ErrBatchInTransaction)))), w)
      else case client_call net (db_srv d) ctx []
          (execute_batch_request (db_name d) (copy_batch_params params\<lparr>bp_accept := Some ndjson_type\<rparr>) ndjson_type body) w of
        (opened, w1) \<Rightarrow> (batch_stream ind ftext sizes joined r opened yields c, w1))"

section \<open>What a load reports\<close>

text \<open>The error the goroutine itself came to: not that of a pipe closed on it.\<close>

definition own_error :: "upload_result \<Rightarrow> go_error option" where
  "own_error r = (case ur_err r of None \<Rightarrow> None | Some e \<Rightarrow> if err_is e IoErrClosedPipe then None else Some e)"

text \<open>The first \<open>stop\<close> answers with that or re-raises; every later one answers the same quietly.\<close>

definition stopped_upload :: "upload_result \<Rightarrow> upload" where
  "stopped_upload r = \<lparr>up_once = True, up_err = own_error r, up_panic = ur_panic r, up_rethrown = (ur_panic r \<noteq> None)\<rparr>"

lemma up_stop_fresh:
  "up_stop r fresh_upload =
     (case ur_panic r of None \<Rightarrow> Done (own_error r) | Some v \<Rightarrow> Repanics v, stopped_upload r)"
  by (auto simp: up_stop_def note_result_def fresh_upload_def stopped_upload_def own_error_def split: option.split)

lemma up_stop_again [simp]: "up_stop r (stopped_upload r) = (Done (own_error r), stopped_upload r)"
  by (auto simp: up_stop_def note_result_def stopped_upload_def Let_def split: option.split)

lemma up_fail_fresh:
  "up_fail r e fresh_upload =
     (case ur_panic r of
        None \<Rightarrow> Done (case own_error r of None \<Rightarrow> e | Some own \<Rightarrow> own) | Some v \<Rightarrow> Repanics v, stopped_upload r)"
  by (auto simp: up_fail_def up_stop_fresh split: option.split)

text \<open>What the answer alone would give.\<close>

definition batch_answer :: "go_error + http_resp \<Rightarrow> go_error + members option" where
  "batch_answer opened = (case opened of
       Inl e \<Rightarrow> Inl e
     | Inr resp \<Rightarrow>
         if \<not> is_success (resp_status resp) then Inl (EArcade (error_from_response resp))
         else (case resp_read_err resp of
             Some e \<Rightarrow> Inl e
           | None \<Rightarrow> (case unmarshal_map (resp_body resp) of
               None \<Rightarrow> Inl (EWrap ''arcadedb: decode batch response'' json_error) | Some m \<Rightarrow> Inr m)))"

definition batch_op :: "database \<Rightarrow> batch_params option \<Rightarrow> bytes option \<Rightarrow> bytes \<Rightarrow> op_params" where
  "batch_op d params accept body =
     execute_batch_request (db_name d) (copy_batch_params params\<lparr>bp_accept := accept\<rparr>) ndjson_type body"

lemma batch_load_outside:
  assumes "db_session d = []"
  shows "batch_load net d ctx params r body w =
    (case client_call net (db_srv d) ctx [] (batch_op d params None body) w of (opened, w1) \<Rightarrow>
       (case ur_panic r of
          Some v \<Rightarrow> Repanics v
        | None \<Rightarrow> Done (case own_error r of Some e \<Rightarrow> Inl e | None \<Rightarrow> batch_answer opened), w1))"
  using assms
  by (auto simp: batch_load_def batch_op_def batch_failed_def up_fail_fresh up_stop_fresh batch_answer_def
      split: prod.split sum.split option.split)

lemma row_error_not_closed:
  "first_error (load_lines vs es) = Some e \<Longrightarrow> \<not> err_is e IoErrClosedPipe"
proof -
  have row: "row_line kind i control props = Inl e \<Longrightarrow> \<not> err_is e IoErrClosedPipe" for kind i control props
    by (auto simp: row_line_def split: option.splits sum.splits)
  have "first_error ls = Some e \<Longrightarrow> Inl e \<in> set ls" for ls by (induction ls rule: first_error.induct) auto
  then show "first_error (load_lines vs es) = Some e \<Longrightarrow> \<not> err_is e IoErrClosedPipe"
    using row by (fastforce simp: load_lines_def)
qed

lemma do_request_sends:
  "do_request net ctx q w = (res, w') \<Longrightarrow> w_sent w' = w_sent w \<or> w_sent w' = w_sent w @ [q]"
  by (auto simp: do_request_def split: option.splits prod.splits)

lemma batch_call_sends:
  assumes "client_call net sv ctx [] (batch_op d params accept body) w = (opened, w')"
  shows "\<exists>reqs. w_sent w' = w_sent w @ reqs \<and> length reqs \<le> 1 \<and> (\<forall>q \<in> set reqs. rq_body q = body)"
proof (cases "new_request net (sv_base_url sv) (batch_op d params accept body)")
  case (Inl e)
  with assms show ?thesis by (auto simp: client_call_def)
next
  case (Inr q)
  then have body: "rq_body (apply_editors sv [] q) = body"
    by (auto simp: new_request_def bind_res_Inr_iff batch_op_def execute_batch_request_def apply_editors_def)
  from assms Inr have "do_request net ctx (apply_editors sv [] q) w = (opened, w')" by (simp add: client_call_def)
  from do_request_sends [OF this] body show ?thesis
    by (elim disjE; intro exI [of _ "if w_sent w' = w_sent w then [] else [apply_editors sv [] q]"]) auto
qed

text \<open>
  C6: on a transaction's handle a load is refused and nothing is sent. Otherwise, for every way the
  upload of a list of rows can go, at most one request is sent, and what the transport read of its
  body is whole or cut short, but always a prefix of the encoded rows. A row that does not encode
  is reported rather than whatever the server made of the aborted body; in every other case the
  result is the server's answer, and then all rows were sent or the read side had been closed.
\<close>

theorem batch_load_reports:
  assumes "reachable_upload (Some (seq_of vs SeqReturns)) (Some (seq_of es SeqReturns)) s" and "us_writer s = Ended r"
    and "batch_load net d ctx params r (us_wire s) w = (res, w')"
  shows "if db_session d \<noteq> [] then res = Done (Inl (ESentinel ErrBatchInTransaction)) \<and> w' = w
    else \<exists>reqs opened. w_sent w' = w_sent w @ reqs \<and> length reqs \<le> 1 \<and>
      (\<forall>q \<in> set reqs. \<exists>more. rq_body q @ more = snd (batch_write sink vs es [])) \<and>
      client_call net (db_srv d) ctx [] (batch_op d params None (us_wire s)) w = (opened, w') \<and>
      (case own_error r of
         Some e \<Rightarrow> fst (batch_write sink vs es []) = Some e \<and> res = Done (Inl e)
       | None \<Rightarrow> res = Done (batch_answer opened) \<and>
           (batch_write sink vs es [] = (None, us_wire s) \<or> us_read_closed s))"
proof (cases "db_session d = []")
  case False
  with assms(3) show ?thesis by (simp add: batch_load_def)
next
  case True
  obtain opened w1 where c: "client_call net (db_srv d) ctx [] (batch_op d params None (us_wire s)) w = (opened, w1)"
    by (metis surj_pair)
  have inv: "upload_inv (seq_of (load_lines vs es) SeqReturns) s"
    using reachable_upload_inv [OF assms(1)] by (simp add: row_seq_def lines_of_lists)
  have like: "upload_ends_like vs es s r" by (rule upload_of_lists(3) [OF inv assms(2)])
  have wr: "us_write_end s = Some (ur_err r)"
    using inv assms(2) by (simp add: upload_inv_def ended_inv_def)
  have res: "res = Done (case own_error r of Some e \<Rightarrow> Inl e | None \<Rightarrow> batch_answer opened)" "w' = w1"
    using assms(3) like c by (auto simp: batch_load_outside [OF True] upload_ends_like_def)
  have full: "ur_err r = None \<Longrightarrow> batch_write sink vs es [] = (None, us_wire s)"
    using upload_of_lists(2) [OF inv] wr by (simp add: batch_write_lines write_lines_sink)
  have closed: "err_is e IoErrClosedPipe \<Longrightarrow> ur_err r = Some e \<Longrightarrow> us_read_closed s" for e
    using like row_error_not_closed by (auto simp: upload_ends_like_def batch_write_lines write_lines_sink)
  have own: "own_error r = Some e \<Longrightarrow> fst (batch_write sink vs es []) = Some e" for e
    using like by (auto simp: own_error_def upload_ends_like_def split: option.splits if_splits)
  have none: "own_error r = None \<Longrightarrow> batch_write sink vs es [] = (None, us_wire s) \<or> us_read_closed s"
    using full closed by (auto simp: own_error_def split: option.splits if_splits)
  obtain more where "us_wire s @ more = snd (batch_write sink vs es [])"
    using upload_of_lists(1) [OF inv] by (auto simp: batch_write_lines write_lines_sink)
  with batch_call_sends [OF c] True c res own none show ?thesis
    by (fastforce split: option.split)
qed

section \<open>What the consumer of the stream sees\<close>

text \<open>The events of the lines, up to the first failure.\<close>

fun batch_events :: "int \<Rightarrow> (bytes \<Rightarrow> bytes) \<Rightarrow> bytes \<Rightarrow> (go_error + bytes) list \<Rightarrow> members option list \<times> go_error option" where
  "batch_events ind ftext rid [] = ([], None)"
| "batch_events ind ftext rid (Inl e # xs) = ([], Some e)"
| "batch_events ind ftext rid (Inr line # xs) =
     (case decode_batch_event ind ftext line rid of
        Inl e \<Rightarrow> ([], Some e)
      | Inr ev \<Rightarrow> (case batch_events ind ftext rid xs of (evs, e) \<Rightarrow> (ev # evs, e)))"

text \<open>The one error after them: the upload's own in preference, none when a panic is re-raised.\<close>

definition last_error :: "upload_result \<Rightarrow> go_error option \<Rightarrow> go_error list" where
  "last_error r e =
     (if ur_panic r \<noteq> None then []
      else case own_error r of Some own \<Rightarrow> [own] | None \<Rightarrow> (case e of None \<Rightarrow> [] | Some x \<Rightarrow> [x]))"

definition ending :: "upload_result \<Rightarrow> unit ended" where
  "ending r = (case ur_panic r of Some v \<Rightarrow> Repanics v | None \<Rightarrow> Done ())"

lemma batch_fail_fresh:
  "deferred_stop r (batch_fail r yields e (c, fresh_upload, None)) =
     (ending r, snd (feed yields c (map Inl (last_error r (Some e)))))"
  by (auto simp: batch_fail_def deferred_stop_def up_fail_fresh last_error_def ending_def
      split: option.split prod.split)

lemma feed_batch_step:
  "deferred_stop r (batch_loop_end r yields (snd (feed (batch_step ind ftext rid r yields) (c, fresh_upload, None) xs))) =
    (case batch_events ind ftext rid xs of (evs, e) \<Rightarrow>
      (ending r, snd (feed yields c (map Inr evs @ map Inl (last_error r e)))))"
proof (induction ind ftext rid xs arbitrary: c rule: batch_events.induct)
  case (1 ind ftext rid)
  then show ?case
    by (auto simp: batch_loop_end_def deferred_stop_def up_stop_fresh last_error_def ending_def
        split: option.split prod.split)
next
  case (2 ind ftext rid e xs)
  have "batch_loop_end r yields (batch_fail r yields e (c, fresh_upload, None)) = batch_fail r yields e (c, fresh_upload, None)"
    by (auto simp: batch_fail_def batch_loop_end_def split: prod.split ended.split)
  then show ?case using batch_fail_fresh [of r yields e c] by (simp add: batch_step_def)
next
  case (3 ind ftext rid line xs)
  show ?case
  proof (cases "decode_batch_event ind ftext line rid")
    case (Inl e)
    have "batch_loop_end r yields (batch_fail r yields e (c, fresh_upload, None)) = batch_fail r yields e (c, fresh_upload, None)"
      by (auto simp: batch_fail_def batch_loop_end_def split: prod.split ended.split)
    then show ?thesis using Inl batch_fail_fresh [of r yields e c] by (simp add: batch_step_def)
  next
    case (Inr ev)
    show ?thesis
    proof (cases "yields c (Inr ev)")
      case (Pair go c')
      show ?thesis
      proof (cases go)
        case True
        with Inr Pair 3 show ?thesis by (simp add: batch_step_def split: prod.split)
      next
        case False
        with Inr Pair show ?thesis
          by (auto simp: batch_step_def batch_loop_end_def deferred_stop_def up_stop_fresh ending_def
              split: prod.split option.split)
      qed
    qed
  qed
qed

text \<open>
  C14: ranging over a batch stream always ends. The consumer is given the events of the answer's
  lines in order, then at most one error and nothing after it: the failure of a row in preference
  to the server's or the connection's, and none but the panic itself, re-raised once with its own
  value, when a sequence panicked. On a transaction's handle it is given the refusal only.
\<close>

theorem batch_stream_delivers:
  assumes "\<forall>resp e. fst (client_call net (db_srv d) ctx [] (batch_op d params (Some ndjson_type) body) w) = Inr resp \<and>
      resp_read_err resp = Some e \<longrightarrow> \<not> err_is e BufioErrBufferFull"
  shows "fst (batch_load_stream ind ftext sizes joined net d ctx params r body yields c w) = Some
    (if db_session d \<noteq> [] then (Done (), snd (yields c (Inl (ESentinel ErrBatchInTransaction))))
     else case (case fst (client_call net (db_srv d) ctx [] (batch_op d params (Some ndjson_type) body) w) of
           Inl e \<Rightarrow> ([], Some e)
         | Inr resp \<Rightarrow>
             if is_success (resp_status resp)
             then batch_events ind ftext (hdr_get (resp_header resp) request_id_header)
               (line_items (resp_body resp) (case resp_read_err resp of None \<Rightarrow> ESentinel IoEOF | Some e \<Rightarrow> e))
             else ([], Some (EArcade (error_from_response resp)))) of
         (evs, e) \<Rightarrow> (ending r, snd (feed yields c (map Inr evs @ map Inl (last_error r e)))))"
proof (cases "db_session d = []")
  case False
  then show ?thesis by (simp add: batch_load_stream_def)
next
  case True
  obtain opened w1 where c: "client_call net (db_srv d) ctx [] (batch_op d params (Some ndjson_type) body) w = (opened, w1)"
    by (metis surj_pair)
  have run: "fst (batch_load_stream ind ftext sizes joined net d ctx params r body yields c w) =
      batch_stream ind ftext sizes joined r opened yields c"
    using True c by (simp add: batch_load_stream_def batch_op_def)
  show ?thesis
  proof (cases opened)
    case (Inl e)
    with run True c show ?thesis by (simp add: batch_stream_def unpack_stream_def batch_fail_fresh)
  next
    case (Inr resp)
    show ?thesis
    proof (cases "is_success (resp_status resp)")
      case False
      with Inr run True c show ?thesis by (simp add: batch_stream_def unpack_stream_def batch_fail_fresh)
    next
      case ok: True
      let ?rid = "hdr_get (resp_header resp) request_id_header"
      have "\<not> err_is (bd_end (resp_body_reader resp sizes joined)) BufioErrBufferFull"
        using assms Inr c by (auto simp: resp_body_reader_def split: option.splits)
      from body.lines_items [OF this, of "batch_step ind ftext ?rid r yields" "(c, fresh_upload, None)"]
      obtain b where "lines body_read (batch_step ind ftext ?rid r yields) (c, fresh_upload, None)
          (resp_body_reader resp sizes joined) =
        Some (snd (feed (batch_step ind ftext ?rid r yields) (c, fresh_upload, None) (line_items (resp_body resp)
          (case resp_read_err resp of None \<Rightarrow> ESentinel IoEOF | Some e \<Rightarrow> e))), b)"
        by (fastforce simp: resp_body_reader_def)
      with Inr ok run True c feed_batch_step show ?thesis by (simp add: batch_stream_def unpack_stream_def)
    qed
  qed
qed

definition demo_batch_resp :: http_resp where
  "demo_batch_resp = \<lparr>resp_status = 200, resp_header = [],
     resp_body = unlines [encode False (JObj []), encode False (JArr [])], resp_read_err = None\<rparr>"

definition demo_batch_net :: "unit net" where
  "demo_batch_net = demo_net\<lparr>net_send := \<lambda>q w. (Inr demo_batch_resp, w)\<rparr>"

definition demo_database :: database where
  "demo_database = \<lparr>db_srv = \<lparr>sv_base_url = ''http://h'', sv_headers = []\<rparr>, db_name = ''db'', db_session = []\<rparr>"

lemma demo_fields:
  "db_session demo_database = []" "is_success (resp_status demo_batch_resp)" "resp_read_err demo_batch_resp = None"
  "hdr_get (resp_header demo_batch_resp) k = []"
  by (simp_all add: demo_database_def demo_batch_resp_def is_success_def hdr_get_def)

lemma demo_batch_call:
  "fst (client_call demo_batch_net (db_srv demo_database) CtxCaller [] (batch_op demo_database p a body) \<lparr>w_sent = [], w_rest = ()\<rparr>) =
     Inr demo_batch_resp"
  by (simp add: client_call_def new_request_def do_request_def ctx_done_def demo_batch_net_def demo_net_def)

lemma batch_stream_delivers_witness:
  "fst (batch_load_stream 0 id [1, 2] True demo_batch_net demo_database CtxCaller None
      \<lparr>ur_err = Some (ESentinel ErrUploadAbandoned), ur_panic = Some ''boom''\<rparr> [] (taking 9) [] \<lparr>w_sent = [], w_rest = ()\<rparr>) =
     Some (Repanics ''boom'', [Inr (Some [])])"
proof -
  let ?ls = "[encode False (JObj []), encode False (JArr [])]"
  have "list_all (\<lambda>l. newline \<notin> set l \<and> \<not> blank l) ?ls" by code_simp
  from line_items_unlines [OF this, of "[]" "ESentinel IoEOF"]
  have items: "line_items (resp_body demo_batch_resp) (ESentinel IoEOF) = map Inr ?ls"
    by (simp add: demo_batch_resp_def line_items_rest del: encode.simps)
  have "unmarshal_map (encode False (JObj [])) = Some (Some [])" "unmarshal_map (encode False (JArr [])) = None"
    using parse_document [of "JObj []" False] parse_document [of "JArr []" False]
    by (simp_all add: unmarshal_map_def del: encode.simps)
  then have "batch_events 0 id [] (line_items (resp_body demo_batch_resp) (ESentinel IoEOF)) =
      ([Some []], Some (EWrap ''arcadedb: decode batch event'' json_error))"
    by (simp add: items decode_batch_event_def nil_members_def map_get_def del: encode.simps)
  with batch_stream_delivers [of demo_batch_net demo_database CtxCaller None "[]" "\<lparr>w_sent = [], w_rest = ()\<rparr>" 0 id "[1, 2]" True
      "\<lparr>ur_err = Some (ESentinel ErrUploadAbandoned), ur_panic = Some ''boom''\<rparr>" "taking 9" "[]"]
  show ?thesis
    by (simp add: demo_batch_call demo_fields ending_def last_error_def taking_def)
qed

lemma batch_load_reports_witness:
  "\<exists>e w. batch_load demo_batch_net demo_database CtxCaller None \<lparr>ur_err = Some e, ur_panic = None\<rparr> [] \<lparr>w_sent = [], w_rest = ()\<rparr> =
     (Done (Inl e), w) \<and> err_is e ErrPropertyShadowsControlKey"
proof -
  let ?vs = "Some (seq_of [bad_vertex] SeqReturns)" and ?es = "Some (seq_of ([] :: edge list) SeqReturns)"
  obtain e where e: "row_line ''vertex'' 0 (vertex_control bad_vertex) (vx_props bad_vertex) = Inl e"
    "err_is e ErrPropertyShadowsControlKey"
    using shadowed_row [of "''@id''" "vx_props bad_vertex" "''vertex''" 0 "vertex_control bad_vertex"]
    by (auto simp: bad_vertex_def control_keys_def)
  let ?s = "finish_upload (Some e) (start_upload ?vs ?es)" and ?r = "\<lparr>ur_err = Some e, ur_panic = None\<rparr>"
  have reach: "reachable_upload ?vs ?es ?s"
    unfolding reachable_upload_def
    by (rule r_into_rtranclp, rule row_fails) (simp add: start_upload_def row_seq_def e(1))
  obtain res w where run: "batch_load demo_batch_net demo_database CtxCaller None ?r (us_wire ?s) \<lparr>w_sent = [], w_rest = ()\<rparr> = (res, w)"
    by (metis surj_pair)
  have "\<not> err_is e IoErrClosedPipe"
    using row_error_not_closed [of "[bad_vertex]" "[]" e] e(1) by (simp add: load_lines_def)
  then have own: "own_error ?r = Some e" by (simp add: own_error_def)
  have ended: "us_writer ?s = Ended ?r" by (simp add: finish_upload_def)
  from batch_load_reports [OF reach ended run] own have "res = Done (Inl e)"
    by (auto simp: demo_database_def)
  with run e(2) show ?thesis by (auto simp: finish_upload_def start_upload_def)
qed

end
