(* ===== verification/Operations.thy ===== *)
theory Operations
  imports Operations_Ai Operations_Cluster Operations_Support Operations_Data Endpoints Batch_Load
begin


section \<open>Well-formed operations\<close>








section \<open>What they give\<close>










end
