(* ===== verification/Tx_Protocol.thy ===== *)
theory Tx_Protocol
  imports Go_Errors
begin

text \<open>
  What both drivers promise of their \<open>Transaction\<close> method, over any begin, commit and rollback:
  the interface \<open>tx_protocol\<close> states how a run goes on each outcome of the callback, and its
  lemmas say what a caller may conclude from the result. \<open>Http_Transaction\<close> and
  \<open>Grpc_Transaction\<close> discharge it for their own definitions.
\<close>

text \<open>
  How a callback ends: it returns an error or nil, panics with a value, panics with nil where
  that recovers as nil, or ends its goroutine. How the call ends: it returns, panics, or exits.
\<close>

datatype outcome = Returned "go_error option" | Panicked bytes | PanickedNil | Goexited

datatype tx_result = Ret "go_error option" | Panics bytes | Exits

text \<open>What the deferred function answers when the callback did not return.\<close>

fun not_returned :: "outcome \<Rightarrow> tx_result" where
  "not_returned (Panicked v) = Panics v"
| "not_returned PanickedNil = Ret (Some (ESentinel ErrPanicNilOrGoexit))"
| "not_returned Goexited = Exits"
| "not_returned (Returned e) = Ret e"

text \<open>
  How a commit ends: it took effect, it failed (the transaction may still be open), or the server
  says that there was nothing left to commit.
\<close>

datatype commit_end = Committed | CommitFailed go_error | NotCommitted go_error

locale tx_protocol =
  fixes begin_tx :: "'w \<Rightarrow> (go_error + 'h) \<times> 'w"
    and commit_tx :: "'h \<Rightarrow> 'w \<Rightarrow> commit_end \<times> 'w"
    and rollback_tx :: "'h \<Rightarrow> 'w \<Rightarrow> go_error option \<times> 'w"
    and run_tx :: "('h \<Rightarrow> 'w \<Rightarrow> outcome \<times> 'w) \<Rightarrow> 'w \<Rightarrow> tx_result \<times> 'w"
  assumes begin_failed: "begin_tx w = (Inl e, w1) \<Longrightarrow> run_tx fn w = (Ret (Some e), w1)"
    and committed: "begin_tx w = (Inr h, w1) \<Longrightarrow> fn h w1 = (Returned None, w2) \<Longrightarrow>
      commit_tx h w2 = (Committed, w3) \<Longrightarrow> run_tx fn w = (Ret None, w3)"
    and commit_failed: "begin_tx w = (Inr h, w1) \<Longrightarrow> fn h w1 = (Returned None, w2) \<Longrightarrow>
      commit_tx h w2 = (CommitFailed e, w3) \<Longrightarrow>
      run_tx fn w = (Ret (Some e), snd (rollback_tx h w3))"
    and not_committed: "begin_tx w = (Inr h, w1) \<Longrightarrow> fn h w1 = (Returned None, w2) \<Longrightarrow>
      commit_tx h w2 = (NotCommitted e, w3) \<Longrightarrow> run_tx fn w = (Ret (Some e), w3)"
    and callback_failed: "begin_tx w = (Inr h, w1) \<Longrightarrow> fn h w1 = (Returned (Some e), w2) \<Longrightarrow>
      run_tx fn w = (Ret (Some (case fst (rollback_tx h w2) of None \<Rightarrow> e | Some rb \<Rightarrow> ETx e rb)),
        snd (rollback_tx h w2))"
    and callback_left: "begin_tx w = (Inr h, w1) \<Longrightarrow> fn h w1 = (out, w2) \<Longrightarrow> \<forall>e. out \<noteq> Returned e \<Longrightarrow>
      run_tx fn w = (not_returned out, snd (rollback_tx h w2))"
begin

text \<open>A run is one of the six cases.\<close>

lemma run_cases:
  obtains (begin_fails) e w1 where "begin_tx w = (Inl e, w1)" "run_tx fn w = (Ret (Some e), w1)"
  | (commits) h w1 w2 w3 where "begin_tx w = (Inr h, w1)" "fn h w1 = (Returned None, w2)"
      "commit_tx h w2 = (Committed, w3)" "run_tx fn w = (Ret None, w3)"
  | (commit_fails) h w1 w2 w3 e where "begin_tx w = (Inr h, w1)" "fn h w1 = (Returned None, w2)"
      "commit_tx h w2 = (CommitFailed e, w3)" "run_tx fn w = (Ret (Some e), snd (rollback_tx h w3))"
  | (reaped) h w1 w2 w3 e where "begin_tx w = (Inr h, w1)" "fn h w1 = (Returned None, w2)"
      "commit_tx h w2 = (NotCommitted e, w3)" "run_tx fn w = (Ret (Some e), w3)"
  | (callback_fails) h w1 w2 e where "begin_tx w = (Inr h, w1)" "fn h w1 = (Returned (Some e), w2)"
      "run_tx fn w = (Ret (Some (case fst (rollback_tx h w2) of None \<Rightarrow> e | Some rb \<Rightarrow> ETx e rb)),
        snd (rollback_tx h w2))"
  | (leaves) h w1 w2 out where "begin_tx w = (Inr h, w1)" "fn h w1 = (out, w2)" "\<forall>e. out \<noteq> Returned e"
      "run_tx fn w = (not_returned out, snd (rollback_tx h w2))"
proof -
  obtain b w1 where b: "begin_tx w = (b, w1)" by fastforce
  show ?thesis
  proof (cases b)
    case (Inl e)
    with b show ?thesis by (intro begin_fails begin_failed) auto
  next
    case (Inr h)
    obtain out w2 where o: "fn h w1 = (out, w2)" by fastforce
    obtain c w3 where c: "commit_tx h w2 = (c, w3)" by fastforce
    from Inr b have bh: "begin_tx w = (Inr h, w1)" by simp
    show ?thesis
    proof (cases "\<exists>e. out = Returned e")
      case True
      then obtain e where e: "out = Returned e" by blast
      show ?thesis
      proof (cases e)
        case None
        with e o have oN: "fn h w1 = (Returned None, w2)" by simp
        show ?thesis
        proof (cases c)
          case Committed
          with c have "commit_tx h w2 = (Committed, w3)" by simp
          with bh oN show ?thesis by (intro commits committed)
        next
          case (CommitFailed x)
          with c have "commit_tx h w2 = (CommitFailed x, w3)" by simp
          with bh oN show ?thesis by (intro commit_fails commit_failed)
        next
          case (NotCommitted x)
          with c have "commit_tx h w2 = (NotCommitted x, w3)" by simp
          with bh oN show ?thesis by (intro reaped not_committed)
        qed
      next
        case (Some x)
        with e o have "fn h w1 = (Returned (Some x), w2)" by simp
        with bh show ?thesis by (intro callback_fails callback_failed)
      qed
    next
      case False
      with bh o show ?thesis by (intro leaves callback_left) auto
    qed
  qed
qed

lemma not_returned_Some: "\<forall>e. out \<noteq> Returned e \<Longrightarrow> not_returned out \<noteq> Ret None"
  by (cases out) auto

text \<open>The call returns nil exactly when the callback returned nil and the commit took effect.\<close>

lemma nil_iff_committed:
  "run_tx fn w = (Ret None, w') \<longleftrightarrow>
     (\<exists>h w1 w2. begin_tx w = (Inr h, w1) \<and> fn h w1 = (Returned None, w2) \<and> commit_tx h w2 = (Committed, w'))"
proof (cases rule: run_cases [of w fn])
  case (leaves h w1 w2 out)
  then show ?thesis using not_returned_Some [of out] by auto
qed auto

text \<open>An error of the callback stays visible through a failed rollback, which never hides it.\<close>

lemma callback_error_wins:
  assumes "begin_tx w = (Inr h, w1)" and "fn h w1 = (Returned (Some e), w2)"
  shows "\<exists>r w'. run_tx fn w = (Ret (Some r), w') \<and> as_arcade r = as_arcade e \<and> (\<forall>s. err_is r s = err_is e s)"
  using callback_failed [of w h w1 fn e w2] assms by (auto split: option.split)

text \<open>A panic goes on with its value, an exit exits, and neither reads as committed.\<close>

lemma callback_not_returned:
  assumes "begin_tx w = (Inr h, w1)" and "fn h w1 = (out, w2)" and "\<forall>e. out \<noteq> Returned e"
  shows "run_tx fn w = (not_returned out, snd (rollback_tx h w2))" and "fst (run_tx fn w) \<noteq> Ret None"
  using callback_left [of w h w1 fn out w2] not_returned_Some [of out] assms by auto

text \<open>
  Whatever goes wrong after the begin, the rollback is the last thing that happens, unless the
  server said that there is no transaction left.
\<close>

lemma rolled_back:
  assumes "begin_tx w = (Inr h, w1)" and "run_tx fn w = (r, w')" and "r \<noteq> Ret None"
  shows "\<exists>w2. w' = snd (rollback_tx h w2) \<or> (\<exists>w3 e. commit_tx h w2 = (NotCommitted e, w3) \<and> w' = w3)"
  using assms by (cases rule: run_cases [of w fn]) auto

end

end
