(* ===== verification/Http_Transaction.thy ===== *)
theory Http_Transaction
  imports Envelope Tx_Protocol
begin

text \<open>
  \<open>go/arcadedb/transaction.go\<close>: \<open>Database.Transaction\<close> with its begin, commit and rollback. The
  callback is a function of the session's handle and the world; how it ends is its outcome.
\<close>

section \<open>The three requests\<close>

definition session_header :: bytes where "session_header = ''arcadedb-session-id''"

text \<open>\<open>BeginRequestIsolationLevel.Valid\<close>.\<close>

definition valid_isolation :: "bytes \<Rightarrow> bool" where
  "valid_isolation l \<longleftrightarrow> l = ''READ_COMMITTED'' \<or> l = ''REPEATABLE_READ''"

definition no_session_error :: "http_resp \<Rightarrow> arcade_error" where
  "no_session_error resp =
     \<lparr>ae_status = resp_status resp, ae_message = ''beginTransaction did not return a session id'',
      ae_exception = [], ae_detail = [], ae_request_id = hdr_get (resp_header resp) request_id_header,
      ae_help = [], ae_args = [], ae_retry_after = 0, ae_commit_index = 0\<rparr>"

definition begin_op :: "database \<Rightarrow> call_options \<Rightarrow> op_params" where
  "begin_op d opts = begin_transaction_request (db_name d) (session_param d) (query_tag_param (co_tag opts)) None
     ''application/json'' (encode True (JObj (opt_member ''isolationLevel'' (map_option JStr (co_isolation opts)))))"

definition commit_op :: "database \<Rightarrow> op_params" where
  "commit_op d = commit_transaction_request (db_name d) (session_param d) None"

definition rollback_op :: "database \<Rightarrow> op_params" where
  "rollback_op d = rollback_transaction_request (db_name d) (session_param d) None"

definition begin_transaction ::
  "'w net \<Rightarrow> database \<Rightarrow> ctx \<Rightarrow> call_options \<Rightarrow> 'w world \<Rightarrow> (go_error + bytes) \<times> 'w world" where
  "begin_transaction net d ctx opts w =
     on_result (\<lambda>p.
         let resp = pr_resp p;
             bound = (if resp_status resp = 204 then map_of (pr_headers p) session_header else None);
             sid = (case bound of Some s \<Rightarrow> s | None \<Rightarrow> hdr_get (resp_header resp) session_header)
         in if sid = [] then Inl (EArcade (no_session_error resp)) else Inr sid)
       (call_checked net (db_srv d) ctx [] begin_transaction_responses (begin_op d opts) w)"

definition commit_transaction ::
  "'w net \<Rightarrow> database \<Rightarrow> ctx \<Rightarrow> 'w world \<Rightarrow> go_error option \<times> 'w world" where
  "commit_transaction net d ctx w =
     (case call_checked net (db_srv d) ctx [] commit_transaction_responses (commit_op d) w of
        (r, w') \<Rightarrow> (res_err r, w'))"

definition rollback_transaction ::
  "'w net \<Rightarrow> database \<Rightarrow> ctx \<Rightarrow> 'w world \<Rightarrow> go_error option \<times> 'w world" where
  "rollback_transaction net d ctx w =
     (case call_checked net (db_srv d) ctx [] rollback_transaction_responses (rollback_op d) w of
        (r, w') \<Rightarrow> (res_err r, w'))"

section \<open>The transaction\<close>

definition tx_handle :: "database \<Rightarrow> bytes \<Rightarrow> database" where
  "tx_handle d sid = \<lparr>db_srv = db_srv d, db_name = db_name d, db_session = sid\<rparr>"

definition transaction ::
  "'w net \<Rightarrow> database \<Rightarrow> ctx \<Rightarrow> (database \<Rightarrow> 'w world \<Rightarrow> outcome \<times> 'w world) \<Rightarrow> call_option list
     \<Rightarrow> 'w world \<Rightarrow> tx_result \<times> 'w world" where
  "transaction net d ctx fn options w =
     (let opts = transaction_options options
      in if (case co_isolation opts of None \<Rightarrow> False | Some l \<Rightarrow> \<not> valid_isolation l)
         then (Ret (Some (EWrap ''use ReadCommitted or RepeatableRead'' (ESentinel ErrInvalidIsolationLevel))), w)
         else case begin_transaction net d ctx opts w of
             (Inl e, w1) \<Rightarrow> (Ret (Some e), w1)
           | (Inr sid, w1) \<Rightarrow>
               let tx = tx_handle d sid
               in case fn tx w1 of
                    (Returned (Some e), w2) \<Rightarrow>
                      (case rollback_transaction net tx CtxWithoutCancel w2 of
                         (Some rb, w3) \<Rightarrow> (Ret (Some (ETx e rb)), w3)
                       | (None, w3) \<Rightarrow> (Ret (Some e), w3))
                  | (Returned None, w2) \<Rightarrow>
                      (case commit_transaction net tx ctx w2 of
                         (Some e, w3) \<Rightarrow>
                           (case rollback_transaction net tx CtxWithoutCancel w3 of
                              (_, w4) \<Rightarrow> (Ret (Some e), w4))
                       | (None, w3) \<Rightarrow> (Ret None, w3))
                  | (out, w2) \<Rightarrow>
                      (case rollback_transaction net tx CtxWithoutCancel w2 of
                         (_, w3) \<Rightarrow>
                           (case out of
                              Panicked v \<Rightarrow> Panics v
                            | Goexited \<Rightarrow> Exits
                            | _ \<Rightarrow> Ret (Some (ESentinel ErrPanicNilOrGoexit)), w3)))"

section \<open>The interface of both drivers\<close>

text \<open>The begin, which refuses a level first, and the commit, in the terms of the interface.\<close>

definition http_begin ::
  "'w net \<Rightarrow> database \<Rightarrow> ctx \<Rightarrow> call_option list \<Rightarrow> 'w world \<Rightarrow> (go_error + database) \<times> 'w world" where
  "http_begin net d ctx options w =
     (let opts = transaction_options options
      in if (case co_isolation opts of None \<Rightarrow> False | Some l \<Rightarrow> \<not> valid_isolation l)
         then (Inl (EWrap ''use ReadCommitted or RepeatableRead'' (ESentinel ErrInvalidIsolationLevel)), w)
         else on_result (\<lambda>sid. Inr (tx_handle d sid)) (begin_transaction net d ctx opts w))"

definition http_commit :: "'w net \<Rightarrow> ctx \<Rightarrow> database \<Rightarrow> 'w world \<Rightarrow> commit_end \<times> 'w world" where
  "http_commit net ctx tx w =
     (case commit_transaction net tx ctx w of
        (None, w') \<Rightarrow> (Committed, w') | (Some e, w') \<Rightarrow> (CommitFailed e, w'))"

lemma http_begin_Inl:
  "http_begin net d ctx options w = (Inl e, w1) \<Longrightarrow> transaction net d ctx fn options w = (Ret (Some e), w1)"
  by (auto simp: http_begin_def transaction_def on_result_def Let_def bind_res_Inl_iff
      split: if_splits prod.splits)

lemma http_begin_Inr:
  assumes "http_begin net d ctx options w = (Inr tx, w1)"
  obtains sid where "begin_transaction net d ctx (transaction_options options) w = (Inr sid, w1)"
    and "tx = tx_handle d sid"
    and "\<not> (case co_isolation (transaction_options options) of None \<Rightarrow> False | Some l \<Rightarrow> \<not> valid_isolation l)"
  using assms
  by (auto simp: http_begin_def on_result_def Let_def bind_res_Inr_iff split: if_splits prod.splits)

interpretation http: tx_protocol
  "\<lambda>w. http_begin net d ctx options w" "\<lambda>tx w. http_commit net ctx tx w"
  "\<lambda>tx w. rollback_transaction net tx CtxWithoutCancel w" "\<lambda>fn w. transaction net d ctx fn options w"
  for net :: "'w net" and d ctx options
proof unfold_locales
  fix w :: "'w world" and fn :: "database \<Rightarrow> 'w world \<Rightarrow> outcome \<times> 'w world" and e w1
  assume "http_begin net d ctx options w = (Inl e, w1)"
  then show "transaction net d ctx fn options w = (Ret (Some e), w1)" by (rule http_begin_Inl)
next
  fix w :: "'w world" and fn :: "database \<Rightarrow> 'w world \<Rightarrow> outcome \<times> 'w world" and tx w1 w2 w3
  assume b: "http_begin net d ctx options w = (Inr tx, w1)" and f: "fn tx w1 = (Returned None, w2)"
    and c: "http_commit net ctx tx w2 = (Committed, w3)"
  from b f c show "transaction net d ctx fn options w = (Ret None, w3)"
    by (elim http_begin_Inr) (auto simp: transaction_def Let_def http_commit_def split: prod.splits option.splits)
next
  fix w :: "'w world" and fn :: "database \<Rightarrow> 'w world \<Rightarrow> outcome \<times> 'w world" and tx w1 w2 e w3
  assume b: "http_begin net d ctx options w = (Inr tx, w1)" and f: "fn tx w1 = (Returned None, w2)"
    and c: "http_commit net ctx tx w2 = (CommitFailed e, w3)"
  from b f c show "transaction net d ctx fn options w =
      (Ret (Some e), snd (rollback_transaction net tx CtxWithoutCancel w3))"
    by (elim http_begin_Inr) (auto simp: transaction_def Let_def http_commit_def split: prod.splits option.splits)
next
  fix w :: "'w world" and fn :: "database \<Rightarrow> 'w world \<Rightarrow> outcome \<times> 'w world" and tx and w1 w2 w3 :: "'w world" and e
  assume "http_commit net ctx tx w2 = (NotCommitted e, w3)"
  then show "transaction net d ctx fn options w = (Ret (Some e), w3)"
    by (auto simp: http_commit_def split: prod.splits option.splits)
next
  fix w :: "'w world" and fn :: "database \<Rightarrow> 'w world \<Rightarrow> outcome \<times> 'w world" and tx w1 e w2
  assume b: "http_begin net d ctx options w = (Inr tx, w1)" and f: "fn tx w1 = (Returned (Some e), w2)"
  from b f show "transaction net d ctx fn options w =
      (Ret (Some (case fst (rollback_transaction net tx CtxWithoutCancel w2) of None \<Rightarrow> e | Some rb \<Rightarrow> ETx e rb)),
       snd (rollback_transaction net tx CtxWithoutCancel w2))"
    by (elim http_begin_Inr) (auto simp: transaction_def Let_def split: prod.splits option.splits)
next
  fix w :: "'w world" and fn :: "database \<Rightarrow> 'w world \<Rightarrow> outcome \<times> 'w world" and tx w1 out w2
  assume b: "http_begin net d ctx options w = (Inr tx, w1)" and f: "fn tx w1 = (out, w2)"
    and o: "\<forall>e. out \<noteq> Returned e"
  from b f o show "transaction net d ctx fn options w =
      (not_returned out, snd (rollback_transaction net tx CtxWithoutCancel w2))"
    by (elim http_begin_Inr) (cases out; auto simp: transaction_def Let_def split: prod.splits option.splits)
qed

section \<open>What the caller may rely on\<close>

abbreviation level_ok :: "call_option list \<Rightarrow> bool" where
  "level_ok options \<equiv> (case co_isolation (transaction_options options) of None \<Rightarrow> True | Some l \<Rightarrow> valid_isolation l)"

lemma http_begin_iff:
  "http_begin net d ctx options w = (Inr tx, w1) \<longleftrightarrow> level_ok options \<and>
     (\<exists>sid. tx = tx_handle d sid \<and> begin_transaction net d ctx (transaction_options options) w = (Inr sid, w1))"
  by (auto simp: http_begin_def on_result_def Let_def bind_res_Inr_iff split: if_splits prod.splits option.splits)

lemma http_commit_iff:
  "http_commit net ctx tx w = (Committed, w') \<longleftrightarrow> commit_transaction net tx ctx w = (None, w')"
  by (auto simp: http_commit_def split: prod.splits option.splits)

text \<open>
  C1: \<open>Transaction\<close> returns nil exactly when the level was one the server has, the begin gave a
  session, the callback, run once on that session's handle, returned nil, and the commit of that
  session succeeded.
\<close>

theorem transaction_nil_iff_committed:
  "transaction net d ctx fn options w = (Ret None, w') \<longleftrightarrow>
     level_ok options \<and>
     (\<exists>sid w1 w2. begin_transaction net d ctx (transaction_options options) w = (Inr sid, w1) \<and>
        fn (tx_handle d sid) w1 = (Returned None, w2) \<and>
        commit_transaction net (tx_handle d sid) ctx w2 = (None, w'))"
  unfolding http.nil_iff_committed http_begin_iff http_commit_iff by blast

text \<open>
  C8: when the callback fails, \<open>errors.Is\<close> and \<open>errors.As\<close> on the result answer what they answer
  on the callback's own error, whether or not the rollback failed too; when it panics or exits,
  the call panics with the same value or exits, and never returns nil.
\<close>

theorem transaction_error_isolation:
  assumes "level_ok options"
    and "begin_transaction net d ctx (transaction_options options) w = (Inr sid, w1)"
    and "fn (tx_handle d sid) w1 = (out, w2)" and "out \<noteq> Returned None"
  shows "(case out of
      Returned (Some e) \<Rightarrow> \<exists>r w'. transaction net d ctx fn options w = (Ret (Some r), w') \<and>
        as_arcade r = as_arcade e \<and> (\<forall>s. err_is r s = err_is e s)
    | Panicked v \<Rightarrow> fst (transaction net d ctx fn options w) = Panics v
    | PanickedNil \<Rightarrow> fst (transaction net d ctx fn options w) = Ret (Some (ESentinel ErrPanicNilOrGoexit))
    | Goexited \<Rightarrow> fst (transaction net d ctx fn options w) = Exits
    | Returned None \<Rightarrow> True)"
proof -
  have b: "http_begin net d ctx options w = (Inr (tx_handle d sid), w1)"
    using assms(1,2) by (auto simp: http_begin_iff)
  show ?thesis
    using http.callback_error_wins [OF b] http.callback_not_returned(1) [OF b] assms(3)
    by (cases out) (auto split: option.split)
qed

lemma transaction_world:
  assumes "level_ok options"
    and "begin_transaction net d ctx (transaction_options options) w = (Inr sid, w1)"
    and "fn (tx_handle d sid) w1 = (out, w2)"
  shows "snd (transaction net d ctx fn options w) =
    (let tx = tx_handle d sid; (c, w3) = commit_transaction net tx ctx w2
     in if out \<noteq> Returned None then snd (rollback_transaction net tx CtxWithoutCancel w2)
        else if c = None then w3 else snd (rollback_transaction net tx CtxWithoutCancel w3))"
  using assms
  by (cases out) (auto simp: transaction_def Let_def split: option.split prod.split)

lemma commit_trace:
  "w_sent (snd (commit_transaction net d ctx w)) =
     w_sent w @ (if ctx_done net ctx w = None then built net (db_srv d) [] (commit_op d) else [])"
  using call_checked_trace [of net "db_srv d" ctx "[]" commit_transaction_responses "commit_op d" w]
  by (simp add: commit_transaction_def case_prod_beta)

lemma rollback_trace:
  "w_sent (snd (rollback_transaction net d ctx w)) =
     w_sent w @ (if ctx_done net ctx w = None then built net (db_srv d) [] (rollback_op d) else [])"
  using call_checked_trace [of net "db_srv d" ctx "[]" rollback_transaction_responses "rollback_op d" w]
  by (simp add: rollback_transaction_def case_prod_beta)

text \<open>
  C2: after the callback, the transport is given exactly one commit (unless the context is already
  done) when it returned nil, then one rollback only if the commit failed; and exactly one rollback
  in every other case, the context being done or not. Nothing else is sent.
\<close>

theorem transaction_trace:
  assumes "level_ok options"
    and "begin_transaction net d ctx (transaction_options options) w = (Inr sid, w1)"
    and "fn (tx_handle d sid) w1 = (out, w2)"
  shows "w_sent (snd (transaction net d ctx fn options w)) =
    w_sent w2 @
      (let tx = tx_handle d sid; rollback = built net (db_srv d) [] (rollback_op tx)
       in if out \<noteq> Returned None then rollback
          else (if ctx_done net ctx w2 = None then built net (db_srv d) [] (commit_op tx) else []) @
               (if fst (commit_transaction net tx ctx w2) = None then [] else rollback))"
  using commit_trace [of net "tx_handle d sid" ctx w2] transaction_world [OF assms(1,2), of fn out w2] assms(3)
  by (simp add: Let_def case_prod_beta rollback_trace) (simp add: tx_handle_def)

text \<open>
  Every statement and transaction request made through a handle carries the handle's session
  id: the commit and the rollback of a transaction, the queries and commands its callback runs,
  and a begin nested in it, which the server can therefore refuse.
\<close>

theorem session_on_every_request:
  assumes sv: "headers_ok (sv_headers (db_srv tx))"
      "map_of (sv_headers (db_srv tx)) (canonical_key session_header) = None"
    and sid: "db_session tx \<noteq> []"
    and op: "op \<in> {begin_op tx opts, commit_op tx, rollback_op tx,
      execute_query_request (db_name tx) (session_param tx) (query_tag_param (co_tag opts)) None None ct body,
      execute_command_request (db_name tx) (session_param tx) (query_tag_param (co_tag opts)) None None ct body}"
    and rq: "rq \<in> set (built net (db_srv tx) [] op)"
  shows "hdr_get (rq_header rq) session_header = net_style net (db_session tx)"
proof -
  have k: "canonical_key ''X-ArcadeDB-Query-Tag'' \<noteq> canonical_key session_header"
    "canonical_key ''Accept'' \<noteq> canonical_key session_header"
    "canonical_key ''X-Request-Id'' \<noteq> canonical_key session_header"
    by code_simp+
  have "\<exists>after. op_header op = [] @ (session_header, Some (db_session tx)) # after \<and>
      (\<forall>(k', v) \<in> set after. canonical_key k' \<noteq> canonical_key session_header)"
    using op sid k
    by (auto simp: begin_op_def commit_op_def rollback_op_def begin_transaction_request_def
        commit_transaction_request_def rollback_transaction_request_def execute_query_request_def
        execute_command_request_def session_param_def session_header_def)
  then obtain after where "op_header op = [] @ (session_header, Some (db_session tx)) # after"
    "\<forall>(k', v) \<in> set after. canonical_key k' \<noteq> canonical_key session_header" by blast
  from built_header [OF sv this rq] show ?thesis .
qed

lemma bind_headers_id:
  "\<exists>hs. bind_headers Inr ks h = Inr hs \<and>
    (\<forall>k. map_of hs k = (if k \<in> set ks then map_of h (canonical_key k) else None))"
proof (induction ks)
  case (Cons k ks)
  then obtain hs where "bind_headers Inr ks h = Inr hs"
    "\<forall>k. map_of hs k = (if k \<in> set ks then map_of h (canonical_key k) else None)" by blast
  then show ?case by (cases "map_of h (canonical_key k)") auto
qed simp

lemma begin_answered:
  assumes sent: "client_call net (db_srv d) ctx [] (begin_op d opts) w = (Inr resp, w')"
    and read: "resp_read_err resp = None" and bind: "\<And>s. net_bind net s = Inr s"
    and ok: "is_success (resp_status resp)"
  shows "begin_transaction net d ctx opts w =
    (if hdr_get (resp_header resp) session_header = [] then Inl (EArcade (no_session_error resp))
     else Inr (hdr_get (resp_header resp) session_header), w')"
proof -
  have t: "parse_typed begin_transaction_responses resp = Inr None"
    using ok by (auto simp: parse_typed_def begin_transaction_responses_def is_success_def)
  have net: "net_bind net = Inr" using bind by blast
  let ?ks = "case map_of (rs_headers begin_transaction_responses) (resp_status resp) of None \<Rightarrow> [] | Some ks \<Rightarrow> ks"
  have ks: "resp_status resp = 204 \<Longrightarrow> session_header \<in> set ?ks"
    by (simp add: begin_transaction_responses_def session_header_def)
  obtain hs where hs: "bind_headers (net_bind net) ?ks (resp_header resp) = Inr hs"
    and look': "\<And>k. map_of hs k = (if k \<in> set ?ks then map_of (resp_header resp) (canonical_key k) else None)"
    using bind_headers_id [of ?ks "resp_header resp"] unfolding net by blast
  have look: "resp_status resp = 204 \<Longrightarrow> map_of hs session_header = map_of (resp_header resp) (canonical_key session_header)"
    using ks look' [of session_header] by presburger
  have "call_checked net (db_srv d) ctx [] begin_transaction_responses (begin_op d opts) w =
      (Inr \<lparr>pr_typed = None, pr_headers = hs, pr_resp = resp\<rparr>, w')"
    using ok by (simp add: call_checked_def call_parsed_of_send [OF sent] parse_resp_def read t hs check_response_def)
  then show ?thesis
    using look by (auto simp: begin_transaction_def on_result_def Let_def hdr_get_def split: option.split)
qed

text \<open>
  A begin answered 2xx without a session id is an \<open>*ArcadeDBError\<close> of that answer and the
  callback is not called: the result and what has been sent do not depend on it.
\<close>

theorem transaction_needs_session:
  assumes "level_ok options"
    and "client_call net (db_srv d) ctx [] (begin_op d (transaction_options options)) w = (Inr resp, w')"
    and "resp_read_err resp = None" and "\<And>s. net_bind net s = Inr s"
    and "is_success (resp_status resp)" and "hdr_get (resp_header resp) session_header = []"
  shows "transaction net d ctx fn options w = (Ret (Some (EArcade (no_session_error resp))), w')"
  using begin_answered [OF assms(2-5)] assms(1,6)
  by (auto intro!: http_begin_Inl simp: http_begin_def on_result_def Let_def split: option.splits)

section \<open>A server to run against\<close>

definition tx_resp :: http_resp where
  "tx_resp = ok_resp\<lparr>resp_header := [(''Arcadedb-Session-Id'', ''AS-1'')]\<rparr>"

definition tx_net :: "unit net" where
  "tx_net = demo_net\<lparr>net_send := \<lambda>r w. (Inr tx_resp, w)\<rparr>"

definition tx_db :: database where
  "tx_db = server_db \<lparr>sv_base_url = ''http://h/'', sv_headers = []\<rparr> ''d''"

definition world0 :: "unit world" where "world0 = \<lparr>w_sent = [], w_rest = ()\<rparr>"

lemma tx_net_call:
  "\<exists>w'. client_call tx_net (db_srv tx_db) ctx [] op w = (Inr tx_resp, w')"
  "\<exists>w'. client_call demo_net (db_srv tx_db) ctx [] op w = (Inr ok_resp, w')"
  by (auto simp: client_call_def new_request_def tx_net_def demo_net_def do_request_def ctx_done_def
      split: ctx.split)

lemma tx_net_begin: "\<exists>w1. begin_transaction tx_net tx_db CtxCaller no_options world0 = (Inr ''AS-1'', w1)"
proof -
  obtain w1 where "client_call tx_net (db_srv tx_db) CtxCaller [] (begin_op tx_db no_options) world0 = (Inr tx_resp, w1)"
    using tx_net_call by blast
  moreover have "canonical_key session_header = ''Arcadedb-Session-Id''"
    unfolding session_header_def by code_simp
  ultimately show ?thesis
    using begin_answered [of tx_net tx_db CtxCaller no_options world0 tx_resp w1]
    by (simp add: tx_resp_def ok_resp_def tx_net_def demo_net_def is_success_def hdr_get_def)
qed

text \<open>A callback that panics is rolled back; one that fails is not hidden; the session is sent.\<close>

theorem transaction_error_isolation_witness:
  "fst (transaction tx_net tx_db CtxCaller (\<lambda>tx w. (Panicked ''boom'', w)) [] world0) = Panics ''boom''"
proof -
  obtain w1 where b: "begin_transaction tx_net tx_db CtxCaller (transaction_options []) world0 = (Inr ''AS-1'', w1)"
    using tx_net_begin by (auto simp: transaction_options_def)
  have "level_ok []" by (simp add: transaction_options_def no_options_def)
  from transaction_error_isolation [OF this b, of "\<lambda>tx w. (Panicked ''boom'', w)" "Panicked ''boom''" w1]
  show ?thesis by simp
qed

theorem transaction_trace_witness:
  "length (w_sent (snd (transaction tx_net tx_db CtxCaller
     (\<lambda>tx w. (Returned (Some (ESentinel CtxCanceled)), \<lparr>w_sent = [], w_rest = ()\<rparr>)) [] world0))) = 1"
proof -
  let ?fn = "\<lambda>tx (w :: unit world). (Returned (Some (ESentinel CtxCanceled)), \<lparr>w_sent = [], w_rest = ()\<rparr>)"
  obtain w1 where b: "begin_transaction tx_net tx_db CtxCaller (transaction_options []) world0 = (Inr ''AS-1'', w1)"
    using tx_net_begin by (auto simp: transaction_options_def)
  have l: "level_ok []" by (simp add: transaction_options_def no_options_def)
  show ?thesis
    using transaction_trace [OF l b, of ?fn]
    by (simp add: Let_def built_def new_request_def tx_net_def demo_net_def)
qed

theorem session_on_every_request_witness:
  "\<exists>rq. built demo_net (db_srv (tx_handle tx_db ''AS-1'')) [] (rollback_op (tx_handle tx_db ''AS-1'')) = [rq] \<and>
     hdr_get (rq_header rq) session_header = ''AS-1''"
proof -
  obtain rq where rq: "built demo_net (db_srv (tx_handle tx_db ''AS-1'')) [] (rollback_op (tx_handle tx_db ''AS-1'')) = [rq]"
    by (simp add: built_def new_request_def demo_net_def)
  have "headers_ok (sv_headers (db_srv (tx_handle tx_db ''AS-1'')))"
    and "map_of (sv_headers (db_srv (tx_handle tx_db ''AS-1''))) (canonical_key session_header) = None"
    by (simp_all add: tx_handle_def tx_db_def server_db_def headers_ok_def)
  from session_on_every_request [OF this, where op = "rollback_op (tx_handle tx_db ''AS-1'')" and rq = rq and net = demo_net] rq
  show ?thesis by (simp add: tx_handle_def demo_net_def)
qed

theorem transaction_needs_session_witness:
  "fst (transaction demo_net tx_db CtxCaller (\<lambda>tx w. (Panicked [], w)) [] world0) = Ret (Some (EArcade (no_session_error ok_resp)))"
proof -
  obtain w1 where c: "client_call demo_net (db_srv tx_db) CtxCaller [] (begin_op tx_db (transaction_options [])) world0 = (Inr ok_resp, w1)"
    using tx_net_call by blast
  have l: "level_ok []" by (simp add: transaction_options_def no_options_def)
  show ?thesis
    using transaction_needs_session [OF l c]
    by (simp add: ok_resp_def demo_net_def is_success_def hdr_get_def)
qed

end
