(* ===== verification/Insert_Session.thy ===== *)
theory Insert_Session
  imports Server_Config Go_Values
begin

text \<open>
  \<open>go/arcadedb/insertsession.go\<close>: the duplex insert session on the \<open>/ws\<close> endpoint, from the side
  of the goroutine that owns it. The connection (\<open>coder/websocket\<close> with the goroutine that reads
  from it, see \<open>Read_Loop\<close>) is the parameter \<open>link\<close> over a state \<open>'w\<close>; the frames handed to it are
  logged in \<open>cn_sent\<close>, and whether the session dropped it in \<open>cn_aborted\<close>.
\<close>

section \<open>The connection\<close>

text \<open>What a wait for an answer ends with: a frame, the closed channel, or the context.\<close>

datatype answer = Frame bytes | LinkClosed go_error | CtxEnded go_error

datatype link_ctx = LinkCaller | LinkBackground

record 'w link =
  ln_parse_url :: "bytes \<Rightarrow> go_error + (bytes \<times> bytes)"
  ln_dial :: "bytes \<Rightarrow> header \<Rightarrow> 'w \<Rightarrow> go_error + 'w"
  ln_write :: "link_ctx \<Rightarrow> bytes \<Rightarrow> 'w \<Rightarrow> go_error option \<times> 'w"
  ln_poll :: "'w \<Rightarrow> bytes option \<times> 'w"
  ln_wait :: "link_ctx \<Rightarrow> 'w \<Rightarrow> answer \<times> 'w"

record 'w conn =
  cn_sent :: "bytes list"
  cn_aborted :: bool
  cn_rest :: 'w

section \<open>Configuration\<close>

record insert_config =
  ic_session :: bytes
  ic_target :: bytes
  ic_tx_mode :: bytes
  ic_conflict :: bytes
  ic_keys :: "bytes list option"
  ic_updates :: "bytes list option"
  ic_validate :: bool
  ic_join :: bool
  ic_timeout :: int

datatype insert_option =
    WithInsertSessionID bytes
  | WithInsertTargetType bytes
  | WithInsertTransactionMode bytes
  | WithInsertConflictMode bytes
  | WithInsertKeyColumns "bytes list option"
  | WithInsertUpdateColumnsOnConflict "bytes list option"
  | WithInsertValidateOnly
  | WithJoinCurrentTransaction
  | WithInsertFrameTimeout int

definition insert_none :: bytes where "insert_none = ''none''"
definition default_frame_timeout :: int where "default_frame_timeout = 60000000000"
definition expired_title :: bytes where "expired_title = ''Insert session expired''"

fun apply_insert_option :: "insert_config \<Rightarrow> insert_option \<Rightarrow> insert_config" where
  "apply_insert_option c (WithInsertSessionID i) = c\<lparr>ic_session := i\<rparr>"
| "apply_insert_option c (WithInsertTargetType t) = c\<lparr>ic_target := t\<rparr>"
| "apply_insert_option c (WithInsertTransactionMode m) = c\<lparr>ic_tx_mode := m\<rparr>"
| "apply_insert_option c (WithInsertConflictMode m) = c\<lparr>ic_conflict := m\<rparr>"
| "apply_insert_option c (WithInsertKeyColumns cs) = c\<lparr>ic_keys := cs\<rparr>"
| "apply_insert_option c (WithInsertUpdateColumnsOnConflict cs) = c\<lparr>ic_updates := cs\<rparr>"
| "apply_insert_option c WithInsertValidateOnly = c\<lparr>ic_validate := True\<rparr>"
| "apply_insert_option c WithJoinCurrentTransaction = c\<lparr>ic_join := True\<rparr>"
| "apply_insert_option c (WithInsertFrameTimeout d) = c\<lparr>ic_timeout := d\<rparr>"

definition insert_config0 :: insert_config where
  "insert_config0 = \<lparr>ic_session = [], ic_target = [], ic_tx_mode = [], ic_conflict = [], ic_keys = None,
     ic_updates = None, ic_validate = False, ic_join = False, ic_timeout = default_frame_timeout\<rparr>"

section \<open>Frames from the server\<close>

record insert_row_error =
  re_index :: int
  re_code :: bytes
  re_message :: bytes
  re_exception :: bytes

record insert_ack =
  ak_session :: bytes
  ak_seq :: int
  ak_received :: int
  ak_inserted :: int
  ak_updated :: int
  ak_ignored :: int
  ak_failed :: int
  ak_replay :: bool
  ak_errors :: "insert_row_error list option"
  ak_whole_failed :: bool
  ak_raw :: "members option"

record insert_summary =
  su_received :: int
  su_inserted :: int
  su_updated :: int
  su_ignored :: int
  su_failed :: int
  su_execution_ms :: int
  su_partial :: bool
  su_external :: bool
  su_transaction :: bytes

record insert_result =
  rs_session :: bytes
  rs_outcome :: bytes
  rs_summary :: insert_summary
  rs_raw :: "members option"

text \<open>The decoders of the structs, each given the names of its fields.\<close>

definition row_error_fields :: "bytes list" where
  "row_error_fields = [''rowIndex'', ''code'', ''message'', ''exception'']"

definition elem_row_error :: "json \<Rightarrow> insert_row_error option" where
  "elem_row_error v = (case v of
       JNull \<Rightarrow> Some \<lparr>re_index = 0, re_code = [], re_message = [], re_exception = []\<rparr>
     | JObj kvs \<Rightarrow>
         (let (i, o1) = int_field row_error_fields kvs ''rowIndex'' 0;
              (c, o2) = str_field row_error_fields kvs ''code'' [];
              (m, o3) = str_field row_error_fields kvs ''message'' [];
              (x, o4) = str_field row_error_fields kvs ''exception'' []
          in if o1 \<and> o2 \<and> o3 \<and> o4
             then Some \<lparr>re_index = i, re_code = c, re_message = m, re_exception = x\<rparr> else None)
     | _ \<Rightarrow> None)"

definition ack_fields :: "bytes list" where
  "ack_fields = [''sessionId'', ''chunkSeq'', ''received'', ''inserted'', ''updated'', ''ignored'', ''failed'',
     ''replay'', ''errors'']"

definition decode_ack :: "bytes \<Rightarrow> insert_ack option" where
  "decode_ack = unmarshal_struct (\<lambda>kvs.
     let (s, o1) = str_field ack_fields kvs ''sessionId'' [];
         (q, o2) = int_field ack_fields kvs ''chunkSeq'' 0;
         (r, o3) = int_field ack_fields kvs ''received'' 0;
         (i, o4) = int_field ack_fields kvs ''inserted'' 0;
         (u, o5) = int_field ack_fields kvs ''updated'' 0;
         (g, o6) = int_field ack_fields kvs ''ignored'' 0;
         (f, o7) = int_field ack_fields kvs ''failed'' 0;
         (p, o8) = bool_field ack_fields kvs ''replay'' False;
         (e, o9) = decode_field (into_slice elem_row_error) None (field_vals ack_fields kvs ''errors'')
     in (\<lparr>ak_session = s, ak_seq = q, ak_received = r, ak_inserted = i, ak_updated = u, ak_ignored = g,
          ak_failed = f, ak_replay = p, ak_errors = e, ak_whole_failed = False, ak_raw = None\<rparr>,
         o1 \<and> o2 \<and> o3 \<and> o4 \<and> o5 \<and> o6 \<and> o7 \<and> o8 \<and> o9))"

definition summary_fields :: "bytes list" where
  "summary_fields = [''received'', ''inserted'', ''updated'', ''ignored'', ''failed'', ''executionTimeMs'',
     ''partialCommit'', ''externalTransaction'', ''transactionId'']"

definition zero_summary :: insert_summary where
  "zero_summary = \<lparr>su_received = 0, su_inserted = 0, su_updated = 0, su_ignored = 0, su_failed = 0,
     su_execution_ms = 0, su_partial = False, su_external = False, su_transaction = []\<rparr>"

definition into_summary :: "insert_summary \<Rightarrow> json \<Rightarrow> insert_summary option" where
  "into_summary z v = (case v of
       JNull \<Rightarrow> Some z
     | JObj kvs \<Rightarrow>
         (let (r, o1) = int_field summary_fields kvs ''received'' (su_received z);
              (i, o2) = int_field summary_fields kvs ''inserted'' (su_inserted z);
              (u, o3) = int_field summary_fields kvs ''updated'' (su_updated z);
              (g, o4) = int_field summary_fields kvs ''ignored'' (su_ignored z);
              (f, o5) = int_field summary_fields kvs ''failed'' (su_failed z);
              (x, o6) = int_field summary_fields kvs ''executionTimeMs'' (su_execution_ms z);
              (p, o7) = bool_field summary_fields kvs ''partialCommit'' (su_partial z);
              (e, o8) = bool_field summary_fields kvs ''externalTransaction'' (su_external z);
              (t, o9) = str_field summary_fields kvs ''transactionId'' (su_transaction z)
          in if o1 \<and> o2 \<and> o3 \<and> o4 \<and> o5 \<and> o6 \<and> o7 \<and> o8 \<and> o9
             then Some \<lparr>su_received = r, su_inserted = i, su_updated = u, su_ignored = g, su_failed = f,
                        su_execution_ms = x, su_partial = p, su_external = e, su_transaction = t\<rparr>
             else None)
     | _ \<Rightarrow> None)"

definition result_fields :: "bytes list" where
  "result_fields = [''sessionId'', ''outcome'', ''summary'']"

definition decode_result :: "bytes \<Rightarrow> insert_result option" where
  "decode_result = unmarshal_struct (\<lambda>kvs.
     let (s, o1) = str_field result_fields kvs ''sessionId'' [];
         (u, o2) = str_field result_fields kvs ''outcome'' [];
         (m, o3) = decode_field into_summary zero_summary (field_vals result_fields kvs ''summary'')
     in (\<lparr>rs_session = s, rs_outcome = u, rs_summary = m, rs_raw = None\<rparr>, o1 \<and> o2 \<and> o3))"

record started_frame =
  st_session :: bytes
  st_database :: bytes
  st_tx_mode :: bytes
  st_conflict :: bytes
  st_validate :: bool
  st_transaction :: bytes

definition started_fields :: "bytes list" where
  "started_fields = [''sessionId'', ''database'', ''transactionMode'', ''conflictMode'', ''validateOnly'', ''transactionId'']"

definition decode_started :: "bytes \<Rightarrow> started_frame option" where
  "decode_started = unmarshal_struct (\<lambda>kvs.
     let (s, o1) = str_field started_fields kvs ''sessionId'' [];
         (d, o2) = str_field started_fields kvs ''database'' [];
         (t, o3) = str_field started_fields kvs ''transactionMode'' [];
         (c, o4) = str_field started_fields kvs ''conflictMode'' [];
         (v, o5) = bool_field started_fields kvs ''validateOnly'' False;
         (x, o6) = str_field started_fields kvs ''transactionId'' []
     in (\<lparr>st_session = s, st_database = d, st_tx_mode = t, st_conflict = c, st_validate = v, st_transaction = x\<rparr>,
         o1 \<and> o2 \<and> o3 \<and> o4 \<and> o5 \<and> o6))"

text \<open>\<open>endsSession\<close>.\<close>

definition ends_session :: "bytes \<Rightarrow> bytes \<Rightarrow> bool" where
  "ends_session title detail \<longleftrightarrow>
     (if title = expired_title \<or> title = ''Security error'' \<or> title = ''Internal error'' then True
      else if title = ''Insert session error''
      then str_contains detail ''not found or expired'' \<or> str_contains detail ([CHR 0x27] @ '' is closed'')
      else False)"

definition error_frame_fields :: "bytes list" where
  "error_frame_fields = [''result'', ''action'', ''error'', ''detail'', ''sessionId'', ''exception'']"

text \<open>\<open>asError\<close>: the error an error frame carries; \<open>sid\<close> is the session's own id.\<close>

definition as_error :: "bytes \<Rightarrow> bytes \<Rightarrow> insert_error option" where
  "as_error sid raw =
     (case unmarshal_struct (\<lambda>kvs.
        let f = (\<lambda>k. str_field error_frame_fields kvs k [])
        in ((fst (f ''result''), fst (f ''action''), fst (f ''error''), fst (f ''detail''), fst (f ''sessionId''),
             fst (f ''exception'')),
            list_all (\<lambda>k. snd (f k)) error_frame_fields)) raw of
        None \<Rightarrow> None
      | Some (result, action, title, detail, i, x) \<Rightarrow>
          if result \<noteq> ''error'' \<and> action \<noteq> ''error'' then None
          else Some \<lparr>ie_session = (if i = [] then sid else i), ie_title = title, ie_detail = detail,
                     ie_exception = x, ie_ended = ends_session title detail\<rparr>)"

definition frame_action :: "bytes \<Rightarrow> bytes option" where
  "frame_action = unmarshal_struct (\<lambda>kvs. str_field [''action''] kvs ''action'' [])"

section \<open>The session\<close>

record insert_session =
  is_cfg :: insert_config
  is_id :: bytes
  is_database :: bytes
  is_tx_mode :: bytes
  is_conflict :: bytes
  is_validate :: bool
  is_external :: bytes
  is_seq :: int
  is_open :: bool

text \<open>\<open>abort\<close>: closed, and the connection dropped without a handshake.\<close>

definition abort :: "insert_session \<times> 'w conn \<Rightarrow> insert_session \<times> 'w conn" where
  "abort sw = (case sw of (s, w) \<Rightarrow> (s\<lparr>is_open := False\<rparr>, w\<lparr>cn_aborted := True\<rparr>))"

text \<open>\<open>decode\<close>: an answer as the frame that was wanted, with the raw object beside it.\<close>

definition decode_answer ::
  "bytes \<Rightarrow> bytes \<Rightarrow> (bytes \<Rightarrow> 'a option) \<Rightarrow> insert_session \<times> 'w conn
     \<Rightarrow> (go_error + ('a \<times> members option)) \<times> insert_session \<times> 'w conn" where
  "decode_answer raw want dec sw =
     (case as_error (is_id (fst sw)) raw of
        Some e \<Rightarrow> (Inl (EInsertSession e), if ie_ended e then abort sw else sw)
      | None \<Rightarrow>
          (case frame_action raw of
             None \<Rightarrow> (Inl (EWrap ''arcadedb: undecodable frame on /ws insert session'' json_error), abort sw)
           | Some a \<Rightarrow>
               if a \<noteq> want then (Inl (EPlain ''arcadedb: unexpected frame on /ws insert session''), abort sw)
               else (case dec raw of
                       None \<Rightarrow> (Inl (EWrap ''arcadedb: decoding a frame of /ws insert session'' json_error), abort sw)
                     | Some x \<Rightarrow> (Inr (x, case unmarshal_map raw of None \<Rightarrow> None | Some m \<Rightarrow> m), sw))))"

text \<open>
  \<open>exchange\<close>: one frame written, one answer read. A frame that does not encode is not sent; a
  failed write looks for an error frame already there, any other failure drops the connection.
\<close>

definition exchange ::
  "'w link \<Rightarrow> link_ctx \<Rightarrow> goval \<Rightarrow> bytes \<Rightarrow> (bytes \<Rightarrow> 'a option) \<Rightarrow> insert_session \<times> 'w conn
     \<Rightarrow> (go_error + ('a \<times> members option)) \<times> insert_session \<times> 'w conn" where
  "exchange lk ctx frame want dec sw =
     (case marshal frame of
        None \<Rightarrow> (Inl (EWrap ''arcadedb: encoding a /ws insert frame'' json_error), sw)
      | Some payload \<Rightarrow>
          (case sw of (s, w) \<Rightarrow>
             case ln_write lk ctx payload (cn_rest w) of
               (Some e, x) \<Rightarrow>
                 (let w1 = w\<lparr>cn_sent := cn_sent w @ [payload], cn_rest := x\<rparr>
                  in case ln_poll lk x of (polled, x2) \<Rightarrow>
                    let w2 = w1\<lparr>cn_rest := x2\<rparr>;
                        sent = EWrap ''arcadedb: sending a frame of /ws insert session'' e
                    in (case (case polled of None \<Rightarrow> None | Some raw \<Rightarrow> as_error (is_id s) raw) of
                          Some ie \<Rightarrow> (Inl (EInsertSession ie), abort (s, w2))
                        | None \<Rightarrow> (Inl sent, abort (s, w2))))
             | (None, x) \<Rightarrow>
                 (let w1 = w\<lparr>cn_sent := cn_sent w @ [payload], cn_rest := x\<rparr>
                  in case ln_wait lk ctx x of (ans, x2) \<Rightarrow>
                    let w2 = w1\<lparr>cn_rest := x2\<rparr>
                    in (case ans of
                          LinkClosed e \<Rightarrow> (Inl (EWrap ''arcadedb: the /ws connection closed'' e), abort (s, w2))
                        | CtxEnded e \<Rightarrow> (Inl (EWrap ''arcadedb: waiting for the answer to a frame'' e), abort (s, w2))
                        | Frame raw \<Rightarrow> decode_answer raw want dec (s, w2)))))"

section \<open>Opening\<close>

text \<open>
  \<open>webSocketURL\<close>: \<open>ln_parse_url\<close> is \<open>url.Parse\<close>, giving what comes before the path and the path.
\<close>

definition web_socket_url :: "'w link \<Rightarrow> bytes \<Rightarrow> go_error + bytes" where
  "web_socket_url lk base =
     (case ln_parse_url lk base of
        Inl e \<Rightarrow> Inl (EWrap ''arcadedb: parsing the server URL'' e)
      | Inr (origin, path) \<Rightarrow> Inr (origin @ rev (dropWhile (\<lambda>c. c = CHR ''/'') (rev path)) @ ''/ws''))"

definition put_if :: "bool \<Rightarrow> bytes \<Rightarrow> goval \<Rightarrow> gomap" where
  "put_if b k v = (if b then [(k, v)] else [])"

definition str_list :: "bytes list option \<Rightarrow> goval" where
  "str_list l = (case l of None \<Rightarrow> GNil | Some xs \<Rightarrow> GList (map GStr xs))"

definition start_options :: "insert_config \<Rightarrow> gomap" where
  "start_options c =
     put_if (ic_target c \<noteq> []) ''targetType'' (GStr (ic_target c)) @
     put_if (ic_tx_mode c \<noteq> []) ''transactionMode'' (GStr (ic_tx_mode c)) @
     put_if (ic_conflict c \<noteq> []) ''conflictMode'' (GStr (ic_conflict c)) @
     put_if (ic_keys c \<noteq> None) ''keyColumns'' (str_list (ic_keys c)) @
     put_if (ic_updates c \<noteq> None) ''updateColumnsOnConflict'' (str_list (ic_updates c)) @
     put_if (ic_validate c) ''validateOnly'' (GBool True)"

definition start_frame :: "database \<Rightarrow> insert_config \<Rightarrow> gomap" where
  "start_frame d c =
     [(''action'', GStr ''start''), (''database'', GStr (db_name d)), (''options'', GMap (start_options c))] @
     put_if (ic_session c \<noteq> []) ''sessionId'' (GStr (ic_session c)) @
     put_if (ic_join c) ''transactionId'' (GStr (db_session d))"

text \<open>The configuration checked: a join outside a transaction or with another mode is refused.\<close>

definition check_config :: "database \<Rightarrow> insert_config \<Rightarrow> go_error + insert_config" where
  "check_config d c0 =
     (let c = (if ic_timeout c0 \<le> 0 then c0\<lparr>ic_timeout := default_frame_timeout\<rparr> else c0)
      in if ic_join c
         then if ic_tx_mode c \<noteq> [] \<and> ic_tx_mode c \<noteq> insert_none
              then Inl (EPlain ''arcadedb: WithJoinCurrentTransaction implies transaction mode none'')
              else if db_session d = [] then Inl (ESentinel ErrNoTransactionToJoin)
              else Inr (c\<lparr>ic_tx_mode := insert_none\<rparr>)
         else Inr c)"

definition open_session ::
  "'w link \<Rightarrow> database \<Rightarrow> insert_option list \<Rightarrow> 'w conn
     \<Rightarrow> (go_error + insert_session) \<times> 'w conn" where
  "open_session lk d opts w =
     (case check_config d (foldl apply_insert_option insert_config0 opts) of
        Inl e \<Rightarrow> (Inl e, w)
      | Inr c \<Rightarrow>
          (case web_socket_url lk (sv_base_url (db_srv d)) of
             Inl e \<Rightarrow> (Inl e, w)
           | Inr url \<Rightarrow>
               (case ln_dial lk url (apply_headers (sv_headers (db_srv d)) []) (cn_rest w) of
                  Inl e \<Rightarrow> (Inl (EWrap ''arcadedb: opening the /ws insert session'' e), w)
                | Inr x \<Rightarrow>
                    (let s0 = \<lparr>is_cfg = c, is_id = ic_session c, is_database = [], is_tx_mode = [],
                               is_conflict = [], is_validate = False, is_external = [], is_seq = 0, is_open = True\<rparr>
                     in case exchange lk LinkCaller (GMap (start_frame d c)) ''started'' decode_started
                            (s0, w\<lparr>cn_rest := x\<rparr>) of
                          (Inl e, sw) \<Rightarrow> (Inl e, snd (abort sw))
                        | (Inr (st, _), s, w') \<Rightarrow>
                            (Inr (s\<lparr>is_id := st_session st, is_database := st_database st, is_tx_mode := st_tx_mode st,
                                   is_conflict := st_conflict st, is_validate := st_validate st,
                                   is_external := st_transaction st\<rparr>), w')))))"

section \<open>The operations\<close>

definition whole_chunk_failed :: "insert_ack \<Rightarrow> bool" where
  "whole_chunk_failed a = (case ak_errors a of None \<Rightarrow> False | Some es \<Rightarrow> list_ex (\<lambda>e. re_index e = - 1) es)"

definition chunk_frame :: "insert_session \<Rightarrow> gomap option list \<Rightarrow> gomap" where
  "chunk_frame s records =
     [(''action'', GStr ''chunk''), (''sessionId'', GStr (is_id s)), (''chunkSeq'', GInt (wrap64 (is_seq s + 1))),
      (''records'', GList (map goval_of_map records))]"

text \<open>
  \<open>SendChunk\<close>. The callback registered for acknowledgements sees the acknowledgement that is
  returned, before it is returned; it changes nothing of the session.
\<close>

definition send_chunk ::
  "'w link \<Rightarrow> gomap option list \<Rightarrow> insert_session \<times> 'w conn
     \<Rightarrow> (go_error + insert_ack) \<times> insert_session \<times> 'w conn" where
  "send_chunk lk records sw =
     (if \<not> is_open (fst sw) then (Inl (ESentinel ErrInsertSessionClosed), sw)
      else
        (let seq = wrap64 (is_seq (fst sw) + 1)
         in case exchange lk LinkCaller (GMap (chunk_frame (fst sw) records)) ''batchAck'' decode_ack sw of
              (Inl e, sw') \<Rightarrow> (Inl e, sw')
            | (Inr (a, raw), s, w) \<Rightarrow>
                (let ack = a\<lparr>ak_raw := raw, ak_whole_failed := whole_chunk_failed a\<rparr>
                 in (Inr ack, if ak_whole_failed ack then s else s\<lparr>is_seq := seq\<rparr>, w))))"

definition finish_frame :: "insert_session \<Rightarrow> bytes \<Rightarrow> gomap" where
  "finish_frame s action = [(''action'', GStr action), (''sessionId'', GStr (is_id s))]"

definition finish_session ::
  "'w link \<Rightarrow> link_ctx \<Rightarrow> bytes \<Rightarrow> insert_session \<times> 'w conn
     \<Rightarrow> (go_error + insert_result) \<times> insert_session \<times> 'w conn" where
  "finish_session lk ctx action sw =
     (if \<not> is_open (fst sw) then (Inl (ESentinel ErrInsertSessionClosed), sw)
      else
        (case exchange lk ctx (GMap (finish_frame (fst sw) action)) ''committed'' decode_result sw of
           (r, s, w) \<Rightarrow>
             (case r of Inl e \<Rightarrow> Inl e | Inr (res, raw) \<Rightarrow> Inr (res\<lparr>rs_raw := raw\<rparr>),
              s\<lparr>is_open := False\<rparr>, w)))"

definition commit_session where
  "commit_session lk sw = finish_session lk LinkCaller ''commit'' sw"

definition rollback_session where
  "rollback_session lk sw = finish_session lk LinkCaller ''rollback'' sw"

definition close_session :: "'w link \<Rightarrow> insert_session \<times> 'w conn \<Rightarrow> insert_session \<times> 'w conn" where
  "close_session lk sw =
     abort (if is_open (fst sw) then snd (finish_session lk LinkBackground ''rollback'' sw) else sw)"

section \<open>Operations in sequence\<close>

datatype session_op = OpChunk "gomap option list" | OpCommit | OpRollback | OpClose

datatype op_result =
    ChunkResult "go_error + insert_ack"
  | EndResult "go_error + insert_result"
  | CloseResult

fun session_step :: "'w link \<Rightarrow> session_op \<Rightarrow> insert_session \<times> 'w conn \<Rightarrow> op_result \<times> insert_session \<times> 'w conn" where
  "session_step lk (OpChunk records) sw = (case send_chunk lk records sw of (r, sw') \<Rightarrow> (ChunkResult r, sw'))"
| "session_step lk OpCommit sw = (case commit_session lk sw of (r, sw') \<Rightarrow> (EndResult r, sw'))"
| "session_step lk OpRollback sw = (case rollback_session lk sw of (r, sw') \<Rightarrow> (EndResult r, sw'))"
| "session_step lk OpClose sw = (CloseResult, close_session lk sw)"

fun refused :: "session_op \<Rightarrow> op_result" where
  "refused (OpChunk records) = ChunkResult (Inl (ESentinel ErrInsertSessionClosed))"
| "refused OpClose = CloseResult"
| "refused _ = EndResult (Inl (ESentinel ErrInsertSessionClosed))"

interpretation insert: guarded_ops
  "\<lambda>op sw. session_step lk op sw" "\<lambda>sw. is_open (fst sw)" "\<lambda>sw. cn_sent (snd sw)" refused
  for lk :: "'w link"
proof unfold_locales
  fix sw :: "insert_session \<times> 'w conn" and op r sw'
  assume "\<not> is_open (fst sw)" and "session_step lk op sw = (r, sw')"
  then show "r = refused op \<and> \<not> is_open (fst sw') \<and> cn_sent (snd sw') = cn_sent (snd sw)"
    by (cases op; cases sw)
      (auto simp: send_chunk_def commit_session_def rollback_session_def finish_session_def close_session_def abort_def)
qed


section \<open>One exchange\<close>

text \<open>What every exchange does to the session and the log, whatever its outcome.\<close>

lemma decode_answer_session:
  assumes "decode_answer raw want dec (s, w) = (r, s', w')"
  shows "(s' = s \<or> s' = s\<lparr>is_open := False\<rparr>) \<and> cn_sent w' = cn_sent w \<and> (\<forall>x. r = Inr x \<longrightarrow> s' = s)"
  using assms by (auto simp: decode_answer_def abort_def split: option.splits if_splits)

lemma exchange_session:
  assumes "exchange lk ctx frame want dec (s, w) = (r, s', w')"
  shows "(s' = s \<or> s' = s\<lparr>is_open := False\<rparr>) \<and>
    cn_sent w' = cn_sent w @ (case marshal frame of None \<Rightarrow> [] | Some p \<Rightarrow> [p]) \<and>
    (\<forall>x. r = Inr x \<longrightarrow> s' = s)"
  using assms
  by (auto simp: exchange_def abort_def Let_def split: option.splits prod.splits answer.splits
      dest: decode_answer_session)

text \<open>A chunk is accepted when it was acknowledged and not as a whole undone.\<close>

definition accepted :: "go_error + insert_ack \<Rightarrow> bool" where
  "accepted r = (case r of Inl e \<Rightarrow> False | Inr a \<Rightarrow> \<not> ak_whole_failed a)"

lemma send_chunk_session:
  assumes "is_open s" and "send_chunk lk records (s, w) = (r, s', w')"
  shows "cn_sent w' = cn_sent w @ (case marshal (GMap (chunk_frame s records)) of None \<Rightarrow> [] | Some p \<Rightarrow> [p]) \<and>
    is_seq s' = (if accepted r then wrap64 (is_seq s + 1) else is_seq s) \<and> is_id s' = is_id s \<and>
    (\<forall>a. r = Inr a \<longrightarrow> is_open s')"
proof -
  obtain x s1 w1 where x: "exchange lk LinkCaller (GMap (chunk_frame s records)) ''batchAck'' decode_ack (s, w) = (x, s1, w1)"
    by (metis surj_pair)
  show ?thesis
    using assms exchange_session [OF x]
    by (cases x) (auto simp: send_chunk_def x Let_def accepted_def split: prod.splits)
qed

text \<open>The frame of a chunk under a given session id and sequence number.\<close>

definition chunk_payload :: "bytes \<Rightarrow> int \<Rightarrow> gomap option list \<Rightarrow> bytes option" where
  "chunk_payload i q records = marshal (GMap [(''action'', GStr ''chunk''), (''sessionId'', GStr i),
     (''chunkSeq'', GInt q), (''records'', GList (map goval_of_map records))])"

abbreviation n_accepted :: "(go_error + insert_ack) list \<Rightarrow> int" where
  "n_accepted rs \<equiv> int (length (filter accepted rs))"

lemma run_chunks:
  assumes "run_ops (send_chunk lk) css (s, w) = (rs, s', w')"
    and "0 \<le> is_seq s" and "is_seq s + int (length css) \<le> max_int64"
    and "\<forall>c \<in> set css. \<forall>q. chunk_payload (is_id s) q c \<noteq> None"
  shows "\<exists>k \<le> length css. (k < length css \<longrightarrow> \<not> is_open s') \<and> is_seq s' = is_seq s + n_accepted rs \<and>
    map Some (cn_sent w') = map Some (cn_sent w) @
      map (\<lambda>i. chunk_payload (is_id s) (is_seq s + 1 + n_accepted (take i rs)) (css ! i)) [0..<k]"
  using assms
proof (induction css arbitrary: s w rs)
  case Nil
  then show ?case by simp
next
  case (Cons c css)
  obtain r s1 w1 where one: "send_chunk lk c (s, w) = (r, s1, w1)" by (metis surj_pair)
  obtain rs1 where rest: "run_ops (send_chunk lk) css (s1, w1) = (rs1, s', w')" "rs = r # rs1"
    using Cons.prems(1) one by (auto split: prod.splits)
  show ?case
  proof (cases "is_open s")
    case False
    then have "r = Inl (ESentinel ErrInsertSessionClosed)" "s1 = s" "w1 = w"
      using one by (auto simp: send_chunk_def)
    moreover have "run_ops (send_chunk lk) css (s, w) =
        (map (\<lambda>_. Inl (ESentinel ErrInsertSessionClosed)) css, s, w)"
      using False by (induction css) (simp_all add: send_chunk_def)
    ultimately have "rs1 = map (\<lambda>_. Inl (ESentinel ErrInsertSessionClosed)) css" "s' = s" "w' = w"
      and r: "r = Inl (ESentinel ErrInsertSessionClosed)"
      using rest by simp_all
    then have "filter accepted rs = []"
      using rest(2) by (simp add: accepted_def filter_empty_conv)
    with False \<open>s' = s\<close> \<open>w' = w\<close> show ?thesis by (intro exI [of _ 0]) simp
  next
    case True
    note o = send_chunk_session [OF True one]
    have q: "wrap64 (is_seq s + 1) = is_seq s + 1"
      using Cons.prems(2,3) by (intro wrap64_id) (simp add: in_int64_def min_int64_def)
    have "chunk_payload (is_id s) (is_seq s + 1) c \<noteq> None"
      using Cons.prems(4) by (meson list.set_intros(1))
    then obtain p where p: "chunk_payload (is_id s) (is_seq s + 1) c = Some p" by blast
    then have w1: "cn_sent w1 = cn_sent w @ [p]"
      using o by (simp add: chunk_frame_def chunk_payload_def q)
    have s1: "is_seq s1 = is_seq s + (if accepted r then 1 else 0)" "is_id s1 = is_id s"
      using o by (simp_all add: q)
    obtain k where k: "k \<le> length css" "k < length css \<longrightarrow> \<not> is_open s'"
      "is_seq s' = is_seq s1 + n_accepted rs1"
      "map Some (cn_sent w') = map Some (cn_sent w1) @
        map (\<lambda>i. chunk_payload (is_id s1) (is_seq s1 + 1 + n_accepted (take i rs1)) (css ! i)) [0..<k]"
      using Cons.IH [OF rest(1)] Cons.prems(2-4) s1 by (auto split: if_splits)
    have "map (\<lambda>i. chunk_payload (is_id s) (is_seq s + 1 + n_accepted (take i rs)) ((c # css) ! i)) [0..<Suc k] =
        Some p # map (\<lambda>i. chunk_payload (is_id s1) (is_seq s1 + 1 + n_accepted (take i rs1)) (css ! i)) [0..<k]"
      unfolding upt_conv_Cons [OF zero_less_Suc] using p s1 rest(2)
      by (auto simp: map_Suc_upt [symmetric] add_ac simp del: upt_Suc)
    with k w1 s1 rest(2) show ?thesis by (intro exI [of _ "Suc k"]) simp
  qed
qed

text \<open>
  C4: over any run of chunks, each frame written carries the next sequence number: one more than
  the number the session started from and the chunks accepted since, so the numbers of accepted
  chunks are contiguous and a refused chunk's number is used again. Frames stop only because the
  session closed, and the session's counter counts exactly the accepted chunks.
\<close>

theorem chunk_sequence:
  assumes "run_ops (send_chunk lk) css (s, w) = (rs, s', w')"
    and "0 \<le> is_seq s" and "is_seq s + int (length css) \<le> max_int64"
    and "\<forall>c \<in> set css. \<forall>q. chunk_payload (is_id s) q c \<noteq> None"
  shows "\<exists>k \<le> length css. (k < length css \<longrightarrow> \<not> is_open s') \<and> is_seq s' = is_seq s + n_accepted rs \<and>
    map Some (cn_sent w') = map Some (cn_sent w) @
      map (\<lambda>i. chunk_payload (is_id s) (is_seq s + 1 + n_accepted (take i rs)) (css ! i)) [0..<k]"
  by (rule run_chunks [OF assms])

section \<open>Refusals\<close>

text \<open>An error frame as the server writes it.\<close>

definition error_doc :: "bytes \<Rightarrow> bytes \<Rightarrow> bytes \<Rightarrow> json" where
  "error_doc sid title detail = JObj [(''result'', JStr ''error''), (''error'', JStr title),
     (''detail'', JStr detail), (''sessionId'', JStr sid)]"

lemma as_error_doc:
  assumes "valid_utf8 sid" and "valid_utf8 title" and "valid_utf8 detail"
  shows "as_error own (encode html (error_doc sid title detail)) =
    Some \<lparr>ie_session = (if sid = [] then own else sid), ie_title = title, ie_detail = detail,
          ie_exception = [], ie_ended = ends_session title detail\<rparr>"
proof -
  have "json_parse (encode html (error_doc sid title detail)) = Some (error_doc sid title detail)"
    using json_parse_encode [of "error_doc sid title detail" html] coerce_json_id [of "error_doc sid title detail"] assms
    by (simp add: error_doc_def valid_utf8_ascii byte_def)
  then show ?thesis
    by (simp add: as_error_def unmarshal_struct_def error_doc_def str_field_def error_frame_fields_def
        field_vals_exact decode_field_single into_string_def)
qed

text \<open>
  C30: a chunk answered with an error frame is that error, and the frame's title and detail decide
  what is left: a refusal changes nothing of the session, which stays open with its sequence number
  unspent, while an error that ends the session (expired, security, internal, not found or closed)
  closes it and drops the connection.
\<close>

theorem chunk_refusal:
  assumes "is_open s" and "marshal (GMap (chunk_frame s records)) = Some payload"
    and "ln_write lk LinkCaller payload (cn_rest w) = (None, x)"
    and "ln_wait lk LinkCaller x = (Frame (encode html (error_doc sid title detail)), x')"
    and "valid_utf8 sid" and "valid_utf8 title" and "valid_utf8 detail"
  shows "\<exists>e. send_chunk lk records (s, w) =
      (Inl (EInsertSession e), s\<lparr>is_open := \<not> ends_session title detail\<rparr>,
       w\<lparr>cn_sent := cn_sent w @ [payload], cn_rest := x', cn_aborted := cn_aborted w \<or> ends_session title detail\<rparr>) \<and>
    ie_title e = title \<and> ie_detail e = detail \<and> ie_ended e = ends_session title detail"
  using assms
  by (auto simp: send_chunk_def Let_def exchange_def decode_answer_def as_error_doc abort_def)

text \<open>
  Close leaves the session closed and the connection dropped; it writes one rollback frame if
  the session was open and none otherwise, and calling it again changes nothing.
\<close>

theorem close_idempotent:
  "case close_session lk (s, w) of (s', w') \<Rightarrow>
     \<not> is_open s' \<and> cn_aborted w' \<and> close_session lk (s', w') = (s', w') \<and>
     cn_sent w' = cn_sent w @
       (if is_open s then case marshal (GMap (finish_frame s ''rollback'')) of None \<Rightarrow> [] | Some p \<Rightarrow> [p] else [])"
proof -
  obtain r s1 w1 where e: "exchange lk LinkBackground (GMap (finish_frame s ''rollback'')) ''committed'' decode_result (s, w)
      = (r, s1, w1)" by (metis surj_pair)
  show ?thesis
    using exchange_session [OF e] by (auto simp: close_session_def finish_session_def abort_def e)
qed

text \<open>
  Asked to join a transaction, the driver connects only on a handle that is inside one and with
  no other transaction mode; otherwise it reports the mistake with nothing dialled and nothing sent.
  The start frame it does send names that transaction and the mode "none".
\<close>

theorem join_guard:
  assumes "check_config d c0 = r" and "ic_join c0"
  shows "(case r of
      Inl e \<Rightarrow> ic_tx_mode c0 \<notin> {[], insert_none} \<or> db_session d = [] \<and> e = ESentinel ErrNoTransactionToJoin
    | Inr c \<Rightarrow> db_session d \<noteq> [] \<and> ic_tx_mode c0 \<in> {[], insert_none} \<and>
        map_of (start_frame d c) ''transactionId'' = Some (GStr (db_session d)) \<and>
        map_of (start_options c) ''transactionMode'' = Some (GStr insert_none)) \<and>
    (\<forall>opts e. foldl apply_insert_option insert_config0 opts = c0 \<and> r = Inl e \<longrightarrow>
       open_session lk d opts w = (Inl e, w))"
  using assms
  by (auto simp: check_config_def Let_def start_frame_def start_options_def put_if_def insert_none_def
      open_session_def split: if_splits)

section \<open>A server to run against\<close>

text \<open>A link that answers every frame with the next frame of a script and then loses the connection.\<close>

definition script_link :: "bytes list link" where
  "script_link = \<lparr>ln_parse_url = (\<lambda>b. Inr (b, [])), ln_dial = (\<lambda>u h x. Inr x),
     ln_write = (\<lambda>c p x. (None, x)), ln_poll = (\<lambda>x. (None, x)),
     ln_wait = (\<lambda>c x. case x of [] \<Rightarrow> (LinkClosed (ESentinel IoEOF), []) | f # fs \<Rightarrow> (Frame f, fs))\<rparr>"

definition demo_session :: insert_session where
  "demo_session = \<lparr>is_cfg = insert_config0, is_id = ''s'', is_database = ''d'', is_tx_mode = [], is_conflict = [],
     is_validate = False, is_external = [], is_seq = 0, is_open = True\<rparr>"

lemma demo_chunk: "chunk_payload i q [] \<noteq> None"
  by (simp add: chunk_payload_def marshal_def)


theorem chunk_sequence_witness:
  "\<exists>k \<le> 2. length (cn_sent (snd (snd (run_ops (send_chunk script_link) [[], []]
     (demo_session, \<lparr>cn_sent = [], cn_aborted = False, cn_rest = []\<rparr>))))) = k"
proof -
  obtain rs s' w' where r: "run_ops (send_chunk script_link) [[], []]
      (demo_session, \<lparr>cn_sent = [], cn_aborted = False, cn_rest = []\<rparr>) = (rs, s', w')" by (metis surj_pair)
  have "\<exists>k \<le> length [[], [] :: gomap option list]. (k < length [[], [] :: gomap option list] \<longrightarrow> \<not> is_open s') \<and>
      is_seq s' = is_seq demo_session + n_accepted rs \<and>
      map Some (cn_sent w') = map Some (cn_sent \<lparr>cn_sent = [], cn_aborted = False, cn_rest = [] :: bytes list\<rparr>) @
        map (\<lambda>i. chunk_payload (is_id demo_session) (is_seq demo_session + 1 + n_accepted (take i rs)) ([[], []] ! i)) [0..<k]"
    by (rule chunk_sequence [OF r]) (auto simp: demo_session_def max_int64_def demo_chunk)
  then obtain k where "k \<le> 2" and eq: "map Some (cn_sent w') =
      map (\<lambda>i. chunk_payload (is_id demo_session) (is_seq demo_session + 1 + n_accepted (take i rs)) ([[], []] ! i)) [0..<k]"
    by (auto simp: numeral_2_eq_2)
  have "length (cn_sent w') = k" using arg_cong [OF eq, of length] by simp
  with r \<open>k \<le> 2\<close> show ?thesis by auto
qed

theorem chunk_refusal_witness:
  "\<exists>e sw. send_chunk script_link [] (demo_session, \<lparr>cn_sent = [], cn_aborted = False,
       cn_rest = [encode True (error_doc [] ''Insert session error'' ''too many rows'')]\<rparr>) =
     (Inl (EInsertSession e), sw) \<and> is_open (fst sw) \<and> ie_title e = ''Insert session error''"
proof -
  let ?f = "encode True (error_doc [] ''Insert session error'' ''too many rows'')"
  obtain p where p: "marshal (GMap (chunk_frame demo_session [])) = Some p"
    using demo_chunk [of "''s''" 1] by (auto simp: chunk_payload_def chunk_frame_def demo_session_def wrap64_def)
  have e: "\<not> ends_session ''Insert session error'' ''too many rows''"
    by (simp add: ends_session_def expired_title_def has_prefix_def)
  have v: "valid_utf8 []" "valid_utf8 ''Insert session error''" "valid_utf8 ''too many rows''"
    by (simp_all add: valid_utf8_ascii byte_def)
  have "is_open demo_session" by (simp add: demo_session_def)
  from chunk_refusal [OF this p, of script_link "\<lparr>cn_sent = [], cn_aborted = False, cn_rest = [?f]\<rparr>" "[?f]" True
      "[]" "''Insert session error''" "''too many rows''" "[]"] e v
  show ?thesis by (auto simp: script_link_def demo_session_def)
qed

theorem join_guard_witness:
  "check_config (server_db \<lparr>sv_base_url = [], sv_headers = []\<rparr> ''d'') (insert_config0\<lparr>ic_join := True\<rparr>)
     = Inl (ESentinel ErrNoTransactionToJoin)"
  using join_guard [of "server_db \<lparr>sv_base_url = [], sv_headers = []\<rparr> ''d''" "insert_config0\<lparr>ic_join := True\<rparr>" _
      script_link "\<lparr>cn_sent = [], cn_aborted = False, cn_rest = []\<rparr>", OF refl]
  by (auto simp: insert_config0_def server_db_def split: sum.splits)

end
