(* ===== verification/Read_Loop.thy ===== *)
theory Read_Loop
  imports Insert_Session
begin

text \<open>
  The goroutine of \<open>insertsession.go\<close> that reads the connection (\<open>readLoop\<close>), the channel it feeds,
  and the owner of the session who takes from it, as a step relation over all interleavings.
\<close>

datatype message_type = MessageText | MessageBinary

text \<open>Where the goroutine is: before a read, before the put of a frame it has read, or gone.\<close>

datatype reader_phase = Reading | Putting bytes | Stopped

record read_state =
  rl_incoming :: "(message_type \<times> bytes) list"
  rl_conn_err :: go_error
  rl_phase :: reader_phase
  rl_chan :: "bytes list"
  rl_closed :: bool
  rl_read_err :: "go_error option"
  rl_cancelled :: bool
  rl_taken :: "bytes list"

definition chan_size :: nat where "chan_size = 8"

text \<open>
  A step of the goroutine (a read of a text frame, of another frame, of the end of the connection,
  a read ended by the cancelled context, a put, a put given up), or of the owner (taking a frame,
  dropping the connection).
\<close>

inductive read_step :: "read_state \<Rightarrow> read_state \<Rightarrow> bool" where
  read_text: "rl_phase s = Reading \<Longrightarrow> rl_incoming s = (MessageText, d) # ms \<Longrightarrow>
     read_step s (s\<lparr>rl_incoming := ms, rl_phase := Putting d\<rparr>)"
| read_other: "rl_phase s = Reading \<Longrightarrow> rl_incoming s = (MessageBinary, d) # ms \<Longrightarrow>
     read_step s (s\<lparr>rl_incoming := ms\<rparr>)"
| read_end: "rl_phase s = Reading \<Longrightarrow> rl_incoming s = [] \<Longrightarrow>
     read_step s (s\<lparr>rl_phase := Stopped, rl_closed := True, rl_read_err := Some (rl_conn_err s)\<rparr>)"
| read_cancelled: "rl_phase s = Reading \<Longrightarrow> rl_cancelled s \<Longrightarrow>
     read_step s (s\<lparr>rl_phase := Stopped, rl_closed := True, rl_read_err := Some (ESentinel CtxCanceled)\<rparr>)"
| put: "rl_phase s = Putting d \<Longrightarrow> length (rl_chan s) < chan_size \<Longrightarrow>
     read_step s (s\<lparr>rl_phase := Reading, rl_chan := rl_chan s @ [d]\<rparr>)"
| put_cancelled: "rl_phase s = Putting d \<Longrightarrow> rl_cancelled s \<Longrightarrow>
     read_step s (s\<lparr>rl_phase := Stopped, rl_closed := True, rl_read_err := Some (ESentinel CtxCanceled)\<rparr>)"
| take_frame: "rl_chan s = d # ds \<Longrightarrow>
     read_step s (s\<lparr>rl_chan := ds, rl_taken := rl_taken s @ [d]\<rparr>)"
| drop_conn: "read_step s (s\<lparr>rl_cancelled := True\<rparr>)"

inductive_cases read_stepE: "read_step s t"

text \<open>The loop as it is started, on a connection that will deliver the given messages and end.\<close>

definition read_start :: "(message_type \<times> bytes) list \<Rightarrow> go_error \<Rightarrow> read_state" where
  "read_start ms e = \<lparr>rl_incoming = ms, rl_conn_err = e, rl_phase = Reading, rl_chan = [], rl_closed = False,
     rl_read_err = None, rl_cancelled = False, rl_taken = []\<rparr>"

definition texts :: "(message_type \<times> bytes) list \<Rightarrow> bytes list" where
  "texts ms = map snd (filter (\<lambda>m. fst m = MessageText) ms)"

fun in_hand :: "reader_phase \<Rightarrow> bytes list" where
  "in_hand (Putting d) = [d]"
| "in_hand _ = []"

text \<open>
  The invariant: the channel is within its capacity, it is closed exactly when the goroutine is
  gone and then says why, and what the owner took, the channel and the hand are, in order, what has
  been read; only a dropped connection loses a frame.
\<close>

definition read_inv :: "(message_type \<times> bytes) list \<Rightarrow> go_error \<Rightarrow> read_state \<Rightarrow> bool" where
  "read_inv ms e s \<longleftrightarrow>
     length (rl_chan s) \<le> chan_size \<and>
     (rl_closed s \<longleftrightarrow> rl_phase s = Stopped) \<and> (rl_closed s \<longleftrightarrow> rl_read_err s \<noteq> None) \<and>
     rl_conn_err s = e \<and>
     (\<exists>lost. rl_taken s @ rl_chan s @ in_hand (rl_phase s) @ lost @ texts (rl_incoming s) = texts ms \<and>
        (lost \<noteq> [] \<longrightarrow> rl_cancelled s \<and> rl_closed s)) \<and>
     (rl_closed s \<and> \<not> rl_cancelled s \<longrightarrow> rl_incoming s = [] \<and> rl_read_err s = Some e)"

lemma texts_Cons: "texts ((t, d) # ms) = (if t = MessageText then d # texts ms else texts ms)"
  by (simp add: texts_def)

lemma read_inv_start: "read_inv ms e (read_start ms e)"
  by (simp add: read_inv_def read_start_def)

lemma read_inv_step: "read_step s t \<Longrightarrow> read_inv ms e s \<Longrightarrow> read_inv ms e t"
proof (induction rule: read_step.induct)
  case (put_cancelled s d)
  then obtain lost where l: "rl_taken s @ rl_chan s @ [d] @ lost @ texts (rl_incoming s) = texts ms"
    by (auto simp: read_inv_def)
  show ?case
    using put_cancelled l unfolding read_inv_def
    by (auto intro!: exI [of _ "d # lost"])
qed (auto simp: read_inv_def texts_Cons)

lemma read_inv_reachable: "read_step\<^sup>*\<^sup>* (read_start ms e) s \<Longrightarrow> read_inv ms e s"
  by (induction rule: rtranclp_induct) (auto intro: read_inv_start read_inv_step)

text \<open>
  C23: in every interleaving the owner takes text frames in the order the server sent them, none
  twice and none skipped; the channel never holds more than eight; and once it is closed and empty
  on a connection the session did not drop, the owner has had every text frame and finds the
  connection's own error.
\<close>

theorem read_loop_order:
  assumes "read_step\<^sup>*\<^sup>* (read_start ms e) s"
  shows "length (rl_chan s) \<le> chan_size \<and> rl_taken s @ rl_chan s = take (length (rl_taken s @ rl_chan s)) (texts ms) \<and>
    (rl_closed s \<and> rl_chan s = [] \<and> \<not> rl_cancelled s \<longrightarrow> rl_taken s = texts ms \<and> rl_read_err s = Some e)"
proof -
  have inv: "read_inv ms e s" by (rule read_inv_reachable [OF assms])
  then obtain lost where l: "rl_taken s @ rl_chan s @ in_hand (rl_phase s) @ lost @ texts (rl_incoming s) = texts ms"
    "lost \<noteq> [] \<longrightarrow> rl_cancelled s \<and> rl_closed s" by (auto simp: read_inv_def)
  have "take (length (rl_taken s @ rl_chan s)) (texts ms) = rl_taken s @ rl_chan s"
    by (subst l(1) [symmetric]) simp
  moreover have "rl_closed s \<and> rl_chan s = [] \<and> \<not> rl_cancelled s \<Longrightarrow> rl_taken s = texts ms"
    using l inv by (auto simp: read_inv_def texts_def)
  ultimately show ?thesis using inv by (auto simp: read_inv_def)
qed

theorem read_loop_order_witness:
  "\<exists>s. read_step\<^sup>*\<^sup>* (read_start [(MessageBinary, ''x''), (MessageText, ''a'')] (ESentinel IoEOF)) s \<and>
     rl_taken s = [''a'']"
proof -
  let ?e = "ESentinel IoEOF"
  let ?s0 = "read_start [(MessageBinary, ''x''), (MessageText, ''a'')] ?e"
  let ?s1 = "?s0\<lparr>rl_incoming := [(MessageText, ''a'')]\<rparr>"
  let ?s2 = "?s1\<lparr>rl_incoming := [], rl_phase := Putting ''a''\<rparr>"
  let ?s3 = "?s2\<lparr>rl_phase := Reading, rl_chan := rl_chan ?s2 @ [''a'']\<rparr>"
  let ?s4 = "?s3\<lparr>rl_chan := [], rl_taken := rl_taken ?s3 @ [''a'']\<rparr>"
  have "read_step ?s0 ?s1" by (rule read_other) (simp_all add: read_start_def)
  moreover have "read_step ?s1 ?s2" by (rule read_text) (simp_all add: read_start_def)
  moreover have "read_step ?s2 ?s3" by (rule put) (simp_all add: read_start_def chan_size_def)
  moreover have "read_step ?s3 ?s4" by (rule take_frame) (simp add: read_start_def)
  ultimately have r: "read_step\<^sup>*\<^sup>* ?s0 ?s4" by (meson converse_rtranclp_into_rtranclp rtranclp.rtrancl_refl)
  have "length (rl_taken ?s4) = 1" by (simp add: read_start_def)
  with read_loop_order [OF r] have "rl_taken ?s4 = [''a'']"
    by (simp add: read_start_def texts_def)
  with r show ?thesis by blast
qed

end
