(* ===== verification/Models_Data.thy ===== *)
theory Models_Data
  imports Go_Roundtrip
begin

text \<open>
  The models of \<open>client.gen.go\<close> that carry data: batches, queries, searches, time series, Prometheus and
  Grafana documents, and what the server commands answer.
  Each is the Go type as \<open>encoding/json\<close> sees it; an enum is a string.
\<close>

definition batch_edge_line_model :: go_type where
  "batch_edge_line_model = GTOpen
     [(''@class'', False, GTStr),
      (''@from'', False, GTStr),
      (''@to'', False, GTStr),
      (''@type'', False, GTStr)] GTAny"

definition batch_error_model :: go_type where
  "batch_error_model = GTStruct
     [(''bytesRead'', False, GTInt),
      (''edgesCreated'', False, GTInt),
      (''error'', False, GTStr),
      (''exception'', True, GTPtr GTStr),
      (''linesRead'', False, GTInt),
      (''linesSkipped'', False, GTInt),
      (''partialCommit'', False, GTBool),
      (''requestId'', True, GTPtr GTStr),
      (''verticesCreated'', False, GTInt),
      (''verticesWithoutId'', True, GTPtr GTInt)]"

definition batch_response_model :: go_type where
  "batch_response_model = GTStruct
     [(''bytesRead'', False, GTInt),
      (''edgesCreated'', False, GTInt),
      (''elapsedMs'', False, GTInt),
      (''idMapping'', True, GTPtr (GTMap GTStr)),
      (''idMappingOmitted'', True, GTPtr GTBool),
      (''idMappingSize'', True, GTPtr GTInt),
      (''linesRead'', False, GTInt),
      (''linesSkipped'', False, GTInt),
      (''verticesCreated'', False, GTInt),
      (''verticesWithoutId'', True, GTPtr GTInt)]"

definition batch_vertex_line_model :: go_type where
  "batch_vertex_line_model = GTOpen
     [(''@class'', False, GTStr),
      (''@id'', True, GTPtr GTStr),
      (''@type'', False, GTStr)] GTAny"

definition begin_request_model :: go_type where
  "begin_request_model = GTStruct
     [(''isolationLevel'', True, GTPtr GTStr)]"

definition command_request_model :: go_type where
  "command_request_model = GTStruct
     [(''command'', False, GTStr),
      (''language'', False, GTStr),
      (''limit'', True, GTPtr GTInt),
      (''params'', True, GTPtr (GTMap GTAny)),
      (''wait'', True, GTPtr GTInt)]"

definition error_response_model :: go_type where
  "error_response_model = GTStruct
     [(''detail'', True, GTPtr GTStr),
      (''error'', False, GTStr),
      (''exception'', True, GTPtr GTStr),
      (''exceptionArgs'', True, GTPtr GTStr),
      (''help'', True, GTPtr GTStr)]"

definition full_text_search_request_model :: go_type where
  "full_text_search_request_model = GTStruct
     [(''indexName'', True, GTPtr GTStr),
      (''limit'', True, GTPtr GTInt),
      (''properties'', True, GTPtr (GTSlice GTStr)),
      (''queryText'', False, GTStr),
      (''typeName'', True, GTPtr GTStr)]"

definition full_text_search_response_model :: go_type where
  "full_text_search_response_model = GTStruct
     [(''count'', False, GTInt),
      (''indexName'', False, GTStr),
      (''results'', False, GTSlice (GTStruct
       [(''distance'', True, GTPtr GTFloat32),
        (''properties'', False, GTMap GTAny),
        (''rid'', False, GTStr),
        (''score'', True, GTPtr GTFloat32)])),
      (''similarity'', False, GTStr)]"

definition grafana_health_model :: go_type where
  "grafana_health_model = GTStruct
     [(''database'', False, GTStr),
      (''status'', False, GTStr)]"

definition grafana_metadata_model :: go_type where
  "grafana_metadata_model = GTStruct
     [(''aggregationTypes'', False, GTSlice GTStr),
      (''types'', False, GTSlice (GTStruct
       [(''fields'', False, GTSlice (GTStruct
         [(''dataType'', False, GTStr),
          (''name'', False, GTStr)])),
        (''name'', False, GTStr),
        (''tags'', False, GTSlice (GTStruct
         [(''dataType'', False, GTStr),
          (''name'', False, GTStr)]))]))]"

definition grafana_query_request_model :: go_type where
  "grafana_query_request_model = GTStruct
     [(''from'', True, GTPtr GTInt),
      (''maxDataPoints'', True, GTPtr GTInt),
      (''targets'', False, GTSlice (GTStruct
       [(''aggregation'', True, GTPtr (GTStruct
         [(''bucketInterval'', True, GTPtr GTInt),
          (''bucketOrigin'', True, GTPtr GTInt),
          (''requests'', False, GTSlice (GTStruct
           [(''alias'', True, GTPtr GTStr),
            (''field'', False, GTStr),
            (''type'', False, GTStr)]))])),
        (''fields'', True, GTPtr (GTSlice GTStr)),
        (''refId'', True, GTPtr GTStr),
        (''tags'', True, GTPtr (GTMap GTStr)),
        (''type'', False, GTStr)])),
      (''to'', True, GTPtr GTInt)]"

definition grafana_query_response_model :: go_type where
  "grafana_query_response_model = GTStruct
     [(''results'', False, GTMap (GTStruct
       [(''error'', True, GTPtr GTStr),
        (''frames'', False, GTSlice (GTStruct
         [(''data'', False, GTStruct
           [(''values'', False, GTSlice (GTSlice GTAny))]),
          (''schema'', False, GTStruct
           [(''fields'', False, GTSlice (GTStruct
             [(''name'', False, GTStr),
              (''type'', False, GTStr)]))])]))]))]"

definition hybrid_search_request_model :: go_type where
  "hybrid_search_request_model = GTStruct
     [(''efSearch'', True, GTPtr GTInt),
      (''expand'', True, GTPtr (GTStruct
       [(''direction'', True, GTPtr GTStr),
        (''edgeTypes'', True, GTPtr (GTSlice GTStr)),
        (''maxDepth'', True, GTPtr GTInt)])),
      (''filter'', True, GTPtr GTStr),
      (''fulltextIndexName'', True, GTPtr GTStr),
      (''fulltextQuery'', True, GTPtr GTStr),
      (''fusionStrategy'', True, GTPtr GTStr),
      (''k'', True, GTPtr GTInt),
      (''queryIndices'', True, GTPtr (GTSlice GTInt)),
      (''queryVector'', False, GTSlice GTFloat32),
      (''sparse'', True, GTPtr GTBool),
      (''vectorIndexName'', False, GTStr),
      (''weights'', True, GTPtr (GTStruct
       [(''expand'', True, GTPtr GTFloat32),
        (''fulltext'', True, GTPtr GTFloat32),
        (''vector'', True, GTPtr GTFloat32)]))]"

definition hybrid_search_response_model :: go_type where
  "hybrid_search_response_model = GTStruct
     [(''count'', False, GTInt),
      (''fulltextIndexName'', True, GTPtr GTStr),
      (''fused'', False, GTBool),
      (''fusionStrategy'', True, GTPtr GTStr),
      (''legs'', False, GTStruct
       [(''expand'', True, GTPtr (GTStruct
         [(''count'', False, GTInt),
          (''direction'', False, GTStr),
          (''edgeTypes'', False, GTSlice GTStr),
          (''maxDepth'', False, GTInt),
          (''seedCount'', False, GTInt),
          (''seedsTruncated'', False, GTBool),
          (''truncated'', False, GTBool)])),
        (''fulltext'', True, GTPtr (GTStruct
         [(''count'', False, GTInt),
          (''indexName'', False, GTStr),
          (''similarity'', False, GTStr)])),
        (''vector'', False, GTStruct
         [(''count'', False, GTInt)])]),
      (''results'', False, GTSlice (GTStruct
       [(''depth'', True, GTPtr GTInt),
        (''distance'', True, GTPtr GTFloat32),
        (''fusedScore'', True, GTPtr GTFloat32),
        (''path'', True, GTPtr (GTSlice GTStr)),
        (''properties'', False, GTMap GTAny),
        (''rid'', False, GTStr),
        (''score'', True, GTPtr GTFloat32),
        (''sources'', False, GTSlice GTStr)])),
      (''scoring'', False, GTStr),
      (''sparse'', False, GTBool),
      (''truncated'', False, GTBool),
      (''vectorIndexName'', False, GTStr)]"

definition nd_json_batch_event_model :: go_type where
  "nd_json_batch_event_model = GTStruct
     [(''error'', True, GTPtr (GTStruct
       [(''commitIndex'', True, GTPtr GTInt),
        (''exceptionArgs'', True, GTPtr GTStr),
        (''retryAfter'', True, GTPtr GTInt),
        (''status'', True, GTPtr GTInt)])),
      (''progress'', True, GTPtr (GTStruct
       [(''bytesRead'', True, GTPtr GTInt),
        (''edgesCreated'', True, GTPtr GTInt),
        (''idMapping'', True, GTPtr (GTMap GTStr)),
        (''linesRead'', True, GTPtr GTInt),
        (''linesSkipped'', True, GTPtr GTInt),
        (''phase'', True, GTPtr GTStr),
        (''verticesCreated'', True, GTPtr GTInt),
        (''verticesWithoutId'', True, GTPtr GTInt)])),
      (''summary'', True, GTPtr (GTStruct
       [(''commitIndex'', True, GTPtr GTInt),
        (''idMappingSize'', True, GTPtr GTInt),
        (''idMappingStreamed'', True, GTPtr GTBool)]))]"

definition nd_json_query_event_model :: go_type where
  "nd_json_query_event_model = GTStruct
     [(''error'', True, GTPtr (GTStruct
       [(''detail'', True, GTPtr GTStr),
        (''error'', True, GTPtr GTStr),
        (''exception'', True, GTPtr GTStr),
        (''exceptionArgs'', True, GTPtr GTStr),
        (''message'', False, GTStr),
        (''requestId'', True, GTPtr GTStr),
        (''retryAfter'', True, GTPtr GTInt),
        (''status'', False, GTInt)])),
      (''record'', True, GTPtr (GTMap GTAny)),
      (''stats'', True, GTPtr (GTStruct
       [(''limit'', True, GTPtr GTInt),
        (''returned'', True, GTPtr GTInt),
        (''truncated'', True, GTPtr GTBool)]))]"

definition progress_response_model :: go_type where
  "progress_response_model = GTStruct
     [(''result'', False, GTSlice (GTStruct
       [(''database'', False, GTStr),
        (''done'', False, GTInt),
        (''elapsedMs'', False, GTInt),
        (''id'', False, GTInt),
        (''operation'', False, GTStr),
        (''percentage'', False, GTInt),
        (''startedOn'', False, GTInt),
        (''stepIndex'', False, GTInt),
        (''stepName'', False, GTStr),
        (''total'', False, GTInt),
        (''totalSteps'', False, GTInt)]))]"

definition promql_data_response_model :: go_type where
  "promql_data_response_model = GTStruct
     [(''data'', False, GTStruct
       [(''result'', False, GTRaw),
        (''resultType'', False, GTStr)]),
      (''status'', False, GTStr)]"

definition promql_data_response_data_result0_model :: go_type where
  "promql_data_response_data_result0_model = GTSlice (GTStruct
     [(''metric'', False, GTMap GTStr),
      (''value'', False, GTSlice GTAny)])"

definition promql_data_response_data_result1_model :: go_type where
  "promql_data_response_data_result1_model = GTSlice (GTStruct
     [(''metric'', False, GTMap GTStr),
      (''values'', False, GTSlice (GTSlice GTAny))])"

definition promql_data_response_data_result2_model :: go_type where
  "promql_data_response_data_result2_model = GTSlice GTAny"

definition promql_error_response_model :: go_type where
  "promql_error_response_model = GTStruct
     [(''error'', False, GTStr),
      (''errorType'', False, GTStr),
      (''status'', False, GTStr)]"

definition promql_labels_response_model :: go_type where
  "promql_labels_response_model = GTStruct
     [(''data'', False, GTSlice GTStr),
      (''status'', False, GTStr)]"

definition promql_series_response_model :: go_type where
  "promql_series_response_model = GTStruct
     [(''data'', False, GTSlice (GTMap GTStr)),
      (''status'', False, GTStr)]"

definition query_request_model :: go_type where
  "query_request_model = GTStruct
     [(''command'', False, GTStr),
      (''language'', True, GTPtr GTStr),
      (''limit'', True, GTPtr GTInt),
      (''params'', True, GTPtr (GTMap GTAny)),
      (''serializer'', True, GTPtr GTStr)]"

definition query_response_model :: go_type where
  "query_response_model = GTStruct
     [(''explain'', True, GTPtr GTStr),
      (''explainPlan'', True, GTPtr (GTMap GTAny)),
      (''limit'', False, GTInt),
      (''result'', True, GTPtr GTRaw),
      (''returned'', False, GTInt),
      (''truncated'', False, GTBool)]"

definition query_response_result0_model :: go_type where
  "query_response_result0_model = GTSlice (GTMap GTAny)"

definition query_response_result1_model :: go_type where
  "query_response_result1_model = GTStruct
     [(''edges'', False, GTSlice (GTMap GTAny)),
      (''records'', True, GTPtr (GTSlice (GTMap GTAny))),
      (''vertices'', False, GTSlice (GTMap GTAny))]"

definition running_query_model :: go_type where
  "running_query_model = GTStruct
     [(''clientAddress'', True, GTPtr GTStr),
      (''connectionId'', True, GTPtr GTStr),
      (''database'', False, GTStr),
      (''elapsedMs'', False, GTInt),
      (''forwardedFrom'', True, GTPtr GTStr),
      (''forwardedTo'', True, GTPtr GTStr),
      (''id'', False, GTStr),
      (''language'', False, GTStr),
      (''protocol'', False, GTStr),
      (''server'', False, GTStr),
      (''sessionId'', True, GTPtr GTStr),
      (''startedAt'', False, GTInt),
      (''tag'', True, GTPtr GTStr),
      (''terminatedBy'', True, GTPtr GTStr),
      (''terminating'', False, GTBool),
      (''text'', False, GTStr),
      (''user'', False, GTStr)]"

definition server_command_response_model :: go_type where
  "server_command_response_model = GTStruct
     [(''result'', False, GTRaw)]"

definition server_command_response_result1_model :: go_type where
  "server_command_response_result1_model = GTSlice GTStr"

definition server_command_response_result2_model :: go_type where
  "server_command_response_result2_model = GTSlice running_query_model"

definition transaction_session_model :: go_type where
  "transaction_session_model = GTStruct
     [(''busy'', False, GTBool),
      (''database'', False, GTStr),
      (''id'', False, GTStr),
      (''idleMs'', False, GTInt),
      (''runningQueries'', False, GTSlice GTStr),
      (''server'', False, GTStr),
      (''tag'', True, GTPtr GTStr),
      (''user'', False, GTStr)]"

definition server_command_response_result3_model :: go_type where
  "server_command_response_result3_model = GTSlice transaction_session_model"

definition termination_status_model :: go_type where
  "termination_status_model = GTStruct
     [(''id'', False, GTStr),
      (''sessionId'', True, GTPtr GTStr),
      (''sessionOpen'', True, GTPtr GTBool),
      (''status'', False, GTStr)]"

definition server_command_response_result5_model :: go_type where
  "server_command_response_result5_model = GTSlice termination_status_model"

definition server_command_response_result6_model :: go_type where
  "server_command_response_result6_model = GTMap GTAny"

definition time_series_aggregated_response_model :: go_type where
  "time_series_aggregated_response_model = GTStruct
     [(''aggregations'', False, GTSlice GTStr),
      (''buckets'', False, GTSlice (GTStruct
       [(''timestamp'', False, GTInt),
        (''values'', False, GTSlice GTAny)])),
      (''count'', False, GTInt),
      (''type'', False, GTStr)]"

definition time_series_latest_response_model :: go_type where
  "time_series_latest_response_model = GTStruct
     [(''columns'', False, GTSlice GTStr),
      (''latest'', False, GTPtr (GTSlice GTAny)),
      (''type'', False, GTStr)]"

definition time_series_query_request_model :: go_type where
  "time_series_query_request_model = GTStruct
     [(''aggregation'', True, GTPtr (GTStruct
       [(''bucketInterval'', False, GTInt),
        (''bucketOrigin'', True, GTPtr GTInt),
        (''requests'', False, GTSlice (GTStruct
         [(''alias'', True, GTPtr GTStr),
          (''field'', False, GTStr),
          (''type'', False, GTStr)]))])),
      (''fields'', True, GTPtr (GTSlice GTStr)),
      (''from'', True, GTPtr GTInt),
      (''limit'', True, GTPtr GTInt),
      (''tags'', True, GTPtr (GTMap GTStr)),
      (''to'', True, GTPtr GTInt),
      (''type'', False, GTStr)]"

definition time_series_raw_response_model :: go_type where
  "time_series_raw_response_model = GTStruct
     [(''columns'', False, GTSlice GTStr),
      (''count'', False, GTInt),
      (''rows'', False, GTSlice (GTSlice GTAny)),
      (''type'', False, GTStr)]"

definition time_series_write_error_model :: go_type where
  "time_series_write_error_model = GTStruct
     [(''dropped'', False, GTInt),
      (''error'', False, GTStr),
      (''nonTimeSeriesTypes'', True, GTPtr (GTSlice GTStr)),
      (''requestId'', True, GTPtr GTStr),
      (''unavailableTypes'', True, GTPtr (GTSlice GTStr)),
      (''undeclaredKeys'', True, GTPtr (GTSlice GTStr)),
      (''unknownTypes'', True, GTPtr (GTSlice GTStr)),
      (''unreadableValues'', True, GTPtr (GTSlice GTStr)),
      (''written'', False, GTInt)]"

definition vector_search_request_model :: go_type where
  "vector_search_request_model = GTStruct
     [(''efSearch'', True, GTPtr GTInt),
      (''filter'', True, GTPtr GTStr),
      (''indexName'', False, GTStr),
      (''k'', True, GTPtr GTInt),
      (''queryIndices'', True, GTPtr (GTSlice GTInt)),
      (''queryVector'', False, GTSlice GTFloat32),
      (''sparse'', True, GTPtr GTBool)]"

definition vector_search_response_model :: go_type where
  "vector_search_response_model = GTStruct
     [(''candidateLimit'', False, GTInt),
      (''count'', False, GTInt),
      (''indexName'', False, GTStr),
      (''results'', False, GTSlice (GTStruct
       [(''distance'', True, GTPtr GTFloat32),
        (''properties'', False, GTMap GTAny),
        (''rid'', False, GTStr),
        (''score'', True, GTPtr GTFloat32)])),
      (''scoring'', False, GTStr),
      (''sparse'', False, GTBool),
      (''truncated'', False, GTBool)]"

definition verify_database_cluster_result_model :: go_type where
  "verify_database_cluster_result_model = GTStruct
     [(''database'', False, GTStr),
      (''files'', False, GTSlice (GTStruct
       [(''checksum'', False, GTInt),
        (''name'', False, GTStr),
        (''size'', False, GTInt),
        (''type'', False, GTStr)])),
      (''incompleteSealedStores'', True, GTPtr GTBool),
      (''localChecksums'', False, GTMap GTInt),
      (''localPeerId'', False, GTStr),
      (''localServer'', False, GTStr),
      (''overallStatus'', False, GTStr),
      (''peers'', False, GTSlice (GTStruct
       [(''error'', True, GTPtr GTStr),
        (''httpAddress'', False, GTStr),
        (''matchingFiles'', True, GTPtr GTInt),
        (''mismatchedFiles'', True, GTPtr GTInt),
        (''mismatches'', True, GTPtr (GTSlice (GTStruct
         [(''file'', False, GTStr),
          (''localChecksum'', False, GTInt),
          (''remoteChecksum'', False, GTStr),
          (''type'', False, GTStr)]))),
        (''peerId'', False, GTStr),
        (''status'', False, GTStr)]))]"

definition verify_database_cluster_response_model :: go_type where
  "verify_database_cluster_response_model = GTStruct
     [(''result'', False, verify_database_cluster_result_model)]"

definition verify_database_local_response_model :: go_type where
  "verify_database_local_response_model = GTStruct
     [(''files'', False, GTSlice (GTStruct
       [(''checksum'', False, GTInt),
        (''name'', False, GTStr),
        (''size'', False, GTInt),
        (''type'', False, GTStr)])),
      (''localChecksums'', False, GTMap GTInt),
      (''localServer'', False, GTStr),
      (''sealedStoresComplete'', True, GTPtr GTBool),
      (''sealedStoresIncluded'', False, GTBool)]"

text \<open>All of them, by the names of the source, and that the generator kept its rules in each.\<close>

definition data_models :: "(bytes \<times> go_type) list" where
  "data_models =
    [(''BatchEdgeLine'', batch_edge_line_model),
     (''BatchError'', batch_error_model),
     (''BatchResponse'', batch_response_model),
     (''BatchVertexLine'', batch_vertex_line_model),
     (''BeginRequest'', begin_request_model),
     (''CommandRequest'', command_request_model),
     (''ErrorResponse'', error_response_model),
     (''FullTextSearchRequest'', full_text_search_request_model),
     (''FullTextSearchResponse'', full_text_search_response_model),
     (''GrafanaHealth'', grafana_health_model),
     (''GrafanaMetadata'', grafana_metadata_model),
     (''GrafanaQueryRequest'', grafana_query_request_model),
     (''GrafanaQueryResponse'', grafana_query_response_model),
     (''HybridSearchRequest'', hybrid_search_request_model),
     (''HybridSearchResponse'', hybrid_search_response_model),
     (''NdJsonBatchEvent'', nd_json_batch_event_model),
     (''NdJsonQueryEvent'', nd_json_query_event_model),
     (''ProgressResponse'', progress_response_model),
     (''PromQLDataResponse'', promql_data_response_model),
     (''PromQLDataResponseDataResult0'', promql_data_response_data_result0_model),
     (''PromQLDataResponseDataResult1'', promql_data_response_data_result1_model),
     (''PromQLDataResponseDataResult2'', promql_data_response_data_result2_model),
     (''PromQLErrorResponse'', promql_error_response_model),
     (''PromQLLabelsResponse'', promql_labels_response_model),
     (''PromQLSeriesResponse'', promql_series_response_model),
     (''QueryRequest'', query_request_model),
     (''QueryResponse'', query_response_model),
     (''QueryResponseResult0'', query_response_result0_model),
     (''QueryResponseResult1'', query_response_result1_model),
     (''RunningQuery'', running_query_model),
     (''ServerCommandResponse'', server_command_response_model),
     (''ServerCommandResponseResult1'', server_command_response_result1_model),
     (''ServerCommandResponseResult2'', server_command_response_result2_model),
     (''TransactionSession'', transaction_session_model),
     (''ServerCommandResponseResult3'', server_command_response_result3_model),
     (''TerminationStatus'', termination_status_model),
     (''ServerCommandResponseResult5'', server_command_response_result5_model),
     (''ServerCommandResponseResult6'', server_command_response_result6_model),
     (''TimeSeriesAggregatedResponse'', time_series_aggregated_response_model),
     (''TimeSeriesLatestResponse'', time_series_latest_response_model),
     (''TimeSeriesQueryRequest'', time_series_query_request_model),
     (''TimeSeriesRawResponse'', time_series_raw_response_model),
     (''TimeSeriesWriteError'', time_series_write_error_model),
     (''VectorSearchRequest'', vector_search_request_model),
     (''VectorSearchResponse'', vector_search_response_model),
     (''VerifyDatabaseClusterResult'', verify_database_cluster_result_model),
     (''VerifyDatabaseClusterResponse'', verify_database_cluster_response_model),
     (''VerifyDatabaseLocalResponse'', verify_database_local_response_model)]"

lemma data_models_ok: "list_all (\<lambda>(n, t). schema_ok t) data_models"
  by (simp add: data_models_def ascii_name_def byte_def omit_safe_def
      batch_edge_line_model_def batch_error_model_def batch_response_model_def batch_vertex_line_model_def
      begin_request_model_def command_request_model_def error_response_model_def
      full_text_search_request_model_def full_text_search_response_model_def grafana_health_model_def
      grafana_metadata_model_def grafana_query_request_model_def grafana_query_response_model_def
      hybrid_search_request_model_def hybrid_search_response_model_def nd_json_batch_event_model_def
      nd_json_query_event_model_def progress_response_model_def promql_data_response_model_def
      promql_data_response_data_result0_model_def promql_data_response_data_result1_model_def
      promql_data_response_data_result2_model_def promql_error_response_model_def
      promql_labels_response_model_def promql_series_response_model_def query_request_model_def
      query_response_model_def query_response_result0_model_def query_response_result1_model_def
      running_query_model_def server_command_response_model_def server_command_response_result1_model_def
      server_command_response_result2_model_def transaction_session_model_def
      server_command_response_result3_model_def termination_status_model_def
      server_command_response_result5_model_def server_command_response_result6_model_def
      time_series_aggregated_response_model_def time_series_latest_response_model_def
      time_series_query_request_model_def time_series_raw_response_model_def
      time_series_write_error_model_def vector_search_request_model_def vector_search_response_model_def
      verify_database_cluster_result_model_def verify_database_cluster_response_model_def
      verify_database_local_response_model_def)

end
