(* ===== verification/Namespaces.thy ===== *)
theory Namespaces
  imports Http_Transaction Models_Data
begin

text \<open>
  The namespaces of a database: time series (\<open>go/arcadedb/timeseries.go\<close>), vector search
  (\<open>vector.go\<close>), PromQL (\<open>promql.go\<close>) and Grafana (\<open>dashboards.go\<close>). Each namespace is the
  database it was obtained from. The typed calls encode a generated request and decode a generated
  response by their models, and return it whole; \<open>ft\<close> is the text a float is printed as.
\<close>

section \<open>Time series\<close>

text \<open>The elements of a member that are strings, in order; no list when it is no array.\<close>

definition strs_of :: "members \<Rightarrow> bytes \<Rightarrow> bytes list" where
  "strs_of parsed key =
     (case map_get parsed key of
        Some (JArr items) \<Rightarrow> concat (map (\<lambda>it. case it of JStr s \<Rightarrow> [s] | _ \<Rightarrow> []) items)
      | _ \<Rightarrow> [])"

definition time_series_write_error :: "int \<Rightarrow> arcade_error \<Rightarrow> bytes \<Rightarrow> go_error option" where
  "time_series_write_error ind base body =
     (case unmarshal_map body of
        Some (Some parsed) \<Rightarrow> Some (ETimeSeriesWrite base
          \<lparr>ts_written = fst (json_non_negative ind (map_get parsed ''written'')),
           ts_dropped = fst (json_non_negative ind (map_get parsed ''dropped'')),
           ts_unknown_types = strs_of parsed ''unknownTypes'',
           ts_non_ts_types = strs_of parsed ''nonTimeSeriesTypes'',
           ts_unavailable_types = strs_of parsed ''unavailableTypes'',
           ts_undeclared_keys = strs_of parsed ''undeclaredKeys''\<rparr>)
      | _ \<Rightarrow> None)"

definition ts_write ::
  "int \<Rightarrow> 'w net \<Rightarrow> database \<Rightarrow> ctx \<Rightarrow> bytes \<Rightarrow> bytes \<Rightarrow> 'w world \<Rightarrow> go_error option \<times> 'w world" where
  "ts_write ind net d ctx line_protocol precision w =
     (case client_call net (db_srv d) ctx [] (write_time_series_request (db_name d)
           (if precision \<noteq> [] then Some precision else None) (session_param d) None ''text/plain'' line_protocol) w of
        (Inl e, w') \<Rightarrow> (Some e, w')
      | (Inr resp, w') \<Rightarrow>
          (if is_success (resp_status resp) then None
           else let base = error_from_headers (resp_status resp) (resp_body resp) (resp_header resp)
             in if resp_status resp \<noteq> 400 then Some (EArcade base)
                else (case time_series_write_error ind base (resp_body resp) of
                        Some e \<Rightarrow> Some e | None \<Rightarrow> Some (EArcade base)), w'))"

definition ts_query ::
  "'w net \<Rightarrow> database \<Rightarrow> ctx \<Rightarrow> gomap option \<Rightarrow> 'w world \<Rightarrow> (go_error + members option) \<times> 'w world" where
  "ts_query net d ctx body w =
     (case marshal (goval_of_map body) of
        None \<Rightarrow> (Inl json_error, w)
      | Some payload \<Rightarrow>
          (case client_call net (db_srv d) ctx [] (query_time_series_request (db_name d) (session_param d) None
               ''application/json'' payload) w of (r, w') \<Rightarrow> (decode_map r, w')))"

definition ts_latest ::
  "'w net \<Rightarrow> database \<Rightarrow> ctx \<Rightarrow> bytes \<Rightarrow> bytes \<Rightarrow> 'w world \<Rightarrow> (go_error + members option) \<times> 'w world" where
  "ts_latest net d ctx series tag w =
     (case client_call net (db_srv d) ctx [] (get_time_series_latest_request (db_name d) series
         (if tag \<noteq> [] then [tag] else []) (session_param d)) w of (r, w') \<Rightarrow> (decode_map r, w'))"

section \<open>Grafana\<close>

definition grafana_query ::
  "'w net \<Rightarrow> database \<Rightarrow> ctx \<Rightarrow> gomap option \<Rightarrow> 'w world \<Rightarrow> (go_error + members option) \<times> 'w world" where
  "grafana_query net d ctx body w =
     (case marshal (goval_of_map body) of
        None \<Rightarrow> (Inl json_error, w)
      | Some payload \<Rightarrow>
          (case client_call net (db_srv d) ctx [] (query_grafana_request (db_name d) (session_param d) None
               ''application/json'' payload) w of (r, w') \<Rightarrow> (decode_map r, w')))"

section \<open>Typed calls\<close>

text \<open>What the typed methods have in common: call, check, decode the whole response.\<close>

definition typed_call ::
  "(bytes \<Rightarrow> 'r option) \<Rightarrow> ((bytes \<Rightarrow> 'r option) \<Rightarrow> 'r responses) \<Rightarrow> 'w net \<Rightarrow> database \<Rightarrow> ctx \<Rightarrow> op_params
     \<Rightarrow> 'w world \<Rightarrow> (go_error + 'r) \<times> 'w world" where
  "typed_call dec rs net d ctx op w =
     on_result (\<lambda>p. non_empty (decoded dec p)) (call_checked net (db_srv d) ctx [] (rs dec) op w)"

text \<open>A typed call with a body, which the generated client encodes first.\<close>

definition typed_post ::
  "(bytes \<Rightarrow> 'r option) \<Rightarrow> ((bytes \<Rightarrow> 'r option) \<Rightarrow> 'r responses) \<Rightarrow> 'w net \<Rightarrow> database \<Rightarrow> ctx
     \<Rightarrow> (bytes \<Rightarrow> op_params) \<Rightarrow> json option \<Rightarrow> 'w world \<Rightarrow> (go_error + 'r) \<times> 'w world" where
  "typed_post dec rs net d ctx op body w =
     (case body of
        None \<Rightarrow> (Inl json_error, w)
      | Some j \<Rightarrow> typed_call dec rs net d ctx (op (encode True j)) w)"

definition vector_search ::
  "float_text \<Rightarrow> 'w net \<Rightarrow> database \<Rightarrow> ctx \<Rightarrow> gv \<Rightarrow> 'w world \<Rightarrow> (go_error + gv) \<times> 'w world" where
  "vector_search ft net d ctx req = typed_post (unmarshal_type vector_search_response_model) vector_search_responses net d ctx
     (vector_search_request (db_name d) (session_param d) None ''application/json'') (to_json ft vector_search_request_model req)"

definition vector_hybrid ::
  "float_text \<Rightarrow> 'w net \<Rightarrow> database \<Rightarrow> ctx \<Rightarrow> gv \<Rightarrow> 'w world \<Rightarrow> (go_error + gv) \<times> 'w world" where
  "vector_hybrid ft net d ctx req = typed_post (unmarshal_type hybrid_search_response_model) hybrid_search_responses net d ctx
     (hybrid_search_request (db_name d) (session_param d) None ''application/json'') (to_json ft hybrid_search_request_model req)"

definition vector_fulltext ::
  "float_text \<Rightarrow> 'w net \<Rightarrow> database \<Rightarrow> ctx \<Rightarrow> gv \<Rightarrow> 'w world \<Rightarrow> (go_error + gv) \<times> 'w world" where
  "vector_fulltext ft net d ctx req = typed_post (unmarshal_type full_text_search_response_model) full_text_search_responses net d ctx
     (full_text_search_request (db_name d) (session_param d) None ''application/json'') (to_json ft full_text_search_request_model req)"

section \<open>PromQL\<close>

record promql_query_params =
  pq_query :: bytes
  pq_time :: "bytes option"
  pq_lookback_delta :: "bytes option"
  pq_session :: "bytes option"

record promql_range_params =
  pg_query :: bytes
  pg_start :: bytes
  pg_end :: bytes
  pg_step :: bytes
  pg_lookback_delta :: "bytes option"
  pg_session :: "bytes option"

record promql_label_params =
  pl_start :: "bytes option"
  pl_end :: "bytes option"
  pl_session :: "bytes option"

record promql_series_params =
  pe_match :: "bytes list"
  pe_start :: "bytes option"
  pe_end :: "bytes option"
  pe_session :: "bytes option"

text \<open>A session id the caller set is left alone.\<close>

definition promql_session :: "database \<Rightarrow> bytes option \<Rightarrow> bytes option" where
  "promql_session d own = (case own of Some s \<Rightarrow> Some s | None \<Rightarrow> session_param d)"

definition promql_query ::
  "'w net \<Rightarrow> database \<Rightarrow> ctx \<Rightarrow> promql_query_params \<Rightarrow> 'w world \<Rightarrow> (go_error + gv) \<times> 'w world" where
  "promql_query net d ctx p = typed_call (unmarshal_type promql_data_response_model) promql_query_responses net d ctx
     (promql_query_request (db_name d) (pq_query p) (pq_time p) (pq_lookback_delta p) (promql_session d (pq_session p)))"

definition promql_query_range ::
  "'w net \<Rightarrow> database \<Rightarrow> ctx \<Rightarrow> promql_range_params \<Rightarrow> 'w world \<Rightarrow> (go_error + gv) \<times> 'w world" where
  "promql_query_range net d ctx p = typed_call (unmarshal_type promql_data_response_model) promql_query_range_responses net d ctx
     (promql_query_range_request (db_name d) (pg_query p) (pg_start p) (pg_end p) (pg_step p) (pg_lookback_delta p)
       (promql_session d (pg_session p)))"

definition promql_labels ::
  "'w net \<Rightarrow> database \<Rightarrow> ctx \<Rightarrow> 'w world \<Rightarrow> (go_error + gv) \<times> 'w world" where
  "promql_labels net d ctx = typed_call (unmarshal_type promql_labels_response_model) promql_labels_responses net d ctx
     (promql_labels_request (db_name d) (session_param d))"

definition promql_label_values ::
  "'w net \<Rightarrow> database \<Rightarrow> ctx \<Rightarrow> bytes \<Rightarrow> promql_label_params \<Rightarrow> 'w world \<Rightarrow> (go_error + gv) \<times> 'w world" where
  "promql_label_values net d ctx label p = typed_call (unmarshal_type promql_labels_response_model) promql_label_values_responses net d ctx
     (promql_label_values_request (db_name d) label (pl_start p) (pl_end p) (promql_session d (pl_session p)))"

definition promql_series ::
  "'w net \<Rightarrow> database \<Rightarrow> ctx \<Rightarrow> promql_series_params \<Rightarrow> 'w world \<Rightarrow> (go_error + gv) \<times> 'w world" where
  "promql_series net d ctx p = typed_call (unmarshal_type promql_series_response_model) promql_series_responses net d ctx
     (promql_series_request (db_name d) (pe_match p) (pe_start p) (pe_end p) (promql_session d (pe_session p)))"

section \<open>What the caller may rely on\<close>

text \<open>
  C37: an answered write is nil exactly on a 2xx; any other answer is an error that \<open>errors.As\<close>
  matches as the answer's \<open>*ArcadeDBError\<close>, and a 400 whose body is an object additionally carries
  the server's report: the counts and, of each list, the strings in order.
\<close>

theorem ts_write_outcome:
  assumes "client_call net (db_srv d) ctx [] (write_time_series_request (db_name d)
      (if precision \<noteq> [] then Some precision else None) (session_param d) None ''text/plain'' samples) w = (Inr resp, w')"
  shows "snd (ts_write ind net d ctx samples precision w) = w' \<and>
    (case fst (ts_write ind net d ctx samples precision w) of
       None \<Rightarrow> is_success (resp_status resp)
     | Some e \<Rightarrow> \<not> is_success (resp_status resp) \<and> as_arcade e = Some (error_from_response resp) \<and>
        (\<forall>kvs html. resp_status resp = 400 \<and> resp_body resp = encode html (JObj kvs) \<and>
           nums_ok (JObj kvs) \<and> strs_ok (JObj kvs) \<and> floats_ok (JObj kvs) \<longrightarrow>
           (\<exists>report. e = ETimeSeriesWrite (error_from_response resp) report \<and>
              (\<forall>n < 2 ^ 53. map_get kvs ''written'' = Some (JNum (dec_of_nat n)) \<longrightarrow> ts_written report = int n) \<and>
              (\<forall>n < 2 ^ 53. map_get kvs ''dropped'' = Some (JNum (dec_of_nat n)) \<longrightarrow> ts_dropped report = int n) \<and>
              (\<forall>xs. map_get kvs ''unknownTypes'' = Some (JArr (map JStr xs)) \<longrightarrow> ts_unknown_types report = xs) \<and>
              (\<forall>xs. map_get kvs ''nonTimeSeriesTypes'' = Some (JArr (map JStr xs)) \<longrightarrow> ts_non_ts_types report = xs) \<and>
              (\<forall>xs. map_get kvs ''unavailableTypes'' = Some (JArr (map JStr xs)) \<longrightarrow> ts_unavailable_types report = xs) \<and>
              (\<forall>xs. map_get kvs ''undeclaredKeys'' = Some (JArr (map JStr xs)) \<longrightarrow> ts_undeclared_keys report = xs))))"
proof -
  have u: "unmarshal_map (encode html (JObj kvs)) = Some (Some kvs)"
    if "nums_ok (JObj kvs)" "strs_ok (JObj kvs)" "floats_ok (JObj kvs)" for kvs html
    using that json_parse_encode [of "JObj kvs" html] coerce_json_id [of "JObj kvs"]
    by (simp add: unmarshal_map_def del: encode.simps nums_ok.simps strs_ok.simps)
  have strs: "map_get kvs k = Some (JArr (map JStr xs)) \<Longrightarrow> strs_of kvs k = xs" for kvs k xs
    by (simp add: strs_of_def comp_def)
  show ?thesis
    using u strs in_band_of_decimal
    by (auto simp: ts_write_def assms Let_def time_series_write_error_def error_from_response_def
        simp del: encode.simps nums_ok.simps strs_ok.simps floats_ok.simps split: option.split)
qed

text \<open>
  An operation that names a session first: its request carries it, whatever follows.
\<close>

definition names_session :: "bytes \<Rightarrow> op_params \<Rightarrow> bool" where
  "names_session sid op \<longleftrightarrow> (\<exists>after. op_header op = (session_header, Some sid) # after \<and>
     list_all (\<lambda>kv. fst kv \<in> {''Accept'', ''X-Request-Id''}) after)"

lemma names_session_built:
  assumes "names_session sid op" and "headers_ok (sv_headers sv)"
    and "map_of (sv_headers sv) (canonical_key session_header) = None" and "rq \<in> set (built net sv [] op)"
  shows "hdr_get (rq_header rq) session_header = net_style net sid"
proof -
  have "canonical_key ''Accept'' \<noteq> canonical_key session_header"
    "canonical_key ''X-Request-Id'' \<noteq> canonical_key session_header"
    by code_simp+
  with assms(1) obtain after where "op_header op = [] @ (session_header, Some sid) # after"
    "\<forall>(k', v) \<in> set after. canonical_key k' \<noteq> canonical_key session_header"
    by (fastforce simp: names_session_def list_all_iff)
  from built_header [OF assms(2,3) this assms(4)] show ?thesis .
qed

lemma named_operations:
  "names_session s (write_time_series_request db pr (Some s) None ct b)"
  "names_session s (query_time_series_request db (Some s) None ct b)"
  "names_session s (get_time_series_latest_request db series tags (Some s))"
  "names_session s (query_grafana_request db (Some s) None ct b)"
  "names_session s (vector_search_request db (Some s) None ct b)"
  "names_session s (hybrid_search_request db (Some s) None ct b)"
  "names_session s (full_text_search_request db (Some s) None ct b)"
  "names_session s (promql_query_request db e t l (Some s))"
  "names_session s (promql_query_range_request db e r0 r1 step l (Some s))"
  "names_session s (promql_labels_request db (Some s))"
  "names_session s (promql_label_values_request db label st en (Some s))"
  "names_session s (promql_series_request db ms st en (Some s))"
  by (simp_all add: names_session_def session_header_def write_time_series_request_def
      query_time_series_request_def get_time_series_latest_request_def query_grafana_request_def
      vector_search_request_def hybrid_search_request_def full_text_search_request_def promql_query_request_def
      promql_query_range_request_def promql_labels_request_def promql_label_values_request_def
      promql_series_request_def)

text \<open>What a call adds to the transport is the request of one operation that names the session, or nothing.\<close>

definition sends_named :: "'w net \<Rightarrow> server \<Rightarrow> bytes \<Rightarrow> 'w world \<Rightarrow> 'w world \<Rightarrow> bool" where
  "sends_named net sv sid w w' \<longleftrightarrow>
     (\<exists>op. names_session sid op \<and> (w_sent w' = w_sent w \<or> w_sent w' = w_sent w @ built net sv [] op))"

lemma sends_named_calls:
  assumes "names_session sid op"
  shows "sends_named net sv sid w (snd (client_call net sv ctx [] op w))"
    and "db_srv d = sv \<Longrightarrow> sends_named net sv sid w (snd (typed_call dec rs net d ctx op w))"
  using assms
  by (auto simp: sends_named_def client_call_trace call_checked_trace typed_call_def on_result_def case_prod_beta)

lemma sends_named_refl: "names_session sid op \<Longrightarrow> sends_named net sv sid w w"
  by (auto simp: sends_named_def)

lemma namespace_named:
  assumes "session_param d = Some sid"
  shows "sends_named net (db_srv d) sid w (snd (ts_write ind net d ctx samples precision w))"
    and "sends_named net (db_srv d) sid w (snd (ts_query net d ctx body w))"
    and "sends_named net (db_srv d) sid w (snd (ts_latest net d ctx series tag w))"
    and "sends_named net (db_srv d) sid w (snd (grafana_query net d ctx body w))"
    and "sends_named net (db_srv d) sid w (snd (vector_search ft net d ctx req w))"
    and "sends_named net (db_srv d) sid w (snd (vector_hybrid ft net d ctx req w))"
    and "sends_named net (db_srv d) sid w (snd (vector_fulltext ft net d ctx req w))"
    and "sends_named net (db_srv d) sid w (snd (promql_labels net d ctx w))"
proof -
  have "snd (ts_write ind net d ctx samples precision w) = snd (client_call net (db_srv d) ctx []
      (write_time_series_request (db_name d) (if precision \<noteq> [] then Some precision else None)
        (session_param d) None ''text/plain'' samples) w)"
    by (auto simp: ts_write_def split: prod.split sum.split)
  then show "sends_named net (db_srv d) sid w (snd (ts_write ind net d ctx samples precision w))"
    using assms by (simp add: sends_named_calls named_operations)
  show "sends_named net (db_srv d) sid w (snd (ts_query net d ctx body w))"
    using assms sends_named_refl [OF named_operations(2)]
    by (auto simp: ts_query_def case_prod_beta sends_named_calls named_operations split: option.split)
  show "sends_named net (db_srv d) sid w (snd (grafana_query net d ctx body w))"
    using assms sends_named_refl [OF named_operations(4)]
    by (auto simp: grafana_query_def case_prod_beta sends_named_calls named_operations split: option.split)
  show "sends_named net (db_srv d) sid w (snd (ts_latest net d ctx series tag w))"
    using assms by (simp add: ts_latest_def case_prod_beta sends_named_calls named_operations)
  show "sends_named net (db_srv d) sid w (snd (vector_search ft net d ctx req w))"
    and "sends_named net (db_srv d) sid w (snd (vector_hybrid ft net d ctx req w))"
    and "sends_named net (db_srv d) sid w (snd (vector_fulltext ft net d ctx req w))"
    using assms sends_named_refl [OF named_operations(5)]
    by (auto simp: vector_search_def vector_hybrid_def vector_fulltext_def typed_post_def sends_named_calls
        named_operations split: option.split)
  show "sends_named net (db_srv d) sid w (snd (promql_labels net d ctx w))"
    using assms by (simp add: promql_labels_def sends_named_calls named_operations)
qed

lemma promql_named:
  "promql_session d (pq_session pq) = Some s \<Longrightarrow> sends_named net (db_srv d) s w (snd (promql_query net d ctx pq w))"
  "promql_session d (pg_session pg) = Some s \<Longrightarrow> sends_named net (db_srv d) s w (snd (promql_query_range net d ctx pg w))"
  "promql_session d (pl_session pl) = Some s \<Longrightarrow> sends_named net (db_srv d) s w (snd (promql_label_values net d ctx label pl w))"
  "promql_session d (pe_session pe) = Some s \<Longrightarrow> sends_named net (db_srv d) s w (snd (promql_series net d ctx pe w))"
  by (simp_all add: promql_query_def promql_query_range_def promql_label_values_def promql_series_def
      sends_named_calls named_operations)

text \<open>
  Every namespace call made through a transaction's handle names the transaction's session, so
  that reads see what the transaction wrote; only a PromQL call whose parameters name a session of
  their own keeps that one.
\<close>

theorem namespace_calls_in_session:
  assumes sv: "headers_ok (sv_headers (db_srv d))"
      "map_of (sv_headers (db_srv d)) (canonical_key session_header) = None"
    and sid: "db_session d \<noteq> []"
    and call: "w' \<in> {snd (ts_write ind net d ctx samples precision w), snd (ts_query net d ctx body w),
        snd (ts_latest net d ctx series tag w), snd (grafana_query net d ctx body w),
        snd (vector_search ft net d ctx req w), snd (vector_hybrid ft net d ctx req w),
        snd (vector_fulltext ft net d ctx req w), snd (promql_labels net d ctx w)} \<and> own = None \<or>
      w' = snd (promql_query net d ctx pq w) \<and> own = pq_session pq \<or>
      w' = snd (promql_query_range net d ctx pg w) \<and> own = pg_session pg \<or>
      w' = snd (promql_label_values net d ctx label pl w) \<and> own = pl_session pl \<or>
      w' = snd (promql_series net d ctx pe w) \<and> own = pe_session pe"
    and rq: "rq \<in> set (drop (length (w_sent w)) (w_sent w'))"
  shows "hdr_get (rq_header rq) session_header =
    net_style net (case own of None \<Rightarrow> db_session d | Some s \<Rightarrow> s)"
proof -
  let ?s = "case own of None \<Rightarrow> db_session d | Some s \<Rightarrow> s"
  have p: "session_param d = Some (db_session d)" using sid by (simp add: session_param_def)
  then have q: "promql_session d own = Some ?s" by (simp add: promql_session_def split: option.split)
  have "sends_named net (db_srv d) ?s w w'"
    using call namespace_named [OF p] promql_named q by (auto simp: promql_session_def)
  then obtain op where "names_session ?s op" "rq \<in> set (built net (db_srv d) [] op)"
    using rq by (auto simp: sends_named_def)
  then show ?thesis using names_session_built [OF _ sv] by blast
qed

lemma namespace_calls_in_session_witness:
  "map (\<lambda>rq. hdr_get (rq_header rq) session_header)
     (w_sent (snd (ts_latest demo_net (tx_handle tx_db ''AS-1'') CtxCaller ''cpu'' [] world0))) = [''AS-1'']"
proof -
  let ?d = "tx_handle tx_db ''AS-1''"
  let ?w' = "snd (ts_latest demo_net ?d CtxCaller ''cpu'' [] world0)"
  obtain rq where rq: "w_sent ?w' = [rq]"
    by (auto simp: ts_latest_def case_prod_beta client_call_trace ctx_done_def built_def new_request_def demo_net_def
        world0_def)
  have sv: "headers_ok (sv_headers (db_srv ?d))" "map_of (sv_headers (db_srv ?d)) (canonical_key session_header) = None"
    and sid: "db_session ?d \<noteq> []"
    by (simp_all add: tx_handle_def tx_db_def server_db_def headers_ok_def)
  have "hdr_get (rq_header rq) session_header = net_style demo_net ''AS-1''"
    using namespace_calls_in_session [where d = ?d and w' = ?w' and net = demo_net and ctx = CtxCaller and w = world0
        and own = None and series = "''cpu''" and tag = "[]" and rq = rq, OF sv sid] rq
    by (auto simp: tx_handle_def world0_def)
  with rq show ?thesis by (simp add: demo_net_def)
qed

definition rejected_write :: http_resp where
  "rejected_write = \<lparr>resp_status = 400, resp_header = [],
     resp_body = encode False (JObj [(''written'', JNum (dec_of_nat 2)), (''unknownTypes'', JArr [JStr ''cpu''])]),
     resp_read_err = None\<rparr>"

definition rejecting_net :: "unit net" where
  "rejecting_net = demo_net\<lparr>net_send := \<lambda>r w. (Inr rejected_write, w)\<rparr>"

lemma ts_write_outcome_witness:
  "\<exists>report. fst (ts_write 0 rejecting_net tx_db CtxCaller ''cpu v=1'' [] world0) =
      Some (ETimeSeriesWrite (error_from_response rejected_write) report) \<and>
    ts_written report = 2 \<and> ts_unknown_types report = [''cpu'']"
proof -
  let ?kvs = "[(''written'', JNum (dec_of_nat 2)), (''unknownTypes'', JArr [JStr ''cpu''])]"
  let ?r = "ts_write 0 rejecting_net tx_db CtxCaller ''cpu v=1'' [] world0"
  obtain w' where c: "client_call rejecting_net (db_srv tx_db) CtxCaller [] (write_time_series_request (db_name tx_db)
      (if [] \<noteq> ([] :: bytes) then Some [] else None) (session_param tx_db) None ''text/plain'' ''cpu v=1'') world0 =
      (Inr rejected_write, w')"
    by (simp add: client_call_def new_request_def rejecting_net_def demo_net_def do_request_def ctx_done_def)
  have fail: "\<not> is_success (resp_status rejected_write)" by (simp add: rejected_write_def is_success_def)
  obtain k where "float_of_lit (dec_of_nat 2) = Some (int 2 * 2 ^ k, - int k)"
    using float_of_dec [of 2] by auto
  moreover have "scan_num (dec_of_nat 2) = Some (dec_of_nat 2)"
    using scan_num_dec_of_int [of 2] by (simp add: dec_of_int_def)
  ultimately have body: "resp_body rejected_write = encode False (JObj ?kvs)" "nums_ok (JObj ?kvs)" "strs_ok (JObj ?kvs)"
    "floats_ok (JObj ?kvs)"
    by (simp_all add: rejected_write_def valid_utf8_ascii byte_def)
  from ts_write_outcome [OF c, of 0] fail obtain e where e: "fst ?r = Some e"
    by (auto split: option.splits)
  have st: "resp_status rejected_write = 400" by (simp add: rejected_write_def)
  have get: "map_get ?kvs ''written'' = Some (JNum (dec_of_nat 2))"
    "map_get ?kvs ''unknownTypes'' = Some (JArr (map JStr [''cpu'']))"
    by (simp_all add: map_get_def)
  have all: "\<forall>kvs html. resp_status rejected_write = 400 \<and> resp_body rejected_write = encode html (JObj kvs) \<and>
      nums_ok (JObj kvs) \<and> strs_ok (JObj kvs) \<and> floats_ok (JObj kvs) \<longrightarrow>
      (\<exists>report. e = ETimeSeriesWrite (error_from_response rejected_write) report \<and>
        (\<forall>n < 2 ^ 53. map_get kvs ''written'' = Some (JNum (dec_of_nat n)) \<longrightarrow> ts_written report = int n) \<and>
        (\<forall>xs. map_get kvs ''unknownTypes'' = Some (JArr (map JStr xs)) \<longrightarrow> ts_unknown_types report = xs))"
    using conjunct2 [OF ts_write_outcome [OF c, of 0]] unfolding e option.case by blast
  obtain report where r: "e = ETimeSeriesWrite (error_from_response rejected_write) report"
    and n: "\<forall>n < 2 ^ 53. map_get ?kvs ''written'' = Some (JNum (dec_of_nat n)) \<longrightarrow> ts_written report = int n"
    and xs: "\<forall>xs. map_get ?kvs ''unknownTypes'' = Some (JArr (map JStr xs)) \<longrightarrow> ts_unknown_types report = xs"
    using mp [OF spec [OF spec [OF all, of ?kvs], of False]] st body by blast
  have "(2 :: nat) < 2 ^ 53" by simp
  with n get have "ts_written report = 2" by (metis of_nat_numeral)
  moreover from xs get have "ts_unknown_types report = [''cpu'']" by metis
  ultimately have "\<exists>report. e = ETimeSeriesWrite (error_from_response rejected_write) report \<and>
      ts_written report = 2 \<and> ts_unknown_types report = [''cpu'']" using r by blast
  with e show ?thesis by auto
qed

end
