(* ===== verification/Running_Work.thy ===== *)
theory Running_Work
  imports Envelope Models_Data
begin

text \<open>
  \<open>go/arcadedb/running.go\<close>: the statements and transactions running on a server. Every method is
  one command string through \<open>POST /api/v1/server\<close>; what a value must not contain so that the
  server cannot read it as something else is checked before anything is sent.
\<close>

section \<open>Data\<close>

datatype query_status = QueryStatus bytes

record running_query =
  rq_id :: bytes
  rq_database :: bytes
  rq_user :: bytes
  rq_protocol :: bytes
  rq_language :: bytes
  rq_text :: bytes
  rq_started_at :: int
  rq_elapsed_ms :: int
  rq_terminating :: bool
  rq_session_id :: bytes
  rq_tag :: bytes
  rq_client_address :: bytes
  rq_server :: bytes

record terminate_result =
  te_id :: bytes
  te_status :: query_status
  te_session_id :: bytes
  te_session_open :: "bool option"

record open_transaction =
  ot_id :: bytes
  ot_user :: bytes
  ot_database :: bytes
  ot_idle_ms :: int
  ot_busy :: bool
  ot_running :: "bytes list option"
  ot_server :: bytes

definition running_query_fields :: "bytes list" where
  "running_query_fields = [''id'', ''database'', ''user'', ''protocol'', ''language'', ''text'', ''startedAt'',
     ''elapsedMs'', ''terminating'', ''sessionId'', ''tag'', ''clientAddress'', ''server'']"

definition decode_running_query :: "members \<Rightarrow> running_query \<times> bool" where
  "decode_running_query kvs =
     (let str = (\<lambda>f. str_field running_query_fields kvs f []);
          num = (\<lambda>f. int_field running_query_fields kvs f 0);
          flag = bool_field running_query_fields kvs ''terminating'' False
      in (\<lparr>rq_id = fst (str ''id''), rq_database = fst (str ''database''), rq_user = fst (str ''user''),
           rq_protocol = fst (str ''protocol''), rq_language = fst (str ''language''), rq_text = fst (str ''text''),
           rq_started_at = fst (num ''startedAt''), rq_elapsed_ms = fst (num ''elapsedMs''),
           rq_terminating = fst flag, rq_session_id = fst (str ''sessionId''), rq_tag = fst (str ''tag''),
           rq_client_address = fst (str ''clientAddress''), rq_server = fst (str ''server'')\<rparr>,
          list_all (\<lambda>f. snd (str f)) [''id'', ''database'', ''user'', ''protocol'', ''language'', ''text'',
            ''sessionId'', ''tag'', ''clientAddress'', ''server''] \<and>
          snd (num ''startedAt'') \<and> snd (num ''elapsedMs'') \<and> snd flag))"

definition terminate_fields :: "bytes list" where
  "terminate_fields = [''id'', ''status'', ''sessionId'', ''sessionOpen'']"

definition decode_terminate_result :: "members \<Rightarrow> terminate_result \<times> bool" where
  "decode_terminate_result kvs =
     (let str = (\<lambda>f. str_field terminate_fields kvs f []);
          opened = decode_field (into_ptr into_bool False) None (field_vals terminate_fields kvs ''sessionOpen'')
      in (\<lparr>te_id = fst (str ''id''), te_status = QueryStatus (fst (str ''status'')),
           te_session_id = fst (str ''sessionId''), te_session_open = fst opened\<rparr>,
          snd (str ''id'') \<and> snd (str ''status'') \<and> snd (str ''sessionId'') \<and> snd opened))"

definition open_transaction_fields :: "bytes list" where
  "open_transaction_fields = [''id'', ''user'', ''database'', ''idleMs'', ''busy'', ''runningQueries'', ''server'']"

definition decode_open_transaction :: "members \<Rightarrow> open_transaction \<times> bool" where
  "decode_open_transaction kvs =
     (let str = (\<lambda>f. str_field open_transaction_fields kvs f []);
          idle = int_field open_transaction_fields kvs ''idleMs'' 0;
          busy = bool_field open_transaction_fields kvs ''busy'' False;
          running = decode_field (into_slice (into_string [])) None (field_vals open_transaction_fields kvs ''runningQueries'')
      in (\<lparr>ot_id = fst (str ''id''), ot_user = fst (str ''user''), ot_database = fst (str ''database''),
           ot_idle_ms = fst idle, ot_busy = fst busy, ot_running = fst running, ot_server = fst (str ''server'')\<rparr>,
          list_all (\<lambda>f. snd (str f)) [''id'', ''user'', ''database'', ''server''] \<and> snd idle \<and> snd busy \<and> snd running))"

section \<open>Checks\<close>

definition space_or_control :: "char \<Rightarrow> bool" where
  "space_or_control r \<longleftrightarrow> byte r \<le> 32"

definition invalid_name :: "bytes \<Rightarrow> go_error" where
  "invalid_name what = EWrap what (ESentinel ErrInvalidName)"

definition check_word :: "bytes \<Rightarrow> bytes \<Rightarrow> go_error option" where
  "check_word what v =
     (if v = [] \<or> list_ex space_or_control v then Some (invalid_name what) else None)"

definition check_tag :: "bytes \<Rightarrow> go_error option" where
  "check_tag tag = (if trim_func space_or_control tag \<noteq> tag then Some (invalid_name ''tag'') else None)"

definition query_terminated_exception :: bytes where
  "query_terminated_exception = ''com.arcadedb.exception.QueryTerminatedException''"

definition is_query_terminated :: "go_error \<Rightarrow> bool" where
  "is_query_terminated err =
     (case as_arcade err of
        None \<Rightarrow> False
      | Some ae \<Rightarrow> ae_status ae = 409 \<and> ae_exception ae = query_terminated_exception)"

section \<open>The command\<close>

text \<open>The wait in milliseconds, rounded up, with the additions on int64 as Go makes them.\<close>

definition wait_millis :: "int \<Rightarrow> int" where
  "wait_millis wait = go_div (wrap64 (wrap64 (wait + 1000000) - 1)) 1000000"

definition running_body :: "bytes \<Rightarrow> int \<Rightarrow> goval" where
  "running_body cmd wait =
     GMap ([(''command'', GStr cmd), (''language'', GStr ''sql'')] @
       (if wait > 0 then [(''wait'', GInt (wait_millis wait))] else []))"

text \<open>
  The result of the answer: \<open>out\<close> is \<open>json.Unmarshal\<close> of the \<open>result\<close> member, whose value is kept
  as parsed.
\<close>

definition running_result :: "(json \<Rightarrow> 'a option) \<Rightarrow> bytes \<Rightarrow> go_error + 'a" where
  "running_result out raw =
     (if trim_space raw = [] then Inl (ESentinel ErrEmptyBody)
      else case unmarshal_struct (\<lambda>kvs. decode_field into_raw None (field_vals [''result''] kvs ''result'')) raw of
        None \<Rightarrow> Inl json_error
      | Some r \<Rightarrow>
          (case r of
             None \<Rightarrow> Inl (ESentinel ErrEmptyBody)
           | Some v \<Rightarrow>
               if v = JNull then Inl (ESentinel ErrEmptyBody)
               else (case out v of None \<Rightarrow> Inl json_error | Some a \<Rightarrow> Inr a)))"

definition running_command ::
  "'w net \<Rightarrow> server \<Rightarrow> ctx \<Rightarrow> bytes \<Rightarrow> int \<Rightarrow> (json \<Rightarrow> 'a option) \<Rightarrow> 'w world \<Rightarrow> (go_error + 'a) \<times> 'w world" where
  "running_command net sv ctx cmd wait out w =
     (case marshal (running_body cmd wait) of
        None \<Rightarrow> (Inl json_error, w)
      | Some payload \<Rightarrow>
          on_result (\<lambda>resp. bind_res (read_checked resp) (running_result out))
            (client_call net sv ctx [] (execute_server_command_request None ''application/json'' payload) w))"

text \<open>A slice of structs, the nil slice as the empty one (\<open>nonNil\<close>).\<close>

definition slice_of :: "(members \<Rightarrow> 'a \<times> bool) \<Rightarrow> json \<Rightarrow> 'a list option" where
  "slice_of dec v =
     (case into_slice (elem_struct dec) None v of
        None \<Rightarrow> None | Some None \<Rightarrow> Some [] | Some (Some xs) \<Rightarrow> Some xs)"

section \<open>The methods\<close>

definition list_queries_command :: "bytes \<Rightarrow> bytes \<Rightarrow> go_error + bytes" where
  "list_queries_command database tag =
     (case (if database \<noteq> [] then check_word ''database name'' database else None) of
        Some e \<Rightarrow> Inl e
      | None \<Rightarrow>
          (case (if tag \<noteq> [] then check_tag tag else None) of
             Some e \<Rightarrow> Inl e
           | None \<Rightarrow> Inr (''list queries'' @ (if database \<noteq> [] then '' database '' @ database else []) @
               (if tag \<noteq> [] then '' tag '' @ tag else []))))"

definition list_queries ::
  "'w net \<Rightarrow> server \<Rightarrow> ctx \<Rightarrow> bytes \<Rightarrow> bytes \<Rightarrow> 'w world \<Rightarrow> (go_error + running_query list) \<times> 'w world" where
  "list_queries net sv ctx database tag w =
     (case list_queries_command database tag of
        Inl e \<Rightarrow> (Inl e, w)
      | Inr cmd \<Rightarrow> running_command net sv ctx cmd 0 (slice_of decode_running_query) w)"

definition terminate_query_command :: "bytes \<Rightarrow> go_error + bytes" where
  "terminate_query_command i =
     (case check_word ''query id'' i of Some e \<Rightarrow> Inl e | None \<Rightarrow> Inr (''terminate query '' @ i))"

definition terminate_query ::
  "'w net \<Rightarrow> server \<Rightarrow> ctx \<Rightarrow> bytes \<Rightarrow> int \<Rightarrow> 'w world \<Rightarrow> (go_error + terminate_result) \<times> 'w world" where
  "terminate_query net sv ctx i wait w =
     (case terminate_query_command i of
        Inl e \<Rightarrow> (Inl e, w)
      | Inr cmd \<Rightarrow> running_command net sv ctx cmd wait (elem_struct decode_terminate_result) w)"

definition terminate_by_tag_command :: "bytes \<Rightarrow> go_error + bytes" where
  "terminate_by_tag_command tag =
     (if tag = [] then Inl (invalid_name ''tag is empty'')
      else case check_tag tag of Some e \<Rightarrow> Inl e | None \<Rightarrow> Inr (''terminate queries tag '' @ tag))"

definition terminate_queries_by_tag ::
  "'w net \<Rightarrow> server \<Rightarrow> ctx \<Rightarrow> bytes \<Rightarrow> int \<Rightarrow> 'w world \<Rightarrow> (go_error + terminate_result list) \<times> 'w world" where
  "terminate_queries_by_tag net sv ctx tag wait w =
     (case terminate_by_tag_command tag of
        Inl e \<Rightarrow> (Inl e, w)
      | Inr cmd \<Rightarrow> running_command net sv ctx cmd wait (slice_of decode_terminate_result) w)"

definition list_transactions ::
  "'w net \<Rightarrow> server \<Rightarrow> ctx \<Rightarrow> 'w world \<Rightarrow> (go_error + open_transaction list) \<times> 'w world" where
  "list_transactions net sv ctx w =
     running_command net sv ctx ''list transactions'' 0 (slice_of decode_open_transaction) w"

definition terminate_transaction_command :: "bytes \<Rightarrow> go_error + bytes" where
  "terminate_transaction_command sid =
     (case check_word ''session id'' sid of Some e \<Rightarrow> Inl e | None \<Rightarrow> Inr (''terminate transaction '' @ sid))"

definition terminate_transaction ::
  "'w net \<Rightarrow> server \<Rightarrow> ctx \<Rightarrow> bytes \<Rightarrow> int \<Rightarrow> 'w world \<Rightarrow> (go_error + terminate_result) \<times> 'w world" where
  "terminate_transaction net sv ctx sid wait w =
     (case terminate_transaction_command sid of
        Inl e \<Rightarrow> (Inl e, w)
      | Inr cmd \<Rightarrow> running_command net sv ctx cmd wait (elem_struct decode_terminate_result) w)"

text \<open>The generated model is returned whole.\<close>

definition progress ::
  "'w net \<Rightarrow> database \<Rightarrow> ctx \<Rightarrow> 'w world \<Rightarrow> (go_error + gv) \<times> 'w world" where
  "progress net d ctx w =
     (let dec = unmarshal_type progress_response_model
      in on_result (\<lambda>p. non_empty (decoded dec p))
           (call_checked net (db_srv d) ctx [] (get_operation_progress_responses dec)
             (get_operation_progress_request (db_name d)) w))"

section \<open>What reaches the server\<close>

text \<open>
  C40: a positive wait is sent as whole milliseconds rounded up, so never as 0 and never more than a
  millisecond too long; except that the last 999999 nanoseconds below the largest Duration overflow
  the rounding and are sent as a negative number.
\<close>

theorem wait_millis_ceiling:
  assumes "0 < wait" and "wait \<le> max_int64"
  shows "if wait \<le> max_int64 - 999999
    then 1 \<le> wait_millis wait \<and> wait \<le> wait_millis wait * 1000000 \<and> (wait_millis wait - 1) * 1000000 < wait
    else wait_millis wait < 0"
proof (cases "wait \<le> max_int64 - 999999")
  case True
  have "wrap64 (wrap64 (wait + 1000000) - 1) = wait + 999999"
  proof (cases "wait + 1000000 \<le> max_int64")
    case True
    then show ?thesis using assms by (simp add: wrap64_id in_int64_def min_int64_def max_int64_def)
  next
    case False
    with \<open>wait \<le> max_int64 - 999999\<close> have "wait + 1000000 = max_int64 + 1" by simp
    then show ?thesis by (simp add: wrap64_def max_int64_def)
  qed
  then have "wait_millis wait = (wait + 999999) div 1000000"
    using assms by (simp add: wait_millis_def go_div_nonneg)
  moreover have "(wait + 999999) div 1000000 * 1000000 + (wait + 999999) mod 1000000 = wait + 999999"
    "(wait + 999999) mod 1000000 < 1000000" "0 \<le> (wait + 999999) mod 1000000" by simp_all
  ultimately have "1 \<le> wait_millis wait" "wait \<le> wait_millis wait * 1000000"
    "(wait_millis wait - 1) * 1000000 < wait" using assms(1) unfolding left_diff_distrib by linarith+
  with True show ?thesis by simp
next
  case False
  have "wrap64 (wait + 1000000) = wait + 1000000 - 18446744073709551616"
    using False assms wrap64_add_overflow [of "wait + 1000000"] by (simp add: max_int64_def)
  moreover have "wrap64 (wait + 1000000 - 18446744073709551616 - 1) = wait + 999999 - 18446744073709551616"
    using False assms by (simp add: wrap64_id in_int64_def min_int64_def max_int64_def)
  ultimately have "wait_millis wait = go_div (wait + 999999 - 18446744073709551616) 1000000"
    by (simp add: wait_millis_def)
  with False assms show ?thesis by (simp add: go_div_def max_int64_def)
qed

lemma wait_millis_ceiling_witness:
  "wait_millis 1500000 = 2 \<and> wait_millis max_int64 < 0"
proof
  have "1500000 \<le> max_int64 - (999999 :: int)" by (simp add: max_int64_def)
  with wait_millis_ceiling [of 1500000] have "1500000 \<le> wait_millis 1500000 * 1000000"
    "(wait_millis 1500000 - 1) * 1000000 < 1500000" by (simp_all add: max_int64_def)
  then have "1 < wait_millis 1500000" and "wait_millis 1500000 < 3" unfolding left_diff_distrib by linarith+
  then show "wait_millis 1500000 = 2" by linarith
  show "wait_millis max_int64 < 0"
    using wait_millis_ceiling [of max_int64] by (simp add: max_int64_def)
qed



lemma space_char [simp]: "space_or_control CHR '' ''"
  by (simp add: space_or_control_def byte_def)






end
