(* ===== verification/Admin.thy ===== *)
theory Admin
  imports Envelope
begin

text \<open>
  \<open>go/arcadedb/admin.go\<close>: server commands, databases, users and groups. Every user and group
  method is one request of the generated client; the acknowledgement of a change is decoded by the
  generated parser and otherwise ignored.
\<close>

section \<open>Data\<close>

text \<open>A Go map from names to slices of group names, as the caller passes it: distinct keys.\<close>

type_synonym assignments = "(bytes \<times> bytes list option) list"

record user =
  us_name :: bytes
  us_databases :: "bytes \<Rightarrow> bytes list option option"

record user_update =
  uu_password :: bytes
  uu_databases :: "assignments option"

record group_definition =
  gd_access :: "bytes list option"
  gd_read_timeout :: int
  gd_result_set_limit :: int
  gd_types :: "members option"

record save_group_request =
  sg_access :: "bytes list option"
  sg_database :: bytes
  sg_name :: bytes
  sg_read_timeout :: "int option"
  sg_result_set_limit :: "int option"
  sg_types :: "gomap option"

section \<open>Encoding and decoding\<close>

definition strings_json :: "bytes list option \<Rightarrow> json" where
  "strings_json l = (case l of None \<Rightarrow> JNull | Some xs \<Rightarrow> JArr (map JStr xs))"

definition assignments_json :: "assignments \<Rightarrow> json" where
  "assignments_json m = JObj (sort_key fst (map (\<lambda>(k, v). (k, strings_json v)) m))"

definition create_user_body :: "bytes \<Rightarrow> bytes \<Rightarrow> assignments option \<Rightarrow> json" where
  "create_user_body name password databases =
     JObj (opt_member ''databases'' (map_option assignments_json databases) @
       [(''name'', JStr name), (''password'', JStr password)])"

definition update_user_body :: "user_update \<Rightarrow> json" where
  "update_user_body u =
     JObj (opt_member ''databases'' (map_option assignments_json (uu_databases u)) @
       opt_member ''password'' (if uu_password u \<noteq> [] then Some (JStr (uu_password u)) else None))"

text \<open>The types of a group are any values, which the encoder can refuse.\<close>

definition save_group_body :: "save_group_request \<Rightarrow> json option" where
  "save_group_body g =
     (case (case sg_types g of None \<Rightarrow> Some None | Some m \<Rightarrow> map_option Some (json_of_goval (GMap m))) of
        None \<Rightarrow> None
      | Some types \<Rightarrow> Some (JObj (
          opt_member ''access'' (map_option (\<lambda>xs. JArr (map JStr xs)) (sg_access g)) @
          [(''database'', JStr (sg_database g)), (''name'', JStr (sg_name g))] @
          opt_member ''readTimeout'' (map_option (\<lambda>n. JNum (dec_of_int n)) (sg_read_timeout g)) @
          opt_member ''resultSetLimit'' (map_option (\<lambda>n. JNum (dec_of_int n)) (sg_result_set_limit g)) @
          opt_member ''types'' types)))"

definition decode_admin_result :: "bytes \<Rightarrow> bytes option" where
  "decode_admin_result = unmarshal_struct (\<lambda>kvs. str_field [''result''] kvs ''result'' [])"

text \<open>A map field with decoded values: of several members of a name the last counts.\<close>

definition into_dict ::
  "(json \<Rightarrow> 'a option) \<Rightarrow> (bytes \<Rightarrow> 'a option) option \<Rightarrow> json \<Rightarrow> (bytes \<Rightarrow> 'a option) option option" where
  "into_dict elem a v = (case v of
       JNull \<Rightarrow> Some None
     | JObj kvs \<Rightarrow> map_option
         (\<lambda>vs. Some ((case a of None \<Rightarrow> Map.empty | Some m \<Rightarrow> m) ++ map_of (rev (zip (map fst kvs) vs))))
         (all_some (map (\<lambda>(k, x). elem x) kvs))
     | _ \<Rightarrow> None)"

definition decode_user :: "members \<Rightarrow> user \<times> bool" where
  "decode_user kvs =
     (let (d, o1) = decode_field (into_dict (into_slice (into_string []) None)) None
            (field_vals [''databases'', ''name''] kvs ''databases'');
          (n, o2) = str_field [''databases'', ''name''] kvs ''name'' []
      in (\<lparr>us_name = n, us_databases = (case d of None \<Rightarrow> Map.empty | Some m \<Rightarrow> m)\<rparr>, o1 \<and> o2))"

definition decode_user_list :: "bytes \<Rightarrow> user list option" where
  "decode_user_list = unmarshal_struct (\<lambda>kvs.
     case decode_field (into_slice (elem_struct decode_user)) None (field_vals [''result''] kvs ''result'') of
       (r, ok) \<Rightarrow> (case r of None \<Rightarrow> [] | Some us \<Rightarrow> us, ok))"

definition group_fields :: "bytes list" where
  "group_fields = [''access'', ''readTimeout'', ''resultSetLimit'', ''types'']"

definition decode_group :: "members \<Rightarrow> group_definition \<times> bool" where
  "decode_group kvs =
     (let (a, o1) = decode_field (into_slice (into_string [])) None (field_vals group_fields kvs ''access'');
          (t, o2) = int_field group_fields kvs ''readTimeout'' 0;
          (l, o3) = int_field group_fields kvs ''resultSetLimit'' 0;
          (y, o4) = decode_field into_map None (field_vals group_fields kvs ''types'')
      in (\<lparr>gd_access = a, gd_read_timeout = t, gd_result_set_limit = l, gd_types = y\<rparr>, o1 \<and> o2 \<and> o3 \<and> o4))"

definition decode_database_groups :: "members \<Rightarrow> (bytes \<Rightarrow> group_definition option) option \<times> bool" where
  "decode_database_groups kvs =
     decode_field (into_dict (elem_struct decode_group)) None (field_vals [''groups''] kvs ''groups'')"

text \<open>The nested struct of a group list is decoded in place, so that later members of a name add to earlier ones.\<close>

definition decode_group_doc ::
  "members \<Rightarrow> (bytes \<Rightarrow> (bytes \<Rightarrow> group_definition option) option option) option \<times> bool" where
  "decode_group_doc kvs =
     (let (d, o1) = decode_field (into_dict (elem_struct decode_database_groups)) None
            (field_vals [''databases'', ''version''] kvs ''databases'');
          (v, o2) = int_field [''databases'', ''version''] kvs ''version'' 0
      in (d, o1 \<and> o2))"

definition decode_group_list ::
  "bytes \<Rightarrow> (bytes \<Rightarrow> (bytes \<Rightarrow> group_definition option) option option) option option" where
  "decode_group_list = unmarshal_struct (\<lambda>kvs.
     decode_field (\<lambda>a v. case v of JNull \<Rightarrow> Some a | _ \<Rightarrow> elem_struct decode_group_doc v) None
       (field_vals [''result''] kvs ''result''))"

section \<open>Commands\<close>

definition server_command ::
  "'w net \<Rightarrow> server \<Rightarrow> ctx \<Rightarrow> bytes \<Rightarrow> 'w world \<Rightarrow> (go_error + members option) \<times> 'w world" where
  "server_command net sv ctx cmd w =
     (case client_call net sv ctx [] (execute_server_command_request None ''application/json''
         (encode True (JObj [(''command'', JStr cmd), (''language'', JStr ''sql'')]))) w of
        (r, w') \<Rightarrow> (decode_map r, w'))"

definition database_command ::
  "'w net \<Rightarrow> server \<Rightarrow> ctx \<Rightarrow> bytes \<Rightarrow> bytes \<Rightarrow> 'w world \<Rightarrow> go_error option \<times> 'w world" where
  "database_command net sv ctx verb name w =
     (if name = [] \<or> trim_space name \<noteq> name then (Some (EWrap ''database name'' (ESentinel ErrInvalidName)), w)
      else case server_command net sv ctx (verb @ '' '' @ name) w of (r, w') \<Rightarrow> (res_err r, w'))"

definition create_database ::
  "'w net \<Rightarrow> server \<Rightarrow> ctx \<Rightarrow> bytes \<Rightarrow> 'w world \<Rightarrow> go_error option \<times> 'w world" where
  "create_database net sv ctx name = database_command net sv ctx ''create database'' name"

definition drop_database ::
  "'w net \<Rightarrow> server \<Rightarrow> ctx \<Rightarrow> bytes \<Rightarrow> 'w world \<Rightarrow> go_error option \<times> 'w world" where
  "drop_database net sv ctx name = database_command net sv ctx ''drop database'' name"

section \<open>Users and groups\<close>

text \<open>A change: the request, and nil or the error of the checked answer.\<close>

definition admin_call ::
  "'w net \<Rightarrow> server \<Rightarrow> ctx \<Rightarrow> bytes responses \<Rightarrow> op_params \<Rightarrow> 'w world \<Rightarrow> go_error option \<times> 'w world" where
  "admin_call net sv ctx rs op w = (case call_checked net sv ctx [] rs op w of (r, w') \<Rightarrow> (res_err r, w'))"

definition create_user ::
  "'w net \<Rightarrow> server \<Rightarrow> ctx \<Rightarrow> bytes \<Rightarrow> bytes \<Rightarrow> assignments option \<Rightarrow> 'w world \<Rightarrow> go_error option \<times> 'w world" where
  "create_user net sv ctx name password databases =
     admin_call net sv ctx (create_user_responses decode_admin_result)
       (create_user_request None ''application/json'' (encode True (create_user_body name password databases)))"

definition update_user ::
  "'w net \<Rightarrow> server \<Rightarrow> ctx \<Rightarrow> bytes \<Rightarrow> user_update \<Rightarrow> 'w world \<Rightarrow> go_error option \<times> 'w world" where
  "update_user net sv ctx name u =
     admin_call net sv ctx (update_user_responses decode_admin_result)
       (update_user_request name ''application/json'' (encode True (update_user_body u)))"

definition drop_user ::
  "'w net \<Rightarrow> server \<Rightarrow> ctx \<Rightarrow> bytes \<Rightarrow> 'w world \<Rightarrow> go_error option \<times> 'w world" where
  "drop_user net sv ctx name =
     admin_call net sv ctx (delete_user_responses decode_admin_result) (delete_user_request name)"

definition list_users ::
  "'w net \<Rightarrow> server \<Rightarrow> ctx \<Rightarrow> 'w world \<Rightarrow> (go_error + user list) \<times> 'w world" where
  "list_users net sv ctx w =
     on_result (\<lambda>p. bind_res (decoded decode_user_list p) (\<lambda>l. Inr (case l of None \<Rightarrow> [] | Some us \<Rightarrow> us)))
       (call_checked net sv ctx [] (list_users_responses decode_user_list) list_users_request w)"

text \<open>A database of the document whose groups are null stands for the nil map of groups.\<close>

definition list_groups ::
  "'w net \<Rightarrow> server \<Rightarrow> ctx \<Rightarrow> 'w world
     \<Rightarrow> (go_error + (bytes \<Rightarrow> (bytes \<Rightarrow> group_definition option) option option)) \<times> 'w world" where
  "list_groups net sv ctx w =
     on_result (\<lambda>p. bind_res (decoded decode_group_list p) (\<lambda>l.
         Inr (case l of None \<Rightarrow> Map.empty | Some None \<Rightarrow> Map.empty | Some (Some d) \<Rightarrow> d)))
       (call_checked net sv ctx [] (list_groups_responses decode_group_list) list_groups_request w)"

definition save_group ::
  "'w net \<Rightarrow> server \<Rightarrow> ctx \<Rightarrow> save_group_request \<Rightarrow> 'w world \<Rightarrow> go_error option \<times> 'w world" where
  "save_group net sv ctx g w =
     (case save_group_body g of
        None \<Rightarrow> (Some json_error, w)
      | Some body \<Rightarrow> admin_call net sv ctx (create_or_update_group_responses decode_admin_result)
          (create_or_update_group_request None ''application/json'' (encode True body)) w)"

definition delete_group ::
  "'w net \<Rightarrow> server \<Rightarrow> ctx \<Rightarrow> bytes \<Rightarrow> bytes \<Rightarrow> 'w world \<Rightarrow> go_error option \<times> 'w world" where
  "delete_group net sv ctx database name =
     admin_call net sv ctx (delete_group_responses decode_admin_result) (delete_group_request database name)"

end
