(* ===== verification/Auth_Session.thy ===== *)
theory Auth_Session
  imports Envelope "HOL-Library.Multiset"
begin

text \<open>
  \<open>go/arcadedb/session.go\<close>: login sessions and API tokens. \<open>LoginAs\<close> puts another user's
  credentials on one request; \<open>WithToken\<close> makes a second client; \<open>Logout\<close> and \<open>DeleteAPIToken\<close>
  refuse what the server would take for a success or must not see.
\<close>

section \<open>Times\<close>

text \<open>A \<open>time.Time\<close> as seconds since 1970 and nanoseconds; the zero time is the first of January of the year 1.\<close>

record go_time =
  gt_sec :: int
  gt_nsec :: int

text \<open>Times are ordered as \<open>Before\<close> orders them.\<close>

instantiation go_time_ext :: (linorder) linorder
begin

definition less_eq_go_time_ext :: "'a go_time_scheme \<Rightarrow> 'a go_time_scheme \<Rightarrow> bool" where
  "t \<le> u \<longleftrightarrow> gt_sec t < gt_sec u \<or> gt_sec t = gt_sec u \<and>
     (gt_nsec t < gt_nsec u \<or> gt_nsec t = gt_nsec u \<and> go_time.more t \<le> go_time.more u)"

definition less_go_time_ext :: "'a go_time_scheme \<Rightarrow> 'a go_time_scheme \<Rightarrow> bool" where
  "t < u \<longleftrightarrow> t \<le> u \<and> \<not> u \<le> (t :: 'a go_time_scheme)"

instance
  by intro_classes (auto simp: less_eq_go_time_ext_def less_go_time_ext_def)

end

definition zero_time :: go_time where
  "zero_time = \<lparr>gt_sec = -62135596800, gt_nsec = 0\<rparr>"

text \<open>The representable times have their nanoseconds in range and milliseconds that fit int64.\<close>

definition time_ok :: "go_time \<Rightarrow> bool" where
  "time_ok t \<longleftrightarrow> 0 \<le> gt_nsec t \<and> gt_nsec t < 1000000000 \<and> in_int64 (gt_sec t * 1000 + gt_nsec t div 1000000)"

definition unix_milli :: "go_time \<Rightarrow> int" where
  "unix_milli t = wrap64 (gt_sec t * 1000 + gt_nsec t div 1000000)"

definition time_of_milli :: "int \<Rightarrow> go_time" where
  "time_of_milli ms = \<lparr>gt_sec = ms div 1000, gt_nsec = ms mod 1000 * 1000000\<rparr>"

section \<open>Data\<close>

record login_result =
  lg_token :: bytes
  lg_user :: bytes

record session =
  se_token :: bytes
  se_user :: bytes
  se_issuer :: bytes
  se_created :: go_time
  se_updated :: go_time
  se_elapsed :: int
  se_source_ip :: bytes
  se_user_agent :: bytes
  se_country :: bytes
  se_city :: bytes

record api_token_request =
  tk_name :: bytes
  tk_database :: bytes
  tk_expires :: go_time
  tk_permissions :: "gomap option"

record api_token =
  at_name :: bytes
  at_database :: bytes
  at_created :: go_time
  at_expires :: go_time
  at_expired :: bool
  at_permissions :: members
  at_hash :: bytes
  at_suffix :: bytes

text \<open>A token as the generated models carry it; the listing has no plaintext token.\<close>

record token_wire =
  tw_created_at :: int
  tw_token_database :: bytes
  tw_expired :: "bool option"
  tw_expires_at :: int
  tw_name :: bytes
  tw_permissions :: "members option"
  tw_token :: bytes
  tw_hash :: bytes
  tw_suffix :: bytes

definition deref_str :: "bytes option \<Rightarrow> bytes" where
  "deref_str s = (case s of None \<Rightarrow> [] | Some x \<Rightarrow> x)"

definition token_fields :: "bool \<Rightarrow> bytes list" where
  "token_fields plain = [''createdAt'', ''database'', ''expired'', ''expiresAt'', ''name'', ''permissions''] @
     (if plain then [''token''] else []) @ [''tokenHash'', ''tokenSuffix'']"

definition decode_token :: "bool \<Rightarrow> members \<Rightarrow> token_wire \<times> bool" where
  "decode_token plain kvs =
     (let str = (\<lambda>f. str_field (token_fields plain) kvs f []);
          num = (\<lambda>f. int_field (token_fields plain) kvs f 0);
          expired = decode_field (into_ptr into_bool False) None (field_vals (token_fields plain) kvs ''expired'');
          perms = decode_field into_map None (field_vals (token_fields plain) kvs ''permissions'');
          token = (if plain then str ''token'' else ([], True))
      in (\<lparr>tw_created_at = fst (num ''createdAt''), tw_token_database = fst (str ''database''),
           tw_expired = fst expired, tw_expires_at = fst (num ''expiresAt''), tw_name = fst (str ''name''),
           tw_permissions = fst perms, tw_token = fst token, tw_hash = fst (str ''tokenHash''),
           tw_suffix = fst (str ''tokenSuffix'')\<rparr>,
          list_all (\<lambda>f. snd (str f)) [''database'', ''name'', ''tokenHash'', ''tokenSuffix''] \<and>
          snd (num ''createdAt'') \<and> snd (num ''expiresAt'') \<and> snd expired \<and> snd perms \<and> snd token))"

definition decode_login :: "bytes \<Rightarrow> login_result option" where
  "decode_login = unmarshal_struct (\<lambda>kvs.
     let (t, o1) = str_field [''token'', ''user''] kvs ''token'' [];
         (u, o2) = str_field [''token'', ''user''] kvs ''user'' []
     in (\<lparr>lg_token = t, lg_user = u\<rparr>, o1 \<and> o2))"

definition session_fields :: "bytes list" where
  "session_fields = [''city'', ''country'', ''createdAt'', ''elapsedMs'', ''issuer'', ''lastUpdate'', ''sourceIp'',
     ''token'', ''user'', ''userAgent'']"

text \<open>An element of the session list, already as the driver hands it out; the duration wraps in int64.\<close>

definition decode_session :: "members \<Rightarrow> session \<times> bool" where
  "decode_session kvs =
     (let str = (\<lambda>f. str_field session_fields kvs f []);
          ptr = (\<lambda>f. decode_field (into_ptr into_string []) None (field_vals session_fields kvs f));
          num = (\<lambda>f. int_field session_fields kvs f 0)
      in (\<lparr>se_token = fst (str ''token''), se_user = fst (str ''user''), se_issuer = deref_str (fst (ptr ''issuer'')),
           se_created = time_of_milli (fst (num ''createdAt'')), se_updated = time_of_milli (fst (num ''lastUpdate'')),
           se_elapsed = wrap64 (fst (num ''elapsedMs'') * 1000000),
           se_source_ip = deref_str (fst (ptr ''sourceIp'')), se_user_agent = deref_str (fst (ptr ''userAgent'')),
           se_country = deref_str (fst (ptr ''country'')), se_city = deref_str (fst (ptr ''city''))\<rparr>,
          list_all (\<lambda>f. snd (str f)) [''token'', ''user''] \<and>
          list_all (\<lambda>f. snd (ptr f)) [''issuer'', ''sourceIp'', ''userAgent'', ''country'', ''city''] \<and>
          list_all (\<lambda>f. snd (num f)) [''createdAt'', ''elapsedMs'', ''lastUpdate'']))"

text \<open>A list document: its count, which nobody reads but which must decode, and its elements.\<close>

definition decode_listing :: "(members \<Rightarrow> 'a \<times> bool) \<Rightarrow> bytes \<Rightarrow> 'a list option" where
  "decode_listing dec = unmarshal_struct (\<lambda>kvs.
     let (n, o1) = int_field [''count'', ''result''] kvs ''count'' 0;
         (r, o2) = decode_field (into_slice (elem_struct dec)) None (field_vals [''count'', ''result''] kvs ''result'')
     in (case r of None \<Rightarrow> [] | Some xs \<Rightarrow> xs, o1 \<and> o2))"

definition api_token_of :: "token_wire \<Rightarrow> api_token" where
  "api_token_of t =
     \<lparr>at_name = tw_name t, at_database = tw_token_database t, at_created = time_of_milli (tw_created_at t),
      at_expires = (if tw_expires_at t \<noteq> 0 then time_of_milli (tw_expires_at t) else zero_time),
      at_expired = (tw_expired t = Some True), at_permissions = nil_members (tw_permissions t),
      at_hash = tw_hash t, at_suffix = tw_suffix t\<rparr>"

section \<open>Sessions\<close>

definition session_token_prefix :: bytes where "session_token_prefix = ''AU-''"

definition login_with ::
  "'w net \<Rightarrow> server \<Rightarrow> ctx \<Rightarrow> (bytes \<times> bytes) list \<Rightarrow> 'w world \<Rightarrow> (go_error + login_result) \<times> 'w world" where
  "login_with net sv ctx editors w =
     on_result (\<lambda>p. non_empty (decoded decode_login p))
       (call_checked net sv ctx editors (login_responses decode_login) (login_request None) w)"

definition login :: "'w net \<Rightarrow> server \<Rightarrow> ctx \<Rightarrow> 'w world \<Rightarrow> (go_error + login_result) \<times> 'w world" where
  "login net sv ctx = login_with net sv ctx []"

definition login_as ::
  "'w net \<Rightarrow> server \<Rightarrow> ctx \<Rightarrow> bytes \<Rightarrow> bytes \<Rightarrow> 'w world \<Rightarrow> (go_error + login_result) \<times> 'w world" where
  "login_as net sv ctx user password = login_with net sv ctx [(''Authorization'', basic_auth_value user password)]"

definition with_token :: "server \<Rightarrow> bytes \<Rightarrow> server" where
  "with_token sv token = sv\<lparr>sv_headers := hdr_set ''Authorization'' (bearer_auth_value token) (sv_headers sv)\<rparr>"

definition logout :: "'w net \<Rightarrow> server \<Rightarrow> ctx \<Rightarrow> 'w world \<Rightarrow> go_error option \<times> 'w world" where
  "logout net sv ctx w =
     (if \<not> has_prefix (hdr_get (sv_headers sv) ''Authorization'') (bearer_auth_value session_token_prefix)
      then (Some (ESentinel ErrNotSessionToken), w)
      else case call_checked net sv ctx [] logout_responses (logout_request None) w of (r, w') \<Rightarrow> (res_err r, w'))"

definition list_sessions :: "'w net \<Rightarrow> server \<Rightarrow> ctx \<Rightarrow> 'w world \<Rightarrow> (go_error + session list) \<times> 'w world" where
  "list_sessions net sv ctx w =
     on_result (\<lambda>p. bind_res (decoded (decode_listing decode_session) p) (\<lambda>l.
         Inr (case l of None \<Rightarrow> [] | Some xs \<Rightarrow> xs)))
       (call_checked net sv ctx [] (list_sessions_responses (decode_listing decode_session)) list_sessions_request w)"

section \<open>API tokens\<close>

definition token_request_body :: "api_token_request \<Rightarrow> json option" where
  "token_request_body req =
     (case (case tk_permissions req of None \<Rightarrow> Some None | Some m \<Rightarrow> map_option Some (json_of_goval (GMap m))) of
        None \<Rightarrow> None
      | Some permissions \<Rightarrow> Some (JObj (
          opt_member ''database'' (if tk_database req \<noteq> [] then Some (JStr (tk_database req)) else None) @
          opt_member ''expiresAt''
            (if tk_expires req \<noteq> zero_time then Some (JNum (dec_of_int (unix_milli (tk_expires req)))) else None) @
          [(''name'', JStr (tk_name req))] @ opt_member ''permissions'' permissions)))"

text \<open>\<open>CreateApiTokenResponse\<close>: a struct within the struct.\<close>

definition decode_created_token :: "bytes \<Rightarrow> token_wire option" where
  "decode_created_token = unmarshal_struct (\<lambda>kvs.
     decode_field (\<lambda>a v. case v of JNull \<Rightarrow> Some a | _ \<Rightarrow> elem_struct (decode_token True) v)
       (fst (decode_token True [])) (field_vals [''result''] kvs ''result''))"

definition create_api_token ::
  "'w net \<Rightarrow> server \<Rightarrow> ctx \<Rightarrow> api_token_request \<Rightarrow> 'w world \<Rightarrow> (go_error + api_token \<times> bytes) \<times> 'w world" where
  "create_api_token net sv ctx req w =
     (case token_request_body req of
        None \<Rightarrow> (Inl json_error, w)
      | Some body \<Rightarrow>
          on_result (\<lambda>p. bind_res (non_empty (decoded decode_created_token p)) (\<lambda>t. Inr (api_token_of t, tw_token t)))
            (call_checked net sv ctx [] (create_api_token_responses decode_created_token)
              (create_api_token_request None ''application/json'' (encode True body)) w))"

definition list_api_tokens :: "'w net \<Rightarrow> server \<Rightarrow> ctx \<Rightarrow> 'w world \<Rightarrow> (go_error + api_token list) \<times> 'w world" where
  "list_api_tokens net sv ctx w =
     on_result (\<lambda>p. bind_res (decoded (decode_listing (decode_token False)) p) (\<lambda>l.
         Inr (case l of None \<Rightarrow> [] | Some xs \<Rightarrow> map api_token_of xs)))
       (call_checked net sv ctx [] (list_api_tokens_responses (decode_listing (decode_token False)))
         list_api_tokens_request w)"

definition is_token_hash :: "bytes \<Rightarrow> bool" where
  "is_token_hash s \<longleftrightarrow> length s = 64 \<and> list_all (\<lambda>c. is_digit c \<or> 97 \<le> byte c \<and> byte c \<le> 102) s"

definition delete_api_token :: "'w net \<Rightarrow> server \<Rightarrow> ctx \<Rightarrow> bytes \<Rightarrow> 'w world \<Rightarrow> go_error option \<times> 'w world" where
  "delete_api_token net sv ctx hash w =
     (if \<not> is_token_hash hash then (Some (EWrap ''want the TokenHash'' (ESentinel ErrInvalidTokenHash)), w)
      else case call_checked net sv ctx [] (delete_api_token_responses
             (unmarshal_struct (\<lambda>kvs. str_field [''result''] kvs ''result'' []))) (delete_api_token_request hash) w of
        (r, w') \<Rightarrow> (res_err r, w'))"

section \<open>What the caller may rely on\<close>

lemma apply_headers_single: "apply_headers [(k, v)] h = hdr_set k v h"
  by (simp add: apply_headers_def)

lemma canonical_auth_iff: "canonical_key k = ''Authorization'' \<Longrightarrow> hdr_get h k = hdr_get h ''Authorization''"
  by (simp add: hdr_get_def)

text \<open>The header of a request after a client's editors, and after those of the client with a token.\<close>

lemma with_token_lookup:
  assumes "headers_ok (sv_headers sv)"
  shows "hdr_get (apply_headers (sv_headers (with_token sv token)) h) k =
    (if canonical_key k = ''Authorization'' then bearer_auth_value token
     else hdr_get (apply_headers (sv_headers sv) h) k)"
proof -
  have ok: "headers_ok (hdr_set ''Authorization'' (bearer_auth_value token) (sv_headers sv))"
    using assms by (rule hdr_set_keys)
  show ?thesis
    by (simp add: hdr_get_def with_token_def apply_headers_lookup [OF ok] apply_headers_lookup [OF assms]
        hdr_set_lookup)
qed

text \<open>
  C35: a client made by \<open>WithToken\<close> sends, for every operation, the request the original client sends
  with only its Authorization replaced by the token; the original's credentials and headers are not
  otherwise visible in it. \<open>LoginAs\<close> sends the other user's Basic credentials whatever the client is
  configured with, a fixed Authorization header included.
\<close>

theorem token_and_login_credentials:
  assumes "headers_ok (sv_headers sv)"
  shows "list_all2 (\<lambda>rq rq0. rq_method rq = rq_method rq0 \<and> rq_url rq = rq_url rq0 \<and> rq_query rq = rq_query rq0 \<and>
        rq_body rq = rq_body rq0 \<and>
        (\<forall>k. hdr_get (rq_header rq) k =
           (if canonical_key k = ''Authorization'' then bearer_auth_value token else hdr_get (rq_header rq0) k)))
      (built net (with_token sv token) [] op) (built net sv [] op)
    \<and> (\<forall>rq \<in> set (drop (length (w_sent w)) (w_sent (snd (login_as net sv ctx user password w)))).
        hdr_get (rq_header rq) ''Authorization'' = basic_auth_value user password)"
proof
  show "list_all2 (\<lambda>rq rq0. rq_method rq = rq_method rq0 \<and> rq_url rq = rq_url rq0 \<and> rq_query rq = rq_query rq0 \<and>
        rq_body rq = rq_body rq0 \<and>
        (\<forall>k. hdr_get (rq_header rq) k =
           (if canonical_key k = ''Authorization'' then bearer_auth_value token else hdr_get (rq_header rq0) k)))
      (built net (with_token sv token) [] op) (built net sv [] op)"
  proof (cases "new_request net (sv_base_url sv) op")
    case (Inr q)
    moreover have "sv_base_url (with_token sv token) = sv_base_url sv" by (simp add: with_token_def)
    ultimately show ?thesis
      by (simp add: built_def apply_editors_def with_token_lookup [OF assms] apply_headers_def [of "[]"])
  qed (simp add: built_def with_token_def)
  have "snd (login_as net sv ctx user password w) = snd (call_checked net sv ctx
      [(''Authorization'', basic_auth_value user password)] (login_responses decode_login) (login_request None) w)"
    by (simp add: login_as_def login_with_def on_result_def case_prod_beta)
  then show "\<forall>rq \<in> set (drop (length (w_sent w)) (w_sent (snd (login_as net sv ctx user password w)))).
      hdr_get (rq_header rq) ''Authorization'' = basic_auth_value user password"
    by (auto simp: call_checked_trace built_def apply_editors_def apply_headers_single split: sum.splits if_splits)
qed

lemma token_and_login_credentials_witness:
  "map (\<lambda>rq. hdr_get (rq_header rq) ''authorization'')
     (built demo_net (with_token (new_server ''http://h'' [WithBasicAuth ''root'' ''pw'']) ''AU-1'') [] list_sessions_request)
   = [''Bearer AU-1'']"
proof -
  let ?sv = "new_server ''http://h'' [WithBasicAuth ''root'' ''pw'']"
  obtain rq0 where rq0: "built demo_net ?sv [] list_sessions_request = [rq0]"
    by (simp add: built_def new_request_def demo_net_def)
  have key: "canonical_key ''authorization'' = ''Authorization''" by code_simp
  from conjunct1 [OF token_and_login_credentials [where sv = ?sv and token = "''AU-1''" and net = demo_net and
      op = list_sessions_request, OF new_server_headers_ok]] rq0
  obtain rq where "built demo_net (with_token ?sv ''AU-1'') [] list_sessions_request = [rq]"
    "hdr_get (rq_header rq) ''authorization'' = bearer_auth_value ''AU-1''"
    by (auto simp: list_all2_Cons2 key)
  then show ?thesis by (simp add: bearer_auth_value_def)
qed

text \<open>The clients the package can make.\<close>

inductive made_client :: "bytes \<Rightarrow> server \<Rightarrow> bool" where
  made_new: "made_client base (new_server base opts)"
| made_token: "made_client base sv \<Longrightarrow> made_client base (with_token sv token)"

lemma made_client_ok: "made_client base sv \<Longrightarrow> headers_ok (sv_headers sv) \<and> sv_base_url sv = base"
proof (induction rule: made_client.induct)
  case (made_new base opts)
  show ?case using new_server_headers_ok by (simp add: new_server_def)
next
  case (made_token base sv token)
  then show ?case by (simp add: with_token_def hdr_set_keys)
qed

text \<open>
  Every client the package can make is well formed: it keeps the base URL it was made for, and
  its headers are a map with canonical keys, so that the order Go ranges over them in makes no
  difference to any header of any request.
\<close>

theorem clients_well_formed:
  assumes "made_client base sv"
  shows "headers_ok (sv_headers sv) \<and> sv_base_url sv = base \<and>
    (\<forall>hs h k. mset hs = mset (sv_headers sv) \<longrightarrow>
       hdr_get (apply_headers hs h) k = hdr_get (apply_headers (sv_headers sv) h) k)"
proof -
  have ok: "headers_ok (sv_headers sv)" "sv_base_url sv = base"
    using made_client_ok [OF assms] by auto
  have "hdr_get (apply_headers hs h) k = hdr_get (apply_headers (sv_headers sv) h) k"
    if perm: "mset hs = mset (sv_headers sv)" for hs h k
  proof -
    have keys: "mset (map fst hs) = mset (map fst (sv_headers sv))" using perm by simp
    have same: "set hs = set (sv_headers sv)" using perm by (rule mset_eq_setD)
    have hs: "headers_ok hs"
      using ok(1) mset_eq_imp_distinct_iff [OF keys] by (simp add: headers_ok_def same)
    with same have "map_of hs = map_of (sv_headers sv)"
      using ok(1) by (simp add: headers_ok_def map_of_inject_set)
    then show ?thesis
      by (simp add: hdr_get_def apply_headers_lookup [OF hs] apply_headers_lookup [OF ok(1)])
  qed
  with ok show ?thesis by blast
qed

lemma clients_well_formed_witness:
  "headers_ok (sv_headers (with_token (new_server ''http://h'' [WithHeader ''x-a'' ''1'', WithHeader ''X-A'' ''2'']) ''AU-1''))"
  using clients_well_formed [OF made_token [OF made_new]] by blast

text \<open>Without a session token nothing is sent; a client made from a login's token can log out.\<close>

lemma logout_refused:
  "\<not> has_prefix (hdr_get (sv_headers sv) ''Authorization'') ''Bearer AU-'' \<Longrightarrow>
     logout net sv ctx w = (Some (ESentinel ErrNotSessionToken), w)"
  by (simp add: logout_def bearer_auth_value_def session_token_prefix_def)

lemma logout_of_token:
  "logout net (with_token sv (''AU-'' @ t)) ctx w = (case call_checked net (with_token sv (''AU-'' @ t)) ctx []
        logout_responses (logout_request None) w of (r, w') \<Rightarrow> (res_err r, w'))"
  by (simp add: logout_def with_token_def bearer_auth_value_def session_token_prefix_def has_prefix_def)

text \<open>
  An expiry that is set is sent as its milliseconds, and the token the server reports with that
  expiry has the same one, to the millisecond and never a later one, with one exception: a time in the first millisecond
  of 1970, although not the zero time, is sent as 0, which the contract reads as never expiring.
\<close>

theorem api_token_expiry:
  assumes "time_ok (tk_expires req)" and "tk_expires req \<noteq> zero_time"
    and "token_request_body req = Some (JObj kvs)"
    and "tw_expires_at answer = unix_milli (tk_expires req)"
  shows "map_get kvs ''expiresAt'' = Some (JNum (dec_of_int (unix_milli (tk_expires req)))) \<and>
    at_expires (api_token_of answer) =
      (if gt_sec (tk_expires req) = 0 \<and> gt_nsec (tk_expires req) < 1000000 then zero_time
       else (tk_expires req)\<lparr>gt_nsec := gt_nsec (tk_expires req) div 1000000 * 1000000\<rparr>) \<and>
    at_expires (api_token_of answer) \<le> tk_expires req"
proof -
  obtain s n where t: "tk_expires req = \<lparr>gt_sec = s, gt_nsec = n\<rparr>" by (cases "tk_expires req") auto
  define ms where "ms = n div 1000000"
  have n: "0 \<le> n" "n < 1000000000" and fit: "in_int64 (s * 1000 + ms)"
    using assms(1) by (simp_all add: t time_ok_def ms_def)
  have ms: "0 \<le> ms" "ms < 1000" using n by (simp_all add: ms_def)
  have u: "unix_milli (tk_expires req) = s * 1000 + ms"
    using fit by (simp add: t unix_milli_def wrap64_id flip: ms_def)
  have d: "(s * 1000 + ms) div 1000 = s" "(s * 1000 + ms) mod 1000 = ms" using ms by simp_all
  have z: "s * 1000 + ms = 0 \<longleftrightarrow> s = 0 \<and> n < 1000000"
  proof
    assume "s * 1000 + ms = 0"
    with d have "s = 0" "ms = 0" by auto
    with n show "s = 0 \<and> n < 1000000" by (simp add: ms_def)
  qed (use n in \<open>simp add: ms_def\<close>)
  have "map_get kvs ''expiresAt'' = Some (JNum (dec_of_int (unix_milli (tk_expires req))))"
    using assms(2,3) by (auto simp: token_request_body_def map_get_def opt_member_def split: option.splits if_splits)
  moreover have expires: "at_expires (api_token_of answer) = (if s = 0 \<and> n < 1000000 then zero_time
      else \<lparr>gt_sec = s, gt_nsec = ms * 1000000\<rparr>)"
    using z d by (auto simp: api_token_of_def assms(4) u time_of_milli_def)
  moreover from expires have "at_expires (api_token_of answer) \<le> tk_expires req"
    using n by (auto simp: t zero_time_def less_eq_go_time_ext_def ms_def)
  ultimately show ?thesis by (simp add: t ms_def)
qed

lemma api_token_expiry_witness:
  "let req = \<lparr>tk_name = ''n'', tk_database = [], tk_expires = \<lparr>gt_sec = 0, gt_nsec = 5\<rparr>, tk_permissions = None\<rparr>
   in token_request_body req = Some (JObj [(''expiresAt'', JNum ''0''), (''name'', JStr ''n'')]) \<and>
      at_expires (api_token_of \<lparr>tw_created_at = 0, tw_token_database = [], tw_expired = None, tw_expires_at = 0,
        tw_name = [], tw_permissions = None, tw_token = [], tw_hash = [], tw_suffix = []\<rparr>) = zero_time"
proof -
  let ?req = "\<lparr>tk_name = ''n'', tk_database = [], tk_expires = \<lparr>gt_sec = 0, gt_nsec = 5\<rparr>, tk_permissions = None\<rparr>"
  let ?t = "\<lparr>tw_created_at = 0, tw_token_database = [], tw_expired = None, tw_expires_at = 0,
        tw_name = [], tw_permissions = None, tw_token = [], tw_hash = [], tw_suffix = []\<rparr>"
  have u: "unix_milli (tk_expires ?req) = 0" by (simp add: unix_milli_def wrap64_def)
  have z: "dec_of_int 0 = ''0''" by code_simp
  have b: "token_request_body ?req = Some (JObj [(''expiresAt'', JNum ''0''), (''name'', JStr ''n'')])"
    using u z by (simp add: token_request_body_def opt_member_def zero_time_def)
  have "time_ok (tk_expires ?req)" by (simp add: time_ok_def in_int64_def min_int64_def max_int64_def)
  from api_token_expiry [OF this _ b, of ?t] u b show ?thesis by (simp add: zero_time_def)
qed

end
