(* ===== verification/Grpc_Messages.thy ===== *)
theory Grpc_Messages
  imports Tx_Protocol "HOL-Library.Word"
begin

text \<open>
  The messages of the protobuf contract (\<open>go/arcadedbgrpc/generated/arcadedb_server.pb.go\<close>) that
  the facade builds, binds or reads: one record per generated struct, its fields in the source's
  order, a pointer as an option, a map as a partial function, an enum as the integer it is in Go.
  A floating-point number is carried as its bit pattern; a timestamp is its seconds and nanos.
\<close>

type_synonym enum = int
type_synonym f32 = "32 word"
type_synonym f64 = "64 word"
type_synonym timestamp = "int \<times> int"

section \<open>Values\<close>

text \<open>\<open>GrpcValue\<close>: its \<open>kind\<close> oneof, unset as None, and the logical type.\<close>

datatype pb_value = PbValue "pb_kind option" bytes
and pb_kind =
    KBool bool
  | KInt32 int
  | KInt64 int
  | KFloat f32
  | KDouble f64
  | KString bytes
  | KBytes bytes
  | KTimestamp timestamp
  | KList "pb_value list"
  | KMap "bytes \<Rightarrow> pb_value option"
  | KEmbedded bytes "bytes \<Rightarrow> pb_value option"
  | KLink bytes bytes
  | KDecimal int int bytes

section \<open>Messages\<close>

record pb_database_credentials =
  dc_username :: bytes
  dc_password :: bytes

record pb_transaction_context =
  tc_transaction_id :: bytes
  tc_database :: bytes
  tc_begin :: bool
  tc_commit :: bool
  tc_rollback :: bool
  tc_timeout_ms :: int
  tc_read_only :: bool

record pb_grpc_record =
  gr_rid :: bytes
  gr_type :: bytes
  gr_properties :: "(bytes \<Rightarrow> pb_value option)"

record pb_projection_settings =
  ps_include_projections :: bool
  ps_projection_encoding :: enum
  ps_soft_limit_bytes :: "int option"

record pb_stream_query_request =
  sq_database :: bytes
  sq_query :: bytes
  sq_parameters :: "(bytes \<Rightarrow> pb_value option)"
  sq_credentials :: "pb_database_credentials option"
  sq_batch_size :: int
  sq_retrieval_mode :: enum
  sq_language :: bytes
  sq_transaction :: "pb_transaction_context option"
  sq_projection_settings :: "pb_projection_settings option"

record pb_query_result =
  qr_records :: "pb_grpc_record list"
  qr_total_records_in_batch :: int
  qr_running_total_emitted :: int
  qr_is_last_batch :: bool

record pb_vector_search_request =
  vs_database :: bytes
  vs_credentials :: "pb_database_credentials option"
  vs_index_name :: bytes
  vs_query_vector :: "f32 list"
  vs_query_indices :: "int list"
  vs_k :: int
  vs_ef_search :: "int option"
  vs_filter :: bytes
  vs_sparse :: bool
  vs_transaction :: "pb_transaction_context option"

record pb_search_hit =
  sh_rid :: bytes
  sh_record :: "pb_grpc_record option"
  sh_distance :: "f64 option"
  sh_score :: "f64 option"
  sh_sources :: "bytes list"
  sh_depth :: "int option"
  sh_path :: "bytes list"

record pb_vector_search_response =
  vsr_index_name :: bytes
  vsr_sparse :: bool
  vsr_scoring :: bytes
  vsr_candidate_limit :: int
  vsr_truncated :: bool
  vsr_count :: int
  vsr_results :: "pb_search_hit list"

record pb_hybrid_expand =
  he_edge_types :: "bytes list"
  he_direction :: bytes
  he_max_depth :: int

record pb_hybrid_search_request =
  hs_database :: bytes
  hs_credentials :: "pb_database_credentials option"
  hs_vector_index_name :: bytes
  hs_query_vector :: "f32 list"
  hs_query_indices :: "int list"
  hs_k :: int
  hs_ef_search :: "int option"
  hs_sparse :: bool
  hs_filter :: bytes
  hs_fulltext_query :: bytes
  hs_fulltext_index_name :: bytes
  hs_fusion_strategy :: bytes
  hs_weights :: "(bytes \<Rightarrow> f32 option)"
  hs_expand :: "pb_hybrid_expand option"
  hs_transaction :: "pb_transaction_context option"

record pb_hybrid_search_response =
  hsr_vector_index_name :: bytes
  hsr_fulltext_index_name :: bytes
  hsr_sparse :: bool
  hsr_scoring :: bytes
  hsr_fused :: bool
  hsr_fusion_strategy :: bytes
  hsr_truncated :: bool
  hsr_count :: int
  hsr_results :: "pb_search_hit list"
  hsr_legs :: "(bytes \<Rightarrow> pb_value option)"

record pb_full_text_search_request =
  ft_database :: bytes
  ft_credentials :: "pb_database_credentials option"
  ft_query_text :: bytes
  ft_index_name :: bytes
  ft_type_name :: bytes
  ft_properties :: "bytes list"
  ft_limit :: int
  ft_transaction :: "pb_transaction_context option"

record pb_full_text_search_response =
  ftr_index_name :: bytes
  ftr_similarity :: bytes
  ftr_count :: int
  ftr_results :: "pb_search_hit list"

record pb_begin_transaction_request =
  bt_database :: bytes
  bt_credentials :: "pb_database_credentials option"
  bt_isolation :: enum

record pb_begin_transaction_response =
  btr_transaction_id :: bytes
  btr_timestamp :: int
  btr_effective_isolation :: enum

record pb_commit_transaction_request =
  ct_transaction :: "pb_transaction_context option"
  ct_credentials :: "pb_database_credentials option"

record pb_commit_transaction_response =
  ctr_success :: bool
  ctr_committed :: bool
  ctr_message :: bytes
  ctr_timestamp :: int

record pb_rollback_transaction_request =
  rt_transaction :: "pb_transaction_context option"
  rt_credentials :: "pb_database_credentials option"

record pb_rollback_transaction_response =
  rtr_success :: bool
  rtr_rolled_back :: bool
  rtr_message :: bytes

record pb_delete_record_request =
  dr_database :: bytes
  dr_rid :: bytes
  dr_credentials :: "pb_database_credentials option"
  dr_transaction :: "pb_transaction_context option"

record pb_delete_record_response =
  drr_success :: bool
  drr_deleted :: bool
  drr_message :: bytes

record pb_query_update_stats =
  qu_nodes_created :: int
  qu_nodes_deleted :: int
  qu_relationships_created :: int
  qu_relationships_deleted :: int
  qu_properties_set :: int
  qu_labels_added :: int
  qu_labels_removed :: int
  qu_indexes_added :: int
  qu_indexes_removed :: int
  qu_constraints_added :: int
  qu_constraints_removed :: int
  qu_contains_updates :: bool

record pb_execute_command_request =
  ec_database :: bytes
  ec_command :: bytes
  ec_parameters :: "(bytes \<Rightarrow> pb_value option)"
  ec_credentials :: "pb_database_credentials option"
  ec_transaction :: "pb_transaction_context option"
  ec_language :: bytes
  ec_return_rows :: bool
  ec_max_rows :: int
  ec_projection_settings :: "pb_projection_settings option"

record pb_execute_command_response =
  ecr_success :: bool
  ecr_message :: bytes
  ecr_affected_records :: int
  ecr_execution_time_ms :: int
  ecr_records :: "pb_grpc_record list"
  ecr_stats :: "pb_query_update_stats option"

record pb_execute_query_request =
  eq_database :: bytes
  eq_query :: bytes
  eq_parameters :: "(bytes \<Rightarrow> pb_value option)"
  eq_credentials :: "pb_database_credentials option"
  eq_transaction :: "pb_transaction_context option"
  eq_limit :: int
  eq_timeout_ms :: int
  eq_projection_settings :: "pb_projection_settings option"
  eq_language :: bytes

record pb_execute_query_response =
  eqr_results :: "pb_query_result list"
  eqr_execution_time_ms :: int
  eqr_query_plan :: bytes

record pb_create_record_request =
  cr_database :: bytes
  cr_credentials :: "pb_database_credentials option"
  cr_type :: bytes
  cr_record :: "pb_grpc_record option"
  cr_transaction :: "pb_transaction_context option"

record pb_create_record_response =
  crr_rid :: bytes

datatype pb_update_payload = PayloadRecord pb_grpc_record | PayloadPartial "bytes \<Rightarrow> pb_value option"

record pb_update_record_request =
  ur_database :: bytes
  ur_credentials :: "pb_database_credentials option"
  ur_rid :: bytes
  ur_payload :: "pb_update_payload option"
  ur_transaction :: "pb_transaction_context option"

record pb_update_record_response =
  urr_success :: bool
  urr_updated :: bool

record pb_lookup_by_rid_request =
  lr_database :: bytes
  lr_credentials :: "pb_database_credentials option"
  lr_rid :: bytes
  lr_transaction :: "pb_transaction_context option"

record pb_lookup_by_rid_response =
  lrr_found :: bool
  lrr_record :: "pb_grpc_record option"

record pb_insert_error =
  ie_message :: bytes
  ie_row_index :: int
  ie_code :: bytes
  ie_field :: bytes
  ie_leader_address :: bytes

record pb_insert_summary =
  im_received :: int
  im_inserted :: int
  im_updated :: int
  im_ignored :: int
  im_failed :: int
  im_errors :: "pb_insert_error list"
  im_execution_time_ms :: int
  im_started_at :: "timestamp option"
  im_finished_at :: "timestamp option"

record pb_insert_options =
  io_target_class :: bytes
  io_key_columns :: "bytes list"
  io_conflict_mode :: enum
  io_update_columns_on_conflict :: "bytes list"
  io_transaction_mode :: enum
  io_server_batch_size :: int
  io_validate_only :: bool
  io_database :: bytes
  io_credentials :: "pb_database_credentials option"

record pb_insert_chunk =
  ic_database :: bytes
  ic_credentials :: "pb_database_credentials option"
  ic_options :: "pb_insert_options option"
  ic_transaction :: "pb_transaction_context option"
  ic_session_id :: bytes
  ic_chunk_seq :: int
  ic_rows :: "pb_grpc_record list"
  ic_last :: bool

record pb_time_series_point =
  tp_type :: bytes
  tp_timestamp :: int
  tp_tags :: "(bytes \<Rightarrow> pb_value option)"
  tp_fields :: "(bytes \<Rightarrow> pb_value option)"

record pb_time_series_write_chunk =
  tw_database :: bytes
  tw_credentials :: "pb_database_credentials option"
  tw_type :: bytes
  tw_precision :: enum
  tw_points :: "pb_time_series_point list"

record pb_time_series_write_summary =
  tws_received :: int
  tws_written :: int
  tws_dropped :: int
  tws_unknown_types :: "bytes list"
  tws_non_time_series_types :: "bytes list"
  tws_unavailable_types :: "bytes list"
  tws_execution_time_ms :: int
  tws_undeclared_keys :: "bytes list"
  tws_unreadable_values :: "bytes list"

record pb_time_series_tag_filter =
  tf_equals :: "(bytes \<Rightarrow> pb_value option)"

record pb_time_series_aggregation_request =
  ta_field :: bytes
  ta_type :: enum
  ta_alias :: bytes

record pb_time_series_aggregation =
  tg_bucket_interval_ms :: int
  tg_requests :: "pb_time_series_aggregation_request list"
  tg_bucket_origin_ms :: int

record pb_time_series_row =
  tr_values :: "pb_value list"

record pb_time_series_bucket =
  tb_timestamp :: int
  tb_values :: "pb_value list"

record pb_time_series_query_request =
  tq_database :: bytes
  tq_credentials :: "pb_database_credentials option"
  tq_type :: bytes
  tq_from_timestamp :: "int option"
  tq_to_timestamp :: "int option"
  tq_fields :: "bytes list"
  tq_tags :: "pb_time_series_tag_filter option"
  tq_limit :: int
  tq_batch_size :: int
  tq_aggregation :: "pb_time_series_aggregation option"
  tq_transaction :: "pb_transaction_context option"

record pb_time_series_query_result =
  tqr_type :: bytes
  tqr_columns :: "bytes list"
  tqr_aggregations :: "bytes list"
  tqr_rows :: "pb_time_series_row list"
  tqr_buckets :: "pb_time_series_bucket list"
  tqr_running_total_emitted :: int
  tqr_last :: bool
  tqr_truncated :: bool

record pb_time_series_latest_request =
  tl_database :: bytes
  tl_credentials :: "pb_database_credentials option"
  tl_type :: bytes
  tl_tags :: "pb_time_series_tag_filter option"
  tl_transaction :: "pb_transaction_context option"

record pb_time_series_latest_response =
  tlr_type :: bytes
  tlr_columns :: "bytes list"
  tlr_found :: bool
  tlr_latest :: "pb_time_series_row option"

section \<open>Empty messages\<close>

text \<open>What \<open>ProtoReflect().Type().New()\<close> makes of a nil request: every field at its zero value.\<close>

definition empty_stream_query_request :: pb_stream_query_request where
  "empty_stream_query_request = \<lparr>sq_database = [], sq_query = [], sq_parameters = \<lambda>_. None, sq_credentials = None,
     sq_batch_size = 0, sq_retrieval_mode = 0, sq_language = [], sq_transaction = None,
     sq_projection_settings = None\<rparr>"

definition empty_vector_search_request :: pb_vector_search_request where
  "empty_vector_search_request = \<lparr>vs_database = [], vs_credentials = None, vs_index_name = [], vs_query_vector = [],
     vs_query_indices = [], vs_k = 0, vs_ef_search = None, vs_filter = [], vs_sparse = False,
     vs_transaction = None\<rparr>"

definition empty_hybrid_search_request :: pb_hybrid_search_request where
  "empty_hybrid_search_request = \<lparr>hs_database = [], hs_credentials = None, hs_vector_index_name = [], hs_query_vector = [],
     hs_query_indices = [], hs_k = 0, hs_ef_search = None, hs_sparse = False, hs_filter = [],
     hs_fulltext_query = [], hs_fulltext_index_name = [], hs_fusion_strategy = [],
     hs_weights = \<lambda>_. None, hs_expand = None, hs_transaction = None\<rparr>"

definition empty_full_text_search_request :: pb_full_text_search_request where
  "empty_full_text_search_request = \<lparr>ft_database = [], ft_credentials = None, ft_query_text = [], ft_index_name = [],
     ft_type_name = [], ft_properties = [], ft_limit = 0, ft_transaction = None\<rparr>"

definition empty_delete_record_request :: pb_delete_record_request where
  "empty_delete_record_request = \<lparr>dr_database = [], dr_rid = [], dr_credentials = None, dr_transaction = None\<rparr>"

definition empty_execute_command_request :: pb_execute_command_request where
  "empty_execute_command_request = \<lparr>ec_database = [], ec_command = [], ec_parameters = \<lambda>_. None, ec_credentials = None,
     ec_transaction = None, ec_language = [], ec_return_rows = False, ec_max_rows = 0,
     ec_projection_settings = None\<rparr>"

definition empty_execute_query_request :: pb_execute_query_request where
  "empty_execute_query_request = \<lparr>eq_database = [], eq_query = [], eq_parameters = \<lambda>_. None, eq_credentials = None,
     eq_transaction = None, eq_limit = 0, eq_timeout_ms = 0, eq_projection_settings = None,
     eq_language = []\<rparr>"

definition empty_create_record_request :: pb_create_record_request where
  "empty_create_record_request = \<lparr>cr_database = [], cr_credentials = None, cr_type = [], cr_record = None,
     cr_transaction = None\<rparr>"

definition empty_update_record_request :: pb_update_record_request where
  "empty_update_record_request = \<lparr>ur_database = [], ur_credentials = None, ur_rid = [], ur_payload = None,
     ur_transaction = None\<rparr>"

definition empty_lookup_by_rid_request :: pb_lookup_by_rid_request where
  "empty_lookup_by_rid_request = \<lparr>lr_database = [], lr_credentials = None, lr_rid = [], lr_transaction = None\<rparr>"

definition empty_time_series_query_request :: pb_time_series_query_request where
  "empty_time_series_query_request = \<lparr>tq_database = [], tq_credentials = None, tq_type = [], tq_from_timestamp = None,
     tq_to_timestamp = None, tq_fields = [], tq_tags = None, tq_limit = 0, tq_batch_size = 0,
     tq_aggregation = None, tq_transaction = None\<rparr>"

definition empty_time_series_latest_request :: pb_time_series_latest_request where
  "empty_time_series_latest_request = \<lparr>tl_database = [], tl_credentials = None, tl_type = [], tl_tags = None,
     tl_transaction = None\<rparr>"

end
