(* ===== verification/Grpc_Client.thy ===== *)
theory Grpc_Client
  imports Grpc_Messages Generated_Client
begin

text \<open>
  The connection of the gRPC driver: its options, \<open>NewClient\<close> with the guard against sending a
  password in the clear, \<open>RawAdmin\<close>, \<open>Close\<close> (\<open>go/arcadedbgrpc/client.go\<close>), the authentication
  interceptors (\<open>auth.go\<close>) and the calls of the generated client over the connection
  (\<open>generated/arcadedb_server_grpc.pb.go\<close>). grpc-go is a parameter: the record \<open>grpc_net\<close> answers
  the calls and streams over a state \<open>'w\<close> of the outside world, and \<open>dial\<close> is \<open>grpc.NewClient\<close>.
  Everything handed to the connection is logged in \<open>gw_log\<close>.
\<close>

section \<open>Metadata and contexts\<close>

type_synonym metadata = "(bytes \<times> bytes) list"

record gctx =
  gx_ctx :: ctx
  gx_md :: metadata

text \<open>\<open>context.WithoutCancel\<close> keeps the values of the context, its outgoing metadata included.\<close>

definition without_cancel :: "gctx \<Rightarrow> gctx" where
  "without_cancel c = c\<lparr>gx_ctx := CtxWithoutCancel\<rparr>"

definition password_metadata :: "bytes \<Rightarrow> bytes \<Rightarrow> bytes \<Rightarrow> metadata" where
  "password_metadata user password database =
     [(''x-arcade-user'', user), (''x-arcade-password'', password)] @
     (if database \<noteq> [] then [(''x-arcade-database'', database)] else [])"

definition bearer_metadata :: "bytes \<Rightarrow> metadata" where
  "bearer_metadata token = [(''authorization'', ''Bearer '' @ token)]"

text \<open>\<open>authMetadata.outgoing\<close> appends the pairs to what the caller's context carries.\<close>

definition outgoing :: "metadata \<Rightarrow> gctx \<Rightarrow> gctx" where
  "outgoing kv c = c\<lparr>gx_md := gx_md c @ kv\<rparr>"

section \<open>Options\<close>

text \<open>
  Transport credentials are grpc-go's: the package's plaintext ones, or the caller's, by name. A
  dial option sets them, installs a unary or a stream interceptor, or is something else.
\<close>

datatype creds = InsecureCreds | TransportCreds bytes

datatype dial_option =
    DialCreds creds
  | DialUnary metadata
  | DialStream metadata
  | DialOther bytes

record grpc_config =
  gc_auth :: "metadata option"
  gc_auth_err :: "go_error option"
  gc_password :: bool
  gc_creds :: "creds option"
  gc_insecure :: bool
  gc_dial :: "dial_option list"

datatype grpc_option =
    WithPasswordAuth bytes bytes bytes
  | WithBearerToken bytes
  | WithTransportCredentials "creds option"
  | WithInsecure
  | WithDialOptions "dial_option list"

fun apply_grpc_option :: "grpc_config \<Rightarrow> grpc_option \<Rightarrow> grpc_config" where
  "apply_grpc_option c (WithPasswordAuth user password database) =
     c\<lparr>gc_auth := Some (password_metadata user password database), gc_password := True,
       gc_auth_err := (if user = [] then Some (EPlain ''WithPasswordAuth: user is empty'') else None)\<rparr>"
| "apply_grpc_option c (WithBearerToken token) =
     c\<lparr>gc_auth := Some (bearer_metadata token), gc_password := False,
       gc_auth_err := (if token = [] then Some (EPlain ''WithBearerToken: token is empty'') else None)\<rparr>"
| "apply_grpc_option c (WithTransportCredentials cr) = c\<lparr>gc_creds := cr\<rparr>"
| "apply_grpc_option c WithInsecure = c\<lparr>gc_insecure := True\<rparr>"
| "apply_grpc_option c (WithDialOptions opts) = c\<lparr>gc_dial := gc_dial c @ opts\<rparr>"

definition empty_config :: grpc_config where
  "empty_config = \<lparr>gc_auth = None, gc_auth_err = None, gc_password = False, gc_creds = None,
     gc_insecure = False, gc_dial = []\<rparr>"

definition grpc_config_of :: "grpc_option list \<Rightarrow> grpc_config" where
  "grpc_config_of opts = foldl apply_grpc_option empty_config opts"

section \<open>The client\<close>

text \<open>
  The connection as grpc-go makes it of its dial options: the last transport credentials count,
  interceptors are chained in order.
\<close>

record grpc_conn =
  cc_target :: bytes
  cc_creds :: "creds option"
  cc_unary :: metadata
  cc_stream :: metadata

definition dial_creds :: "dial_option list \<Rightarrow> creds option" where
  "dial_creds opts = foldl (\<lambda>c d. case d of DialCreds cr \<Rightarrow> Some cr | _ \<Rightarrow> c) None opts"

definition conn_of :: "bytes \<Rightarrow> dial_option list \<Rightarrow> grpc_conn" where
  "conn_of target opts =
     \<lparr>cc_target = target, cc_creds = dial_creds opts,
      cc_unary = concat (map (\<lambda>d. case d of DialUnary kv \<Rightarrow> kv | _ \<Rightarrow> []) opts),
      cc_stream = concat (map (\<lambda>d. case d of DialStream kv \<Rightarrow> kv | _ \<Rightarrow> []) opts)\<rparr>"

record grpc_client =
  gl_conn :: grpc_conn
  gl_allow_admin :: bool
  gl_closed :: bool

definition lower_char :: "char \<Rightarrow> char" where
  "lower_char c = (if 65 \<le> byte c \<and> byte c \<le> 90 then char_of (byte c + 32) else c)"

text \<open>
  \<open>strings.ToLower\<close> as far as the prefix test sees it: no letter outside ASCII becomes one of
  the letters of \<open>https\<close>.
\<close>

definition url_target :: "bytes \<Rightarrow> bool" where
  "url_target target =
     (let t = map lower_char (trim_space target)
      in has_prefix t ''http://'' \<or> has_prefix t ''https://'')"

definition dial_options :: "grpc_config \<Rightarrow> dial_option list" where
  "dial_options cfg =
     [DialCreds InsecureCreds] @ gc_dial cfg @
     (case gc_creds cfg of None \<Rightarrow> [] | Some cr \<Rightarrow> [DialCreds cr]) @
     (case gc_auth cfg of None \<Rightarrow> [] | Some kv \<Rightarrow> [DialUnary kv, DialStream kv])"

definition new_grpc_client ::
  "(bytes \<Rightarrow> dial_option list \<Rightarrow> go_error option) \<Rightarrow> bytes \<Rightarrow> grpc_option list \<Rightarrow> go_error + grpc_client" where
  "new_grpc_client dial target opts =
     (if url_target target then Inl (EPlain ''the target is a URL'')
      else let cfg = grpc_config_of opts
        in case gc_auth_err cfg of
          Some e \<Rightarrow> Inl e
        | None \<Rightarrow>
            if gc_password cfg \<and> gc_creds cfg = None \<and> \<not> gc_insecure cfg
            then Inl (EWrap ''NewClient would send a plaintext password'' (ESentinel ErrInsecureChannel))
            else let d = dial_options cfg
              in case dial target d of
                Some e \<Rightarrow> Inl e
              | None \<Rightarrow> Inr \<lparr>gl_conn = conn_of target d,
                  gl_allow_admin = (gc_creds cfg \<noteq> None \<or> gc_insecure cfg), gl_closed = False\<rparr>)"

definition raw_admin :: "grpc_client \<Rightarrow> go_error + grpc_conn" where
  "raw_admin c =
     (if \<not> gl_allow_admin c then Inl (EWrap ''RawAdmin'' (ESentinel ErrInsecureChannel)) else Inr (gl_conn c))"

text \<open>\<open>Close\<close>: what the connection's own \<open>Close\<close> answers, the first time only.\<close>

definition close_client :: "('w \<Rightarrow> go_error option \<times> 'w) \<Rightarrow> grpc_client \<Rightarrow> 'w \<Rightarrow> go_error option \<times> grpc_client \<times> 'w" where
  "close_client conn_close c w =
     (if gl_closed c then (None, c, w)
      else case conn_close w of (e, w') \<Rightarrow> (e, c\<lparr>gl_closed := True\<rparr>, w'))"

section \<open>What reaches the wire\<close>

text \<open>The last option of its kind is the one in force.\<close>

fun is_auth :: "grpc_option \<Rightarrow> bool" where
  "is_auth (WithPasswordAuth user password database) = True"
| "is_auth (WithBearerToken token) = True"
| "is_auth _ = False"

fun auth_of :: "grpc_option \<Rightarrow> metadata" where
  "auth_of (WithPasswordAuth user password database) = password_metadata user password database"
| "auth_of (WithBearerToken token) = bearer_metadata token"
| "auth_of _ = []"

definition last_of :: "('a \<Rightarrow> bool) \<Rightarrow> 'a list \<Rightarrow> 'a option" where
  "last_of p xs = (let ys = filter p xs in if ys = [] then None else Some (last ys))"

lemma last_of_snoc: "last_of p (xs @ [x]) = (if p x then Some x else last_of p xs)"
  by (simp add: last_of_def Let_def)

lemma last_of_Nil [simp]: "last_of p [] = None"
  by (simp add: last_of_def)

definition stated_creds :: "grpc_option list \<Rightarrow> creds option" where
  "stated_creds opts =
     foldl (\<lambda>c opt. case opt of WithTransportCredentials cr \<Rightarrow> cr | _ \<Rightarrow> c) None opts"

definition caller_dial :: "grpc_option list \<Rightarrow> dial_option list" where
  "caller_dial opts = concat (map (\<lambda>opt. case opt of WithDialOptions ds \<Rightarrow> ds | _ \<Rightarrow> []) opts)"

lemma config_parts:
  "gc_insecure (grpc_config_of opts) \<longleftrightarrow> WithInsecure \<in> set opts"
  "gc_creds (grpc_config_of opts) = stated_creds opts"
  "gc_dial (grpc_config_of opts) = caller_dial opts"
  "gc_auth (grpc_config_of opts) = map_option auth_of (last_of is_auth opts)"
  "gc_password (grpc_config_of opts) \<longleftrightarrow> (\<exists>u p d. last_of is_auth opts = Some (WithPasswordAuth u p d))"
  "gc_auth_err (grpc_config_of opts) = None \<longleftrightarrow>
     (\<forall>p d. last_of is_auth opts \<noteq> Some (WithPasswordAuth [] p d)) \<and> last_of is_auth opts \<noteq> Some (WithBearerToken [])"
proof -
  have "(gc_insecure (grpc_config_of opts) \<longleftrightarrow> WithInsecure \<in> set opts) \<and>
    gc_creds (grpc_config_of opts) = stated_creds opts \<and>
    gc_dial (grpc_config_of opts) = caller_dial opts \<and>
    gc_auth (grpc_config_of opts) = map_option auth_of (last_of is_auth opts) \<and>
    (gc_password (grpc_config_of opts) \<longleftrightarrow> (\<exists>u p d. last_of is_auth opts = Some (WithPasswordAuth u p d))) \<and>
    (gc_auth_err (grpc_config_of opts) = None \<longleftrightarrow>
       (\<forall>p d. last_of is_auth opts \<noteq> Some (WithPasswordAuth [] p d)) \<and> last_of is_auth opts \<noteq> Some (WithBearerToken []))"
  proof (induction opts rule: rev_induct)
    case Nil
    show ?case by (simp add: grpc_config_of_def empty_config_def stated_creds_def caller_dial_def)
  next
    case (snoc opt opts)
    have s: "grpc_config_of (opts @ [x]) = apply_grpc_option (grpc_config_of opts) x" for x
      by (simp add: grpc_config_of_def)
    show ?case
      using snoc.IH by (cases opt) (simp_all add: s last_of_snoc stated_creds_def caller_dial_def)
  qed
  then show
    "gc_insecure (grpc_config_of opts) \<longleftrightarrow> WithInsecure \<in> set opts"
    "gc_creds (grpc_config_of opts) = stated_creds opts"
    "gc_dial (grpc_config_of opts) = caller_dial opts"
    "gc_auth (grpc_config_of opts) = map_option auth_of (last_of is_auth opts)"
    "gc_password (grpc_config_of opts) \<longleftrightarrow> (\<exists>u p d. last_of is_auth opts = Some (WithPasswordAuth u p d))"
    "gc_auth_err (grpc_config_of opts) = None \<longleftrightarrow>
       (\<forall>p d. last_of is_auth opts \<noteq> Some (WithPasswordAuth [] p d)) \<and> last_of is_auth opts \<noteq> Some (WithBearerToken [])"
    by simp_all
qed

definition conn_auth :: "grpc_option list \<Rightarrow> metadata" where
  "conn_auth opts = (case last_of is_auth opts of None \<Rightarrow> [] | Some opt \<Rightarrow> auth_of opt)"

lemma dial_creds_fold:
  "foldl (\<lambda>c d. case d of DialCreds cr \<Rightarrow> Some cr | _ \<Rightarrow> c) c ds =
     (case dial_creds ds of None \<Rightarrow> c | Some cr \<Rightarrow> Some cr)"
  unfolding dial_creds_def
  by (induction ds rule: rev_induct) (auto split: dial_option.split)

lemma dial_creds_append: "dial_creds (xs @ ys) = (case dial_creds ys of None \<Rightarrow> dial_creds xs | Some c \<Rightarrow> Some c)"
  using dial_creds_fold [of "dial_creds xs" ys] unfolding dial_creds_def by simp

lemma dial_creds_single:
  "dial_creds [] = None"
  "dial_creds [d] = (case d of DialCreds cr \<Rightarrow> Some cr | _ \<Rightarrow> None)"
  by (simp_all add: dial_creds_def)

lemma new_client_interceptors:
  assumes "new_grpc_client dial target opts = Inr c"
  shows "cc_unary (gl_conn c) = cc_unary (conn_of target (caller_dial opts)) @ conn_auth opts"
    and "cc_stream (gl_conn c) = cc_stream (conn_of target (caller_dial opts)) @ conn_auth opts"
  using assms
  by (auto simp: new_grpc_client_def Let_def conn_of_def dial_options_def config_parts conn_auth_def
      split: if_splits option.splits)

text \<open>
  C32: every connection \<open>NewClient\<close> makes carries the credentials of the last authentication option
  on both call shapes, after the interceptors of the caller's own dial options; its transport
  credentials are the stated ones, else those of the caller's dial options, else plaintext. A
  password is never on it without stated transport credentials or \<open>WithInsecure\<close>, and \<open>RawAdmin\<close>
  opens under the same condition, whatever the authentication.
\<close>

theorem grpc_channel_guards:
  assumes "new_grpc_client dial target opts = Inr c"
  defines "k \<equiv> gl_conn c"
  defines "mine \<equiv> conn_of target (caller_dial opts)"
  shows "cc_unary k = cc_unary mine @ conn_auth opts \<and> cc_stream k = cc_stream mine @ conn_auth opts
    \<and> cc_creds k = (case stated_creds opts of Some cr \<Rightarrow> Some cr
        | None \<Rightarrow> (case cc_creds mine of Some cr \<Rightarrow> Some cr | None \<Rightarrow> Some InsecureCreds))
    \<and> ((\<exists>u p d. last_of is_auth opts = Some (WithPasswordAuth u p d))
        \<longrightarrow> stated_creds opts \<noteq> None \<or> WithInsecure \<in> set opts)
    \<and> raw_admin c = (if stated_creds opts \<noteq> None \<or> WithInsecure \<in> set opts then Inr k
        else Inl (EWrap ''RawAdmin'' (ESentinel ErrInsecureChannel)))"
proof -
  let ?cfg = "grpc_config_of opts"
  have c: "c = \<lparr>gl_conn = conn_of target (dial_options ?cfg),
      gl_allow_admin = (gc_creds ?cfg \<noteq> None \<or> gc_insecure ?cfg), gl_closed = False\<rparr>"
    and g: "\<not> (gc_password ?cfg \<and> gc_creds ?cfg = None \<and> \<not> gc_insecure ?cfg)"
    using assms(1) by (auto simp: new_grpc_client_def Let_def split: if_splits option.splits)
  show ?thesis
    using g dial_creds_append [of "[DialCreds InsecureCreds]" "caller_dial opts @ ds" for ds]
    by (auto simp: c k_def mine_def conn_of_def dial_options_def config_parts raw_admin_def conn_auth_def
        dial_creds_append dial_creds_append [of "[_]" "[_]", simplified] dial_creds_single split: option.split)
qed

lemma grpc_channel_guards_witness:
  "\<exists>c. new_grpc_client (\<lambda>_ _. None) ''db:50051''
       [WithBearerToken ''t'', WithPasswordAuth ''root'' ''pw'' '''', WithInsecure] = Inr c \<and>
     cc_unary (gl_conn c) = [(''x-arcade-user'', ''root''), (''x-arcade-password'', ''pw'')] \<and>
     cc_creds (gl_conn c) = Some InsecureCreds \<and> raw_admin c = Inr (gl_conn c)"
proof -
  let ?opts = "[WithBearerToken ''t'', WithPasswordAuth ''root'' ''pw'' '''', WithInsecure]"
  have "url_target ''db:50051'' = False" by code_simp
  then have "\<exists>c. new_grpc_client (\<lambda>_ _. None) ''db:50051'' ?opts = Inr c"
    by (simp add: new_grpc_client_def grpc_config_of_def empty_config_def)
  then obtain c where c: "new_grpc_client (\<lambda>_ _. None) ''db:50051'' ?opts = Inr c" by blast
  from grpc_channel_guards [OF c] c show ?thesis
    by (simp add: conn_of_def caller_dial_def conn_auth_def last_of_def password_metadata_def
        stated_creds_def dial_creds_def)
qed

text \<open>Closing again is nil, whatever the connection answered the first time.\<close>

lemma close_twice:
  "close_client f c w = (e, c', w') \<Longrightarrow> close_client f c' w' = (None, c', w')"
  by (auto simp: close_client_def split: if_splits prod.splits)

end
