(* ===== verification/Grpc_Service.thy ===== *)
theory Grpc_Service
  imports Grpc_Client
begin

text \<open>
  The calls of the generated \<open>ArcadeDbServiceClient\<close> that the facade makes, over a connection
  with its interceptors: thirteen unary calls, two server streams, two client streams. The record
  \<open>grpc_net\<close> is grpc-go and the server behind it, with the answer type of each call.
\<close>

section \<open>What is handed to the connection\<close>

datatype pb_message =
    MsgBeginTransaction pb_begin_transaction_request
  | MsgCommitTransaction pb_commit_transaction_request
  | MsgRollbackTransaction pb_rollback_transaction_request
  | MsgExecuteQuery pb_execute_query_request
  | MsgExecuteCommand pb_execute_command_request
  | MsgCreateRecord pb_create_record_request
  | MsgUpdateRecord pb_update_record_request
  | MsgDeleteRecord pb_delete_record_request
  | MsgLookupByRid pb_lookup_by_rid_request
  | MsgVectorSearch pb_vector_search_request
  | MsgHybridSearch pb_hybrid_search_request
  | MsgFullTextSearch pb_full_text_search_request
  | MsgTimeSeriesLatest pb_time_series_latest_request
  | MsgStreamQuery pb_stream_query_request
  | MsgTimeSeriesQuery pb_time_series_query_request
  | MsgInsertChunk pb_insert_chunk
  | MsgTimeSeriesWriteChunk pb_time_series_write_chunk

text \<open>
  A unary call with its metadata; a stream opened, a message sent on it, its sending side closed, a
  message asked for, the reply asked for, its context cancelled.
\<close>

datatype grpc_event =
    Invoked bytes metadata pb_message
  | Opened bytes metadata
  | Sent pb_message
  | SendClosed
  | Received
  | ReplyAwaited
  | StreamCancelled

record 'w grpc_net =
  gn_ctx_err :: "'w \<Rightarrow> go_error option"
  gn_begin_transaction :: "metadata \<Rightarrow> pb_begin_transaction_request \<Rightarrow> 'w \<Rightarrow> (go_error + pb_begin_transaction_response) \<times> 'w"
  gn_commit_transaction :: "metadata \<Rightarrow> pb_commit_transaction_request \<Rightarrow> 'w \<Rightarrow> (go_error + pb_commit_transaction_response) \<times> 'w"
  gn_rollback_transaction :: "metadata \<Rightarrow> pb_rollback_transaction_request \<Rightarrow> 'w \<Rightarrow> (go_error + pb_rollback_transaction_response) \<times> 'w"
  gn_execute_query :: "metadata \<Rightarrow> pb_execute_query_request \<Rightarrow> 'w \<Rightarrow> (go_error + pb_execute_query_response) \<times> 'w"
  gn_execute_command :: "metadata \<Rightarrow> pb_execute_command_request \<Rightarrow> 'w \<Rightarrow> (go_error + pb_execute_command_response) \<times> 'w"
  gn_create_record :: "metadata \<Rightarrow> pb_create_record_request \<Rightarrow> 'w \<Rightarrow> (go_error + pb_create_record_response) \<times> 'w"
  gn_update_record :: "metadata \<Rightarrow> pb_update_record_request \<Rightarrow> 'w \<Rightarrow> (go_error + pb_update_record_response) \<times> 'w"
  gn_delete_record :: "metadata \<Rightarrow> pb_delete_record_request \<Rightarrow> 'w \<Rightarrow> (go_error + pb_delete_record_response) \<times> 'w"
  gn_lookup_by_rid :: "metadata \<Rightarrow> pb_lookup_by_rid_request \<Rightarrow> 'w \<Rightarrow> (go_error + pb_lookup_by_rid_response) \<times> 'w"
  gn_vector_search :: "metadata \<Rightarrow> pb_vector_search_request \<Rightarrow> 'w \<Rightarrow> (go_error + pb_vector_search_response) \<times> 'w"
  gn_hybrid_search :: "metadata \<Rightarrow> pb_hybrid_search_request \<Rightarrow> 'w \<Rightarrow> (go_error + pb_hybrid_search_response) \<times> 'w"
  gn_full_text_search :: "metadata \<Rightarrow> pb_full_text_search_request \<Rightarrow> 'w \<Rightarrow> (go_error + pb_full_text_search_response) \<times> 'w"
  gn_time_series_latest :: "metadata \<Rightarrow> pb_time_series_latest_request \<Rightarrow> 'w \<Rightarrow> (go_error + pb_time_series_latest_response) \<times> 'w"
  gn_open :: "bytes \<Rightarrow> metadata \<Rightarrow> 'w \<Rightarrow> go_error option \<times> 'w"
  gn_send :: "pb_message \<Rightarrow> 'w \<Rightarrow> go_error option \<times> 'w"
  gn_close_send :: "'w \<Rightarrow> go_error option \<times> 'w"
  gn_recv_stream_query :: "'w \<Rightarrow> (go_error + pb_query_result) \<times> 'w"
  gn_recv_time_series_query :: "'w \<Rightarrow> (go_error + pb_time_series_query_result) \<times> 'w"
  gn_reply_insert_stream :: "'w \<Rightarrow> (go_error + pb_insert_summary) \<times> 'w"
  gn_reply_time_series_write_stream :: "'w \<Rightarrow> (go_error + pb_time_series_write_summary) \<times> 'w"
  gn_cancel :: "'w \<Rightarrow> 'w"

record 'w grpc_world =
  gw_log :: "grpc_event list"
  gw_rest :: 'w

definition grpc_ctx_done :: "'w grpc_net \<Rightarrow> gctx \<Rightarrow> 'w grpc_world \<Rightarrow> go_error option" where
  "grpc_ctx_done net c w =
     (case gx_ctx c of CtxCaller \<Rightarrow> gn_ctx_err net (gw_rest w) | CtxWithoutCancel \<Rightarrow> None)"

text \<open>Something asked of the connection: it is logged, and the world goes on with the answer.\<close>

definition ask :: "grpc_event \<Rightarrow> ('w \<Rightarrow> 'r \<times> 'w) \<Rightarrow> 'w grpc_world \<Rightarrow> 'r \<times> 'w grpc_world" where
  "ask ev f w = (case f (gw_rest w) of (r, x) \<Rightarrow> (r, \<lparr>gw_log = gw_log w @ [ev], gw_rest = x\<rparr>))"

text \<open>
  \<open>cc.Invoke\<close> and \<open>cc.NewStream\<close> behind the interceptors. grpc-go fails a call whose context is
  done before it reaches the server.
\<close>

definition unary_interceptor :: "grpc_conn \<Rightarrow> gctx \<Rightarrow> gctx" where
  "unary_interceptor cc c = outgoing (cc_unary cc) c"

definition stream_interceptor :: "grpc_conn \<Rightarrow> gctx \<Rightarrow> gctx" where
  "stream_interceptor cc c = outgoing (cc_stream cc) c"

definition cc_invoke ::
  "'w grpc_net \<Rightarrow> grpc_conn \<Rightarrow> bytes \<Rightarrow> (metadata \<Rightarrow> 'm \<Rightarrow> 'w \<Rightarrow> (go_error + 'r) \<times> 'w) \<Rightarrow> ('m \<Rightarrow> pb_message)
     \<Rightarrow> gctx \<Rightarrow> 'm \<Rightarrow> 'w grpc_world \<Rightarrow> (go_error + 'r) \<times> 'w grpc_world" where
  "cc_invoke net cc name answer msg c m w =
     (let c' = unary_interceptor cc c
      in case grpc_ctx_done net c' w of
           Some e \<Rightarrow> (Inl e, w)
         | None \<Rightarrow> ask (Invoked name (gx_md c') (msg m)) (answer (gx_md c') m) w)"

definition cc_new_stream ::
  "'w grpc_net \<Rightarrow> grpc_conn \<Rightarrow> bytes \<Rightarrow> gctx \<Rightarrow> 'w grpc_world \<Rightarrow> go_error option \<times> 'w grpc_world" where
  "cc_new_stream net cc name c w =
     (let c' = stream_interceptor cc c
      in case grpc_ctx_done net c' w of
           Some e \<Rightarrow> (Some e, w)
         | None \<Rightarrow> ask (Opened name (gx_md c')) (gn_open net name (gx_md c')) w)"

definition cancel_stream :: "'w grpc_net \<Rightarrow> 'w grpc_world \<Rightarrow> 'w grpc_world" where
  "cancel_stream net w = snd (ask StreamCancelled (\<lambda>x. ((), gn_cancel net x)) w)"

section \<open>Unary calls\<close>

definition rpc_begin_transaction ::
  "'w grpc_net \<Rightarrow> grpc_conn \<Rightarrow> gctx \<Rightarrow> pb_begin_transaction_request \<Rightarrow> 'w grpc_world
     \<Rightarrow> (go_error + pb_begin_transaction_response) \<times> 'w grpc_world" where
  "rpc_begin_transaction net cc = cc_invoke net cc ''/com.arcadedb.grpc.ArcadeDbService/BeginTransaction''
     (gn_begin_transaction net) MsgBeginTransaction"

definition rpc_commit_transaction ::
  "'w grpc_net \<Rightarrow> grpc_conn \<Rightarrow> gctx \<Rightarrow> pb_commit_transaction_request \<Rightarrow> 'w grpc_world
     \<Rightarrow> (go_error + pb_commit_transaction_response) \<times> 'w grpc_world" where
  "rpc_commit_transaction net cc = cc_invoke net cc ''/com.arcadedb.grpc.ArcadeDbService/CommitTransaction''
     (gn_commit_transaction net) MsgCommitTransaction"

definition rpc_rollback_transaction ::
  "'w grpc_net \<Rightarrow> grpc_conn \<Rightarrow> gctx \<Rightarrow> pb_rollback_transaction_request \<Rightarrow> 'w grpc_world
     \<Rightarrow> (go_error + pb_rollback_transaction_response) \<times> 'w grpc_world" where
  "rpc_rollback_transaction net cc = cc_invoke net cc ''/com.arcadedb.grpc.ArcadeDbService/RollbackTransaction''
     (gn_rollback_transaction net) MsgRollbackTransaction"

definition rpc_execute_query ::
  "'w grpc_net \<Rightarrow> grpc_conn \<Rightarrow> gctx \<Rightarrow> pb_execute_query_request \<Rightarrow> 'w grpc_world
     \<Rightarrow> (go_error + pb_execute_query_response) \<times> 'w grpc_world" where
  "rpc_execute_query net cc = cc_invoke net cc ''/com.arcadedb.grpc.ArcadeDbService/ExecuteQuery''
     (gn_execute_query net) MsgExecuteQuery"

definition rpc_execute_command ::
  "'w grpc_net \<Rightarrow> grpc_conn \<Rightarrow> gctx \<Rightarrow> pb_execute_command_request \<Rightarrow> 'w grpc_world
     \<Rightarrow> (go_error + pb_execute_command_response) \<times> 'w grpc_world" where
  "rpc_execute_command net cc = cc_invoke net cc ''/com.arcadedb.grpc.ArcadeDbService/ExecuteCommand''
     (gn_execute_command net) MsgExecuteCommand"

definition rpc_create_record ::
  "'w grpc_net \<Rightarrow> grpc_conn \<Rightarrow> gctx \<Rightarrow> pb_create_record_request \<Rightarrow> 'w grpc_world
     \<Rightarrow> (go_error + pb_create_record_response) \<times> 'w grpc_world" where
  "rpc_create_record net cc = cc_invoke net cc ''/com.arcadedb.grpc.ArcadeDbService/CreateRecord''
     (gn_create_record net) MsgCreateRecord"

definition rpc_update_record ::
  "'w grpc_net \<Rightarrow> grpc_conn \<Rightarrow> gctx \<Rightarrow> pb_update_record_request \<Rightarrow> 'w grpc_world
     \<Rightarrow> (go_error + pb_update_record_response) \<times> 'w grpc_world" where
  "rpc_update_record net cc = cc_invoke net cc ''/com.arcadedb.grpc.ArcadeDbService/UpdateRecord''
     (gn_update_record net) MsgUpdateRecord"

definition rpc_delete_record ::
  "'w grpc_net \<Rightarrow> grpc_conn \<Rightarrow> gctx \<Rightarrow> pb_delete_record_request \<Rightarrow> 'w grpc_world
     \<Rightarrow> (go_error + pb_delete_record_response) \<times> 'w grpc_world" where
  "rpc_delete_record net cc = cc_invoke net cc ''/com.arcadedb.grpc.ArcadeDbService/DeleteRecord''
     (gn_delete_record net) MsgDeleteRecord"

definition rpc_lookup_by_rid ::
  "'w grpc_net \<Rightarrow> grpc_conn \<Rightarrow> gctx \<Rightarrow> pb_lookup_by_rid_request \<Rightarrow> 'w grpc_world
     \<Rightarrow> (go_error + pb_lookup_by_rid_response) \<times> 'w grpc_world" where
  "rpc_lookup_by_rid net cc = cc_invoke net cc ''/com.arcadedb.grpc.ArcadeDbService/LookupByRid''
     (gn_lookup_by_rid net) MsgLookupByRid"

definition rpc_vector_search ::
  "'w grpc_net \<Rightarrow> grpc_conn \<Rightarrow> gctx \<Rightarrow> pb_vector_search_request \<Rightarrow> 'w grpc_world
     \<Rightarrow> (go_error + pb_vector_search_response) \<times> 'w grpc_world" where
  "rpc_vector_search net cc = cc_invoke net cc ''/com.arcadedb.grpc.ArcadeDbService/VectorSearch''
     (gn_vector_search net) MsgVectorSearch"

definition rpc_hybrid_search ::
  "'w grpc_net \<Rightarrow> grpc_conn \<Rightarrow> gctx \<Rightarrow> pb_hybrid_search_request \<Rightarrow> 'w grpc_world
     \<Rightarrow> (go_error + pb_hybrid_search_response) \<times> 'w grpc_world" where
  "rpc_hybrid_search net cc = cc_invoke net cc ''/com.arcadedb.grpc.ArcadeDbService/HybridSearch''
     (gn_hybrid_search net) MsgHybridSearch"

definition rpc_full_text_search ::
  "'w grpc_net \<Rightarrow> grpc_conn \<Rightarrow> gctx \<Rightarrow> pb_full_text_search_request \<Rightarrow> 'w grpc_world
     \<Rightarrow> (go_error + pb_full_text_search_response) \<times> 'w grpc_world" where
  "rpc_full_text_search net cc = cc_invoke net cc ''/com.arcadedb.grpc.ArcadeDbService/FullTextSearch''
     (gn_full_text_search net) MsgFullTextSearch"

definition rpc_time_series_latest ::
  "'w grpc_net \<Rightarrow> grpc_conn \<Rightarrow> gctx \<Rightarrow> pb_time_series_latest_request \<Rightarrow> 'w grpc_world
     \<Rightarrow> (go_error + pb_time_series_latest_response) \<times> 'w grpc_world" where
  "rpc_time_series_latest net cc = cc_invoke net cc ''/com.arcadedb.grpc.ArcadeDbService/TimeSeriesLatest''
     (gn_time_series_latest net) MsgTimeSeriesLatest"

section \<open>Streams\<close>

text \<open>A server stream: opened, the request sent, the sending side closed.\<close>

definition open_server_stream ::
  "'w grpc_net \<Rightarrow> grpc_conn \<Rightarrow> bytes \<Rightarrow> pb_message \<Rightarrow> gctx \<Rightarrow> 'w grpc_world \<Rightarrow> go_error option \<times> 'w grpc_world" where
  "open_server_stream net cc name m c w =
     (case cc_new_stream net cc name c w of
        (Some e, w1) \<Rightarrow> (Some e, w1)
      | (None, w1) \<Rightarrow> (case ask (Sent m) (gn_send net m) w1 of
          (Some e, w2) \<Rightarrow> (Some e, w2)
        | (None, w2) \<Rightarrow> ask SendClosed (gn_close_send net) w2))"

definition rpc_stream_query :: "'w grpc_net \<Rightarrow> grpc_conn \<Rightarrow> pb_stream_query_request \<Rightarrow> gctx \<Rightarrow> 'w grpc_world \<Rightarrow> go_error option \<times> 'w grpc_world" where
  "rpc_stream_query net cc req = open_server_stream net cc ''/com.arcadedb.grpc.ArcadeDbService/StreamQuery'' (MsgStreamQuery req)"

definition rpc_time_series_query :: "'w grpc_net \<Rightarrow> grpc_conn \<Rightarrow> pb_time_series_query_request \<Rightarrow> gctx \<Rightarrow> 'w grpc_world \<Rightarrow> go_error option \<times> 'w grpc_world" where
  "rpc_time_series_query net cc req = open_server_stream net cc ''/com.arcadedb.grpc.ArcadeDbService/TimeSeriesQuery'' (MsgTimeSeriesQuery req)"

definition rpc_insert_stream :: "'w grpc_net \<Rightarrow> grpc_conn \<Rightarrow> gctx \<Rightarrow> 'w grpc_world \<Rightarrow> go_error option \<times> 'w grpc_world" where
  "rpc_insert_stream net cc = cc_new_stream net cc ''/com.arcadedb.grpc.ArcadeDbService/InsertStream''"

definition rpc_time_series_write_stream :: "'w grpc_net \<Rightarrow> grpc_conn \<Rightarrow> gctx \<Rightarrow> 'w grpc_world \<Rightarrow> go_error option \<times> 'w grpc_world" where
  "rpc_time_series_write_stream net cc = cc_new_stream net cc ''/com.arcadedb.grpc.ArcadeDbService/TimeSeriesWriteStream''"

text \<open>\<open>CloseAndRecv\<close>: the sending side is closed, then the reply is awaited.\<close>

definition close_and_recv ::
  "'w grpc_net \<Rightarrow> ('w \<Rightarrow> (go_error + 'r) \<times> 'w) \<Rightarrow> 'w grpc_world \<Rightarrow> (go_error + 'r) \<times> 'w grpc_world" where
  "close_and_recv net reply w =
     (case ask SendClosed (gn_close_send net) w of
        (Some e, w1) \<Rightarrow> (Inl e, w1)
      | (None, w1) \<Rightarrow> ask ReplyAwaited reply w1)"

section \<open>A server that commits\<close>

text \<open>
  A server for concrete runs: it begins, commits and rolls back, answers a streaming query as its
  argument says, and leaves every other call unimplemented (status code 12).
\<close>

definition serving_net :: "('w \<Rightarrow> (go_error + pb_query_result) \<times> 'w) \<Rightarrow> 'w grpc_net" where
  "serving_net recv =
     \<lparr>gn_ctx_err = (\<lambda>_. None),
      gn_begin_transaction = (\<lambda>md m w. (Inr \<lparr>btr_transaction_id = ''t1'', btr_timestamp = 0,
        btr_effective_isolation = bt_isolation m\<rparr>, w)),
      gn_commit_transaction = (\<lambda>md m w. (Inr \<lparr>ctr_success = True, ctr_committed = True,
        ctr_message = [], ctr_timestamp = 0\<rparr>, w)),
      gn_rollback_transaction = (\<lambda>md m w. (Inr \<lparr>rtr_success = True, rtr_rolled_back = True,
        rtr_message = []\<rparr>, w)),
      gn_execute_query = (\<lambda>md m w. (Inl (ERpc 12 []), w)),
      gn_execute_command = (\<lambda>md m w. (Inl (ERpc 12 []), w)),
      gn_create_record = (\<lambda>md m w. (Inl (ERpc 12 []), w)),
      gn_update_record = (\<lambda>md m w. (Inl (ERpc 12 []), w)),
      gn_delete_record = (\<lambda>md m w. (Inl (ERpc 12 []), w)),
      gn_lookup_by_rid = (\<lambda>md m w. (Inl (ERpc 12 []), w)),
      gn_vector_search = (\<lambda>md m w. (Inl (ERpc 12 []), w)),
      gn_hybrid_search = (\<lambda>md m w. (Inl (ERpc 12 []), w)),
      gn_full_text_search = (\<lambda>md m w. (Inl (ERpc 12 []), w)),
      gn_time_series_latest = (\<lambda>md m w. (Inl (ERpc 12 []), w)),
      gn_open = (\<lambda>name md w. (None, w)), gn_send = (\<lambda>m w. (None, w)), gn_close_send = (\<lambda>w. (None, w)),
      gn_recv_stream_query = recv,
      gn_recv_time_series_query = (\<lambda>w. (Inl (ESentinel IoEOF), w)),
      gn_reply_insert_stream = (\<lambda>w. (Inl (ERpc 12 []), w)),
      gn_reply_time_series_write_stream = (\<lambda>w. (Inl (ERpc 12 []), w)), gn_cancel = (\<lambda>w. w)\<rparr>"

abbreviation committing_net :: "unit grpc_net" where
  "committing_net \<equiv> serving_net (\<lambda>w. (Inl (ESentinel IoEOF), w))"

end
