(* ===== verification/Grpc_Transaction.thy ===== *)
theory Grpc_Transaction
  imports Grpc_Service
begin

text \<open>
  \<open>go/arcadedbgrpc/transaction.go\<close> and \<open>isolation.go\<close>: \<open>Client.Transaction\<close> as the second
  implementation of \<open>tx_protocol\<close>, and the handle, which copies every request and binds the copy
  to its transaction. The caller's requests live in an explicit heap, so that the copy is one.
\<close>

section \<open>Isolation\<close>

definition iso_read_committed :: enum where "iso_read_committed = 1"
definition iso_repeatable_read :: enum where "iso_repeatable_read = 2"

definition isolations :: "bytes \<Rightarrow> enum option" where
  "isolations l = (if l = ''READ_COMMITTED'' then Some iso_read_committed
     else if l = ''REPEATABLE_READ'' then Some iso_repeatable_read else None)"

text \<open>The options of a call, each a \<open>WithIsolationLevel\<close>; the last counts.\<close>

definition tx_isolation :: "bytes list \<Rightarrow> bytes option" where
  "tx_isolation opts = foldl (\<lambda>_ l. Some l) None opts"

lemma tx_isolation_last: "tx_isolation opts = (if opts = [] then None else Some (last opts))"
  unfolding tx_isolation_def by (induction opts rule: rev_induct) auto

section \<open>The handle\<close>

record grpc_tx =
  tx_conn :: grpc_conn
  tx_database :: bytes
  tx_id :: bytes

definition tx_context :: "grpc_tx \<Rightarrow> pb_transaction_context" where
  "tx_context h = \<lparr>tc_transaction_id = tx_id h, tc_database = tx_database h, tc_begin = False,
     tc_commit = False, tc_rollback = False, tc_timeout_ms = 0, tc_read_only = False\<rparr>"

definition binding :: "grpc_tx \<Rightarrow> bytes \<times> pb_transaction_context" where
  "binding h = (tx_database h, tx_context h)"

definition rollback_request :: "grpc_tx \<Rightarrow> pb_rollback_transaction_request" where
  "rollback_request h = \<lparr>rt_transaction = Some (tx_context h), rt_credentials = None\<rparr>"

definition commit_request :: "grpc_tx \<Rightarrow> pb_commit_transaction_request" where
  "commit_request h = \<lparr>ct_transaction = Some (tx_context h), ct_credentials = None\<rparr>"

definition tx_rollback :: "'w grpc_net \<Rightarrow> grpc_tx \<Rightarrow> gctx \<Rightarrow> 'w grpc_world \<Rightarrow> go_error option \<times> 'w grpc_world" where
  "tx_rollback net h c w =
     (case rpc_rollback_transaction net (tx_conn h) c (rollback_request h) w of
        (r, w') \<Rightarrow> (res_err r, w'))"

section \<open>The transaction\<close>

definition begin_request :: "bytes \<Rightarrow> enum \<Rightarrow> pb_begin_transaction_request" where
  "begin_request database level = \<lparr>bt_database = database, bt_credentials = None, bt_isolation = level\<rparr>"

definition not_committed_error :: "pb_commit_transaction_response \<Rightarrow> go_error" where
  "not_committed_error r =
     EWrap (if ctr_message r = [] then ''no message from server'' else ctr_message r) (ESentinel ErrNotCommitted)"

definition grpc_transaction ::
  "'w grpc_net \<Rightarrow> grpc_conn \<Rightarrow> gctx \<Rightarrow> bytes \<Rightarrow> (grpc_tx \<Rightarrow> 'w grpc_world \<Rightarrow> outcome \<times> 'w grpc_world)
     \<Rightarrow> bytes list \<Rightarrow> 'w grpc_world \<Rightarrow> tx_result \<times> 'w grpc_world" where
  "grpc_transaction net cc c database fn opts w =
     (case (case tx_isolation opts of None \<Rightarrow> Some 0 | Some l \<Rightarrow> isolations l) of
        None \<Rightarrow> (Ret (Some (EWrap ''use ReadCommitted or RepeatableRead'' (ESentinel ErrInvalidIsolationLevel))), w)
      | Some level \<Rightarrow>
          (case rpc_begin_transaction net cc c (begin_request database level) w of
             (Inl e, w1) \<Rightarrow> (Ret (Some e), w1)
           | (Inr begun, w1) \<Rightarrow>
               if trim_space (btr_transaction_id begun) = []
               then (Ret (Some (EWrap database (ESentinel ErrNoTransactionID))), w1)
               else let tx = \<lparr>tx_conn = cc, tx_database = database, tx_id = btr_transaction_id begun\<rparr>
                 in case fn tx w1 of
                      (Returned (Some e), w2) \<Rightarrow>
                        (case tx_rollback net tx (without_cancel c) w2 of
                           (Some rb, w3) \<Rightarrow> (Ret (Some (ETx e rb)), w3)
                         | (None, w3) \<Rightarrow> (Ret (Some e), w3))
                    | (Returned None, w2) \<Rightarrow>
                        (case rpc_commit_transaction net cc c (commit_request tx) w2 of
                           (Inl e, w3) \<Rightarrow>
                             (case tx_rollback net tx (without_cancel c) w3 of (_, w4) \<Rightarrow> (Ret (Some e), w4))
                         | (Inr answer, w3) \<Rightarrow>
                             if \<not> ctr_committed answer then (Ret (Some (not_committed_error answer)), w3)
                             else (Ret None, w3))
                    | (out, w2) \<Rightarrow>
                        (case tx_rollback net tx (without_cancel c) w2 of
                           (_, w3) \<Rightarrow>
                             (case out of
                                Panicked v \<Rightarrow> Panics v
                              | Goexited \<Rightarrow> Exits
                              | _ \<Rightarrow> Ret (Some (ESentinel ErrPanicNilOrGoexit)), w3))))"

section \<open>The interface of both drivers\<close>

definition grpc_begin ::
  "'w grpc_net \<Rightarrow> grpc_conn \<Rightarrow> gctx \<Rightarrow> bytes \<Rightarrow> bytes list \<Rightarrow> 'w grpc_world \<Rightarrow> (go_error + grpc_tx) \<times> 'w grpc_world" where
  "grpc_begin net cc c database opts w =
     (case (case tx_isolation opts of None \<Rightarrow> Some 0 | Some l \<Rightarrow> isolations l) of
        None \<Rightarrow> (Inl (EWrap ''use ReadCommitted or RepeatableRead'' (ESentinel ErrInvalidIsolationLevel)), w)
      | Some level \<Rightarrow>
          (case rpc_begin_transaction net cc c (begin_request database level) w of
             (Inl e, w1) \<Rightarrow> (Inl e, w1)
           | (Inr begun, w1) \<Rightarrow>
               (if trim_space (btr_transaction_id begun) = []
                then Inl (EWrap database (ESentinel ErrNoTransactionID))
                else Inr \<lparr>tx_conn = cc, tx_database = database, tx_id = btr_transaction_id begun\<rparr>, w1)))"

definition grpc_commit :: "'w grpc_net \<Rightarrow> gctx \<Rightarrow> grpc_tx \<Rightarrow> 'w grpc_world \<Rightarrow> commit_end \<times> 'w grpc_world" where
  "grpc_commit net c tx w =
     (case rpc_commit_transaction net (tx_conn tx) c (commit_request tx) w of
        (Inl e, w') \<Rightarrow> (CommitFailed e, w')
      | (Inr answer, w') \<Rightarrow> (if ctr_committed answer then Committed else NotCommitted (not_committed_error answer), w'))"

lemma grpc_begin_Inl:
  "grpc_begin net cc c database opts w = (Inl e, w1) \<Longrightarrow>
     grpc_transaction net cc c database fn opts w = (Ret (Some e), w1)"
  by (auto simp: grpc_begin_def grpc_transaction_def split: option.splits prod.splits sum.splits if_splits)

lemma grpc_begin_Inr:
  assumes "grpc_begin net cc c database opts w = (Inr tx, w1)"
  obtains level begun where
    "(case tx_isolation opts of None \<Rightarrow> Some 0 | Some l \<Rightarrow> isolations l) = Some level"
    "rpc_begin_transaction net cc c (begin_request database level) w = (Inr begun, w1)"
    "trim_space (btr_transaction_id begun) \<noteq> []"
    "tx = \<lparr>tx_conn = cc, tx_database = database, tx_id = btr_transaction_id begun\<rparr>"
  using assms by (auto simp: grpc_begin_def split: option.splits prod.splits sum.splits if_splits)

interpretation grpc: tx_protocol
  "\<lambda>w. grpc_begin net cc c database opts w" "\<lambda>tx w. grpc_commit net c tx w"
  "\<lambda>tx w. tx_rollback net tx (without_cancel c) w" "\<lambda>fn w. grpc_transaction net cc c database fn opts w"
  for net :: "'w grpc_net" and cc c database opts
proof unfold_locales
  fix w :: "'w grpc_world" and fn :: "grpc_tx \<Rightarrow> 'w grpc_world \<Rightarrow> outcome \<times> 'w grpc_world" and e w1
  assume "grpc_begin net cc c database opts w = (Inl e, w1)"
  then show "grpc_transaction net cc c database fn opts w = (Ret (Some e), w1)" by (rule grpc_begin_Inl)
next
  fix w :: "'w grpc_world" and fn :: "grpc_tx \<Rightarrow> 'w grpc_world \<Rightarrow> outcome \<times> 'w grpc_world" and tx w1 w2 w3
  assume b: "grpc_begin net cc c database opts w = (Inr tx, w1)" and f: "fn tx w1 = (Returned None, w2)"
    and k: "grpc_commit net c tx w2 = (Committed, w3)"
  from b show "grpc_transaction net cc c database fn opts w = (Ret None, w3)"
    by (rule grpc_begin_Inr) (use f k in \<open>auto simp: grpc_transaction_def Let_def grpc_commit_def
      split: prod.splits sum.splits if_splits\<close>)
next
  fix w :: "'w grpc_world" and fn :: "grpc_tx \<Rightarrow> 'w grpc_world \<Rightarrow> outcome \<times> 'w grpc_world" and tx w1 w2 e w3
  assume b: "grpc_begin net cc c database opts w = (Inr tx, w1)" and f: "fn tx w1 = (Returned None, w2)"
    and k: "grpc_commit net c tx w2 = (CommitFailed e, w3)"
  from b show "grpc_transaction net cc c database fn opts w =
      (Ret (Some e), snd (tx_rollback net tx (without_cancel c) w3))"
    by (rule grpc_begin_Inr) (use f k in \<open>auto simp: grpc_transaction_def Let_def grpc_commit_def
      split: prod.splits sum.splits if_splits\<close>)
next
  fix w :: "'w grpc_world" and fn :: "grpc_tx \<Rightarrow> 'w grpc_world \<Rightarrow> outcome \<times> 'w grpc_world" and tx w1 w2 e w3
  assume b: "grpc_begin net cc c database opts w = (Inr tx, w1)" and f: "fn tx w1 = (Returned None, w2)"
    and k: "grpc_commit net c tx w2 = (NotCommitted e, w3)"
  from b show "grpc_transaction net cc c database fn opts w = (Ret (Some e), w3)"
    by (rule grpc_begin_Inr) (use f k in \<open>auto simp: grpc_transaction_def Let_def grpc_commit_def
      split: prod.splits sum.splits if_splits\<close>)
next
  fix w :: "'w grpc_world" and fn :: "grpc_tx \<Rightarrow> 'w grpc_world \<Rightarrow> outcome \<times> 'w grpc_world" and tx w1 e w2
  assume b: "grpc_begin net cc c database opts w = (Inr tx, w1)" and f: "fn tx w1 = (Returned (Some e), w2)"
  from b show "grpc_transaction net cc c database fn opts w =
      (Ret (Some (case fst (tx_rollback net tx (without_cancel c) w2) of None \<Rightarrow> e | Some rb \<Rightarrow> ETx e rb)),
       snd (tx_rollback net tx (without_cancel c) w2))"
    by (rule grpc_begin_Inr) (use f in \<open>auto simp: grpc_transaction_def Let_def split: prod.splits option.splits\<close>)
next
  fix w :: "'w grpc_world" and fn :: "grpc_tx \<Rightarrow> 'w grpc_world \<Rightarrow> outcome \<times> 'w grpc_world" and tx w1 out w2
  assume b: "grpc_begin net cc c database opts w = (Inr tx, w1)" and f: "fn tx w1 = (out, w2)"
    and nr: "\<forall>e. out \<noteq> Returned e"
  from b show "grpc_transaction net cc c database fn opts w =
      (not_returned out, snd (tx_rollback net tx (without_cancel c) w2))"
    by (rule grpc_begin_Inr) (use f nr in \<open>cases out; auto simp: grpc_transaction_def Let_def split: prod.splits\<close>)
qed

section \<open>Requests on the heap\<close>

text \<open>
  A request is a cell of the heap, a pointer to it its number, None the nil pointer. \<open>clone\<close>
  makes a new cell; the assignment that follows writes to that one.
\<close>

record 'm heap =
  hp_cells :: "nat \<Rightarrow> 'm option"
  hp_next :: nat

definition heap_ok :: "'m heap \<Rightarrow> bool" where
  "heap_ok hp \<longleftrightarrow> (\<forall>a. hp_cells hp a \<noteq> None \<longrightarrow> a < hp_next hp)"

definition deref :: "'m \<Rightarrow> 'm heap \<Rightarrow> nat option \<Rightarrow> 'm" where
  "deref zero hp req =
     (case req of None \<Rightarrow> zero | Some a \<Rightarrow> (case hp_cells hp a of None \<Rightarrow> zero | Some m \<Rightarrow> m))"

definition clone :: "'m \<Rightarrow> nat option \<Rightarrow> 'm heap \<Rightarrow> nat \<times> 'm heap" where
  "clone zero req hp =
     (hp_next hp, \<lparr>hp_cells = (hp_cells hp)(hp_next hp \<mapsto> deref zero hp req), hp_next = hp_next hp + 1\<rparr>)"

definition assign :: "('m \<Rightarrow> 'm) \<Rightarrow> nat \<Rightarrow> 'm heap \<Rightarrow> 'm heap" where
  "assign f a hp = hp\<lparr>hp_cells := (hp_cells hp)(a := map_option f (hp_cells hp a))\<rparr>"

text \<open>\<open>r := clone(req); r.Database, r.Transaction = h.binding()\<close>.\<close>

definition bind_copy ::
  "'m \<Rightarrow> (bytes \<times> pb_transaction_context \<Rightarrow> 'm \<Rightarrow> 'm) \<Rightarrow> grpc_tx \<Rightarrow> nat option \<Rightarrow> 'm heap \<Rightarrow> 'm \<times> 'm heap" where
  "bind_copy zero put h req hp =
     (case clone zero req hp of (r, hp1) \<Rightarrow>
        let hp2 = assign (put (binding h)) r hp1 in (deref zero hp2 (Some r), hp2))"

definition bound_call ::
  "'m \<Rightarrow> (bytes \<times> pb_transaction_context \<Rightarrow> 'm \<Rightarrow> 'm) \<Rightarrow> ('m \<Rightarrow> 'w grpc_world \<Rightarrow> 'r \<times> 'w grpc_world)
     \<Rightarrow> grpc_tx \<Rightarrow> nat option \<Rightarrow> 'm heap \<times> 'w grpc_world \<Rightarrow> 'r \<times> 'm heap \<times> 'w grpc_world" where
  "bound_call zero put send h req s =
     (case s of (hp, w) \<Rightarrow> case bind_copy zero put h req hp of (m, hp') \<Rightarrow>
        case send m w of (r, w') \<Rightarrow> (r, hp', w'))"











definition put_stream_query :: "bytes \<times> pb_transaction_context \<Rightarrow> pb_stream_query_request \<Rightarrow> pb_stream_query_request" where
  "put_stream_query b m = m\<lparr>sq_database := fst b, sq_transaction := Some (snd b)\<rparr>"

definition put_time_series_query :: "bytes \<times> pb_transaction_context \<Rightarrow> pb_time_series_query_request \<Rightarrow> pb_time_series_query_request" where
  "put_time_series_query b m = m\<lparr>tq_database := fst b, tq_transaction := Some (snd b)\<rparr>"

section \<open>The methods of the handle\<close>











text \<open>
  A call of a handle is the generated call of one message, which names the handle's database and
  transaction and is the caller's request in every other field; every cell of the heap the caller
  can know is as it was.
\<close>

definition sent_bound ::
  "grpc_tx \<Rightarrow> ('m \<Rightarrow> bytes) \<Rightarrow> ('m \<Rightarrow> pb_transaction_context option)
     \<Rightarrow> (bytes \<times> pb_transaction_context \<Rightarrow> 'm \<Rightarrow> 'm) \<Rightarrow> 'm \<Rightarrow> ('m \<Rightarrow> 's \<Rightarrow> 'r \<times> 's) \<Rightarrow> nat option
     \<Rightarrow> 'm heap \<Rightarrow> 's \<Rightarrow> 'r \<times> 'm heap \<times> 's \<Rightarrow> bool" where
  "sent_bound h database tx_of put zero send req hp w res \<longleftrightarrow>
     (case res of (r, hp', w') \<Rightarrow>
       (\<forall>a < hp_next hp. hp_cells hp' a = hp_cells hp a) \<and>
       (\<exists>m. send m w = (r, w') \<and> database m = tx_database h \<and> tx_of m = Some (tx_context h) \<and>
          (\<forall>b. put b m = put b (deref zero hp req))))"

text \<open>What makes the assignment one to these two fields only.\<close>

locale bound_message =
  fixes put :: "bytes \<times> pb_transaction_context \<Rightarrow> 'm \<Rightarrow> 'm" and database :: "'m \<Rightarrow> bytes"
    and tx_of :: "'m \<Rightarrow> pb_transaction_context option"
  assumes put_database: "database (put b m) = fst b"
    and put_tx: "tx_of (put b m) = Some (snd b)"
    and put_put: "put b (put b' m) = put b m"
begin

lemma bound:
  assumes "bind_copy zero put h req hp = (m, hp')"
  shows "database m = tx_database h" and "tx_of m = Some (tx_context h)"
    and "put b m = put b (deref zero hp req)"
    and "a < hp_next hp \<Longrightarrow> hp_cells hp' a = hp_cells hp a" and "heap_ok hp \<Longrightarrow> heap_ok hp'"
proof -
  have m: "m = put (binding h) (deref zero hp req)"
    and hp: "hp_cells hp' = (hp_cells hp)(hp_next hp \<mapsto> m)" "hp_next hp' = hp_next hp + 1"
    using assms by (auto simp: bind_copy_def clone_def assign_def deref_def)
  show "database m = tx_database h" and "tx_of m = Some (tx_context h)"
    and "put b m = put b (deref zero hp req)"
    by (simp_all add: m put_database put_tx put_put binding_def)
  show "a < hp_next hp \<Longrightarrow> hp_cells hp' a = hp_cells hp a" and "heap_ok hp \<Longrightarrow> heap_ok hp'"
    by (auto simp: hp heap_ok_def less_Suc_eq)
qed

lemma sent:
  "sent_bound h database tx_of put zero send req hp w (bound_call zero put send h req (hp, w))"
proof -
  obtain m hp' where m: "bind_copy zero put h req hp = (m, hp')" by fastforce
  obtain r w' where r: "send m w = (r, w')" by fastforce
  show ?thesis
    unfolding sent_bound_def bound_call_def using bound [OF m] r by (auto simp: m)
qed

end











interpretation stream_query: bound_message put_stream_query sq_database sq_transaction
  by unfold_locales (simp_all add: put_stream_query_def)

interpretation time_series_query: bound_message put_time_series_query tq_database tq_transaction
  by unfold_locales (simp_all add: put_time_series_query_def)


section \<open>What the caller may rely on\<close>

abbreviation grpc_level :: "bytes list \<Rightarrow> enum option" where
  "grpc_level opts \<equiv> (case tx_isolation opts of None \<Rightarrow> Some 0 | Some l \<Rightarrow> isolations l)"

lemma grpc_begin_iff:
  "grpc_begin net cc c database opts w = (Inr tx, w1) \<longleftrightarrow>
     (\<exists>level begun. grpc_level opts = Some level \<and>
        rpc_begin_transaction net cc c (begin_request database level) w = (Inr begun, w1) \<and>
        trim_space (btr_transaction_id begun) \<noteq> [] \<and>
        tx = \<lparr>tx_conn = cc, tx_database = database, tx_id = btr_transaction_id begun\<rparr>)"
  by (auto simp: grpc_begin_def split: option.splits prod.splits sum.splits if_splits)

lemma grpc_commit_iff:
  "grpc_commit net c tx w = (Committed, w') \<longleftrightarrow>
     (\<exists>answer. rpc_commit_transaction net (tx_conn tx) c (commit_request tx) w = (Inr answer, w') \<and> ctr_committed answer)"
  by (auto simp: grpc_commit_def split: prod.splits sum.splits if_splits)

text \<open>
  C19: the gRPC \<open>Transaction\<close> returns nil exactly when the level is one the driver maps, the begin
  gave an id that is not blank, the callback, run once on that transaction's handle, returned nil,
  and the commit answered without an error and with committed set.
\<close>

theorem grpc_transaction_nil_iff_committed:
  "grpc_transaction net cc c database fn opts w = (Ret None, w') \<longleftrightarrow>
     (\<exists>level begun w1 w2 answer tx. grpc_level opts = Some level \<and>
        rpc_begin_transaction net cc c (begin_request database level) w = (Inr begun, w1) \<and>
        trim_space (btr_transaction_id begun) \<noteq> [] \<and>
        tx = \<lparr>tx_conn = cc, tx_database = database, tx_id = btr_transaction_id begun\<rparr> \<and>
        fn tx w1 = (Returned None, w2) \<and>
        rpc_commit_transaction net cc c (commit_request tx) w2 = (Inr answer, w') \<and> ctr_committed answer)"
  unfolding grpc.nil_iff_committed grpc_begin_iff grpc_commit_iff by (auto 4 4)

lemma invoke_log:
  "gw_log (snd (cc_invoke net cc name answer msg c m w)) = gw_log w @
     (if grpc_ctx_done net c w = None then [Invoked name (gx_md c @ cc_unary cc) (msg m)] else [])"
  by (simp add: cc_invoke_def Let_def unary_interceptor_def outgoing_def grpc_ctx_done_def ask_def
      split: option.split prod.split)

abbreviation rpc_event :: "bytes \<Rightarrow> grpc_conn \<Rightarrow> gctx \<Rightarrow> pb_message \<Rightarrow> grpc_event" where
  "rpc_event name cc c m \<equiv> Invoked (''/com.arcadedb.grpc.ArcadeDbService/'' @ name) (gx_md c @ cc_unary cc) m"

lemma rollback_log:
  "gw_log (snd (tx_rollback net tx (without_cancel c) w)) =
     gw_log w @ [rpc_event ''RollbackTransaction'' (tx_conn tx) c (MsgRollbackTransaction (rollback_request tx))]"
  by (simp add: tx_rollback_def rpc_rollback_transaction_def invoke_log case_prod_beta without_cancel_def
      grpc_ctx_done_def)

lemma grpc_begin_conn: "grpc_begin net cc c database opts w = (Inr tx, w1) \<Longrightarrow> tx_conn tx = cc"
  by (auto simp: grpc_begin_iff)

lemma grpc_transaction_world:
  assumes "grpc_begin net cc c database opts w = (Inr tx, w1)" and "fn tx w1 = (out, w2)"
  shows "snd (grpc_transaction net cc c database fn opts w) =
    (let (answer, w3) = rpc_commit_transaction net cc c (commit_request tx) w2
     in if out \<noteq> Returned None then snd (tx_rollback net tx (without_cancel c) w2)
        else case answer of Inl e \<Rightarrow> snd (tx_rollback net tx (without_cancel c) w3) | Inr a \<Rightarrow> w3)"
  using assms(1)
  by (rule grpc_begin_Inr)
    (use assms(2) in \<open>cases out; auto simp: grpc_transaction_def Let_def split: option.split prod.split sum.split\<close>)

text \<open>
  C20: after the callback, the connection is asked for exactly one rollback when the callback did
  not return nil, whether the context is done or not; otherwise for one commit (none when the
  context is done), followed by one rollback only if the commit failed with an error. A commit that
  answers committed=false is followed by nothing, and no call names another transaction.
\<close>

theorem grpc_transaction_trace:
  assumes "grpc_begin net cc c database opts w = (Inr tx, w1)" and "fn tx w1 = (out, w2)"
  shows "gw_log (snd (grpc_transaction net cc c database fn opts w)) = gw_log w2 @
    (let rollback = rpc_event ''RollbackTransaction'' cc c (MsgRollbackTransaction (rollback_request tx));
         commit = rpc_event ''CommitTransaction'' cc c (MsgCommitTransaction (commit_request tx))
     in if out \<noteq> Returned None then [rollback]
        else (if grpc_ctx_done net c w2 = None then [commit] else []) @
             (case fst (rpc_commit_transaction net cc c (commit_request tx) w2) of
                Inl e \<Rightarrow> [rollback] | Inr answer \<Rightarrow> []))"
  unfolding grpc_transaction_world [of net cc c database opts w tx w1 fn out w2, OF assms]
  by (simp add: Let_def case_prod_beta rollback_log rpc_commit_transaction_def invoke_log grpc_begin_conn [OF assms(1)]
      split: sum.split)

lemma grpc_transaction_trace_witness:
  "gw_log (snd (grpc_transaction committing_net (conn_of ''db:50051'' []) \<lparr>gx_ctx = CtxCaller, gx_md = []\<rparr> ''d''
       (\<lambda>tx w. (Returned None, w)) [] \<lparr>gw_log = [], gw_rest = ()\<rparr>)) =
     [Invoked ''/com.arcadedb.grpc.ArcadeDbService/BeginTransaction'' [] (MsgBeginTransaction (begin_request ''d'' 0)),
      Invoked ''/com.arcadedb.grpc.ArcadeDbService/CommitTransaction'' []
        (MsgCommitTransaction (commit_request \<lparr>tx_conn = conn_of ''db:50051'' [], tx_database = ''d'', tx_id = ''t1''\<rparr>))]"
proof -
  let ?cc = "conn_of ''db:50051'' []" and ?c = "\<lparr>gx_ctx = CtxCaller, gx_md = []\<rparr>"
  let ?tx = "\<lparr>tx_conn = ?cc, tx_database = ''d'', tx_id = ''t1''\<rparr>"
  let ?w = "\<lparr>gw_log = [], gw_rest = ()\<rparr>"
  let ?ev = "Invoked ''/com.arcadedb.grpc.ArcadeDbService/BeginTransaction'' [] (MsgBeginTransaction (begin_request ''d'' 0))"
  let ?w1 = "\<lparr>gw_log = [?ev], gw_rest = ()\<rparr>"
  have t: "trim_space ''t1'' \<noteq> []" by code_simp
  have "grpc_begin committing_net ?cc ?c ''d'' [] ?w = (Inr ?tx, ?w1)"
    using t by (simp add: grpc_begin_iff tx_isolation_def rpc_begin_transaction_def cc_invoke_def Let_def
        unary_interceptor_def outgoing_def grpc_ctx_done_def ask_def serving_net_def conn_of_def)
  then show ?thesis
    using grpc_transaction_trace [of committing_net ?cc ?c "''d''" "[]" ?w ?tx ?w1 "\<lambda>tx w. (Returned None, w)" "Returned None" ?w1]
    by (simp add: Let_def rpc_commit_transaction_def cc_invoke_def unary_interceptor_def outgoing_def
        grpc_ctx_done_def ask_def serving_net_def conn_of_def)
qed

end
