(* ===== verification/Grpc_Streams.thy ===== *)
theory Grpc_Streams
  imports Grpc_Transaction
begin

text \<open>
  The streams of the gRPC driver: \<open>recvAll\<close> and the two queries over it
  (\<open>go/arcadedbgrpc/stream.go\<close>), \<open>InsertStream\<close> with its envelope and \<open>TimeSeriesWriteStream\<close>
  (\<open>insert.go\<close>), and the methods of the handle that run them. A range over a sequence is a
  run with the consumer's state; that a server may send without end makes it a partial function.
\<close>

section \<open>Server streams\<close>

text \<open>The receive loop of \<open>recvAll\<close>: None stands for a range that never ends.\<close>

partial_function (option) recv_loop ::
  "('w \<Rightarrow> (go_error + 'm) \<times> 'w) \<Rightarrow> ('c, go_error + 'm) consumer \<Rightarrow> 'c \<Rightarrow> 'w grpc_world
     \<Rightarrow> ('c \<times> 'w grpc_world) option" where
  "recv_loop recv yields c w =
     (case ask Received recv w of
        (Inl e, w') \<Rightarrow> Some (if err_is e IoEOF then c else snd (yields c (Inl e)), w')
      | (Inr m, w') \<Rightarrow>
          (case yields c (Inr m) of
             (go, c') \<Rightarrow> if go then recv_loop recv yields c' w' else Some (c', w')))"

definition recv_all ::
  "'w grpc_net \<Rightarrow> ('w grpc_world \<Rightarrow> go_error option \<times> 'w grpc_world) \<Rightarrow> ('w \<Rightarrow> (go_error + 'm) \<times> 'w)
     \<Rightarrow> ('c, go_error + 'm) consumer \<Rightarrow> 'c \<Rightarrow> 'w grpc_world \<Rightarrow> ('c \<times> 'w grpc_world) option" where
  "recv_all net opening recv yields c w =
     (case opening w of
        (Some e, w1) \<Rightarrow> Some (snd (yields c (Inl e)), cancel_stream net w1)
      | (None, w1) \<Rightarrow> map_option (\<lambda>(c', w2). (c', cancel_stream net w2)) (recv_loop recv yields c w1))"

text \<open>The body of \<open>streamQuery\<close>'s range over the batches, which it flattens.\<close>

fun flatten_step :: "('c, go_error + pb_grpc_record) consumer \<Rightarrow> ('c, go_error + pb_query_result) consumer" where
  "flatten_step yields c (Inl e) = (False, snd (yields c (Inl e)))"
| "flatten_step yields c (Inr batch) = feed (\<lambda>c r. yields c (Inr r)) c (qr_records batch)"

definition stream_query ::
  "'w grpc_net \<Rightarrow> grpc_conn \<Rightarrow> gctx \<Rightarrow> pb_stream_query_request \<Rightarrow> ('c, go_error + pb_grpc_record) consumer
     \<Rightarrow> 'c \<Rightarrow> 'w grpc_world \<Rightarrow> ('c \<times> 'w grpc_world) option" where
  "stream_query net cc c req yields =
     recv_all net (rpc_stream_query net cc req c) (gn_recv_stream_query net) (flatten_step yields)"

definition time_series_query ::
  "'w grpc_net \<Rightarrow> grpc_conn \<Rightarrow> gctx \<Rightarrow> pb_time_series_query_request \<Rightarrow> ('c, go_error + pb_time_series_query_result) consumer
     \<Rightarrow> 'c \<Rightarrow> 'w grpc_world \<Rightarrow> ('c \<times> 'w grpc_world) option" where
  "time_series_query net cc c req yields =
     recv_all net (rpc_time_series_query net cc req c) (gn_recv_time_series_query net) yields"

text \<open>
  On a handle the request is copied and bound when the method is called, so the sequence is a
  function of the range that keeps the bound copy.
\<close>

definition tx_stream_query ::
  "'w grpc_net \<Rightarrow> grpc_tx \<Rightarrow> gctx \<Rightarrow> nat option \<Rightarrow> pb_stream_query_request heap
     \<Rightarrow> (('c, go_error + pb_grpc_record) consumer \<Rightarrow> 'c \<Rightarrow> 'w grpc_world \<Rightarrow> ('c \<times> 'w grpc_world) option)
        \<times> pb_stream_query_request heap" where
  "tx_stream_query net h c req hp =
     (case bind_copy empty_stream_query_request put_stream_query h req hp of
        (m, hp') \<Rightarrow> (stream_query net (tx_conn h) c m, hp'))"

definition tx_time_series_query ::
  "'w grpc_net \<Rightarrow> grpc_tx \<Rightarrow> gctx \<Rightarrow> nat option \<Rightarrow> pb_time_series_query_request heap
     \<Rightarrow> (('c, go_error + pb_time_series_query_result) consumer \<Rightarrow> 'c \<Rightarrow> 'w grpc_world \<Rightarrow> ('c \<times> 'w grpc_world) option)
        \<times> pb_time_series_query_request heap" where
  "tx_time_series_query net h c req hp =
     (case bind_copy empty_time_series_query_request put_time_series_query h req hp of
        (m, hp') \<Rightarrow> (time_series_query net (tx_conn h) c m, hp'))"

text \<open>What a server sends from a state on: these messages, then the error that ends the stream.\<close>

fun receives :: "('w \<Rightarrow> (go_error + 'm) \<times> 'w) \<Rightarrow> 'w \<Rightarrow> 'm list \<Rightarrow> go_error \<Rightarrow> bool" where
  "receives recv x [] e \<longleftrightarrow> fst (recv x) = Inl e"
| "receives recv x (m # ms) e \<longleftrightarrow> fst (recv x) = Inr m \<and> receives recv (snd (recv x)) ms e"

abbreviation stream_tail :: "go_error \<Rightarrow> (go_error + 'm) list" where
  "stream_tail e \<equiv> if err_is e IoEOF then [] else [Inl e]"

lemma recv_loop_feed:
  assumes "receives recv (gw_rest w) ms e"
  shows "\<exists>n w'. recv_loop recv yields c w = Some (snd (feed yields c (map Inr ms @ stream_tail e)), w') \<and>
    gw_log w' = gw_log w @ replicate n Received \<and> n \<le> Suc (length ms) \<and>
    (\<forall>k \<le> length ms. \<not> fst (feed yields c (map Inr (take k ms))) \<longrightarrow> n \<le> k)"
  using assms
proof (induction ms arbitrary: c w)
  case Nil
  then show ?case
    by (intro exI [of _ 1]) (auto simp: recv_loop.simps [of recv yields c w] ask_def split: prod.split)
next
  case (Cons m ms)
  obtain x where x: "recv (gw_rest w) = (Inr m, x)" and rest: "receives recv x ms e"
    using Cons.prems by (cases "recv (gw_rest w)") auto
  let ?w1 = "\<lparr>gw_log = gw_log w @ [Received], gw_rest = x\<rparr>"
  obtain go c1 where y: "yields c (Inr m) = (go, c1)" by fastforce
  show ?case
  proof (cases go)
    case False
    then show ?thesis using y x
      by (intro exI [of _ 1] exI [of _ ?w1])
        (auto simp: recv_loop.simps [of recv yields c w] ask_def take_Cons' split: if_splits)
  next
    case True
    from Cons.IH [of ?w1 c1] rest obtain n w' where
      "recv_loop recv yields c1 ?w1 = Some (snd (feed yields c1 (map Inr ms @ stream_tail e)), w')"
      "gw_log w' = gw_log w @ Received # replicate n Received" "n \<le> Suc (length ms)"
      "\<forall>k \<le> length ms. \<not> fst (feed yields c1 (map Inr (take k ms))) \<longrightarrow> n \<le> k" by auto
    moreover from this(4) True y have
      "\<not> fst (feed yields c (map Inr (take k (m # ms)))) \<longrightarrow> Suc n \<le> k" if "k \<le> length (m # ms)" for k
      using that by (cases k) auto
    ultimately show ?thesis using True x y
      by (intro exI [of _ "Suc n"] exI [of _ w'])
        (simp add: recv_loop.simps [of recv yields c w] ask_def split del: if_split)
  qed
qed

lemma feed_flatten:
  "feed (flatten_step yields) c (map Inr bs) = feed yields c (map Inr (concat (map qr_records bs)))"
proof (induction bs arbitrary: c)
  case (Cons b bs)
  have "feed (\<lambda>c r. yields c (Inr r)) c rs = feed yields c (map Inr rs)" for c rs
    by (induction rs arbitrary: c) (auto split: prod.split)
  then show ?case by (simp add: feed_append Cons.IH split: prod.split)
qed simp

lemma feed_flatten_tail:
  "snd (feed (flatten_step yields) c (map Inr bs @ stream_tail e)) =
     snd (feed yields c (map Inr (concat (map qr_records bs)) @ stream_tail e))"
  by (auto simp: feed_append feed_flatten split: prod.split)

text \<open>
  C34: a range over \<open>StreamQuery\<close> yields the records of the server's batches in order, then the
  error that ended the stream, once, unless that is the end of the stream; a consumer that stops is
  never called again and no message is read after the batch at which it stopped; and however the
  range ends, the stream's context is cancelled last.
\<close>

theorem stream_query_delivers:
  assumes "rpc_stream_query net cc req c w = (None, w1)"
    and "receives (gn_recv_stream_query net) (gw_rest w1) batches e"
  shows "\<exists>n w'. stream_query net cc c req yields s w =
      Some (snd (feed yields s (map Inr (concat (map qr_records batches)) @ stream_tail e)), w') \<and>
    gw_log w' = gw_log w1 @ replicate n Received @ [StreamCancelled] \<and> n \<le> Suc (length batches) \<and>
    (\<forall>k \<le> length batches.
       \<not> fst (feed yields s (map Inr (concat (map qr_records (take k batches))))) \<longrightarrow> n \<le> k)"
proof -
  obtain n w' where "recv_loop (gn_recv_stream_query net) (flatten_step yields) s w1 =
      Some (snd (feed (flatten_step yields) s (map Inr batches @ stream_tail e)), w')"
    "gw_log w' = gw_log w1 @ replicate n Received" "n \<le> Suc (length batches)"
    "\<forall>k \<le> length batches. \<not> fst (feed (flatten_step yields) s (map Inr (take k batches))) \<longrightarrow> n \<le> k"
    using recv_loop_feed [OF assms(2), of "flatten_step yields" s] by blast
  with assms(1) show ?thesis
    by (intro exI [of _ n] exI [of _ "cancel_stream net w'"])
      (simp add: stream_query_def recv_all_def feed_flatten_tail feed_flatten cancel_stream_def ask_def
        split del: if_split)
qed

text \<open>A server that has these batches left.\<close>

fun next_batch :: "pb_query_result list \<Rightarrow> (go_error + pb_query_result) \<times> pb_query_result list" where
  "next_batch [] = (Inl (ERpc 13 ''broken''), [])"
| "next_batch (b # bs) = (Inr b, bs)"

lemma stream_query_delivers_witness:
  "\<exists>w'. stream_query (serving_net next_batch) (conn_of ''db:50051'' []) \<lparr>gx_ctx = CtxCaller, gx_md = []\<rparr>
      empty_stream_query_request (taking 3) []
      \<lparr>gw_log = [], gw_rest = [\<lparr>qr_records = [\<lparr>gr_rid = ''#1:0'', gr_type = ''T'', gr_properties = (\<lambda>_. None)\<rparr>],
         qr_total_records_in_batch = 1, qr_running_total_emitted = 1, qr_is_last_batch = False\<rparr>]\<rparr> =
    Some ([Inr \<lparr>gr_rid = ''#1:0'', gr_type = ''T'', gr_properties = (\<lambda>_. None)\<rparr>, Inl (ERpc 13 ''broken'')], w') \<and>
    last (gw_log w') = StreamCancelled"
proof -
  let ?cc = "conn_of ''db:50051'' []" and ?c = "\<lparr>gx_ctx = CtxCaller, gx_md = []\<rparr>"
  let ?row = "\<lparr>gr_rid = ''#1:0'', gr_type = ''T'', gr_properties = (\<lambda>_. None)\<rparr>"
  let ?b = "\<lparr>qr_records = [?row], qr_total_records_in_batch = 1, qr_running_total_emitted = 1, qr_is_last_batch = False\<rparr>"
  let ?w = "\<lparr>gw_log = [], gw_rest = [?b]\<rparr>"
  obtain w1 where w1: "rpc_stream_query (serving_net next_batch) ?cc empty_stream_query_request ?c ?w = (None, w1)"
    and r: "gw_rest w1 = [?b]"
    by (simp add: rpc_stream_query_def open_server_stream_def cc_new_stream_def Let_def stream_interceptor_def
        outgoing_def grpc_ctx_done_def ask_def serving_net_def)
  have "receives (gn_recv_stream_query (serving_net next_batch)) (gw_rest w1) [?b] (ERpc 13 ''broken'')"
    unfolding r by (simp add: serving_net_def)
  from stream_query_delivers [OF w1 this, of "taking 3" "[]"] show ?thesis
    by (auto simp: taking_def)
qed

text \<open>A stream that does not open is its error, once, and is cancelled all the same.\<close>

lemma stream_query_refused:
  "rpc_stream_query net cc req c w = (Some e, w1) \<Longrightarrow>
     stream_query net cc c req yields s w = Some (snd (yields s (Inl e)), cancel_stream net w1)"
  by (simp add: stream_query_def recv_all_def)

section \<open>Client streams\<close>

text \<open>The request of \<open>InsertStream\<close>; a nil \<open>Chunks\<close> and one that yields nothing are the empty list.\<close>

record insert_stream_request =
  ir_database :: bytes
  ir_chunks :: "pb_grpc_record list list"
  ir_options :: "pb_insert_options option"
  ir_credentials :: "pb_database_credentials option"
  ir_transaction :: "pb_transaction_context option"

definition insert_chunk_of ::
  "bytes \<Rightarrow> insert_stream_request \<Rightarrow> int \<Rightarrow> pb_grpc_record list \<Rightarrow> bool \<Rightarrow> pb_insert_chunk" where
  "insert_chunk_of sid req seq rows final =
     \<lparr>ic_database = (if seq = 1 then ir_database req else []), ic_credentials = ir_credentials req,
      ic_options = ir_options req, ic_transaction = ir_transaction req, ic_session_id = sid,
      ic_chunk_seq = seq, ic_rows = rows, ic_last = final\<rparr>"

definition send_msg :: "'w grpc_net \<Rightarrow> pb_message \<Rightarrow> 'w grpc_world \<Rightarrow> go_error option \<times> 'w grpc_world" where
  "send_msg net m w = ask (Sent m) (gn_send net m) w"

definition failed_send ::
  "'w grpc_net \<Rightarrow> ('w \<Rightarrow> (go_error + 'r) \<times> 'w) \<Rightarrow> go_error \<Rightarrow> 'w grpc_world \<Rightarrow> (go_error + 'r) \<times> 'w grpc_world" where
  "failed_send net reply e w = (if err_is e IoEOF then close_and_recv net reply w else (Inl e, w))"

text \<open>
  The loop with one batch of lookahead: \<open>current\<close> was pulled before, the following batch is pulled
  before \<open>current\<close> is sent. The last component is what was never pulled.
\<close>

fun insert_loop ::
  "'w grpc_net \<Rightarrow> bytes \<Rightarrow> insert_stream_request \<Rightarrow> int \<Rightarrow> pb_grpc_record list \<Rightarrow> pb_grpc_record list list
     \<Rightarrow> 'w grpc_world \<Rightarrow> ((go_error + pb_insert_summary) \<times> 'w grpc_world) \<times> pb_grpc_record list list" where
  "insert_loop net sid req seq current rest w =
     (case send_msg net (MsgInsertChunk (insert_chunk_of sid req seq current (rest = []))) w of
        (Some e, w') \<Rightarrow> (failed_send net (gn_reply_insert_stream net) e w', tl rest)
      | (None, w') \<Rightarrow>
          (case rest of
             [] \<Rightarrow> (close_and_recv net (gn_reply_insert_stream net) w', [])
           | following # rest' \<Rightarrow> insert_loop net sid req (wrap64 (seq + 1)) following rest' w'))"

definition hex_digits :: bytes where "hex_digits = ''0123456789abcdef''"

definition hex_encode :: "bytes \<Rightarrow> bytes" where
  "hex_encode b = concat (map (\<lambda>c. [hex_digits ! (byte c div 16), hex_digits ! (byte c mod 16)]) b)"

text \<open>\<open>insertStream\<close>; \<open>random\<close> are the sixteen bytes the session id is made of.\<close>

definition insert_stream ::
  "'w grpc_net \<Rightarrow> grpc_conn \<Rightarrow> gctx \<Rightarrow> bytes \<Rightarrow> insert_stream_request \<Rightarrow> 'w grpc_world
     \<Rightarrow> (go_error + pb_insert_summary) \<times> 'w grpc_world" where
  "insert_stream net cc c random req w =
     (case rpc_insert_stream net cc c w of
        (Some e, w1) \<Rightarrow> (Inl e, cancel_stream net w1)
      | (None, w1) \<Rightarrow>
          (case
            (case ir_chunks req of
               [] \<Rightarrow>
                 (case send_msg net (MsgInsertChunk (insert_chunk_of (hex_encode random) req 1 [] True)) w1 of
                    (Some e, w2) \<Rightarrow> failed_send net (gn_reply_insert_stream net) e w2
                  | (None, w2) \<Rightarrow> close_and_recv net (gn_reply_insert_stream net) w2)
             | current # rest \<Rightarrow> fst (insert_loop net (hex_encode random) req 1 current rest w1))
           of (r, w3) \<Rightarrow> (r, cancel_stream net w3)))"

definition tx_insert_stream ::
  "'w grpc_net \<Rightarrow> grpc_tx \<Rightarrow> gctx \<Rightarrow> bytes \<Rightarrow> insert_stream_request \<Rightarrow> 'w grpc_world
     \<Rightarrow> (go_error + pb_insert_summary) \<times> 'w grpc_world" where
  "tx_insert_stream net h c random req =
     (case binding h of (database, context) \<Rightarrow>
        insert_stream net (tx_conn h) c random (req\<lparr>ir_database := database, ir_transaction := Some context\<rparr>))"

record ts_write_stream_request =
  tr_database :: bytes
  tr_default_type :: bytes
  tr_precision :: "enum option"
  tr_credentials :: "pb_database_credentials option"
  tr_chunks :: "pb_time_series_point list list"

definition ts_chunk_of :: "ts_write_stream_request \<Rightarrow> enum \<Rightarrow> pb_time_series_point list \<Rightarrow> pb_time_series_write_chunk" where
  "ts_chunk_of req precision points =
     \<lparr>tw_database = tr_database req, tw_credentials = tr_credentials req, tw_type = tr_default_type req,
      tw_precision = precision, tw_points = points\<rparr>"

fun ts_write_loop ::
  "'w grpc_net \<Rightarrow> ts_write_stream_request \<Rightarrow> enum \<Rightarrow> pb_time_series_point list list \<Rightarrow> 'w grpc_world
     \<Rightarrow> (go_error + pb_time_series_write_summary) \<times> 'w grpc_world" where
  "ts_write_loop net req precision [] w = close_and_recv net (gn_reply_time_series_write_stream net) w"
| "ts_write_loop net req precision (points # rest) w =
     (case send_msg net (MsgTimeSeriesWriteChunk (ts_chunk_of req precision points)) w of
        (Some e, w') \<Rightarrow> failed_send net (gn_reply_time_series_write_stream net) e w'
      | (None, w') \<Rightarrow> ts_write_loop net req precision rest w')"

definition time_series_write_stream ::
  "'w grpc_net \<Rightarrow> grpc_conn \<Rightarrow> gctx \<Rightarrow> ts_write_stream_request \<Rightarrow> 'w grpc_world
     \<Rightarrow> (go_error + pb_time_series_write_summary) \<times> 'w grpc_world" where
  "time_series_write_stream net cc c req w =
     (case tr_precision req of
        None \<Rightarrow> (Inl (EPlain ''TimeSeriesWriteStream: Precision is required''), w)
      | Some precision \<Rightarrow>
          (case rpc_time_series_write_stream net cc c w of
             (Some e, w1) \<Rightarrow> (Inl e, cancel_stream net w1)
           | (None, w1) \<Rightarrow>
               (case ts_write_loop net req precision (tr_chunks req) w1 of
                  (r, w2) \<Rightarrow> (r, cancel_stream net w2))))"

section \<open>The envelope\<close>

text \<open>What a stream of inserts is, by position; and sending messages until one fails.\<close>

definition insert_envelope :: "bytes \<Rightarrow> insert_stream_request \<Rightarrow> pb_insert_chunk list" where
  "insert_envelope sid req =
     (let batches = (if ir_chunks req = [] then [[]] else ir_chunks req)
      in map (\<lambda>i. \<lparr>ic_database = (if i = 0 then ir_database req else []), ic_credentials = ir_credentials req,
           ic_options = ir_options req, ic_transaction = ir_transaction req, ic_session_id = sid,
           ic_chunk_seq = int i + 1, ic_rows = batches ! i, ic_last = (Suc i = length batches)\<rparr>)
         [0..<length batches])"

fun send_all :: "'w grpc_net \<Rightarrow> pb_message list \<Rightarrow> 'w grpc_world \<Rightarrow> go_error option \<times> 'w grpc_world" where
  "send_all net [] w = (None, w)"
| "send_all net (m # ms) w =
     (case send_msg net m w of (Some e, w') \<Rightarrow> (Some e, w') | (None, w') \<Rightarrow> send_all net ms w')"

definition after_sending ::
  "'w grpc_net \<Rightarrow> ('w \<Rightarrow> (go_error + 'r) \<times> 'w) \<Rightarrow> go_error option \<times> 'w grpc_world \<Rightarrow> (go_error + 'r) \<times> 'w grpc_world" where
  "after_sending net reply res =
     (case res of (None, w) \<Rightarrow> close_and_recv net reply w
      | (Some e, w) \<Rightarrow> if err_is e IoEOF then close_and_recv net reply w else (Inl e, w))"

lemma send_all_log:
  "\<exists>k \<le> length ms. gw_log (snd (send_all net ms w)) = gw_log w @ map Sent (take k ms) \<and>
     (fst (send_all net ms w) = None \<longrightarrow> k = length ms)"
proof (induction ms arbitrary: w)
  case (Cons m ms)
  obtain e w' where s: "send_msg net m w = (e, w')" by fastforce
  then have l: "gw_log w' = gw_log w @ [Sent m]" by (auto simp: send_msg_def ask_def split: prod.splits)
  show ?case
  proof (cases e)
    case None
    obtain k where "k \<le> length ms" "gw_log (snd (send_all net ms w')) = gw_log w' @ map Sent (take k ms)"
      "fst (send_all net ms w') = None \<longrightarrow> k = length ms" using Cons.IH by blast
    with s None l show ?thesis by (intro exI [of _ "Suc k"]) simp
  qed (use s l in \<open>auto intro: exI [of _ 1]\<close>)
qed simp

lemma insert_loop_sends:
  assumes "1 \<le> seq" and "seq + int (length rest) \<le> max_int64"
  shows "fst (insert_loop net sid req seq current rest w) = after_sending net (gn_reply_insert_stream net)
    (send_all net (map (\<lambda>i. MsgInsertChunk (insert_chunk_of sid req (seq + int i) ((current # rest) ! i)
       (i = length rest))) [0..<Suc (length rest)]) w)"
  using assms
proof (induction rest arbitrary: seq current w)
  case Nil
  then show ?case by (auto simp: after_sending_def failed_send_def split: prod.split option.split)
next
  case (Cons b rest)
  have "wrap64 (seq + 1) = seq + 1"
    using Cons.prems by (intro wrap64_id) (auto simp: in_int64_def min_int64_def)
  with Cons.IH [of "seq + 1" b] Cons.prems have ih:
    "fst (insert_loop net sid req (wrap64 (seq + 1)) b rest w') = after_sending net (gn_reply_insert_stream net)
      (send_all net (map (\<lambda>i. MsgInsertChunk (insert_chunk_of sid req (seq + 1 + int i) ((b # rest) ! i)
         (i = length rest))) [0..<Suc (length rest)]) w')" for w' by simp
  have ms: "map (\<lambda>i. MsgInsertChunk (insert_chunk_of sid req (seq + int i) ((current # b # rest) ! i)
         (i = length (b # rest)))) [0..<Suc (length (b # rest))] =
      MsgInsertChunk (insert_chunk_of sid req seq current False) #
      map (\<lambda>i. MsgInsertChunk (insert_chunk_of sid req (seq + 1 + int i) ((b # rest) ! i)
         (i = length rest))) [0..<Suc (length rest)]"
    by (simp add: upt_conv_Cons map_Suc_upt [symmetric] add.assoc del: upt_Suc)
  show ?case
    unfolding ms using ih
    by (auto simp: after_sending_def failed_send_def split: prod.split option.split simp del: upt_Suc)
qed

lemma insert_envelope_chunks:
  "map MsgInsertChunk (insert_envelope sid req) =
     (case ir_chunks req of
        [] \<Rightarrow> [MsgInsertChunk (insert_chunk_of sid req 1 [] True)]
      | current # rest \<Rightarrow> map (\<lambda>i. MsgInsertChunk (insert_chunk_of sid req (1 + int i) ((current # rest) ! i)
          (i = length rest))) [0..<Suc (length rest)])"
  by (cases "ir_chunks req", simp add: insert_envelope_def insert_chunk_of_def)
    (simp add: insert_envelope_def insert_chunk_of_def Let_def add.commute [of 1] del: upt_Suc)

lemma ts_write_loop_sends:
  "ts_write_loop net req precision batches w = after_sending net (gn_reply_time_series_write_stream net)
     (send_all net (map (\<lambda>b. MsgTimeSeriesWriteChunk (ts_chunk_of req precision b)) batches) w)"
  by (induction batches arbitrary: w)
    (auto simp: after_sending_def failed_send_def split: prod.split option.split)

lemma insert_stream_sends:
  assumes "rpc_insert_stream net cc c w = (None, w1)" and "int (length (ir_chunks req)) < max_int64"
  shows "insert_stream net cc c random req w =
    (case after_sending net (gn_reply_insert_stream net)
        (send_all net (map MsgInsertChunk (insert_envelope (hex_encode random) req)) w1) of
       (r, w') \<Rightarrow> (r, cancel_stream net w'))"
proof (cases "ir_chunks req")
  case Nil
  with assms(1) show ?thesis
    by (auto simp: insert_stream_def insert_envelope_chunks after_sending_def failed_send_def
        split: prod.split option.split)
next
  case (Cons current rest)
  with assms(2) have "1 + int (length rest) \<le> max_int64" by simp
  from insert_loop_sends [of 1 rest net "hex_encode random" req current w1, OF _ this] Cons assms(1) show ?thesis
    by (simp add: insert_stream_def insert_envelope_chunks del: insert_loop.simps upt_Suc)
qed

text \<open>
  C22: \<open>InsertStream\<close>, which looks one batch ahead, sends the envelope: one chunk per batch in order,
  numbered from 1, the database on the first only, \<open>last\<close> on the last only (an empty input is one
  empty last chunk), everything else on each. If a send fails, what was sent is a prefix, and the
  call answers what the receive side holds when the server had ended the stream, the send's own
  error otherwise; the context is cancelled at the end in every case.
\<close>

theorem insert_stream_envelope:
  fixes random :: bytes
  assumes "rpc_insert_stream net cc c w = (None, w1)"
    and "int (length (ir_chunks req)) < max_int64"
  defines "chunks \<equiv> map MsgInsertChunk (insert_envelope (hex_encode random) req)"
  defines "sent \<equiv> send_all net chunks w1"
  shows "insert_stream net cc c random req w =
      (case after_sending net (gn_reply_insert_stream net) sent of (r, w') \<Rightarrow> (r, cancel_stream net w'))
    \<and> (\<exists>k \<le> length chunks. gw_log (snd sent) = gw_log w1 @ map Sent (take k chunks) \<and>
        (fst sent = None \<longrightarrow> k = length chunks))"
  unfolding sent_def chunks_def
  using insert_stream_sends [OF assms(1,2)]
    send_all_log [of "map MsgInsertChunk (insert_envelope (hex_encode random) req)" net w1] by simp

lemma insert_stream_envelope_witness:
  "insert_stream committing_net (conn_of ''db:50051'' []) \<lparr>gx_ctx = CtxCaller, gx_md = []\<rparr> ''ab''
     \<lparr>ir_database = ''d'', ir_chunks = [[], []], ir_options = None, ir_credentials = None, ir_transaction = None\<rparr>
     \<lparr>gw_log = [], gw_rest = ()\<rparr> =
   (Inl (ERpc 12 []), \<lparr>gw_log = [Opened ''/com.arcadedb.grpc.ArcadeDbService/InsertStream'' [],
      Sent (MsgInsertChunk \<lparr>ic_database = ''d'', ic_credentials = None, ic_options = None, ic_transaction = None,
        ic_session_id = hex_encode ''ab'', ic_chunk_seq = 1, ic_rows = [], ic_last = False\<rparr>),
      Sent (MsgInsertChunk \<lparr>ic_database = [], ic_credentials = None, ic_options = None, ic_transaction = None,
        ic_session_id = hex_encode ''ab'', ic_chunk_seq = 2, ic_rows = [], ic_last = True\<rparr>),
      SendClosed, ReplyAwaited, StreamCancelled], gw_rest = ()\<rparr>)"
proof -
  let ?cc = "conn_of ''db:50051'' []" and ?c = "\<lparr>gx_ctx = CtxCaller, gx_md = []\<rparr>"
  let ?req = "\<lparr>ir_database = ''d'', ir_chunks = [[], []], ir_options = None, ir_credentials = None, ir_transaction = None\<rparr>"
  let ?w = "\<lparr>gw_log = [], gw_rest = ()\<rparr>"
  let ?w1 = "\<lparr>gw_log = [Opened ''/com.arcadedb.grpc.ArcadeDbService/InsertStream'' []], gw_rest = ()\<rparr>"
  have o1: "rpc_insert_stream committing_net ?cc ?c ?w = (None, ?w1)"
    by (simp add: rpc_insert_stream_def cc_new_stream_def Let_def stream_interceptor_def outgoing_def
        grpc_ctx_done_def ask_def serving_net_def conn_of_def)
  have n: "int (length (ir_chunks ?req)) < max_int64" by (simp add: max_int64_def)
  have e: "insert_envelope sid ?req = [\<lparr>ic_database = ''d'', ic_credentials = None, ic_options = None,
      ic_transaction = None, ic_session_id = sid, ic_chunk_seq = 1, ic_rows = [], ic_last = False\<rparr>,
      \<lparr>ic_database = [], ic_credentials = None, ic_options = None, ic_transaction = None,
        ic_session_id = sid, ic_chunk_seq = 2, ic_rows = [], ic_last = True\<rparr>]" for sid
    by (simp add: insert_envelope_def)
  show ?thesis
    using conjunct1 [OF insert_stream_envelope [OF o1 n, of "''ab''"]]
    by (simp add: e send_msg_def ask_def serving_net_def after_sending_def close_and_recv_def cancel_stream_def)
qed

text \<open>Inside a transaction the same envelope carries the handle's database and transaction.\<close>

lemma tx_insert_stream_bound:
  "tx_insert_stream net h c random req = insert_stream net (tx_conn h) c random
     (req\<lparr>ir_database := tx_database h, ir_transaction := Some (tx_context h)\<rparr>)"
  "chunk \<in> set (insert_envelope sid (req\<lparr>ir_database := tx_database h, ir_transaction := Some (tx_context h)\<rparr>)) \<Longrightarrow>
     ic_transaction chunk = Some (tx_context h) \<and> ic_database chunk \<in> {tx_database h, []}"
  by (auto simp: tx_insert_stream_def binding_def insert_envelope_def Let_def)

text \<open>
  \<open>TimeSeriesWriteStream\<close> without a precision is refused before anything is asked of the
  connection; with one, it sends one chunk per batch in order, each with the stated database, type,
  precision and credentials, and answers as \<open>InsertStream\<close> does.
\<close>

theorem time_series_write_stream_result:
  "time_series_write_stream net cc c req w =
     (case tr_precision req of
        None \<Rightarrow> (Inl (EPlain ''TimeSeriesWriteStream: Precision is required''), w)
      | Some p \<Rightarrow>
          (case rpc_time_series_write_stream net cc c w of
             (Some e, w1) \<Rightarrow> (Inl e, cancel_stream net w1)
           | (None, w1) \<Rightarrow>
               (case after_sending net (gn_reply_time_series_write_stream net)
                  (send_all net (map (\<lambda>b. MsgTimeSeriesWriteChunk
                     \<lparr>tw_database = tr_database req, tw_credentials = tr_credentials req,
                      tw_type = tr_default_type req, tw_precision = p, tw_points = b\<rparr>) (tr_chunks req)) w1) of
                  (r, w2) \<Rightarrow> (r, cancel_stream net w2))))"
  unfolding time_series_write_stream_def ts_write_loop_sends ts_chunk_of_def ..

section \<open>Authentication on every call shape\<close>

text \<open>What a call adds to the log carries this metadata.\<close>

definition authenticated :: "metadata \<Rightarrow> metadata \<Rightarrow> grpc_event \<Rightarrow> bool" where
  "authenticated unary stream ev =
     (case ev of Invoked name md m \<Rightarrow> md = unary | Opened name md \<Rightarrow> md = stream | _ \<Rightarrow> True)"

definition adds_authenticated :: "gctx \<Rightarrow> grpc_conn \<Rightarrow> 'w grpc_world \<Rightarrow> 'w grpc_world \<Rightarrow> bool" where
  "adds_authenticated c cc w w' \<longleftrightarrow>
     (\<exists>evs. gw_log w' = gw_log w @ evs \<and>
        list_all (authenticated (gx_md c @ cc_unary cc) (gx_md c @ cc_stream cc)) evs)"


lemma adds_refl [simp]: "adds_authenticated c cc w w"
  by (simp add: adds_authenticated_def)

















end
