(* ===== verification/Checkzip.thy ===== *)
theory Checkzip
  imports Prelude
begin

text \<open>
  \<open>go/tools/cmd/checkzip/main.go\<close>, the check before a module version is tagged. \<open>golang.org/x/mod\<close>
  and \<open>path/filepath\<close> are a parameter, the record \<open>zip_tools\<close>; an error is its message.
\<close>

record checked_files =
  cf_valid :: "bytes list"
  cf_omitted :: "(bytes \<times> bytes) list"
  cf_invalid :: "(bytes \<times> bytes) list"

record zip_tools =
  zt_check :: "bytes \<Rightarrow> bytes \<Rightarrow> bytes option"
  zt_check_dir :: "bytes \<Rightarrow> checked_files \<times> bytes option"
  zt_rel :: "bytes \<Rightarrow> bytes \<Rightarrow> bytes + bytes"
  zt_to_slash :: "bytes \<Rightarrow> bytes"

text \<open>A line printed, on standard output or standard error.\<close>

datatype printed = StdOut bytes | StdErr bytes

definition usage_text :: bytes where
  "usage_text = ''usage: checkzip <module path> <version> <module dir> <required file>...''"

text \<open>The relative paths of the valid files, or the first that has none.\<close>

fun relative_paths :: "zip_tools \<Rightarrow> bytes \<Rightarrow> bytes list \<Rightarrow> bytes + bytes list" where
  "relative_paths zt dir [] = Inr []"
| "relative_paths zt dir (p # ps) =
     (case zt_rel zt dir p of
        Inl e \<Rightarrow> Inl e
      | Inr r \<Rightarrow> bind_res (relative_paths zt dir ps) (\<lambda>rs. Inr (zt_to_slash zt r # rs)))"

definition missing_text :: "bytes \<Rightarrow> bytes" where
  "missing_text want = ''checkzip: '' @ want @ '' would not be in the module zip - the published module would be broken''"

definition checkzip_run :: "zip_tools \<Rightarrow> bytes \<Rightarrow> bytes \<Rightarrow> bytes \<Rightarrow> bytes list \<Rightarrow> int \<times> printed list" where
  "checkzip_run zt mod_path ver dir required =
     (case zt_check zt mod_path ver of
        Some e \<Rightarrow> (1, [StdErr (''checkzip: '' @ e)])
      | None \<Rightarrow>
          (case zt_check_dir zt dir of (cf, err) \<Rightarrow>
             let shown = map (\<lambda>(p, e). StdOut (''omitted: '' @ p @ '': '' @ e)) (cf_omitted cf) @
                   map (\<lambda>(p, e). StdErr (''invalid: '' @ p @ '': '' @ e)) (cf_invalid cf) @
                   (case err of
                      None \<Rightarrow> []
                    | Some e \<Rightarrow> [StdErr (''checkzip: '' @ dir @ '' is not a valid module zip for '' @ mod_path @ ''@'' @
                        ver @ '':'' @ [CHR 0x0A] @ e)])
             in case relative_paths zt dir (cf_valid cf) of
                  Inl e \<Rightarrow> (1, shown @ [StdErr (''checkzip: '' @ e)])
                | Inr valid \<Rightarrow>
                    (let missing = filter (\<lambda>want. want \<notin> set valid) required;
                         out = shown @ map (StdErr \<circ> missing_text) missing
                     in if err \<noteq> None \<or> missing \<noteq> [] then (1, out)
                        else (0, out @ [StdOut (''OK: '' @ mod_path @ ''@'' @ ver @ '' zips cleanly ('' @
                          dec_of_nat (length (cf_valid cf)) @ '' files, '' @ dec_of_nat (length (cf_omitted cf)) @
                          '' omitted)'')]))))"

text \<open>\<open>main\<close>: \<open>os.Args\<close> starts with the name of the program.\<close>

fun checkzip_main :: "zip_tools \<Rightarrow> bytes list \<Rightarrow> int \<times> printed list" where
  "checkzip_main zt (prog # mod_path # ver # dir # want # wants) = checkzip_run zt mod_path ver dir (want # wants)"
| "checkzip_main zt args = (2, [StdErr usage_text])"

section \<open>What the exit code says\<close>

lemma relative_paths_iff:
  "relative_paths zt dir ps = Inr rs \<longleftrightarrow>
     (\<exists>qs. map (zt_rel zt dir) ps = map Inr qs \<and> rs = map (zt_to_slash zt) qs)"
proof (induction ps arbitrary: rs)
  case Nil
  then show ?case by auto
next
  case (Cons p ps)
  then show ?case
    by (cases "zt_rel zt dir p") (auto simp: bind_res_Inr_iff Cons_eq_map_conv)
qed

text \<open>Everything a release needs of the directory.\<close>

definition publishable :: "zip_tools \<Rightarrow> bytes \<Rightarrow> bytes \<Rightarrow> bytes \<Rightarrow> bytes list \<Rightarrow> bool" where
  "publishable zt mod_path ver dir required \<longleftrightarrow>
     zt_check zt mod_path ver = None \<and> snd (zt_check_dir zt dir) = None \<and>
     (\<exists>qs. map (zt_rel zt dir) (cf_valid (fst (zt_check_dir zt dir))) = map Inr qs \<and>
        set required \<subseteq> zt_to_slash zt ` set qs)"

text \<open>
  The tool exits 0 exactly when it was given a module path, a version, a directory and at least
  one required file, the pair of path and version is valid, the directory makes a valid zip, and
  every required file is in it. Otherwise it exits 2 on a call without these and 1 on a failed
  check, and then has said something on standard error.
\<close>

theorem checkzip_exit:
  "case checkzip_main zt args of (code, out) \<Rightarrow>
     code = (if length args < 5 then 2
       else if publishable zt (args ! 1) (args ! 2) (args ! 3) (drop 4 args) then 0 else 1) \<and>
     (code = 0 \<or> (\<exists>l. StdErr l \<in> set out))"
proof (cases "length args < 5")
  case True
  then have "checkzip_main zt args = (2, [StdErr usage_text])"
    by (cases "(zt, args)" rule: checkzip_main.cases) auto
  with True show ?thesis by simp
next
  case False
  then obtain prog m v d want wants where args: "args = prog # m # v # d # want # wants"
    by (cases "(zt, args)" rule: checkzip_main.cases) auto
  obtain cf err where cd: "zt_check_dir zt d = (cf, err)" by (metis surj_pair)
  show ?thesis
  proof (cases "relative_paths zt d (cf_valid cf)")
    case (Inl e)
    then have "\<nexists>qs. map (zt_rel zt d) (cf_valid cf) = map Inr qs"
      using relative_paths_iff [of zt d "cf_valid cf"] by (metis Inl_Inr_False)
    then show ?thesis
      using Inl cd by (auto simp: args checkzip_run_def publishable_def Let_def split: option.split)
  next
    case (Inr rs)
    then obtain qs where qs: "map (zt_rel zt d) (cf_valid cf) = map Inr qs" "rs = map (zt_to_slash zt) qs"
      by (auto simp: relative_paths_iff)
    have u: "map (zt_rel zt d) (cf_valid cf) = map Inr qs' \<longleftrightarrow> qs' = qs" for qs'
      using qs(1) by (metis Inr_inject inj_map_eq_map inj_def)
    have "publishable zt m v d (want # wants) \<longleftrightarrow> zt_check zt m v = None \<and> err = None \<and> set (want # wants) \<subseteq> set rs"
      unfolding publishable_def cd fst_conv snd_conv u using qs(2) by auto
    with Inr cd show ?thesis
      by (auto simp: args checkzip_run_def Let_def filter_empty_conv split: option.split)
  qed
qed

end
