(* ===== verification/Models_Assistant.thy ===== *)
theory Models_Assistant
  imports Go_Roundtrip
begin

text \<open>
  The models of \<open>client.gen.go\<close> for the assistant, its MCP endpoint and the support cases.
  Each is the Go type as \<open>encoding/json\<close> sees it; an enum is a string.
\<close>

definition ai_activate_request_model :: go_type where
  "ai_activate_request_model = GTStruct
     [(''subscriptionKey'', False, GTStr)]"

definition ai_activate_response_model :: go_type where
  "ai_activate_response_model = GTStruct
     [(''activated'', False, GTBool)]"

definition ai_analyze_profiler_request_model :: go_type where
  "ai_analyze_profiler_request_model = GTStruct
     [(''profilerData'', False, GTMap GTAny)]"

definition ai_command_model :: go_type where
  "ai_command_model = GTStruct
     [(''command'', False, GTStr),
      (''language'', True, GTPtr GTStr),
      (''purpose'', True, GTPtr GTStr)]"

definition ai_analyze_profiler_response_model :: go_type where
  "ai_analyze_profiler_response_model = GTStruct
     [(''commands'', True, GTPtr (GTSlice ai_command_model)),
      (''response'', False, GTStr)]"

definition ai_chat_model :: go_type where
  "ai_chat_model = GTStruct
     [(''created'', False, GTStr),
      (''database'', False, GTStr),
      (''id'', False, GTStr),
      (''messages'', True, GTPtr (GTSlice (GTStruct
       [(''charts'', True, GTPtr (GTSlice (GTMap GTAny))),
        (''commands'', True, GTPtr (GTSlice ai_command_model)),
        (''content'', False, GTStr),
        (''role'', False, GTStr),
        (''timestamp'', False, GTStr)]))),
      (''title'', False, GTStr),
      (''updated'', False, GTStr)]"

definition ai_chat_deleted_model :: go_type where
  "ai_chat_deleted_model = GTStruct
     [(''deleted'', False, GTBool)]"

definition ai_chat_list_model :: go_type where
  "ai_chat_list_model = GTStruct
     [(''chats'', False, GTSlice ai_chat_model)]"

definition ai_chat_request_model :: go_type where
  "ai_chat_request_model = GTStruct
     [(''chatId'', True, GTPtr GTStr),
      (''database'', False, GTStr),
      (''message'', False, GTStr),
      (''protocolVersion'', True, GTPtr GTInt)]"

definition ai_tool_call_model :: go_type where
  "ai_tool_call_model = GTStruct
     [(''args'', True, GTPtr (GTMap GTAny)),
      (''error'', True, GTPtr GTStr),
      (''tool'', False, GTStr)]"

definition ai_chat_response_model :: go_type where
  "ai_chat_response_model = GTStruct
     [(''charts'', True, GTPtr (GTSlice (GTMap GTAny))),
      (''chatId'', False, GTStr),
      (''commands'', True, GTPtr (GTSlice ai_command_model)),
      (''response'', False, GTStr),
      (''toolCalls'', True, GTPtr (GTSlice ai_tool_call_model))]"

definition ai_chat_stream_event_model :: go_type where
  "ai_chat_stream_event_model = GTStruct
     [(''args'', True, GTPtr (GTMap GTAny)),
      (''charts'', True, GTPtr (GTSlice (GTMap GTAny))),
      (''chatId'', True, GTPtr GTStr),
      (''code'', True, GTPtr GTStr),
      (''commands'', True, GTPtr (GTSlice ai_command_model)),
      (''error'', True, GTPtr GTStr),
      (''response'', True, GTPtr GTStr),
      (''text'', True, GTPtr GTStr),
      (''tool'', True, GTPtr GTStr),
      (''type'', False, GTStr),
      (''upgrade'', True, GTPtr GTBool),
      (''usage'', True, GTPtr (GTMap GTAny))]"

definition ai_config_model :: go_type where
  "ai_config_model = GTStruct
     [(''configured'', False, GTBool),
      (''currentProtocolVersion'', False, GTInt),
      (''gatewayUrl'', False, GTStr),
      (''portal'', True, GTPtr (GTMap GTAny)),
      (''source'', True, GTPtr GTStr),
      (''supportedProtocolVersions'', False, GTSlice GTInt)]"

definition ai_protocol_error_model :: go_type where
  "ai_protocol_error_model = GTStruct
     [(''code'', True, GTPtr GTStr),
      (''currentProtocolVersion'', True, GTPtr GTInt),
      (''error'', False, GTStr),
      (''supportedProtocolVersions'', True, GTPtr (GTSlice GTInt))]"

definition json_rpc_message0_model :: go_type where
  "json_rpc_message0_model = GTOpen
     [(''error'', True, GTPtr (GTStruct
       [(''code'', False, GTInt),
        (''data'', True, GTAny),
        (''message'', False, GTStr)])),
      (''id'', False, GTAny),
      (''jsonrpc'', False, GTStr),
      (''method'', True, GTPtr GTStr),
      (''params'', False, GTAny),
      (''result'', False, GTAny)] GTAny"

definition json_rpc_message1_item_model :: go_type where
  "json_rpc_message1_item_model = GTOpen
     [(''error'', True, GTPtr (GTStruct
       [(''code'', False, GTInt),
        (''data'', True, GTAny),
        (''message'', False, GTStr)])),
      (''id'', False, GTAny),
      (''jsonrpc'', False, GTStr),
      (''method'', True, GTPtr GTStr),
      (''params'', False, GTAny),
      (''result'', False, GTAny)] GTAny"

definition json_rpc_message1_model :: go_type where
  "json_rpc_message1_model = GTSlice json_rpc_message1_item_model"

definition mcp_database_override_model :: go_type where
  "mcp_database_override_model = GTStruct
     [(''allowAdmin'', True, GTPtr GTBool),
      (''allowDelete'', True, GTPtr GTBool),
      (''allowInsert'', True, GTPtr GTBool),
      (''allowReads'', True, GTPtr GTBool),
      (''allowSchemaChange'', True, GTPtr GTBool),
      (''allowUpdate'', True, GTPtr GTBool),
      (''allowedUsers'', True, GTPtr (GTSlice GTStr))]"

definition mcp_config_model :: go_type where
  "mcp_config_model = GTStruct
     [(''allowAdmin'', False, GTBool),
      (''allowDelete'', False, GTBool),
      (''allowInsert'', False, GTBool),
      (''allowReads'', False, GTBool),
      (''allowSchemaChange'', False, GTBool),
      (''allowUpdate'', False, GTBool),
      (''allowedOrigins'', False, GTSlice GTStr),
      (''allowedUsers'', False, GTSlice GTStr),
      (''databases'', True, GTPtr (GTMap mcp_database_override_model)),
      (''enabled'', False, GTBool),
      (''principalProfiles'', True, GTPtr (GTMap GTStr)),
      (''profile'', False, GTStr)]"

definition mcp_config_update_model :: go_type where
  "mcp_config_update_model = GTStruct
     [(''allowAdmin'', True, GTPtr GTBool),
      (''allowDelete'', True, GTPtr GTBool),
      (''allowInsert'', True, GTPtr GTBool),
      (''allowReads'', True, GTPtr GTBool),
      (''allowSchemaChange'', True, GTPtr GTBool),
      (''allowUpdate'', True, GTPtr GTBool),
      (''allowedOrigins'', True, GTPtr (GTSlice GTStr)),
      (''allowedUsers'', True, GTPtr (GTSlice GTStr)),
      (''databases'', True, GTPtr (GTMap mcp_database_override_model)),
      (''enabled'', True, GTPtr GTBool),
      (''principalProfiles'', True, GTPtr (GTMap GTStr)),
      (''profile'', True, GTPtr GTStr)]"

definition support_answer_request_model :: go_type where
  "support_answer_request_model = GTStruct
     [(''durationMs'', True, GTPtr GTInt),
      (''outcome'', False, GTStr),
      (''reason'', True, GTPtr GTStr),
      (''result'', True, GTPtr (GTMap GTAny)),
      (''text'', True, GTPtr GTStr)]"

definition support_answers_request_model :: go_type where
  "support_answers_request_model = GTStruct
     [(''responses'', False, GTMap GTAny)]"

definition support_attach_request_model :: go_type where
  "support_attach_request_model = GTStruct
     [(''previewId'', False, GTStr)]"

definition support_bundle_request_model :: go_type where
  "support_bundle_request_model = GTStruct
     [(''previewId'', False, GTStr)]"

definition support_comment_request_model :: go_type where
  "support_comment_request_model = GTStruct
     [(''body'', False, GTStr),
      (''screenshots'', True, GTPtr (GTMap GTAny))]"

definition support_create_issue_request_model :: go_type where
  "support_create_issue_request_model = GTStruct
     [(''body'', True, GTPtr GTStr),
      (''kind'', True, GTPtr GTStr),
      (''previewId'', True, GTPtr GTStr),
      (''severity'', False, GTStr),
      (''title'', False, GTStr)]"

definition support_peer_query_request_model :: go_type where
  "support_peer_query_request_model = GTStruct
     [(''database'', True, GTPtr GTStr),
      (''language'', True, GTPtr GTStr),
      (''nodes'', True, GTPtr GTStr),
      (''statement'', True, GTPtr GTStr)]"

definition support_preview_model :: go_type where
  "support_preview_model = GTStruct
     [(''expiresAt'', True, GTPtr GTStr),
      (''files'', False, GTSlice (GTMap GTAny)),
      (''githubSummary'', True, GTPtr GTStr),
      (''logTimeZone'', True, GTPtr (GTMap GTAny)),
      (''previewId'', False, GTStr),
      (''warnings'', False, GTSlice GTStr),
      (''window'', True, GTPtr (GTMap GTAny))]"

definition support_preview_request_model :: go_type where
  "support_preview_request_model = GTStruct
     [(''includeDiagnostics'', True, GTPtr GTBool),
      (''includeLogs'', True, GTPtr GTBool),
      (''includeThreads'', True, GTPtr GTBool),
      (''window'', True, GTPtr (GTMap GTAny))]"

definition support_register_request_model :: go_type where
  "support_register_request_model = GTStruct
     [(''clientId'', False, GTStr),
      (''key'', False, GTStr),
      (''verifyOnly'', True, GTPtr GTBool)]"

definition support_screenshot_request_model :: go_type where
  "support_screenshot_request_model = GTStruct
     [(''data'', False, GTStr)]"

definition support_set_open_request_model :: go_type where
  "support_set_open_request_model = GTStruct
     [(''open'', False, GTBool)]"

definition support_status_model :: go_type where
  "support_status_model = GTStruct
     [(''canWriteConfig'', False, GTBool),
      (''clientId'', True, GTPtr GTStr),
      (''fromSettings'', True, GTPtr GTBool),
      (''instanceId'', True, GTPtr GTStr),
      (''keyHint'', True, GTPtr GTStr),
      (''logTimeZone'', True, GTPtr (GTMap GTAny)),
      (''plan'', True, GTPtr (GTMap GTAny)),
      (''portalError'', True, GTPtr (GTMap GTAny)),
      (''portalUrl'', False, GTStr),
      (''registered'', False, GTBool),
      (''sla'', True, GTPtr (GTMap GTAny)),
      (''workspaceName'', True, GTPtr GTStr)]"

text \<open>All of them, by the names of the source, and that the generator kept its rules in each.\<close>

definition assistant_models :: "(bytes \<times> go_type) list" where
  "assistant_models =
    [(''AiActivateRequest'', ai_activate_request_model),
     (''AiActivateResponse'', ai_activate_response_model),
     (''AiAnalyzeProfilerRequest'', ai_analyze_profiler_request_model),
     (''AiCommand'', ai_command_model),
     (''AiAnalyzeProfilerResponse'', ai_analyze_profiler_response_model),
     (''AiChat'', ai_chat_model),
     (''AiChatDeleted'', ai_chat_deleted_model),
     (''AiChatList'', ai_chat_list_model),
     (''AiChatRequest'', ai_chat_request_model),
     (''AiToolCall'', ai_tool_call_model),
     (''AiChatResponse'', ai_chat_response_model),
     (''AiChatStreamEvent'', ai_chat_stream_event_model),
     (''AiConfig'', ai_config_model),
     (''AiProtocolError'', ai_protocol_error_model),
     (''JsonRpcMessage0'', json_rpc_message0_model),
     (''JsonRpcMessage_1_Item'', json_rpc_message1_item_model),
     (''JsonRpcMessage1'', json_rpc_message1_model),
     (''McpDatabaseOverride'', mcp_database_override_model),
     (''McpConfig'', mcp_config_model),
     (''McpConfigUpdate'', mcp_config_update_model),
     (''SupportAnswerRequest'', support_answer_request_model),
     (''SupportAnswersRequest'', support_answers_request_model),
     (''SupportAttachRequest'', support_attach_request_model),
     (''SupportBundleRequest'', support_bundle_request_model),
     (''SupportCommentRequest'', support_comment_request_model),
     (''SupportCreateIssueRequest'', support_create_issue_request_model),
     (''SupportPeerQueryRequest'', support_peer_query_request_model),
     (''SupportPreview'', support_preview_model),
     (''SupportPreviewRequest'', support_preview_request_model),
     (''SupportRegisterRequest'', support_register_request_model),
     (''SupportScreenshotRequest'', support_screenshot_request_model),
     (''SupportSetOpenRequest'', support_set_open_request_model),
     (''SupportStatus'', support_status_model)]"

lemma assistant_models_ok: "list_all (\<lambda>(n, t). schema_ok t) assistant_models"
  by (simp add: assistant_models_def ascii_name_def byte_def omit_safe_def
      ai_activate_request_model_def ai_activate_response_model_def ai_analyze_profiler_request_model_def
      ai_command_model_def ai_analyze_profiler_response_model_def ai_chat_model_def
      ai_chat_deleted_model_def ai_chat_list_model_def ai_chat_request_model_def ai_tool_call_model_def
      ai_chat_response_model_def ai_chat_stream_event_model_def ai_config_model_def
      ai_protocol_error_model_def json_rpc_message0_model_def json_rpc_message1_item_model_def
      json_rpc_message1_model_def mcp_database_override_model_def mcp_config_model_def
      mcp_config_update_model_def support_answer_request_model_def support_answers_request_model_def
      support_attach_request_model_def support_bundle_request_model_def support_comment_request_model_def
      support_create_issue_request_model_def support_peer_query_request_model_def
      support_preview_model_def support_preview_request_model_def support_register_request_model_def
      support_screenshot_request_model_def support_set_open_request_model_def support_status_model_def)

end
