(* ===== verification/Typed_Responses.thy ===== *)
theory Typed_Responses
  imports Generated_Client Models_Data Models_Assistant Models_Server
begin

text \<open>
  The response structs of \<open>client.gen.go\<close> (\<open>...Resp\<close>, with the structs of their headers): which JSON field
  there is for which status, of which type, and which headers. \<open>typed_parse\<close> is a \<open>Parse...Resp\<close> function
  that fills in its struct; \<open>Generated_Client\<close> has the part of it the drivers see.
\<close>

section \<open>Response structs\<close>

text \<open>The types of the \<open>JSON\<close> fields by status, and the Go fields of the header structs by status.\<close>

record resp_struct =
  rt_json :: "(int \<times> go_type) list"
  rt_headers :: "(int \<times> bytes list) list"

text \<open>A filled one: the JSON fields that are not nil, the headers of the status, and the response.\<close>

record resp_value =
  rv_json :: "(int \<times> gv) list"
  rv_headers :: "(bytes \<times> bytes) list"
  rv_resp :: http_resp

definition typed_parse ::
  "(bytes \<Rightarrow> go_error + bytes) \<Rightarrow> (int \<times> bytes list) list \<Rightarrow> resp_struct \<Rightarrow> http_resp \<Rightarrow> go_error + resp_value" where
  "typed_parse bind heads st resp =
     (case resp_read_err resp of
        Some e \<Rightarrow> Inl e
      | None \<Rightarrow>
          bind_res
            (if is_json (resp_header resp)
             then (case map_of (rt_json st) (resp_status resp) of
                     None \<Rightarrow> Inr []
                   | Some t \<Rightarrow> (case unmarshal_type t (resp_body resp) of
                       None \<Rightarrow> Inl json_error | Some v \<Rightarrow> Inr [(resp_status resp, v)]))
             else Inr [])
            (\<lambda>fs. bind_res (bind_headers bind
                (case map_of heads (resp_status resp) of None \<Rightarrow> [] | Some ks \<Rightarrow> ks) (resp_header resp))
              (\<lambda>hs. Inr \<lparr>rv_json = fs, rv_headers = hs, rv_resp = resp\<rparr>)))"

text \<open>The getters every response struct has.\<close>

definition get_json :: "int \<Rightarrow> resp_value \<Rightarrow> gv option" where
  "get_json s r = map_of (rv_json r) s"

definition get_body :: "resp_value \<Rightarrow> bytes" where
  "get_body r = resp_body (rv_resp r)"

definition status_code :: "resp_value \<Rightarrow> int" where
  "status_code r = resp_status (rv_resp r)"

definition content_type :: "resp_value \<Rightarrow> bytes" where
  "content_type r = hdr_get (resp_header (rv_resp r)) ''Content-Type''"

text \<open>The Go name of a header: its parts between the hyphens, each with a capital.\<close>

fun go_field :: "bool \<Rightarrow> bytes \<Rightarrow> bytes" where
  "go_field up [] = []"
| "go_field up (c # cs) =
     (if c = CHR ''-'' then go_field True cs else (if up then ascii_upper c else c) # go_field False cs)"

text \<open>A response table with its struct: the same statuses, types, documents and headers.\<close>

definition untyped :: "unit responses \<Rightarrow> gv responses" where
  "untyped rs = \<lparr>rs_ok = None, rs_errors = rs_errors rs, rs_headers = rs_headers rs\<rparr>"

definition describes :: "gv responses \<Rightarrow> resp_struct \<Rightarrow> bool" where
  "describes rs st \<longleftrightarrow>
     map fst (rt_json st) = (case rs_ok rs of None \<Rightarrow> [] | Some (s, dec) \<Rightarrow> [s]) @ map fst (rs_errors rs) \<and>
     distinct (map fst (rt_json st)) \<and>
     (case rs_ok rs of None \<Rightarrow> True | Some (s, dec) \<Rightarrow> map_option unmarshal_type (map_of (rt_json st) s) = Some dec) \<and>
     list_all (\<lambda>(s, d). case map_of (rt_json st) s of None \<Rightarrow> False
        | Some t \<Rightarrow> error_doc_ok d = (\<lambda>b. unmarshal_type t b \<noteq> None)) (rs_errors rs) \<and>
     map (\<lambda>(s, hs). (s, map (go_field True) hs)) (rs_headers rs) = rt_headers st"

section \<open>The error documents\<close>

lemma into_seq_decode: "(into_seq f a vs = Some b) = (decode_field f a vs = (b, True))"
proof (induction vs arbitrary: a)
  case (Cons v vs)
  have stuck: "\<not> snd (foldl (\<lambda>(a, ok) v. case f a v of Some a' \<Rightarrow> (a', ok) | None \<Rightarrow> (a, False)) (a, False) vs)" for a vs
    by (induction vs arbitrary: a) (auto split: option.split)
  show ?case
  proof (cases "f a v")
    case None
    then show ?thesis using stuck [of a vs] by (auto simp: decode_field_def)
  next
    case (Some c)
    then show ?thesis using Cons [of c] by (simp add: decode_field_def)
  qed
qed (simp add: decode_field_def)

lemma into_seq_ok: "into_seq f a vs \<noteq> None \<longleftrightarrow> snd (decode_field f a vs)"
  using into_seq_decode [of f a vs] by (cases "decode_field f a vs") auto

lemma into_seq_str: "into_seq (into GTStr) (VStr s) vs = map_option VStr (into_seq into_string s vs)"
  by (induction vs arbitrary: s) (auto simp: into_string_def split: json.splits)

definition ptr_value :: "('a \<Rightarrow> gv) \<Rightarrow> 'a option \<Rightarrow> gv" where
  "ptr_value f p = (case p of None \<Rightarrow> VNil | Some x \<Rightarrow> VPtr (f x))"

lemma into_seq_str_ptr:
  "into_seq (into (GTPtr GTStr)) (ptr_value VStr p) vs = map_option (ptr_value VStr) (into_seq (into_ptr into_string []) p vs)"
proof (induction vs arbitrary: p)
  case (Cons v vs)
  have "into (GTPtr GTStr) (ptr_value VStr p) v = map_option (ptr_value VStr) (into_ptr into_string [] p v)"
    by (cases v; cases p) (auto simp: ptr_value_def into_ptr_def into_string_def)
  then show ?case using Cons by (auto split: option.splits)
qed (simp add: ptr_value_def)

lemma into_str_ok:
  "into_seq (into GTStr) (VStr s) vs \<noteq> None \<longleftrightarrow> snd (decode_field into_string s vs)"
  "into_seq (into (GTPtr GTStr)) (ptr_value VStr p) vs \<noteq> None \<longleftrightarrow> snd (decode_field (into_ptr into_string []) p vs)"
  unfolding into_seq_str into_seq_str_ptr by (simp_all add: into_seq_ok del: not_None_eq)

lemma unmarshal_type_struct:
  "unmarshal_type (GTStruct fs) b \<noteq> None \<longleftrightarrow> (case json_parse b of
     Some JNull \<Rightarrow> True
   | Some (JObj kvs) \<Rightarrow> struct_into (map (\<lambda>(n, om, t). (n, into t)) fs) kvs (map (\<lambda>(n, om, t). zero_value t) fs) \<noteq> None
   | _ \<Rightarrow> False)"
  by (auto simp: unmarshal_type_def split: option.splits json.splits)

lemma all_some2_ok: "all_some2 f as bs \<noteq> None \<longleftrightarrow> list_all2 (\<lambda>a b. f a b \<noteq> None) as bs"
  by (induction f as bs rule: all_some2.induct) (auto split: option.splits)

lemma error_document: "error_doc_ok ErrorDoc = (\<lambda>b. unmarshal_type error_response_model b \<noteq> None)"
proof
  fix b
  have nil: "VNil = ptr_value VStr None" by (simp add: ptr_value_def)
  have fields: "struct_into [(''detail'', into (GTPtr GTStr)), (''error'', into GTStr), (''exception'', into (GTPtr GTStr)),
        (''exceptionArgs'', into (GTPtr GTStr)), (''help'', into (GTPtr GTStr))]
      kvs [VNil, VStr [], VNil, VNil, VNil] \<noteq> None \<longleftrightarrow> snd (decode_error_response kvs)" for kvs
    unfolding struct_into_def all_some2_ok decode_error_response_def error_response_fields_def nil
    by (simp add: into_str_ok Let_def del: into.simps not_None_eq)
  show "error_doc_ok ErrorDoc b = (unmarshal_type error_response_model b \<noteq> None)"
    unfolding error_response_model_def unmarshal_type_struct
    by (auto simp: fields error_doc_ok_def unmarshal_struct_def case_prod_beta
        simp del: into.simps not_None_eq split: option.splits json.splits)
qed

lemma promql_error_document: "error_doc_ok PromQLErrorDoc = (\<lambda>b. unmarshal_type promql_error_response_model b \<noteq> None)"
proof
  fix b
  have fields: "struct_into [(''error'', into GTStr), (''errorType'', into GTStr), (''status'', into GTStr)] kvs [VStr [], VStr [], VStr []] \<noteq> None \<longleftrightarrow> snd (decode_promql_error kvs)" for kvs
    unfolding struct_into_def all_some2_ok decode_promql_error_def promql_error_fields_def
    by (simp add: into_str_ok Let_def del: into.simps not_None_eq)
  show "error_doc_ok PromQLErrorDoc b = (unmarshal_type promql_error_response_model b \<noteq> None)"
    unfolding promql_error_response_model_def unmarshal_type_struct
    by (auto simp: fields error_doc_ok_def unmarshal_struct_def case_prod_beta
        simp del: into.simps not_None_eq split: option.splits json.splits)
qed

section \<open>The struct a parser fills in\<close>

text \<open>Where the struct has a field for the status, the table decodes by it.\<close>

lemma describes_typed:
  assumes "describes rs st"
  shows "parse_typed rs resp =
    (if is_json (resp_header resp)
     then (case map_of (rt_json st) (resp_status resp) of
             None \<Rightarrow> Inr None
           | Some t \<Rightarrow> (case unmarshal_type t (resp_body resp) of
               None \<Rightarrow> Inl json_error
             | Some v \<Rightarrow> Inr (if map_option fst (rs_ok rs) = Some (resp_status resp) then Some v else None)))
     else Inr None)"
proof -
  let ?s = "resp_status resp"
  have fst: "map fst (rt_json st) = (case rs_ok rs of None \<Rightarrow> [] | Some (s, dec) \<Rightarrow> [s]) @ map fst (rs_errors rs)"
    and dist: "distinct (map fst (rt_json st))"
    and ok: "case rs_ok rs of None \<Rightarrow> True | Some (s, dec) \<Rightarrow> map_option unmarshal_type (map_of (rt_json st) s) = Some dec"
    and errs: "list_all (\<lambda>(s, d). case map_of (rt_json st) s of None \<Rightarrow> False
        | Some t \<Rightarrow> error_doc_ok d = (\<lambda>b. unmarshal_type t b \<noteq> None)) (rs_errors rs)"
    using assms unfolding describes_def by blast+
  have err: "\<exists>t. map_of (rt_json st) s = Some t \<and> error_doc_ok d = (\<lambda>b. unmarshal_type t b \<noteq> None)"
    if "(s, d) \<in> set (rs_errors rs)" for s d
    using errs that unfolding list_all_iff by (cases "map_of (rt_json st) s") fastforce+
  have fst_set: "fst ` set (rt_json st) = (case rs_ok rs of None \<Rightarrow> {} | Some (s, dec) \<Rightarrow> {s}) \<union> fst ` set (rs_errors rs)"
    using arg_cong [OF fst, of set] by (auto split: option.splits)
  have documents: "parse_typed rs resp = (case map_of (rt_json st) ?s of
       None \<Rightarrow> Inr None
     | Some t \<Rightarrow> (case unmarshal_type t (resp_body resp) of None \<Rightarrow> Inl json_error | Some v \<Rightarrow> Inr None))"
    if json: "is_json (resp_header resp)" and other: "map_option fst (rs_ok rs) \<noteq> Some ?s"
  proof (cases "map_of (rs_errors rs) ?s")
    case None
    then have "?s \<notin> fst ` set (rs_errors rs)" by (simp add: map_of_eq_None_iff)
    then have "map_of (rt_json st) ?s = None"
      using fst_set other by (auto simp: map_of_eq_None_iff split: option.splits)
    then show ?thesis using json other None by (auto simp: parse_typed_def split: option.splits)
  next
    case (Some d)
    then obtain t where "map_of (rt_json st) ?s = Some t" "error_doc_ok d = (\<lambda>b. unmarshal_type t b \<noteq> None)"
      using err [OF map_of_SomeD] by blast
    then show ?thesis using json other Some by (auto simp: parse_typed_def split: option.splits)
  qed
  show ?thesis
  proof (cases "is_json (resp_header resp) \<and> map_option fst (rs_ok rs) = Some ?s")
    case True
    then obtain dec where "rs_ok rs = Some (?s, dec)" by auto
    with ok True show ?thesis by (auto simp: parse_typed_def split: option.splits)
  next
    case False
    then show ?thesis using documents by (auto simp: parse_typed_def split: option.splits)
  qed
qed

lemma describes_parse:
  assumes "describes rs st"
  shows "parse_resp bind rs resp =
    (case typed_parse bind (rs_headers rs) st resp of
       Inl e \<Rightarrow> Inl e
     | Inr v \<Rightarrow> Inr \<lparr>pr_typed = (case rs_ok rs of None \<Rightarrow> None | Some (s, dec) \<Rightarrow> get_json s v),
         pr_headers = rv_headers v, pr_resp = rv_resp v\<rparr>)"
proof -
  have bind_case: "(case bind_res r f of Inl e \<Rightarrow> Inl e | Inr v \<Rightarrow> g v) = bind_res r (\<lambda>x. case f x of Inl e \<Rightarrow> Inl e | Inr v \<Rightarrow> g v)"
    for r :: "go_error + 'x" and f :: "'x \<Rightarrow> go_error + 'y" and g :: "'y \<Rightarrow> go_error + 'z"
    by (cases r) auto
  show ?thesis
    unfolding parse_resp_def typed_parse_def describes_typed [OF assms]
    by (cases "rs_ok rs") (auto simp: bind_case get_json_def split: option.split if_splits)
qed

lemma typed_parse_fields:
  assumes "typed_parse bind heads st resp = Inr v"
  shows "rv_resp v = resp"
    and "rv_json v = [] \<or> (\<exists>t x. rv_json v = [(resp_status resp, x)] \<and> is_json (resp_header resp) \<and>
      map_of (rt_json st) (resp_status resp) = Some t \<and> unmarshal_type t (resp_body resp) = Some x)"
  using assms by (auto simp: typed_parse_def bind_res_Inr_iff split: option.splits if_splits)

end
