(* ===== verification/Responses_Assistant.thy ===== *)
theory Responses_Assistant
  imports Typed_Responses
begin

text \<open>
  The response structs of \<open>client.gen.go\<close> for the assistant, the MCP endpoint and the support cases, with the structs of their headers.
\<close>

definition activate_ai_resp :: resp_struct where
  "activate_ai_resp =
     \<lparr>rt_json =
       [(200, ai_activate_response_model),
        (400, error_response_model),
        (401, error_response_model),
        (403, error_response_model),
        (409, error_response_model),
        (500, error_response_model),
        (502, error_response_model),
        (503, error_response_model)],
      rt_headers =
       [(200, [''XRequestId'']),
        (400, [''XRequestId'']),
        (401, [''XRequestId'']),
        (403, [''XRequestId'']),
        (409, [''RetryAfter'', ''XRequestId'']),
        (500, [''XRequestId'']),
        (502, [''XRequestId'']),
        (503, [''XRequestId''])]\<rparr>"

definition analyze_profiler_with_ai_resp :: resp_struct where
  "analyze_profiler_with_ai_resp =
     \<lparr>rt_json =
       [(200, ai_analyze_profiler_response_model),
        (400, error_response_model),
        (401, error_response_model),
        (403, error_response_model),
        (409, error_response_model),
        (500, error_response_model),
        (502, error_response_model),
        (503, error_response_model),
        (504, error_response_model)],
      rt_headers =
       [(200, [''XRequestId'']),
        (400, [''XRequestId'']),
        (401, [''XRequestId'']),
        (403, [''XRequestId'']),
        (409, [''RetryAfter'', ''XRequestId'']),
        (500, [''XRequestId'']),
        (502, [''XRequestId'']),
        (503, [''XRequestId'']),
        (504, [''XRequestId''])]\<rparr>"

definition chat_with_ai_resp :: resp_struct where
  "chat_with_ai_resp =
     \<lparr>rt_json =
       [(200, ai_chat_response_model),
        (400, ai_protocol_error_model),
        (401, error_response_model),
        (402, error_response_model),
        (403, error_response_model),
        (404, error_response_model),
        (409, error_response_model),
        (429, error_response_model),
        (500, error_response_model),
        (502, error_response_model),
        (503, error_response_model),
        (504, error_response_model)],
      rt_headers =
       [(200, [''XRequestId'']),
        (400, [''XRequestId'']),
        (401, [''XRequestId'']),
        (402, [''XRequestId'']),
        (403, [''XRequestId'']),
        (404, [''XRequestId'']),
        (409, [''RetryAfter'', ''XRequestId'']),
        (429, [''XRequestId'']),
        (500, [''XRequestId'']),
        (502, [''XRequestId'']),
        (503, [''XRequestId'']),
        (504, [''XRequestId''])]\<rparr>"

definition stream_chat_with_ai_resp :: resp_struct where
  "stream_chat_with_ai_resp =
     \<lparr>rt_json =
       [(400, ai_protocol_error_model),
        (401, error_response_model),
        (402, error_response_model),
        (403, error_response_model),
        (404, error_response_model),
        (409, error_response_model),
        (429, error_response_model),
        (500, error_response_model),
        (502, error_response_model),
        (503, error_response_model),
        (504, error_response_model)],
      rt_headers =
       [(200, [''XRequestId'']),
        (400, [''XRequestId'']),
        (401, [''XRequestId'']),
        (402, [''XRequestId'']),
        (403, [''XRequestId'']),
        (404, [''XRequestId'']),
        (409, [''RetryAfter'', ''XRequestId'']),
        (429, [''XRequestId'']),
        (500, [''XRequestId'']),
        (502, [''XRequestId'']),
        (503, [''XRequestId'']),
        (504, [''XRequestId''])]\<rparr>"

definition list_ai_chats_resp :: resp_struct where
  "list_ai_chats_resp =
     \<lparr>rt_json =
       [(200, ai_chat_list_model),
        (401, error_response_model),
        (403, error_response_model),
        (500, error_response_model)],
      rt_headers =
       [(200, [''XRequestId'']),
        (401, [''XRequestId'']),
        (403, [''XRequestId'']),
        (500, [''XRequestId''])]\<rparr>"

definition delete_ai_chat_resp :: resp_struct where
  "delete_ai_chat_resp =
     \<lparr>rt_json =
       [(200, ai_chat_deleted_model),
        (401, error_response_model),
        (403, error_response_model),
        (404, error_response_model),
        (500, error_response_model)],
      rt_headers =
       [(200, [''XRequestId'']),
        (401, [''XRequestId'']),
        (403, [''XRequestId'']),
        (404, [''XRequestId'']),
        (500, [''XRequestId''])]\<rparr>"

definition get_ai_chat_resp :: resp_struct where
  "get_ai_chat_resp =
     \<lparr>rt_json =
       [(200, ai_chat_model),
        (401, error_response_model),
        (403, error_response_model),
        (404, error_response_model),
        (500, error_response_model)],
      rt_headers =
       [(200, [''XRequestId'']),
        (401, [''XRequestId'']),
        (403, [''XRequestId'']),
        (404, [''XRequestId'']),
        (500, [''XRequestId''])]\<rparr>"

definition update_ai_chat_resp :: resp_struct where
  "update_ai_chat_resp =
     \<lparr>rt_json =
       [(200, ai_chat_model),
        (400, error_response_model),
        (401, error_response_model),
        (403, error_response_model),
        (404, error_response_model),
        (500, error_response_model)],
      rt_headers =
       [(200, [''XRequestId'']),
        (400, [''XRequestId'']),
        (401, [''XRequestId'']),
        (403, [''XRequestId'']),
        (404, [''XRequestId'']),
        (500, [''XRequestId''])]\<rparr>"

definition get_ai_config_resp :: resp_struct where
  "get_ai_config_resp =
     \<lparr>rt_json =
       [(200, ai_config_model),
        (401, error_response_model),
        (403, error_response_model),
        (500, error_response_model)],
      rt_headers =
       [(200, [''XRequestId'']),
        (401, [''XRequestId'']),
        (403, [''XRequestId'']),
        (500, [''XRequestId''])]\<rparr>"

definition invoke_mcp_resp :: resp_struct where
  "invoke_mcp_resp =
     \<lparr>rt_json =
       [(200, GTRaw),
        (401, error_response_model),
        (403, GTRaw),
        (405, GTRaw),
        (409, error_response_model),
        (500, error_response_model),
        (503, GTRaw)],
      rt_headers =
       [(200, [''XRequestId'']),
        (202, [''XRequestId'']),
        (401, [''XRequestId'']),
        (403, [''XRequestId'']),
        (405, [''XRequestId'']),
        (409, [''RetryAfter'', ''XRequestId'']),
        (500, [''XRequestId'']),
        (503, [''XRequestId''])]\<rparr>"

definition get_mcp_config_resp :: resp_struct where
  "get_mcp_config_resp =
     \<lparr>rt_json =
       [(200, mcp_config_model),
        (401, error_response_model),
        (403, error_response_model),
        (405, error_response_model),
        (500, error_response_model)],
      rt_headers =
       [(200, [''XRequestId'']),
        (401, [''XRequestId'']),
        (403, [''XRequestId'']),
        (405, [''XRequestId'']),
        (500, [''XRequestId''])]\<rparr>"

definition update_mcp_config_resp :: resp_struct where
  "update_mcp_config_resp =
     \<lparr>rt_json =
       [(200, mcp_config_model),
        (400, error_response_model),
        (401, error_response_model),
        (403, error_response_model),
        (405, error_response_model),
        (409, error_response_model),
        (500, error_response_model)],
      rt_headers =
       [(200, [''XRequestId'']),
        (400, [''XRequestId'']),
        (401, [''XRequestId'']),
        (403, [''XRequestId'']),
        (405, [''XRequestId'']),
        (409, [''RetryAfter'', ''XRequestId'']),
        (500, [''XRequestId''])]\<rparr>"

definition get_support_status_resp :: resp_struct where
  "get_support_status_resp =
     \<lparr>rt_json =
       [(200, support_status_model),
        (401, error_response_model),
        (403, error_response_model),
        (500, error_response_model)],
      rt_headers =
       [(200, [''XRequestId'']),
        (401, [''XRequestId'']),
        (403, [''XRequestId'']),
        (500, [''XRequestId''])]\<rparr>"

definition download_support_bundle_resp :: resp_struct where
  "download_support_bundle_resp =
     \<lparr>rt_json =
       [(400, error_response_model),
        (401, error_response_model),
        (403, error_response_model),
        (404, error_response_model),
        (409, error_response_model)],
      rt_headers =
       [(200, [''XRequestId'']),
        (400, [''XRequestId'']),
        (401, [''XRequestId'']),
        (403, [''XRequestId'']),
        (404, [''XRequestId'']),
        (409, [''RetryAfter'', ''XRequestId''])]\<rparr>"

definition cancel_support_connect_resp :: resp_struct where
  "cancel_support_connect_resp =
     \<lparr>rt_json =
       [(401, error_response_model),
        (403, error_response_model)],
      rt_headers =
       [(204, [''XRequestId'']),
        (401, [''XRequestId'']),
        (403, [''XRequestId''])]\<rparr>"

definition get_support_connect_resp :: resp_struct where
  "get_support_connect_resp =
     \<lparr>rt_json =
       [(401, error_response_model),
        (403, error_response_model)],
      rt_headers =
       [(200, [''XRequestId'']),
        (401, [''XRequestId'']),
        (403, [''XRequestId''])]\<rparr>"

definition start_support_connect_resp :: resp_struct where
  "start_support_connect_resp =
     \<lparr>rt_json =
       [(401, error_response_model),
        (403, error_response_model),
        (404, error_response_model),
        (409, error_response_model),
        (429, error_response_model),
        (503, error_response_model)],
      rt_headers =
       [(200, [''XRequestId'']),
        (401, [''XRequestId'']),
        (403, [''XRequestId'']),
        (404, [''XRequestId'']),
        (409, [''RetryAfter'', ''XRequestId'']),
        (429, [''XRequestId'']),
        (503, [''XRequestId''])]\<rparr>"

definition register_support_installation_resp :: resp_struct where
  "register_support_installation_resp =
     \<lparr>rt_json =
       [(401, error_response_model),
        (403, error_response_model),
        (409, error_response_model),
        (503, error_response_model)],
      rt_headers =
       [(200, [''XRequestId'']),
        (401, [''XRequestId'']),
        (403, [''XRequestId'']),
        (409, [''RetryAfter'', ''XRequestId'']),
        (503, [''XRequestId''])]\<rparr>"

definition list_support_issues_resp :: resp_struct where
  "list_support_issues_resp =
     \<lparr>rt_json =
       [(200, GTMap GTAny),
        (400, error_response_model),
        (401, error_response_model),
        (402, error_response_model),
        (403, error_response_model),
        (404, error_response_model),
        (409, error_response_model),
        (413, error_response_model),
        (429, error_response_model),
        (502, error_response_model),
        (503, error_response_model)],
      rt_headers =
       [(200, [''XRequestId'']),
        (400, [''XRequestId'']),
        (401, [''XRequestId'']),
        (402, [''XRequestId'']),
        (403, [''XRequestId'']),
        (404, [''XRequestId'']),
        (409, [''XRequestId'']),
        (413, [''XRequestId'']),
        (429, [''XRequestId'']),
        (502, [''XRequestId'']),
        (503, [''XRequestId''])]\<rparr>"

definition create_support_issue_resp :: resp_struct where
  "create_support_issue_resp =
     \<lparr>rt_json =
       [(201, GTMap GTAny),
        (400, error_response_model),
        (401, error_response_model),
        (402, error_response_model),
        (403, error_response_model),
        (404, error_response_model),
        (409, error_response_model),
        (413, error_response_model),
        (429, error_response_model),
        (502, error_response_model),
        (503, error_response_model)],
      rt_headers =
       [(201, [''XRequestId'']),
        (400, [''XRequestId'']),
        (401, [''XRequestId'']),
        (402, [''XRequestId'']),
        (403, [''XRequestId'']),
        (404, [''XRequestId'']),
        (409, [''RetryAfter'', ''XRequestId'']),
        (413, [''XRequestId'']),
        (429, [''XRequestId'']),
        (502, [''XRequestId'']),
        (503, [''XRequestId''])]\<rparr>"

definition get_support_issue_resp :: resp_struct where
  "get_support_issue_resp =
     \<lparr>rt_json =
       [(200, GTMap GTAny),
        (400, error_response_model),
        (401, error_response_model),
        (402, error_response_model),
        (403, error_response_model),
        (404, error_response_model),
        (409, error_response_model),
        (413, error_response_model),
        (429, error_response_model),
        (502, error_response_model),
        (503, error_response_model)],
      rt_headers =
       [(200, [''XRequestId'']),
        (400, [''XRequestId'']),
        (401, [''XRequestId'']),
        (402, [''XRequestId'']),
        (403, [''XRequestId'']),
        (404, [''XRequestId'']),
        (409, [''XRequestId'']),
        (413, [''XRequestId'']),
        (429, [''XRequestId'']),
        (502, [''XRequestId'']),
        (503, [''XRequestId''])]\<rparr>"

definition set_support_issue_open_resp :: resp_struct where
  "set_support_issue_open_resp =
     \<lparr>rt_json =
       [(400, error_response_model),
        (401, error_response_model),
        (402, error_response_model),
        (403, error_response_model),
        (404, error_response_model),
        (409, error_response_model),
        (413, error_response_model),
        (429, error_response_model),
        (502, error_response_model),
        (503, error_response_model)],
      rt_headers =
       [(204, [''XRequestId'']),
        (400, [''XRequestId'']),
        (401, [''XRequestId'']),
        (402, [''XRequestId'']),
        (403, [''XRequestId'']),
        (404, [''XRequestId'']),
        (409, [''XRequestId'']),
        (413, [''XRequestId'']),
        (429, [''XRequestId'']),
        (502, [''XRequestId'']),
        (503, [''XRequestId''])]\<rparr>"

definition attach_to_support_issue_resp :: resp_struct where
  "attach_to_support_issue_resp =
     \<lparr>rt_json =
       [(200, GTMap GTAny),
        (400, error_response_model),
        (401, error_response_model),
        (402, error_response_model),
        (403, error_response_model),
        (404, error_response_model),
        (409, error_response_model),
        (413, error_response_model),
        (429, error_response_model),
        (502, error_response_model),
        (503, error_response_model)],
      rt_headers =
       [(200, [''XRequestId'']),
        (400, [''XRequestId'']),
        (401, [''XRequestId'']),
        (402, [''XRequestId'']),
        (403, [''XRequestId'']),
        (404, [''XRequestId'']),
        (409, [''RetryAfter'', ''XRequestId'']),
        (413, [''XRequestId'']),
        (429, [''XRequestId'']),
        (502, [''XRequestId'']),
        (503, [''XRequestId''])]\<rparr>"

definition comment_support_issue_resp :: resp_struct where
  "comment_support_issue_resp =
     \<lparr>rt_json =
       [(201, GTMap GTAny),
        (400, error_response_model),
        (401, error_response_model),
        (402, error_response_model),
        (403, error_response_model),
        (404, error_response_model),
        (409, error_response_model),
        (413, error_response_model),
        (429, error_response_model),
        (502, error_response_model),
        (503, error_response_model)],
      rt_headers =
       [(201, [''XRequestId'']),
        (400, [''XRequestId'']),
        (401, [''XRequestId'']),
        (402, [''XRequestId'']),
        (403, [''XRequestId'']),
        (404, [''XRequestId'']),
        (409, [''RetryAfter'', ''XRequestId'']),
        (413, [''XRequestId'']),
        (429, [''XRequestId'']),
        (502, [''XRequestId'']),
        (503, [''XRequestId''])]\<rparr>"

definition answer_support_request_resp :: resp_struct where
  "answer_support_request_resp =
     \<lparr>rt_json =
       [(201, GTMap GTAny),
        (400, error_response_model),
        (401, error_response_model),
        (402, error_response_model),
        (403, error_response_model),
        (404, error_response_model),
        (409, error_response_model),
        (413, error_response_model),
        (429, error_response_model),
        (502, error_response_model),
        (503, error_response_model)],
      rt_headers =
       [(201, [''XRequestId'']),
        (400, [''XRequestId'']),
        (401, [''XRequestId'']),
        (402, [''XRequestId'']),
        (403, [''XRequestId'']),
        (404, [''XRequestId'']),
        (409, [''RetryAfter'', ''XRequestId'']),
        (413, [''XRequestId'']),
        (429, [''XRequestId'']),
        (502, [''XRequestId'']),
        (503, [''XRequestId''])]\<rparr>"

definition answer_support_requests_resp :: resp_struct where
  "answer_support_requests_resp =
     \<lparr>rt_json =
       [(201, GTMap GTAny),
        (400, error_response_model),
        (401, error_response_model),
        (402, error_response_model),
        (403, error_response_model),
        (404, error_response_model),
        (409, error_response_model),
        (413, error_response_model),
        (429, error_response_model),
        (502, error_response_model),
        (503, error_response_model)],
      rt_headers =
       [(201, [''XRequestId'']),
        (400, [''XRequestId'']),
        (401, [''XRequestId'']),
        (402, [''XRequestId'']),
        (403, [''XRequestId'']),
        (404, [''XRequestId'']),
        (409, [''RetryAfter'', ''XRequestId'']),
        (413, [''XRequestId'']),
        (429, [''XRequestId'']),
        (502, [''XRequestId'']),
        (503, [''XRequestId''])]\<rparr>"

definition run_support_peer_query_resp :: resp_struct where
  "run_support_peer_query_resp =
     \<lparr>rt_json =
       [(400, error_response_model),
        (401, error_response_model),
        (403, error_response_model),
        (409, error_response_model)],
      rt_headers =
       [(200, [''XRequestId'']),
        (400, [''XRequestId'']),
        (401, [''XRequestId'']),
        (403, [''XRequestId'']),
        (409, [''RetryAfter'', ''XRequestId''])]\<rparr>"

definition get_support_peers_resp :: resp_struct where
  "get_support_peers_resp =
     \<lparr>rt_json =
       [(401, error_response_model),
        (403, error_response_model)],
      rt_headers =
       [(200, [''XRequestId'']),
        (401, [''XRequestId'']),
        (403, [''XRequestId''])]\<rparr>"

definition preview_support_bundle_resp :: resp_struct where
  "preview_support_bundle_resp =
     \<lparr>rt_json =
       [(200, support_preview_model),
        (400, error_response_model),
        (401, error_response_model),
        (403, error_response_model),
        (409, error_response_model),
        (413, error_response_model),
        (500, error_response_model)],
      rt_headers =
       [(200, [''XRequestId'']),
        (400, [''XRequestId'']),
        (401, [''XRequestId'']),
        (403, [''XRequestId'']),
        (409, [''RetryAfter'', ''XRequestId'']),
        (413, [''XRequestId'']),
        (500, [''XRequestId''])]\<rparr>"

definition unregister_support_resp :: resp_struct where
  "unregister_support_resp =
     \<lparr>rt_json =
       [(401, error_response_model),
        (403, error_response_model),
        (409, error_response_model)],
      rt_headers =
       [(204, [''XRequestId'']),
        (401, [''XRequestId'']),
        (403, [''XRequestId'']),
        (409, [''XRequestId''])]\<rparr>"

definition register_support_resp :: resp_struct where
  "register_support_resp =
     \<lparr>rt_json =
       [(200, support_status_model),
        (400, error_response_model),
        (401, error_response_model),
        (403, error_response_model),
        (409, error_response_model),
        (503, error_response_model)],
      rt_headers =
       [(200, [''XRequestId'']),
        (400, [''XRequestId'']),
        (401, [''XRequestId'']),
        (403, [''XRequestId'']),
        (409, [''RetryAfter'', ''XRequestId'']),
        (503, [''XRequestId''])]\<rparr>"

definition stage_support_screenshot_resp :: resp_struct where
  "stage_support_screenshot_resp =
     \<lparr>rt_json =
       [(201, GTMap GTAny),
        (400, error_response_model),
        (401, error_response_model),
        (403, error_response_model),
        (409, error_response_model),
        (413, error_response_model)],
      rt_headers =
       [(201, [''XRequestId'']),
        (400, [''XRequestId'']),
        (401, [''XRequestId'']),
        (403, [''XRequestId'']),
        (409, [''RetryAfter'', ''XRequestId'']),
        (413, [''XRequestId''])]\<rparr>"

definition discard_support_screenshot_resp :: resp_struct where
  "discard_support_screenshot_resp =
     \<lparr>rt_json =
       [(401, error_response_model),
        (403, error_response_model)],
      rt_headers =
       [(204, [''XRequestId'']),
        (401, [''XRequestId'']),
        (403, [''XRequestId''])]\<rparr>"

end
