(* ===== verification/Responses_Cluster.thy ===== *)
theory Responses_Cluster
  imports Typed_Responses
begin

text \<open>
  The response structs of \<open>client.gen.go\<close> for the cluster and its snapshots, with the structs of their headers.
\<close>

definition get_cluster_status_resp :: resp_struct where
  "get_cluster_status_resp =
     \<lparr>rt_json =
       [(200, cluster_status_model),
        (401, error_response_model),
        (403, error_response_model),
        (500, error_response_model),
        (503, error_response_model)],
      rt_headers =
       [(200, [''XRequestId'']),
        (401, [''XRequestId'']),
        (403, [''XRequestId'']),
        (500, [''XRequestId'']),
        (503, [''XRequestId''])]\<rparr>"

definition accept_cluster_database_copy_resp :: resp_struct where
  "accept_cluster_database_copy_resp =
     \<lparr>rt_json =
       [(200, cluster_action_response_model),
        (400, error_response_model),
        (401, error_response_model),
        (403, error_response_model),
        (404, error_response_model),
        (409, error_response_model),
        (500, error_response_model)],
      rt_headers =
       [(200, [''XRequestId'']),
        (400, [''XRequestId'']),
        (401, [''XRequestId'']),
        (403, [''XRequestId'']),
        (404, [''XRequestId'']),
        (409, [''RetryAfter'', ''XRequestId'']),
        (500, [''XRequestId''])]\<rparr>"

definition accept_cluster_diverged_database_resp :: resp_struct where
  "accept_cluster_diverged_database_resp =
     \<lparr>rt_json =
       [(200, cluster_action_response_model),
        (400, error_response_model),
        (401, error_response_model),
        (403, error_response_model),
        (404, error_response_model),
        (409, error_response_model),
        (500, error_response_model)],
      rt_headers =
       [(200, [''XRequestId'']),
        (400, [''XRequestId'']),
        (401, [''XRequestId'']),
        (403, [''XRequestId'']),
        (404, [''XRequestId'']),
        (409, [''RetryAfter'', ''XRequestId'']),
        (500, [''XRequestId''])]\<rparr>"

definition accept_cluster_stale_snapshot_resp :: resp_struct where
  "accept_cluster_stale_snapshot_resp =
     \<lparr>rt_json =
       [(200, cluster_action_response_model),
        (400, error_response_model),
        (401, error_response_model),
        (403, error_response_model),
        (404, error_response_model),
        (409, error_response_model),
        (500, error_response_model)],
      rt_headers =
       [(200, [''XRequestId'']),
        (400, [''XRequestId'']),
        (401, [''XRequestId'']),
        (403, [''XRequestId'']),
        (404, [''XRequestId'']),
        (409, [''RetryAfter'', ''XRequestId'']),
        (500, [''XRequestId''])]\<rparr>"

definition resolve_cluster_auth_session_resp :: resp_struct where
  "resolve_cluster_auth_session_resp =
     \<lparr>rt_json =
       [(200, cluster_auth_session_response_model),
        (400, error_response_model),
        (401, error_response_model),
        (403, error_response_model),
        (404, error_response_model),
        (409, error_response_model),
        (500, error_response_model)],
      rt_headers =
       [(200, [''XRequestId'']),
        (204, [''XRequestId'']),
        (400, [''XRequestId'']),
        (401, [''XRequestId'']),
        (403, [''XRequestId'']),
        (404, [''XRequestId'']),
        (409, [''RetryAfter'', ''XRequestId'']),
        (500, [''XRequestId''])]\<rparr>"

definition get_cluster_bootstrap_state_resp :: resp_struct where
  "get_cluster_bootstrap_state_resp =
     \<lparr>rt_json =
       [(200, bootstrap_state_response_model),
        (400, error_response_model),
        (401, error_response_model),
        (403, error_response_model),
        (409, error_response_model),
        (500, error_response_model)],
      rt_headers =
       [(200, [''XRequestId'']),
        (400, [''XRequestId'']),
        (401, [''XRequestId'']),
        (403, [''XRequestId'']),
        (409, [''RetryAfter'', ''XRequestId'']),
        (500, [''XRequestId''])]\<rparr>"

definition get_cluster_peer_capabilities_resp :: resp_struct where
  "get_cluster_peer_capabilities_resp =
     \<lparr>rt_json =
       [(200, peer_capabilities_response_model),
        (400, error_response_model),
        (401, error_response_model),
        (403, error_response_model),
        (409, error_response_model),
        (500, error_response_model)],
      rt_headers =
       [(200, [''XRequestId'']),
        (400, [''XRequestId'']),
        (401, [''XRequestId'']),
        (403, [''XRequestId'']),
        (409, [''RetryAfter'', ''XRequestId'']),
        (500, [''XRequestId''])]\<rparr>"

definition transfer_cluster_leadership_resp :: resp_struct where
  "transfer_cluster_leadership_resp =
     \<lparr>rt_json =
       [(200, cluster_action_response_model),
        (400, error_response_model),
        (401, error_response_model),
        (403, error_response_model),
        (409, error_response_model),
        (500, error_response_model)],
      rt_headers =
       [(200, [''XRequestId'']),
        (400, [''XRequestId'']),
        (401, [''XRequestId'']),
        (403, [''XRequestId'']),
        (409, [''RetryAfter'', ''XRequestId'']),
        (500, [''XRequestId''])]\<rparr>"

definition leave_cluster_resp :: resp_struct where
  "leave_cluster_resp =
     \<lparr>rt_json =
       [(200, cluster_action_response_model),
        (400, error_response_model),
        (401, error_response_model),
        (403, error_response_model),
        (409, error_response_model),
        (500, error_response_model)],
      rt_headers =
       [(200, [''XRequestId'']),
        (400, [''XRequestId'']),
        (401, [''XRequestId'']),
        (403, [''XRequestId'']),
        (409, [''RetryAfter'', ''XRequestId'']),
        (500, [''XRequestId''])]\<rparr>"

definition add_cluster_peer_resp :: resp_struct where
  "add_cluster_peer_resp =
     \<lparr>rt_json =
       [(200, cluster_action_response_model),
        (400, error_response_model),
        (401, error_response_model),
        (403, error_response_model),
        (409, error_response_model),
        (500, error_response_model),
        (503, error_response_model)],
      rt_headers =
       [(200, [''XRequestId'']),
        (400, [''XRequestId'']),
        (401, [''XRequestId'']),
        (403, [''XRequestId'']),
        (409, [''RetryAfter'', ''XRequestId'']),
        (500, [''XRequestId'']),
        (503, [''XRequestId''])]\<rparr>"

definition remove_cluster_peer_resp :: resp_struct where
  "remove_cluster_peer_resp =
     \<lparr>rt_json =
       [(200, cluster_action_response_model),
        (400, error_response_model),
        (401, error_response_model),
        (403, error_response_model),
        (409, error_response_model),
        (500, error_response_model)],
      rt_headers =
       [(200, [''XRequestId'']),
        (400, [''XRequestId'']),
        (401, [''XRequestId'']),
        (403, [''XRequestId'']),
        (409, [''XRequestId'']),
        (500, [''XRequestId''])]\<rparr>"

definition resync_cluster_database_resp :: resp_struct where
  "resync_cluster_database_resp =
     \<lparr>rt_json =
       [(200, cluster_action_response_model),
        (400, error_response_model),
        (401, error_response_model),
        (403, error_response_model),
        (409, error_response_model),
        (500, error_response_model),
        (503, error_response_model)],
      rt_headers =
       [(200, [''XRequestId'']),
        (400, [''XRequestId'']),
        (401, [''XRequestId'']),
        (403, [''XRequestId'']),
        (409, [''RetryAfter'', ''XRequestId'']),
        (500, [''XRequestId'']),
        (503, [''XRequestId''])]\<rparr>"

definition seed_cluster_security_documents_resp :: resp_struct where
  "seed_cluster_security_documents_resp =
     \<lparr>rt_json =
       [(200, security_seed_response_model),
        (400, error_response_model),
        (401, error_response_model),
        (403, error_response_model),
        (409, error_response_model),
        (500, error_response_model),
        (503, security_seed_response_model)],
      rt_headers =
       [(200, [''XRequestId'']),
        (400, [''XRequestId'']),
        (401, [''XRequestId'']),
        (403, [''XRequestId'']),
        (409, [''RetryAfter'', ''XRequestId'']),
        (500, [''XRequestId'']),
        (503, [''XRequestId''])]\<rparr>"

definition step_down_cluster_leader_resp :: resp_struct where
  "step_down_cluster_leader_resp =
     \<lparr>rt_json =
       [(200, cluster_action_response_model),
        (400, error_response_model),
        (401, error_response_model),
        (403, error_response_model),
        (409, error_response_model),
        (500, error_response_model)],
      rt_headers =
       [(200, [''XRequestId'']),
        (400, [''XRequestId'']),
        (401, [''XRequestId'']),
        (403, [''XRequestId'']),
        (409, [''RetryAfter'', ''XRequestId'']),
        (500, [''XRequestId''])]\<rparr>"

definition verify_cluster_database_resp :: resp_struct where
  "verify_cluster_database_resp =
     \<lparr>rt_json =
       [(200, GTRaw),
        (400, error_response_model),
        (401, error_response_model),
        (403, error_response_model),
        (404, error_response_model),
        (409, error_response_model),
        (500, error_response_model)],
      rt_headers =
       [(200, [''XRequestId'']),
        (400, [''XRequestId'']),
        (401, [''XRequestId'']),
        (403, [''XRequestId'']),
        (404, [''XRequestId'']),
        (409, [''RetryAfter'', ''XRequestId'']),
        (500, [''XRequestId''])]\<rparr>"

definition download_database_snapshot_resp :: resp_struct where
  "download_database_snapshot_resp =
     \<lparr>rt_json =
       [(400, error_response_model),
        (401, error_response_model),
        (403, error_response_model),
        (404, error_response_model),
        (503, error_response_model)],
      rt_headers =
       [(200, [''XRequestId'']),
        (400, [''XRequestId'']),
        (401, [''XRequestId'']),
        (403, [''XRequestId'']),
        (404, [''XRequestId'']),
        (503, [''XRequestId''])]\<rparr>"

definition get_database_snapshot_checksums_resp :: resp_struct where
  "get_database_snapshot_checksums_resp =
     \<lparr>rt_json =
       [(200, get_database_snapshot_checksums200_json_response_body_model),
        (400, error_response_model),
        (401, error_response_model),
        (403, error_response_model),
        (404, error_response_model),
        (500, error_response_model),
        (503, error_response_model)],
      rt_headers =
       [(200, [''XRequestId'']),
        (400, [''XRequestId'']),
        (401, [''XRequestId'']),
        (403, [''XRequestId'']),
        (404, [''XRequestId'']),
        (500, [''XRequestId'']),
        (503, [''XRequestId''])]\<rparr>"

end
