(* ===== verification/Responses_Server.thy ===== *)
theory Responses_Server
  imports Typed_Responses
begin

text \<open>
  The response structs of \<open>client.gen.go\<close> for the server, its users and databases, with the structs of their headers.
\<close>

definition list_databases_resp :: resp_struct where
  "list_databases_resp =
     \<lparr>rt_json =
       [(200, database_list_model),
        (401, error_response_model),
        (500, error_response_model)],
      rt_headers =
       [(200, [''XRequestId'']),
        (401, [''XRequestId'']),
        (500, [''XRequestId''])]\<rparr>"

definition check_database_exists_resp :: resp_struct where
  "check_database_exists_resp =
     \<lparr>rt_json =
       [(200, database_exists_model),
        (400, error_response_model),
        (401, error_response_model),
        (500, error_response_model)],
      rt_headers =
       [(200, [''XRequestId'']),
        (400, [''XRequestId'']),
        (401, [''XRequestId'']),
        (500, [''XRequestId''])]\<rparr>"

definition check_health_resp :: resp_struct where
  "check_health_resp =
     \<lparr>rt_json =
       [],
      rt_headers =
       [(204, [''XRequestId'']),
        (503, [''XRequestId''])]\<rparr>"

definition check_health_head_resp :: resp_struct where
  "check_health_head_resp =
     \<lparr>rt_json =
       [],
      rt_headers =
       [(204, [''XRequestId'']),
        (503, [''XRequestId''])]\<rparr>"

definition login_resp :: resp_struct where
  "login_resp =
     \<lparr>rt_json =
       [(200, login_response_model),
        (401, error_response_model),
        (403, error_response_model),
        (409, error_response_model),
        (500, error_response_model),
        (503, error_response_model)],
      rt_headers =
       [(200, [''XRequestId'']),
        (401, [''XRequestId'']),
        (403, [''XRequestId'']),
        (409, [''RetryAfter'', ''XRequestId'']),
        (500, [''XRequestId'']),
        (503, [''XRequestId''])]\<rparr>"

definition logout_resp :: resp_struct where
  "logout_resp =
     \<lparr>rt_json =
       [(401, error_response_model),
        (409, error_response_model),
        (500, error_response_model)],
      rt_headers =
       [(204, [''XRequestId'']),
        (401, [''XRequestId'']),
        (409, [''RetryAfter'', ''XRequestId'']),
        (500, [''XRequestId''])]\<rparr>"

definition check_ready_resp :: resp_struct where
  "check_ready_resp =
     \<lparr>rt_json =
       [],
      rt_headers =
       [(204, [''XRequestId'']),
        (503, [''XRequestId''])]\<rparr>"

definition check_ready_head_resp :: resp_struct where
  "check_ready_head_resp =
     \<lparr>rt_json =
       [],
      rt_headers =
       [(204, [''XRequestId'']),
        (503, [''XRequestId''])]\<rparr>"

definition get_server_info_resp :: resp_struct where
  "get_server_info_resp =
     \<lparr>rt_json =
       [(200, server_info_model),
        (401, error_response_model),
        (500, error_response_model)],
      rt_headers =
       [(200, [''XRequestId'']),
        (401, [''XRequestId'']),
        (500, [''XRequestId''])]\<rparr>"

definition execute_server_command_resp :: resp_struct where
  "execute_server_command_resp =
     \<lparr>rt_json =
       [(200, server_command_response_model),
        (400, error_response_model),
        (401, error_response_model),
        (404, error_response_model),
        (409, error_response_model),
        (413, error_response_model),
        (500, error_response_model),
        (503, error_response_model),
        (504, error_response_model)],
      rt_headers =
       [(200, [''XRequestId'']),
        (400, [''XRequestId'']),
        (401, [''XRequestId'']),
        (404, [''XRequestId'']),
        (409, [''RetryAfter'', ''XRequestId'']),
        (413, [''XRequestId'']),
        (500, [''XRequestId'']),
        (503, [''XRequestId'']),
        (504, [''XRequestId''])]\<rparr>"

definition delete_api_token_resp :: resp_struct where
  "delete_api_token_resp =
     \<lparr>rt_json =
       [(200, security_admin_result_model),
        (400, error_response_model),
        (401, error_response_model),
        (403, error_response_model),
        (404, error_response_model),
        (500, error_response_model),
        (504, error_response_model)],
      rt_headers =
       [(200, [''XRequestId'']),
        (400, [''XRequestId'']),
        (401, [''XRequestId'']),
        (403, [''XRequestId'']),
        (404, [''XRequestId'']),
        (500, [''XRequestId'']),
        (504, [''XRequestId''])]\<rparr>"

definition list_api_tokens_resp :: resp_struct where
  "list_api_tokens_resp =
     \<lparr>rt_json =
       [(200, api_token_list_model),
        (400, error_response_model),
        (401, error_response_model),
        (403, error_response_model),
        (500, error_response_model)],
      rt_headers =
       [(200, [''XRequestId'']),
        (400, [''XRequestId'']),
        (401, [''XRequestId'']),
        (403, [''XRequestId'']),
        (500, [''XRequestId''])]\<rparr>"

definition create_api_token_resp :: resp_struct where
  "create_api_token_resp =
     \<lparr>rt_json =
       [(201, create_api_token_response_model),
        (400, error_response_model),
        (401, error_response_model),
        (403, error_response_model),
        (409, error_response_model),
        (412, error_response_model),
        (500, error_response_model),
        (504, error_response_model)],
      rt_headers =
       [(201, [''XRequestId'']),
        (400, [''XRequestId'']),
        (401, [''XRequestId'']),
        (403, [''XRequestId'']),
        (409, [''RetryAfter'', ''XRequestId'']),
        (412, [''XRequestId'']),
        (500, [''XRequestId'']),
        (504, [''XRequestId''])]\<rparr>"

definition delete_group_resp :: resp_struct where
  "delete_group_resp =
     \<lparr>rt_json =
       [(200, security_admin_result_model),
        (400, error_response_model),
        (401, error_response_model),
        (403, error_response_model),
        (404, error_response_model),
        (500, error_response_model),
        (504, error_response_model)],
      rt_headers =
       [(200, [''XRequestId'']),
        (400, [''XRequestId'']),
        (401, [''XRequestId'']),
        (403, [''XRequestId'']),
        (404, [''XRequestId'']),
        (500, [''XRequestId'']),
        (504, [''XRequestId''])]\<rparr>"

definition list_groups_resp :: resp_struct where
  "list_groups_resp =
     \<lparr>rt_json =
       [(200, group_list_model),
        (400, error_response_model),
        (401, error_response_model),
        (403, error_response_model),
        (500, error_response_model)],
      rt_headers =
       [(200, [''XRequestId'']),
        (400, [''XRequestId'']),
        (401, [''XRequestId'']),
        (403, [''XRequestId'']),
        (500, [''XRequestId''])]\<rparr>"

definition create_or_update_group_resp :: resp_struct where
  "create_or_update_group_resp =
     \<lparr>rt_json =
       [(200, security_admin_result_model),
        (400, error_response_model),
        (401, error_response_model),
        (403, error_response_model),
        (409, error_response_model),
        (500, error_response_model),
        (504, error_response_model)],
      rt_headers =
       [(200, [''XRequestId'']),
        (400, [''XRequestId'']),
        (401, [''XRequestId'']),
        (403, [''XRequestId'']),
        (409, [''RetryAfter'', ''XRequestId'']),
        (500, [''XRequestId'']),
        (504, [''XRequestId''])]\<rparr>"

definition delete_user_resp :: resp_struct where
  "delete_user_resp =
     \<lparr>rt_json =
       [(200, security_admin_result_model),
        (400, error_response_model),
        (401, error_response_model),
        (403, error_response_model),
        (404, error_response_model),
        (500, error_response_model),
        (504, error_response_model)],
      rt_headers =
       [(200, [''XRequestId'']),
        (400, [''XRequestId'']),
        (401, [''XRequestId'']),
        (403, [''XRequestId'']),
        (404, [''XRequestId'']),
        (500, [''XRequestId'']),
        (504, [''XRequestId''])]\<rparr>"

definition list_users_resp :: resp_struct where
  "list_users_resp =
     \<lparr>rt_json =
       [(200, user_list_model),
        (400, error_response_model),
        (401, error_response_model),
        (403, error_response_model),
        (500, error_response_model)],
      rt_headers =
       [(200, [''XRequestId'']),
        (400, [''XRequestId'']),
        (401, [''XRequestId'']),
        (403, [''XRequestId'']),
        (500, [''XRequestId''])]\<rparr>"

definition create_user_resp :: resp_struct where
  "create_user_resp =
     \<lparr>rt_json =
       [(201, security_admin_result_model),
        (400, error_response_model),
        (401, error_response_model),
        (403, error_response_model),
        (409, error_response_model),
        (500, error_response_model),
        (504, error_response_model)],
      rt_headers =
       [(201, [''XRequestId'']),
        (400, [''XRequestId'']),
        (401, [''XRequestId'']),
        (403, [''XRequestId'']),
        (409, [''RetryAfter'', ''XRequestId'']),
        (500, [''XRequestId'']),
        (504, [''XRequestId''])]\<rparr>"

definition update_user_resp :: resp_struct where
  "update_user_resp =
     \<lparr>rt_json =
       [(200, security_admin_result_model),
        (400, error_response_model),
        (401, error_response_model),
        (403, error_response_model),
        (404, error_response_model),
        (500, error_response_model),
        (504, error_response_model)],
      rt_headers =
       [(200, [''XRequestId'']),
        (400, [''XRequestId'']),
        (401, [''XRequestId'']),
        (403, [''XRequestId'']),
        (404, [''XRequestId'']),
        (500, [''XRequestId'']),
        (504, [''XRequestId''])]\<rparr>"

definition list_sessions_resp :: resp_struct where
  "list_sessions_resp =
     \<lparr>rt_json =
       [(200, session_list_model),
        (401, error_response_model),
        (403, error_response_model),
        (500, error_response_model)],
      rt_headers =
       [(200, [''XRequestId'']),
        (401, [''XRequestId'']),
        (403, [''XRequestId'']),
        (500, [''XRequestId''])]\<rparr>"

definition check_grafana_health_resp :: resp_struct where
  "check_grafana_health_resp =
     \<lparr>rt_json =
       [(200, grafana_health_model),
        (400, error_response_model),
        (401, error_response_model),
        (403, error_response_model),
        (404, error_response_model),
        (500, error_response_model)],
      rt_headers =
       [(200, [''XRequestId'', ''ArcadedbSessionExpired'', ''ArcadedbSessionId'']),
        (400, [''XRequestId'']),
        (401, [''XRequestId'']),
        (403, [''XRequestId'']),
        (404, [''XRequestId'']),
        (500, [''XRequestId''])]\<rparr>"

end
