(* ===== verification/Responses_Data.thy ===== *)
theory Responses_Data
  imports Typed_Responses
begin

text \<open>
  The response structs of \<open>client.gen.go\<close> for transactions, queries, batches, searches, time series and dashboards, with the structs of their headers.
\<close>

definition execute_batch_resp :: resp_struct where
  "execute_batch_resp =
     \<lparr>rt_json =
       [(200, batch_response_model),
        (400, batch_error_model),
        (401, error_response_model),
        (403, error_response_model),
        (404, error_response_model),
        (408, batch_error_model),
        (409, error_response_model),
        (413, error_response_model),
        (500, error_response_model),
        (503, error_response_model)],
      rt_headers =
       [(200, [''XRequestId'', ''ArcadedbSessionId'']),
        (400, [''XRequestId'']),
        (401, [''XRequestId'']),
        (403, [''XRequestId'']),
        (404, [''XRequestId'']),
        (408, [''XRequestId'']),
        (409, [''XRequestId'']),
        (413, [''XRequestId'']),
        (500, [''XRequestId'']),
        (503, [''XRequestId''])]\<rparr>"

definition begin_transaction_resp :: resp_struct where
  "begin_transaction_resp =
     \<lparr>rt_json =
       [(400, error_response_model),
        (401, error_response_model),
        (404, error_response_model),
        (409, error_response_model),
        (500, error_response_model)],
      rt_headers =
       [(204, [''XRequestId'', ''ArcadedbSessionExpired'', ''ArcadedbSessionId'']),
        (400, [''XRequestId'']),
        (401, [''XRequestId'']),
        (404, [''XRequestId'']),
        (409, [''RetryAfter'', ''XRequestId'']),
        (500, [''XRequestId''])]\<rparr>"

definition execute_command_resp :: resp_struct where
  "execute_command_resp =
     \<lparr>rt_json =
       [(200, query_response_model),
        (400, error_response_model),
        (401, error_response_model),
        (404, error_response_model),
        (409, error_response_model),
        (413, error_response_model),
        (500, error_response_model)],
      rt_headers =
       [(200, [''XArcadeDBCommitIndex'', ''XRequestId'', ''ArcadedbSessionPartialCommit'']),
        (400, [''XArcadeDBCommitIndex'', ''XRequestId'', ''ArcadedbSessionPartialCommit'']),
        (401, [''XRequestId'']),
        (404, [''XRequestId'']),
        (409, [''RetryAfter'', ''XArcadeDBCommitIndex'', ''XRequestId'', ''ArcadedbSessionPartialCommit'']),
        (413, [''XArcadeDBCommitIndex'', ''XRequestId'', ''ArcadedbSessionPartialCommit'']),
        (500, [''XArcadeDBCommitIndex'', ''XRequestId'', ''ArcadedbSessionPartialCommit''])]\<rparr>"

definition commit_transaction_resp :: resp_struct where
  "commit_transaction_resp =
     \<lparr>rt_json =
       [(400, error_response_model),
        (401, error_response_model),
        (404, error_response_model),
        (409, error_response_model),
        (500, error_response_model)],
      rt_headers =
       [(204, [''XRequestId'', ''ArcadedbSessionExpired'']),
        (400, [''XRequestId'']),
        (401, [''XRequestId'']),
        (404, [''XRequestId'']),
        (409, [''RetryAfter'', ''XRequestId'']),
        (500, [''XRequestId''])]\<rparr>"

definition get_operation_progress_resp :: resp_struct where
  "get_operation_progress_resp =
     \<lparr>rt_json =
       [(200, progress_response_model),
        (400, error_response_model),
        (401, error_response_model),
        (403, error_response_model),
        (500, error_response_model)],
      rt_headers =
       [(200, [''XRequestId'']),
        (400, [''XRequestId'']),
        (401, [''XRequestId'']),
        (403, [''XRequestId'']),
        (500, [''XRequestId''])]\<rparr>"

definition execute_query_resp :: resp_struct where
  "execute_query_resp =
     \<lparr>rt_json =
       [(200, query_response_model),
        (400, error_response_model),
        (401, error_response_model),
        (404, error_response_model),
        (409, error_response_model),
        (413, error_response_model),
        (500, error_response_model)],
      rt_headers =
       [(200, [''XArcadeDBCommitIndex'', ''XRequestId'', ''ArcadedbSessionPartialCommit'']),
        (400, [''XArcadeDBCommitIndex'', ''XRequestId'', ''ArcadedbSessionPartialCommit'']),
        (401, [''XRequestId'']),
        (404, [''XRequestId'']),
        (409, [''RetryAfter'', ''XArcadeDBCommitIndex'', ''XRequestId'', ''ArcadedbSessionPartialCommit'']),
        (413, [''XArcadeDBCommitIndex'', ''XRequestId'', ''ArcadedbSessionPartialCommit'']),
        (500, [''XArcadeDBCommitIndex'', ''XRequestId'', ''ArcadedbSessionPartialCommit''])]\<rparr>"

definition execute_query_get_resp :: resp_struct where
  "execute_query_get_resp =
     \<lparr>rt_json =
       [(200, query_response_model),
        (400, error_response_model),
        (401, error_response_model),
        (404, error_response_model),
        (409, error_response_model),
        (413, error_response_model),
        (500, error_response_model)],
      rt_headers =
       [(200, [''XArcadeDBCommitIndex'', ''XRequestId'', ''ArcadedbSessionExpired'', ''ArcadedbSessionPartialCommit'']),
        (400, [''XArcadeDBCommitIndex'', ''XRequestId'', ''ArcadedbSessionPartialCommit'']),
        (401, [''XRequestId'']),
        (404, [''XRequestId'']),
        (409, [''XArcadeDBCommitIndex'', ''XRequestId'', ''ArcadedbSessionPartialCommit'']),
        (413, [''XArcadeDBCommitIndex'', ''XRequestId'', ''ArcadedbSessionPartialCommit'']),
        (500, [''XArcadeDBCommitIndex'', ''XRequestId'', ''ArcadedbSessionPartialCommit''])]\<rparr>"

definition rollback_transaction_resp :: resp_struct where
  "rollback_transaction_resp =
     \<lparr>rt_json =
       [(400, error_response_model),
        (401, error_response_model),
        (404, error_response_model),
        (409, error_response_model),
        (500, error_response_model)],
      rt_headers =
       [(204, [''XRequestId'', ''ArcadedbSessionExpired'']),
        (400, [''XRequestId'']),
        (401, [''XRequestId'']),
        (404, [''XRequestId'']),
        (409, [''RetryAfter'', ''XRequestId'']),
        (500, [''XRequestId''])]\<rparr>"

definition get_grafana_metadata_resp :: resp_struct where
  "get_grafana_metadata_resp =
     \<lparr>rt_json =
       [(200, grafana_metadata_model),
        (400, error_response_model),
        (401, error_response_model),
        (403, error_response_model),
        (404, error_response_model),
        (500, error_response_model)],
      rt_headers =
       [(200, [''XRequestId'', ''ArcadedbSessionExpired'', ''ArcadedbSessionId'']),
        (400, [''XRequestId'']),
        (401, [''XRequestId'']),
        (403, [''XRequestId'']),
        (404, [''XRequestId'']),
        (500, [''XRequestId''])]\<rparr>"

definition query_grafana_resp :: resp_struct where
  "query_grafana_resp =
     \<lparr>rt_json =
       [(200, grafana_query_response_model),
        (400, error_response_model),
        (401, error_response_model),
        (403, error_response_model),
        (404, error_response_model),
        (409, error_response_model),
        (500, error_response_model)],
      rt_headers =
       [(200, [''XRequestId'', ''ArcadedbSessionExpired'', ''ArcadedbSessionId'']),
        (400, [''XRequestId'']),
        (401, [''XRequestId'']),
        (403, [''XRequestId'']),
        (404, [''XRequestId'']),
        (409, [''RetryAfter'', ''XRequestId'']),
        (500, [''XRequestId''])]\<rparr>"

definition get_time_series_latest_resp :: resp_struct where
  "get_time_series_latest_resp =
     \<lparr>rt_json =
       [(200, time_series_latest_response_model),
        (400, error_response_model),
        (401, error_response_model),
        (403, error_response_model),
        (404, error_response_model),
        (500, error_response_model)],
      rt_headers =
       [(200, [''XRequestId'', ''ArcadedbSessionExpired'', ''ArcadedbSessionId'']),
        (400, [''XRequestId'']),
        (401, [''XRequestId'']),
        (403, [''XRequestId'']),
        (404, [''XRequestId'']),
        (500, [''XRequestId''])]\<rparr>"

definition promql_label_values_resp :: resp_struct where
  "promql_label_values_resp =
     \<lparr>rt_json =
       [(200, promql_labels_response_model),
        (400, promql_error_response_model),
        (401, error_response_model),
        (403, error_response_model),
        (404, error_response_model),
        (500, error_response_model)],
      rt_headers =
       [(200, [''XRequestId'', ''ArcadedbSessionExpired'', ''ArcadedbSessionId'']),
        (400, [''XRequestId'']),
        (401, [''XRequestId'']),
        (403, [''XRequestId'']),
        (404, [''XRequestId'']),
        (500, [''XRequestId''])]\<rparr>"

definition promql_labels_resp :: resp_struct where
  "promql_labels_resp =
     \<lparr>rt_json =
       [(200, promql_labels_response_model),
        (400, promql_error_response_model),
        (401, error_response_model),
        (403, error_response_model),
        (404, error_response_model),
        (500, error_response_model)],
      rt_headers =
       [(200, [''XRequestId'', ''ArcadedbSessionExpired'', ''ArcadedbSessionId'']),
        (400, [''XRequestId'']),
        (401, [''XRequestId'']),
        (403, [''XRequestId'']),
        (404, [''XRequestId'']),
        (500, [''XRequestId''])]\<rparr>"

definition promql_query_resp :: resp_struct where
  "promql_query_resp =
     \<lparr>rt_json =
       [(200, promql_data_response_model),
        (400, promql_error_response_model),
        (401, error_response_model),
        (403, error_response_model),
        (404, error_response_model),
        (500, error_response_model)],
      rt_headers =
       [(200, [''XRequestId'', ''ArcadedbSessionExpired'', ''ArcadedbSessionId'']),
        (400, [''XRequestId'']),
        (401, [''XRequestId'']),
        (403, [''XRequestId'']),
        (404, [''XRequestId'']),
        (500, [''XRequestId''])]\<rparr>"

definition promql_query_range_resp :: resp_struct where
  "promql_query_range_resp =
     \<lparr>rt_json =
       [(200, promql_data_response_model),
        (400, promql_error_response_model),
        (401, error_response_model),
        (403, error_response_model),
        (404, error_response_model),
        (500, error_response_model)],
      rt_headers =
       [(200, [''XRequestId'', ''ArcadedbSessionExpired'', ''ArcadedbSessionId'']),
        (400, [''XRequestId'']),
        (401, [''XRequestId'']),
        (403, [''XRequestId'']),
        (404, [''XRequestId'']),
        (500, [''XRequestId''])]\<rparr>"

definition promql_series_resp :: resp_struct where
  "promql_series_resp =
     \<lparr>rt_json =
       [(200, promql_series_response_model),
        (400, promql_error_response_model),
        (401, error_response_model),
        (403, error_response_model),
        (404, error_response_model),
        (500, error_response_model)],
      rt_headers =
       [(200, [''XRequestId'', ''ArcadedbSessionExpired'', ''ArcadedbSessionId'']),
        (400, [''XRequestId'']),
        (401, [''XRequestId'']),
        (403, [''XRequestId'']),
        (404, [''XRequestId'']),
        (500, [''XRequestId''])]\<rparr>"

definition prometheus_remote_read_resp :: resp_struct where
  "prometheus_remote_read_resp =
     \<lparr>rt_json =
       [(400, error_response_model),
        (401, error_response_model),
        (403, error_response_model),
        (404, error_response_model),
        (409, error_response_model),
        (413, error_response_model),
        (500, error_response_model)],
      rt_headers =
       [(200, [''XRequestId'', ''ArcadedbSessionExpired'', ''ArcadedbSessionId'']),
        (400, [''XRequestId'']),
        (401, [''XRequestId'']),
        (403, [''XRequestId'']),
        (404, [''XRequestId'']),
        (409, [''RetryAfter'', ''XRequestId'']),
        (413, [''XRequestId'']),
        (500, [''XRequestId''])]\<rparr>"

definition prometheus_remote_write_resp :: resp_struct where
  "prometheus_remote_write_resp =
     \<lparr>rt_json =
       [(400, error_response_model),
        (401, error_response_model),
        (403, error_response_model),
        (404, error_response_model),
        (409, error_response_model),
        (413, error_response_model),
        (500, error_response_model)],
      rt_headers =
       [(204, [''XRequestId'', ''ArcadedbSessionId'']),
        (400, [''XRequestId'']),
        (401, [''XRequestId'']),
        (403, [''XRequestId'']),
        (404, [''XRequestId'']),
        (409, [''RetryAfter'', ''XRequestId'']),
        (413, [''XRequestId'']),
        (500, [''XRequestId''])]\<rparr>"

definition query_time_series_resp :: resp_struct where
  "query_time_series_resp =
     \<lparr>rt_json =
       [(200, GTRaw),
        (400, error_response_model),
        (401, error_response_model),
        (403, error_response_model),
        (404, error_response_model),
        (409, error_response_model),
        (413, error_response_model),
        (500, error_response_model)],
      rt_headers =
       [(200, [''XRequestId'', ''ArcadedbSessionExpired'', ''ArcadedbSessionId'']),
        (400, [''XRequestId'']),
        (401, [''XRequestId'']),
        (403, [''XRequestId'']),
        (404, [''XRequestId'']),
        (409, [''RetryAfter'', ''XRequestId'']),
        (413, [''XRequestId'']),
        (500, [''XRequestId''])]\<rparr>"

definition write_time_series_resp :: resp_struct where
  "write_time_series_resp =
     \<lparr>rt_json =
       [(400, time_series_write_error_model),
        (401, error_response_model),
        (403, error_response_model),
        (404, error_response_model),
        (409, error_response_model),
        (413, error_response_model),
        (500, error_response_model)],
      rt_headers =
       [(204, [''XRequestId'', ''ArcadedbSessionId'']),
        (400, [''XRequestId'']),
        (401, [''XRequestId'']),
        (403, [''XRequestId'']),
        (404, [''XRequestId'']),
        (409, [''RetryAfter'', ''XRequestId'']),
        (413, [''XRequestId'']),
        (500, [''XRequestId''])]\<rparr>"

definition full_text_search_resp :: resp_struct where
  "full_text_search_resp =
     \<lparr>rt_json =
       [(200, full_text_search_response_model),
        (400, error_response_model),
        (401, error_response_model),
        (403, error_response_model),
        (404, error_response_model),
        (409, error_response_model),
        (500, error_response_model)],
      rt_headers =
       [(200, [''XRequestId'', ''ArcadedbSessionExpired'', ''ArcadedbSessionId'']),
        (400, [''XRequestId'']),
        (401, [''XRequestId'']),
        (403, [''XRequestId'']),
        (404, [''XRequestId'']),
        (409, [''RetryAfter'', ''XRequestId'']),
        (500, [''XRequestId''])]\<rparr>"

definition hybrid_search_resp :: resp_struct where
  "hybrid_search_resp =
     \<lparr>rt_json =
       [(200, hybrid_search_response_model),
        (400, error_response_model),
        (401, error_response_model),
        (403, error_response_model),
        (404, error_response_model),
        (409, error_response_model),
        (500, error_response_model)],
      rt_headers =
       [(200, [''XRequestId'', ''ArcadedbSessionExpired'', ''ArcadedbSessionId'']),
        (400, [''XRequestId'']),
        (401, [''XRequestId'']),
        (403, [''XRequestId'']),
        (404, [''XRequestId'']),
        (409, [''RetryAfter'', ''XRequestId'']),
        (500, [''XRequestId''])]\<rparr>"

definition vector_search_resp :: resp_struct where
  "vector_search_resp =
     \<lparr>rt_json =
       [(200, vector_search_response_model),
        (400, error_response_model),
        (401, error_response_model),
        (403, error_response_model),
        (404, error_response_model),
        (409, error_response_model),
        (500, error_response_model)],
      rt_headers =
       [(200, [''XRequestId'', ''ArcadedbSessionExpired'', ''ArcadedbSessionId'']),
        (400, [''XRequestId'']),
        (401, [''XRequestId'']),
        (403, [''XRequestId'']),
        (404, [''XRequestId'']),
        (409, [''RetryAfter'', ''XRequestId'']),
        (500, [''XRequestId''])]\<rparr>"

definition scrape_prometheus_metrics_resp :: resp_struct where
  "scrape_prometheus_metrics_resp =
     \<lparr>rt_json =
       [(401, error_response_model),
        (403, error_response_model),
        (500, error_response_model)],
      rt_headers =
       [(200, [''XRequestId'']),
        (401, [''XRequestId'']),
        (403, [''XRequestId'']),
        (500, [''XRequestId''])]\<rparr>"

end
