(* ===== verification/Operations_Typed.thy ===== *)
theory Operations_Typed
  imports Operations Responses_Assistant Responses_Cluster Responses_Server Responses_Data
begin

text \<open>
  Every response table with the response struct of its operation: \<open>Parse...Resp\<close> functions and the structs
  they fill in, which are separate parts of the generated client, agree.
\<close>

inductive op_response :: "gv responses \<Rightarrow> resp_struct \<Rightarrow> bool" where
  "op_response (activate_ai_responses (unmarshal_type ai_activate_response_model)) activate_ai_resp"
| "op_response (analyze_profiler_with_ai_responses (unmarshal_type ai_analyze_profiler_response_model)) analyze_profiler_with_ai_resp"
| "op_response (chat_with_ai_responses (unmarshal_type ai_chat_response_model) (\<lambda>b. unmarshal_type ai_protocol_error_model b \<noteq> None)) chat_with_ai_resp"
| "op_response (untyped (stream_chat_with_ai_responses (\<lambda>b. unmarshal_type ai_protocol_error_model b \<noteq> None))) stream_chat_with_ai_resp"
| "op_response (list_ai_chats_responses (unmarshal_type ai_chat_list_model)) list_ai_chats_resp"
| "op_response (delete_ai_chat_responses (unmarshal_type ai_chat_deleted_model)) delete_ai_chat_resp"
| "op_response (get_ai_chat_responses (unmarshal_type ai_chat_model)) get_ai_chat_resp"
| "op_response (update_ai_chat_responses (unmarshal_type ai_chat_model)) update_ai_chat_resp"
| "op_response (get_ai_config_responses (unmarshal_type ai_config_model)) get_ai_config_resp"
| "op_response (execute_batch_responses (unmarshal_type batch_response_model) (\<lambda>b. unmarshal_type batch_error_model b \<noteq> None)) execute_batch_resp"
| "op_response (untyped begin_transaction_responses) begin_transaction_resp"
| "op_response (get_cluster_status_responses (unmarshal_type cluster_status_model)) get_cluster_status_resp"
| "op_response (accept_cluster_database_copy_responses (unmarshal_type cluster_action_response_model)) accept_cluster_database_copy_resp"
| "op_response (accept_cluster_diverged_database_responses (unmarshal_type cluster_action_response_model)) accept_cluster_diverged_database_resp"
| "op_response (accept_cluster_stale_snapshot_responses (unmarshal_type cluster_action_response_model)) accept_cluster_stale_snapshot_resp"
| "op_response (resolve_cluster_auth_session_responses (unmarshal_type cluster_auth_session_response_model)) resolve_cluster_auth_session_resp"
| "op_response (get_cluster_bootstrap_state_responses (unmarshal_type bootstrap_state_response_model)) get_cluster_bootstrap_state_resp"
| "op_response (get_cluster_peer_capabilities_responses (unmarshal_type peer_capabilities_response_model)) get_cluster_peer_capabilities_resp"
| "op_response (transfer_cluster_leadership_responses (unmarshal_type cluster_action_response_model)) transfer_cluster_leadership_resp"
| "op_response (leave_cluster_responses (unmarshal_type cluster_action_response_model)) leave_cluster_resp"
| "op_response (add_cluster_peer_responses (unmarshal_type cluster_action_response_model)) add_cluster_peer_resp"
| "op_response (remove_cluster_peer_responses (unmarshal_type cluster_action_response_model)) remove_cluster_peer_resp"
| "op_response (resync_cluster_database_responses (unmarshal_type cluster_action_response_model)) resync_cluster_database_resp"
| "op_response (seed_cluster_security_documents_responses (unmarshal_type security_seed_response_model) (\<lambda>b. unmarshal_type security_seed_response_model b \<noteq> None)) seed_cluster_security_documents_resp"
| "op_response (step_down_cluster_leader_responses (unmarshal_type cluster_action_response_model)) step_down_cluster_leader_resp"
| "op_response (verify_cluster_database_responses (unmarshal_type GTRaw)) verify_cluster_database_resp"
| "op_response (execute_command_responses (unmarshal_type query_response_model)) execute_command_resp"
| "op_response (untyped commit_transaction_responses) commit_transaction_resp"
| "op_response (list_databases_responses (unmarshal_type database_list_model)) list_databases_resp"
| "op_response (check_database_exists_responses (unmarshal_type database_exists_model)) check_database_exists_resp"
| "op_response (untyped download_database_snapshot_responses) download_database_snapshot_resp"
| "op_response (get_database_snapshot_checksums_responses (unmarshal_type get_database_snapshot_checksums200_json_response_body_model)) get_database_snapshot_checksums_resp"
| "op_response (untyped check_health_responses) check_health_resp"
| "op_response (untyped check_health_head_responses) check_health_head_resp"
| "op_response (login_responses (unmarshal_type login_response_model)) login_resp"
| "op_response (untyped logout_responses) logout_resp"
| "op_response (invoke_mcp_responses (unmarshal_type GTRaw) (\<lambda>b. unmarshal_type GTRaw b \<noteq> None)) invoke_mcp_resp"
| "op_response (get_mcp_config_responses (unmarshal_type mcp_config_model)) get_mcp_config_resp"
| "op_response (update_mcp_config_responses (unmarshal_type mcp_config_model)) update_mcp_config_resp"
| "op_response (get_operation_progress_responses (unmarshal_type progress_response_model)) get_operation_progress_resp"
| "op_response (execute_query_responses (unmarshal_type query_response_model)) execute_query_resp"
| "op_response (execute_query_get_responses (unmarshal_type query_response_model)) execute_query_get_resp"
| "op_response (untyped check_ready_responses) check_ready_resp"
| "op_response (untyped check_ready_head_responses) check_ready_head_resp"
| "op_response (untyped rollback_transaction_responses) rollback_transaction_resp"
| "op_response (get_server_info_responses (unmarshal_type server_info_model)) get_server_info_resp"
| "op_response (execute_server_command_responses (unmarshal_type server_command_response_model)) execute_server_command_resp"
| "op_response (delete_api_token_responses (unmarshal_type security_admin_result_model)) delete_api_token_resp"
| "op_response (list_api_tokens_responses (unmarshal_type api_token_list_model)) list_api_tokens_resp"
| "op_response (create_api_token_responses (unmarshal_type create_api_token_response_model)) create_api_token_resp"
| "op_response (delete_group_responses (unmarshal_type security_admin_result_model)) delete_group_resp"
| "op_response (list_groups_responses (unmarshal_type group_list_model)) list_groups_resp"
| "op_response (create_or_update_group_responses (unmarshal_type security_admin_result_model)) create_or_update_group_resp"
| "op_response (get_support_status_responses (unmarshal_type support_status_model)) get_support_status_resp"
| "op_response (untyped download_support_bundle_responses) download_support_bundle_resp"
| "op_response (untyped cancel_support_connect_responses) cancel_support_connect_resp"
| "op_response (untyped get_support_connect_responses) get_support_connect_resp"
| "op_response (untyped start_support_connect_responses) start_support_connect_resp"
| "op_response (untyped register_support_installation_responses) register_support_installation_resp"
| "op_response (list_support_issues_responses (unmarshal_type (GTMap GTAny))) list_support_issues_resp"
| "op_response (create_support_issue_responses (unmarshal_type (GTMap GTAny))) create_support_issue_resp"
| "op_response (get_support_issue_responses (unmarshal_type (GTMap GTAny))) get_support_issue_resp"
| "op_response (untyped set_support_issue_open_responses) set_support_issue_open_resp"
| "op_response (attach_to_support_issue_responses (unmarshal_type (GTMap GTAny))) attach_to_support_issue_resp"
| "op_response (comment_support_issue_responses (unmarshal_type (GTMap GTAny))) comment_support_issue_resp"
| "op_response (answer_support_request_responses (unmarshal_type (GTMap GTAny))) answer_support_request_resp"
| "op_response (answer_support_requests_responses (unmarshal_type (GTMap GTAny))) answer_support_requests_resp"
| "op_response (untyped run_support_peer_query_responses) run_support_peer_query_resp"
| "op_response (untyped get_support_peers_responses) get_support_peers_resp"
| "op_response (preview_support_bundle_responses (unmarshal_type support_preview_model)) preview_support_bundle_resp"
| "op_response (untyped unregister_support_responses) unregister_support_resp"
| "op_response (register_support_responses (unmarshal_type support_status_model)) register_support_resp"
| "op_response (stage_support_screenshot_responses (unmarshal_type (GTMap GTAny))) stage_support_screenshot_resp"
| "op_response (untyped discard_support_screenshot_responses) discard_support_screenshot_resp"
| "op_response (delete_user_responses (unmarshal_type security_admin_result_model)) delete_user_resp"
| "op_response (list_users_responses (unmarshal_type user_list_model)) list_users_resp"
| "op_response (create_user_responses (unmarshal_type security_admin_result_model)) create_user_resp"
| "op_response (update_user_responses (unmarshal_type security_admin_result_model)) update_user_resp"
| "op_response (list_sessions_responses (unmarshal_type session_list_model)) list_sessions_resp"
| "op_response (check_grafana_health_responses (unmarshal_type grafana_health_model)) check_grafana_health_resp"
| "op_response (get_grafana_metadata_responses (unmarshal_type grafana_metadata_model)) get_grafana_metadata_resp"
| "op_response (query_grafana_responses (unmarshal_type grafana_query_response_model)) query_grafana_resp"
| "op_response (get_time_series_latest_responses (unmarshal_type time_series_latest_response_model)) get_time_series_latest_resp"
| "op_response (promql_label_values_responses (unmarshal_type promql_labels_response_model)) promql_label_values_resp"
| "op_response (promql_labels_responses (unmarshal_type promql_labels_response_model)) promql_labels_resp"
| "op_response (promql_query_responses (unmarshal_type promql_data_response_model)) promql_query_resp"
| "op_response (promql_query_range_responses (unmarshal_type promql_data_response_model)) promql_query_range_resp"
| "op_response (promql_series_responses (unmarshal_type promql_series_response_model)) promql_series_resp"
| "op_response (untyped prometheus_remote_read_responses) prometheus_remote_read_resp"
| "op_response (untyped prometheus_remote_write_responses) prometheus_remote_write_resp"
| "op_response (query_time_series_responses (unmarshal_type GTRaw)) query_time_series_resp"
| "op_response (untyped (write_time_series_responses (\<lambda>b. unmarshal_type time_series_write_error_model b \<noteq> None))) write_time_series_resp"
| "op_response (full_text_search_responses (unmarshal_type full_text_search_response_model)) full_text_search_resp"
| "op_response (hybrid_search_responses (unmarshal_type hybrid_search_response_model)) hybrid_search_resp"
| "op_response (vector_search_responses (unmarshal_type vector_search_response_model)) vector_search_resp"
| "op_response (untyped scrape_prometheus_metrics_responses) scrape_prometheus_metrics_resp"

lemma header_fields:
  "go_field True ''Retry-After'' = ''RetryAfter''"
  "go_field True ''X-ArcadeDB-Commit-Index'' = ''XArcadeDBCommitIndex''"
  "go_field True ''X-Request-Id'' = ''XRequestId''"
  "go_field True ''arcadedb-session-expired'' = ''ArcadedbSessionExpired''"
  "go_field True ''arcadedb-session-id'' = ''ArcadedbSessionId''"
  "go_field True ''arcadedb-session-partial-commit'' = ''ArcadedbSessionPartialCommit''"
  by code_simp+

lemma other_document: "error_doc_ok (OtherDoc f) = f"
  by (rule ext) (simp add: error_doc_ok_def)

lemmas response_tables =
      activate_ai_responses_def analyze_profiler_with_ai_responses_def chat_with_ai_responses_def
      stream_chat_with_ai_responses_def list_ai_chats_responses_def delete_ai_chat_responses_def
      get_ai_chat_responses_def update_ai_chat_responses_def get_ai_config_responses_def
      execute_batch_responses_def begin_transaction_responses_def get_cluster_status_responses_def
      accept_cluster_database_copy_responses_def accept_cluster_diverged_database_responses_def
      accept_cluster_stale_snapshot_responses_def resolve_cluster_auth_session_responses_def
      get_cluster_bootstrap_state_responses_def get_cluster_peer_capabilities_responses_def
      transfer_cluster_leadership_responses_def leave_cluster_responses_def add_cluster_peer_responses_def
      remove_cluster_peer_responses_def resync_cluster_database_responses_def
      seed_cluster_security_documents_responses_def step_down_cluster_leader_responses_def
      verify_cluster_database_responses_def execute_command_responses_def commit_transaction_responses_def
      list_databases_responses_def check_database_exists_responses_def download_database_snapshot_responses_def
      get_database_snapshot_checksums_responses_def check_health_responses_def check_health_head_responses_def
      login_responses_def logout_responses_def invoke_mcp_responses_def get_mcp_config_responses_def
      update_mcp_config_responses_def get_operation_progress_responses_def execute_query_responses_def
      execute_query_get_responses_def check_ready_responses_def check_ready_head_responses_def
      rollback_transaction_responses_def get_server_info_responses_def execute_server_command_responses_def
      delete_api_token_responses_def list_api_tokens_responses_def create_api_token_responses_def
      delete_group_responses_def list_groups_responses_def create_or_update_group_responses_def
      get_support_status_responses_def download_support_bundle_responses_def
      cancel_support_connect_responses_def get_support_connect_responses_def
      start_support_connect_responses_def register_support_installation_responses_def
      list_support_issues_responses_def create_support_issue_responses_def get_support_issue_responses_def
      set_support_issue_open_responses_def attach_to_support_issue_responses_def
      comment_support_issue_responses_def answer_support_request_responses_def
      answer_support_requests_responses_def run_support_peer_query_responses_def
      get_support_peers_responses_def preview_support_bundle_responses_def unregister_support_responses_def
      register_support_responses_def stage_support_screenshot_responses_def
      discard_support_screenshot_responses_def delete_user_responses_def list_users_responses_def
      create_user_responses_def update_user_responses_def list_sessions_responses_def
      check_grafana_health_responses_def get_grafana_metadata_responses_def query_grafana_responses_def
      get_time_series_latest_responses_def promql_label_values_responses_def promql_labels_responses_def
      promql_query_responses_def promql_query_range_responses_def promql_series_responses_def
      prometheus_remote_read_responses_def prometheus_remote_write_responses_def
      query_time_series_responses_def write_time_series_responses_def full_text_search_responses_def
      hybrid_search_responses_def vector_search_responses_def scrape_prometheus_metrics_responses_def

lemmas response_structs =
      activate_ai_resp_def analyze_profiler_with_ai_resp_def chat_with_ai_resp_def stream_chat_with_ai_resp_def
      list_ai_chats_resp_def delete_ai_chat_resp_def get_ai_chat_resp_def update_ai_chat_resp_def
      get_ai_config_resp_def execute_batch_resp_def begin_transaction_resp_def get_cluster_status_resp_def
      accept_cluster_database_copy_resp_def accept_cluster_diverged_database_resp_def
      accept_cluster_stale_snapshot_resp_def resolve_cluster_auth_session_resp_def
      get_cluster_bootstrap_state_resp_def get_cluster_peer_capabilities_resp_def
      transfer_cluster_leadership_resp_def leave_cluster_resp_def add_cluster_peer_resp_def
      remove_cluster_peer_resp_def resync_cluster_database_resp_def seed_cluster_security_documents_resp_def
      step_down_cluster_leader_resp_def verify_cluster_database_resp_def execute_command_resp_def
      commit_transaction_resp_def list_databases_resp_def check_database_exists_resp_def
      download_database_snapshot_resp_def get_database_snapshot_checksums_resp_def check_health_resp_def
      check_health_head_resp_def login_resp_def logout_resp_def invoke_mcp_resp_def get_mcp_config_resp_def
      update_mcp_config_resp_def get_operation_progress_resp_def execute_query_resp_def
      execute_query_get_resp_def check_ready_resp_def check_ready_head_resp_def rollback_transaction_resp_def
      get_server_info_resp_def execute_server_command_resp_def delete_api_token_resp_def
      list_api_tokens_resp_def create_api_token_resp_def delete_group_resp_def list_groups_resp_def
      create_or_update_group_resp_def get_support_status_resp_def download_support_bundle_resp_def
      cancel_support_connect_resp_def get_support_connect_resp_def start_support_connect_resp_def
      register_support_installation_resp_def list_support_issues_resp_def create_support_issue_resp_def
      get_support_issue_resp_def set_support_issue_open_resp_def attach_to_support_issue_resp_def
      comment_support_issue_resp_def answer_support_request_resp_def answer_support_requests_resp_def
      run_support_peer_query_resp_def get_support_peers_resp_def preview_support_bundle_resp_def
      unregister_support_resp_def register_support_resp_def stage_support_screenshot_resp_def
      discard_support_screenshot_resp_def delete_user_resp_def list_users_resp_def create_user_resp_def
      update_user_resp_def list_sessions_resp_def check_grafana_health_resp_def get_grafana_metadata_resp_def
      query_grafana_resp_def get_time_series_latest_resp_def promql_label_values_resp_def
      promql_labels_resp_def promql_query_resp_def promql_query_range_resp_def promql_series_resp_def
      prometheus_remote_read_resp_def prometheus_remote_write_resp_def query_time_series_resp_def
      write_time_series_resp_def full_text_search_resp_def hybrid_search_resp_def vector_search_resp_def
      scrape_prometheus_metrics_resp_def

lemma op_response_describes:
  assumes "op_response rs st"
  shows "describes rs st"
  using assms
  by cases (simp_all add: describes_def untyped_def response_tables response_structs header_fields
      error_document promql_error_document other_document del: go_field.simps)

section \<open>What the typed client promises\<close>

text \<open>
  C10: for every operation, its \<open>Parse...Resp\<close> function returns the error or the struct the response table
  says. A JSON field that is set is the one of the status the server answered with, the answer said it was
  JSON, and the field is the decoded body, of the type declared for that status; a declared status answered
  with JSON sets its field, so a caller who checks the status may read it; the response itself is always kept.
\<close>

theorem typed_responses_contract:
  assumes "op_response rs st"
  shows "parse_resp bind rs resp =
      (case typed_parse bind (rs_headers rs) st resp of
         Inl e \<Rightarrow> Inl e
       | Inr v \<Rightarrow> Inr \<lparr>pr_typed = (case rs_ok rs of None \<Rightarrow> None | Some (s, dec) \<Rightarrow> get_json s v),
           pr_headers = rv_headers v, pr_resp = rv_resp v\<rparr>) \<and>
    (\<forall>v. typed_parse bind (rs_headers rs) st resp = Inr v \<longrightarrow>
      status_code v = resp_status resp \<and> get_body v = resp_body resp \<and>
      (\<forall>s x. get_json s v = Some x \<longleftrightarrow> s = status_code v \<and> is_json (resp_header resp) \<and>
         (\<exists>t. map_of (rt_json st) s = Some t \<and> unmarshal_type t (get_body v) = Some x \<and> has_type t x)))"
proof (intro conjI allI impI)
  show "parse_resp bind rs resp =
      (case typed_parse bind (rs_headers rs) st resp of
         Inl e \<Rightarrow> Inl e
       | Inr v \<Rightarrow> Inr \<lparr>pr_typed = (case rs_ok rs of None \<Rightarrow> None | Some (s, dec) \<Rightarrow> get_json s v),
           pr_headers = rv_headers v, pr_resp = rv_resp v\<rparr>)"
    by (rule describes_parse [OF op_response_describes [OF assms]])
qed (auto simp: typed_parse_def bind_res_Inr_iff get_json_def status_code_def get_body_def
    dest: unmarshal_typed split: option.splits if_splits)

theorem typed_responses_contract_witness:
  "let rs = promql_labels_responses (unmarshal_type promql_labels_response_model);
     resp = \<lparr>resp_status = 200, resp_header = [(''Content-Type'', ''application/json'')],
       resp_body = encode True (JObj [(''status'', JStr ''success''), (''data'', JArr [JStr ''cpu''])]), resp_read_err = None\<rparr>
   in \<exists>v. typed_parse Inr (rs_headers rs) promql_labels_resp resp = Inr v \<and>
     get_json 200 v = Some (VStruct [VSlice [VStr ''cpu''], VStr ''success'']) \<and> get_json 400 v = None"
proof -
  let ?rs = "promql_labels_responses (unmarshal_type promql_labels_response_model)"
  let ?resp = "\<lparr>resp_status = 200, resp_header = [(''Content-Type'', ''application/json'')],
       resp_body = encode True (JObj [(''status'', JStr ''success''), (''data'', JArr [JStr ''cpu''])]), resp_read_err = None\<rparr>"
  have op: "op_response ?rs promql_labels_resp" by (rule op_response.intros)
  have json: "json_parse (resp_body ?resp) = Some (JObj [(''status'', JStr ''success''), (''data'', JArr [JStr ''cpu''])])"
    unfolding http_resp.select_convs by (rule json_parse_encode_ok) (simp add: valid_utf8_ascii byte_def)
  have u: "unmarshal_type promql_labels_response_model (resp_body ?resp) = Some (VStruct [VSlice [VStr ''cpu''], VStr ''success''])"
    unfolding unmarshal_type_def json
    by (simp add: promql_labels_response_model_def struct_into_def field_vals_def)
  have t: "map_of (rt_json promql_labels_resp) 200 = Some promql_labels_response_model" by (simp add: promql_labels_resp_def)
  have j: "is_json (resp_header ?resp)" by (simp only: http_resp.select_convs) code_simp
  have hs: "bind_headers Inr [''X-Request-Id'', ''arcadedb-session-expired'', ''arcadedb-session-id'']
      [(''Content-Type'', ''application/json'')] = Inr []"
    by code_simp
  obtain v where v: "typed_parse Inr (rs_headers ?rs) promql_labels_resp ?resp = Inr v"
    using u t j by (auto simp: typed_parse_def promql_labels_responses_def hs simp del: encode.simps bind_headers.simps)
  note c = mp [OF spec [OF conjunct2 [OF typed_responses_contract [OF op]]] v]
  have "has_type promql_labels_response_model (VStruct [VSlice [VStr ''cpu''], VStr ''success''])"
    using unmarshal_typed [OF u] by blast
  with c u t j have "get_json 200 v = Some (VStruct [VSlice [VStr ''cpu''], VStr ''success''])" by simp
  moreover from c have "get_json 400 v = None" by (cases "get_json 400 v") auto
  ultimately show ?thesis using v unfolding Let_def by blast
qed

end
