(* ===== verification/Client_Methods.thy ===== *)
theory Client_Methods
  imports Operations_Typed
begin

text \<open>
  The methods the generator wrote for every operation, in terms of the builder and the parser of the
  operation: \<open>send_new\<close> is a method that may fail to encode its body, \<open>with_response\<close> one that parses
  what the plain one got.
\<close>

type_synonym ('w, 'm) client_method = "'w net \<Rightarrow> server \<Rightarrow> ctx \<Rightarrow> (bytes \<times> bytes) list \<Rightarrow> 'm"
type_synonym 'w sending = "'w world \<Rightarrow> (go_error + http_resp) \<times> 'w world"
type_synonym 'w receiving = "'w world \<Rightarrow> (go_error + resp_value) \<times> 'w world"

definition send_new :: "('w, op_params option \<Rightarrow> 'w sending) client_method" where
  "send_new net sv ctx eds req w =
     (case req of None \<Rightarrow> (Inl json_error, w) | Some op \<Rightarrow> client_call net sv ctx eds op w)"

definition with_response ::
  "'w net \<Rightarrow> ((bytes \<Rightarrow> go_error + bytes) \<Rightarrow> http_resp \<Rightarrow> go_error + resp_value)
     \<Rightarrow> 'w sending \<Rightarrow> 'w receiving" where
  "with_response net parse call w =
     (case call w of
        (Inl e, w') \<Rightarrow> (Inl e, w')
      | (Inr resp, w') \<Rightarrow> (parse (net_bind net) resp, w'))"

text \<open>What the drivers see of a typed method is what they see of its parsed call.\<close>

lemma call_parsed_with_response:
  assumes "op_response rs st"
  shows "call_parsed net sv ctx eds rs op w =
    (case with_response net (\<lambda>bind. typed_parse bind (rs_headers rs) st) (client_call net sv ctx eds op) w of
       (Inl e, w') \<Rightarrow> (Inl e, w')
     | (Inr v, w') \<Rightarrow> (Inr \<lparr>pr_typed = (case rs_ok rs of None \<Rightarrow> None | Some (s, dec) \<Rightarrow> get_json s v),
         pr_headers = rv_headers v, pr_resp = rv_resp v\<rparr>, w'))"
  unfolding call_parsed_def with_response_def describes_parse [OF op_response_describes [OF assms]]
  by (auto split: prod.split sum.split)

end
