(* ===== verification/Client_Assistant.thy ===== *)
theory Client_Assistant
  imports Client_Methods
begin

text \<open>
  The methods of \<open>Client\<close> and \<open>ClientWithResponses\<close> for the assistant, the MCP endpoint and the support service:
  a parser, a call with any body and one with a model as its body, each with and without parsing the
  response.
\<close>

subsection \<open>ActivateAi\<close>

definition parse_activate_ai ::
  "(bytes \<Rightarrow> go_error + bytes) \<Rightarrow> http_resp \<Rightarrow> go_error + resp_value" where
  "parse_activate_ai bind =
     typed_parse bind (rs_headers (activate_ai_responses (unmarshal_type ai_activate_response_model)))
       activate_ai_resp"

definition activate_ai_with_body ::
  "('w, bytes option \<Rightarrow> bytes \<Rightarrow> bytes \<Rightarrow> 'w sending) client_method" where
  "activate_ai_with_body net sv ctx eds rid ctype body =
     client_call net sv ctx eds (activate_ai_request rid ctype body)"

definition activate_ai_with_body_response ::
  "('w, bytes option \<Rightarrow> bytes \<Rightarrow> bytes \<Rightarrow> 'w receiving) client_method" where
  "activate_ai_with_body_response net sv ctx eds rid ctype body =
     with_response net parse_activate_ai (activate_ai_with_body net sv ctx eds rid ctype body)"

definition new_activate_ai_request ::
  "float_text \<Rightarrow> bytes option \<Rightarrow> gv \<Rightarrow> op_params option" where
  "new_activate_ai_request ft rid v =
     map_option (activate_ai_request rid ''application/json'') (marshal_type ft ai_activate_request_model v)"

definition activate_ai_json ::
  "('w, float_text \<Rightarrow> bytes option \<Rightarrow> gv \<Rightarrow> 'w sending) client_method" where
  "activate_ai_json net sv ctx eds ft rid v = send_new net sv ctx eds (new_activate_ai_request ft rid v)"

definition activate_ai_json_response ::
  "('w, float_text \<Rightarrow> bytes option \<Rightarrow> gv \<Rightarrow> 'w receiving) client_method" where
  "activate_ai_json_response net sv ctx eds ft rid v =
     with_response net parse_activate_ai (activate_ai_json net sv ctx eds ft rid v)"

subsection \<open>AnalyzeProfilerWithAi\<close>

definition parse_analyze_profiler_with_ai ::
  "(bytes \<Rightarrow> go_error + bytes) \<Rightarrow> http_resp \<Rightarrow> go_error + resp_value" where
  "parse_analyze_profiler_with_ai bind =
     typed_parse bind (rs_headers (analyze_profiler_with_ai_responses (unmarshal_type
       ai_analyze_profiler_response_model))) analyze_profiler_with_ai_resp"

definition analyze_profiler_with_ai_with_body ::
  "('w, bytes option \<Rightarrow> bytes \<Rightarrow> bytes \<Rightarrow> 'w sending) client_method" where
  "analyze_profiler_with_ai_with_body net sv ctx eds rid ctype body =
     client_call net sv ctx eds (analyze_profiler_with_ai_request rid ctype body)"

definition analyze_profiler_with_ai_with_body_response ::
  "('w, bytes option \<Rightarrow> bytes \<Rightarrow> bytes \<Rightarrow> 'w receiving) client_method" where
  "analyze_profiler_with_ai_with_body_response net sv ctx eds rid ctype body =
     with_response net parse_analyze_profiler_with_ai (analyze_profiler_with_ai_with_body net sv ctx eds rid ctype
       body)"

definition new_analyze_profiler_with_ai_request ::
  "float_text \<Rightarrow> bytes option \<Rightarrow> gv \<Rightarrow> op_params option" where
  "new_analyze_profiler_with_ai_request ft rid v =
     map_option (analyze_profiler_with_ai_request rid ''application/json'') (marshal_type ft
       ai_analyze_profiler_request_model v)"

definition analyze_profiler_with_ai_json ::
  "('w, float_text \<Rightarrow> bytes option \<Rightarrow> gv \<Rightarrow> 'w sending) client_method" where
  "analyze_profiler_with_ai_json net sv ctx eds ft rid v =
     send_new net sv ctx eds (new_analyze_profiler_with_ai_request ft rid v)"

definition analyze_profiler_with_ai_json_response ::
  "('w, float_text \<Rightarrow> bytes option \<Rightarrow> gv \<Rightarrow> 'w receiving) client_method" where
  "analyze_profiler_with_ai_json_response net sv ctx eds ft rid v =
     with_response net parse_analyze_profiler_with_ai (analyze_profiler_with_ai_json net sv ctx eds ft rid v)"

subsection \<open>ChatWithAi\<close>

definition parse_chat_with_ai ::
  "(bytes \<Rightarrow> go_error + bytes) \<Rightarrow> http_resp \<Rightarrow> go_error + resp_value" where
  "parse_chat_with_ai bind =
     typed_parse bind (rs_headers (chat_with_ai_responses (unmarshal_type ai_chat_response_model) (\<lambda>b.
       unmarshal_type ai_protocol_error_model b \<noteq> None))) chat_with_ai_resp"

definition chat_with_ai_with_body ::
  "('w, bytes option \<Rightarrow> bytes \<Rightarrow> bytes \<Rightarrow> 'w sending) client_method" where
  "chat_with_ai_with_body net sv ctx eds rid ctype body =
     client_call net sv ctx eds (chat_with_ai_request rid ctype body)"

definition chat_with_ai_with_body_response ::
  "('w, bytes option \<Rightarrow> bytes \<Rightarrow> bytes \<Rightarrow> 'w receiving) client_method" where
  "chat_with_ai_with_body_response net sv ctx eds rid ctype body =
     with_response net parse_chat_with_ai (chat_with_ai_with_body net sv ctx eds rid ctype body)"

definition new_chat_with_ai_request ::
  "float_text \<Rightarrow> bytes option \<Rightarrow> gv \<Rightarrow> op_params option" where
  "new_chat_with_ai_request ft rid v =
     map_option (chat_with_ai_request rid ''application/json'') (marshal_type ft ai_chat_request_model v)"

definition chat_with_ai_json ::
  "('w, float_text \<Rightarrow> bytes option \<Rightarrow> gv \<Rightarrow> 'w sending) client_method" where
  "chat_with_ai_json net sv ctx eds ft rid v = send_new net sv ctx eds (new_chat_with_ai_request ft rid v)"

definition chat_with_ai_json_response ::
  "('w, float_text \<Rightarrow> bytes option \<Rightarrow> gv \<Rightarrow> 'w receiving) client_method" where
  "chat_with_ai_json_response net sv ctx eds ft rid v =
     with_response net parse_chat_with_ai (chat_with_ai_json net sv ctx eds ft rid v)"

subsection \<open>StreamChatWithAi\<close>

definition parse_stream_chat_with_ai ::
  "(bytes \<Rightarrow> go_error + bytes) \<Rightarrow> http_resp \<Rightarrow> go_error + resp_value" where
  "parse_stream_chat_with_ai bind =
     typed_parse bind (rs_headers (untyped (stream_chat_with_ai_responses (\<lambda>b. unmarshal_type
       ai_protocol_error_model b \<noteq> None)))) stream_chat_with_ai_resp"

definition stream_chat_with_ai_with_body ::
  "('w, bytes option \<Rightarrow> bytes \<Rightarrow> bytes \<Rightarrow> 'w sending) client_method" where
  "stream_chat_with_ai_with_body net sv ctx eds rid ctype body =
     client_call net sv ctx eds (stream_chat_with_ai_request rid ctype body)"

definition stream_chat_with_ai_with_body_response ::
  "('w, bytes option \<Rightarrow> bytes \<Rightarrow> bytes \<Rightarrow> 'w receiving) client_method" where
  "stream_chat_with_ai_with_body_response net sv ctx eds rid ctype body =
     with_response net parse_stream_chat_with_ai (stream_chat_with_ai_with_body net sv ctx eds rid ctype body)"

definition new_stream_chat_with_ai_request ::
  "float_text \<Rightarrow> bytes option \<Rightarrow> gv \<Rightarrow> op_params option" where
  "new_stream_chat_with_ai_request ft rid v =
     map_option (stream_chat_with_ai_request rid ''application/json'') (marshal_type ft ai_chat_request_model v)"

definition stream_chat_with_ai_json ::
  "('w, float_text \<Rightarrow> bytes option \<Rightarrow> gv \<Rightarrow> 'w sending) client_method" where
  "stream_chat_with_ai_json net sv ctx eds ft rid v =
     send_new net sv ctx eds (new_stream_chat_with_ai_request ft rid v)"

definition stream_chat_with_ai_json_response ::
  "('w, float_text \<Rightarrow> bytes option \<Rightarrow> gv \<Rightarrow> 'w receiving) client_method" where
  "stream_chat_with_ai_json_response net sv ctx eds ft rid v =
     with_response net parse_stream_chat_with_ai (stream_chat_with_ai_json net sv ctx eds ft rid v)"

subsection \<open>ListAiChats\<close>

definition parse_list_ai_chats ::
  "(bytes \<Rightarrow> go_error + bytes) \<Rightarrow> http_resp \<Rightarrow> go_error + resp_value" where
  "parse_list_ai_chats bind =
     typed_parse bind (rs_headers (list_ai_chats_responses (unmarshal_type ai_chat_list_model))) list_ai_chats_resp"

definition list_ai_chats_call :: "('w, 'w sending) client_method" where
  "list_ai_chats_call net sv ctx eds = client_call net sv ctx eds list_ai_chats_request"

definition list_ai_chats_with_response :: "('w, 'w receiving) client_method" where
  "list_ai_chats_with_response net sv ctx eds =
     with_response net parse_list_ai_chats (list_ai_chats_call net sv ctx eds)"

subsection \<open>DeleteAiChat\<close>

definition parse_delete_ai_chat ::
  "(bytes \<Rightarrow> go_error + bytes) \<Rightarrow> http_resp \<Rightarrow> go_error + resp_value" where
  "parse_delete_ai_chat bind =
     typed_parse bind (rs_headers (delete_ai_chat_responses (unmarshal_type ai_chat_deleted_model)))
       delete_ai_chat_resp"

definition delete_ai_chat_call :: "('w, bytes \<Rightarrow> 'w sending) client_method" where
  "delete_ai_chat_call net sv ctx eds ident = client_call net sv ctx eds (delete_ai_chat_request ident)"

definition delete_ai_chat_with_response :: "('w, bytes \<Rightarrow> 'w receiving) client_method" where
  "delete_ai_chat_with_response net sv ctx eds ident =
     with_response net parse_delete_ai_chat (delete_ai_chat_call net sv ctx eds ident)"

subsection \<open>GetAiChat\<close>

definition parse_get_ai_chat ::
  "(bytes \<Rightarrow> go_error + bytes) \<Rightarrow> http_resp \<Rightarrow> go_error + resp_value" where
  "parse_get_ai_chat bind =
     typed_parse bind (rs_headers (get_ai_chat_responses (unmarshal_type ai_chat_model))) get_ai_chat_resp"

definition get_ai_chat_call :: "('w, bytes \<Rightarrow> 'w sending) client_method" where
  "get_ai_chat_call net sv ctx eds ident = client_call net sv ctx eds (get_ai_chat_request ident)"

definition get_ai_chat_with_response :: "('w, bytes \<Rightarrow> 'w receiving) client_method" where
  "get_ai_chat_with_response net sv ctx eds ident =
     with_response net parse_get_ai_chat (get_ai_chat_call net sv ctx eds ident)"

subsection \<open>UpdateAiChat\<close>

definition parse_update_ai_chat ::
  "(bytes \<Rightarrow> go_error + bytes) \<Rightarrow> http_resp \<Rightarrow> go_error + resp_value" where
  "parse_update_ai_chat bind =
     typed_parse bind (rs_headers (update_ai_chat_responses (unmarshal_type ai_chat_model))) update_ai_chat_resp"

definition update_ai_chat_with_body ::
  "('w, bytes \<Rightarrow> bytes \<Rightarrow> bytes \<Rightarrow> 'w sending) client_method" where
  "update_ai_chat_with_body net sv ctx eds ident ctype body =
     client_call net sv ctx eds (update_ai_chat_request ident ctype body)"

definition update_ai_chat_with_body_response ::
  "('w, bytes \<Rightarrow> bytes \<Rightarrow> bytes \<Rightarrow> 'w receiving) client_method" where
  "update_ai_chat_with_body_response net sv ctx eds ident ctype body =
     with_response net parse_update_ai_chat (update_ai_chat_with_body net sv ctx eds ident ctype body)"

definition new_update_ai_chat_request ::
  "float_text \<Rightarrow> bytes \<Rightarrow> gv \<Rightarrow> op_params option" where
  "new_update_ai_chat_request ft ident v =
     map_option (update_ai_chat_request ident ''application/json'') (marshal_type ft ai_chat_model v)"

definition update_ai_chat_json ::
  "('w, float_text \<Rightarrow> bytes \<Rightarrow> gv \<Rightarrow> 'w sending) client_method" where
  "update_ai_chat_json net sv ctx eds ft ident v = send_new net sv ctx eds (new_update_ai_chat_request ft ident v)"

definition update_ai_chat_json_response ::
  "('w, float_text \<Rightarrow> bytes \<Rightarrow> gv \<Rightarrow> 'w receiving) client_method" where
  "update_ai_chat_json_response net sv ctx eds ft ident v =
     with_response net parse_update_ai_chat (update_ai_chat_json net sv ctx eds ft ident v)"

subsection \<open>GetAiConfig\<close>

definition parse_get_ai_config ::
  "(bytes \<Rightarrow> go_error + bytes) \<Rightarrow> http_resp \<Rightarrow> go_error + resp_value" where
  "parse_get_ai_config bind =
     typed_parse bind (rs_headers (get_ai_config_responses (unmarshal_type ai_config_model))) get_ai_config_resp"

definition get_ai_config_call :: "('w, 'w sending) client_method" where
  "get_ai_config_call net sv ctx eds = client_call net sv ctx eds get_ai_config_request"

definition get_ai_config_with_response :: "('w, 'w receiving) client_method" where
  "get_ai_config_with_response net sv ctx eds =
     with_response net parse_get_ai_config (get_ai_config_call net sv ctx eds)"

subsection \<open>InvokeMcp\<close>

definition parse_invoke_mcp ::
  "(bytes \<Rightarrow> go_error + bytes) \<Rightarrow> http_resp \<Rightarrow> go_error + resp_value" where
  "parse_invoke_mcp bind =
     typed_parse bind (rs_headers (invoke_mcp_responses (unmarshal_type GTRaw) (\<lambda>b. unmarshal_type GTRaw b
       \<noteq> None))) invoke_mcp_resp"

definition invoke_mcp_with_body ::
  "('w, bytes option \<Rightarrow> bytes \<Rightarrow> bytes \<Rightarrow> 'w sending) client_method" where
  "invoke_mcp_with_body net sv ctx eds rid ctype body =
     client_call net sv ctx eds (invoke_mcp_request rid ctype body)"

definition invoke_mcp_with_body_response ::
  "('w, bytes option \<Rightarrow> bytes \<Rightarrow> bytes \<Rightarrow> 'w receiving) client_method" where
  "invoke_mcp_with_body_response net sv ctx eds rid ctype body =
     with_response net parse_invoke_mcp (invoke_mcp_with_body net sv ctx eds rid ctype body)"

definition new_invoke_mcp_request ::
  "float_text \<Rightarrow> bytes option \<Rightarrow> gv \<Rightarrow> op_params option" where
  "new_invoke_mcp_request ft rid v =
     map_option (invoke_mcp_request rid ''application/json'') (marshal_type ft GTRaw v)"

definition invoke_mcp_json ::
  "('w, float_text \<Rightarrow> bytes option \<Rightarrow> gv \<Rightarrow> 'w sending) client_method" where
  "invoke_mcp_json net sv ctx eds ft rid v = send_new net sv ctx eds (new_invoke_mcp_request ft rid v)"

definition invoke_mcp_json_response ::
  "('w, float_text \<Rightarrow> bytes option \<Rightarrow> gv \<Rightarrow> 'w receiving) client_method" where
  "invoke_mcp_json_response net sv ctx eds ft rid v =
     with_response net parse_invoke_mcp (invoke_mcp_json net sv ctx eds ft rid v)"

subsection \<open>GetMcpConfig\<close>

definition parse_get_mcp_config ::
  "(bytes \<Rightarrow> go_error + bytes) \<Rightarrow> http_resp \<Rightarrow> go_error + resp_value" where
  "parse_get_mcp_config bind =
     typed_parse bind (rs_headers (get_mcp_config_responses (unmarshal_type mcp_config_model))) get_mcp_config_resp"

definition get_mcp_config_call :: "('w, 'w sending) client_method" where
  "get_mcp_config_call net sv ctx eds = client_call net sv ctx eds get_mcp_config_request"

definition get_mcp_config_with_response :: "('w, 'w receiving) client_method" where
  "get_mcp_config_with_response net sv ctx eds =
     with_response net parse_get_mcp_config (get_mcp_config_call net sv ctx eds)"

subsection \<open>UpdateMcpConfig\<close>

definition parse_update_mcp_config ::
  "(bytes \<Rightarrow> go_error + bytes) \<Rightarrow> http_resp \<Rightarrow> go_error + resp_value" where
  "parse_update_mcp_config bind =
     typed_parse bind (rs_headers (update_mcp_config_responses (unmarshal_type mcp_config_model)))
       update_mcp_config_resp"

definition update_mcp_config_with_body ::
  "('w, bytes option \<Rightarrow> bytes \<Rightarrow> bytes \<Rightarrow> 'w sending) client_method" where
  "update_mcp_config_with_body net sv ctx eds rid ctype body =
     client_call net sv ctx eds (update_mcp_config_request rid ctype body)"

definition update_mcp_config_with_body_response ::
  "('w, bytes option \<Rightarrow> bytes \<Rightarrow> bytes \<Rightarrow> 'w receiving) client_method" where
  "update_mcp_config_with_body_response net sv ctx eds rid ctype body =
     with_response net parse_update_mcp_config (update_mcp_config_with_body net sv ctx eds rid ctype body)"

definition new_update_mcp_config_request ::
  "float_text \<Rightarrow> bytes option \<Rightarrow> gv \<Rightarrow> op_params option" where
  "new_update_mcp_config_request ft rid v =
     map_option (update_mcp_config_request rid ''application/json'') (marshal_type ft mcp_config_update_model v)"

definition update_mcp_config_json ::
  "('w, float_text \<Rightarrow> bytes option \<Rightarrow> gv \<Rightarrow> 'w sending) client_method" where
  "update_mcp_config_json net sv ctx eds ft rid v =
     send_new net sv ctx eds (new_update_mcp_config_request ft rid v)"

definition update_mcp_config_json_response ::
  "('w, float_text \<Rightarrow> bytes option \<Rightarrow> gv \<Rightarrow> 'w receiving) client_method" where
  "update_mcp_config_json_response net sv ctx eds ft rid v =
     with_response net parse_update_mcp_config (update_mcp_config_json net sv ctx eds ft rid v)"

subsection \<open>GetSupportStatus\<close>

definition parse_get_support_status ::
  "(bytes \<Rightarrow> go_error + bytes) \<Rightarrow> http_resp \<Rightarrow> go_error + resp_value" where
  "parse_get_support_status bind =
     typed_parse bind (rs_headers (get_support_status_responses (unmarshal_type support_status_model)))
       get_support_status_resp"

definition get_support_status_call :: "('w, bytes option \<Rightarrow> 'w sending) client_method" where
  "get_support_status_call net sv ctx eds fresh = client_call net sv ctx eds (get_support_status_request fresh)"

definition get_support_status_with_response :: "('w, bytes option \<Rightarrow> 'w receiving) client_method" where
  "get_support_status_with_response net sv ctx eds fresh =
     with_response net parse_get_support_status (get_support_status_call net sv ctx eds fresh)"

subsection \<open>DownloadSupportBundle\<close>

definition parse_download_support_bundle ::
  "(bytes \<Rightarrow> go_error + bytes) \<Rightarrow> http_resp \<Rightarrow> go_error + resp_value" where
  "parse_download_support_bundle bind =
     typed_parse bind (rs_headers (untyped download_support_bundle_responses)) download_support_bundle_resp"

definition download_support_bundle_with_body ::
  "('w, bytes option \<Rightarrow> bytes \<Rightarrow> bytes \<Rightarrow> 'w sending) client_method" where
  "download_support_bundle_with_body net sv ctx eds rid ctype body =
     client_call net sv ctx eds (download_support_bundle_request rid ctype body)"

definition download_support_bundle_with_body_response ::
  "('w, bytes option \<Rightarrow> bytes \<Rightarrow> bytes \<Rightarrow> 'w receiving) client_method" where
  "download_support_bundle_with_body_response net sv ctx eds rid ctype body =
     with_response net parse_download_support_bundle (download_support_bundle_with_body net sv ctx eds rid ctype
       body)"

definition new_download_support_bundle_request ::
  "float_text \<Rightarrow> bytes option \<Rightarrow> gv \<Rightarrow> op_params option" where
  "new_download_support_bundle_request ft rid v =
     map_option (download_support_bundle_request rid ''application/json'') (marshal_type ft
       support_bundle_request_model v)"

definition download_support_bundle_json ::
  "('w, float_text \<Rightarrow> bytes option \<Rightarrow> gv \<Rightarrow> 'w sending) client_method" where
  "download_support_bundle_json net sv ctx eds ft rid v =
     send_new net sv ctx eds (new_download_support_bundle_request ft rid v)"

definition download_support_bundle_json_response ::
  "('w, float_text \<Rightarrow> bytes option \<Rightarrow> gv \<Rightarrow> 'w receiving) client_method" where
  "download_support_bundle_json_response net sv ctx eds ft rid v =
     with_response net parse_download_support_bundle (download_support_bundle_json net sv ctx eds ft rid v)"

subsection \<open>CancelSupportConnect\<close>

definition parse_cancel_support_connect ::
  "(bytes \<Rightarrow> go_error + bytes) \<Rightarrow> http_resp \<Rightarrow> go_error + resp_value" where
  "parse_cancel_support_connect bind =
     typed_parse bind (rs_headers (untyped cancel_support_connect_responses)) cancel_support_connect_resp"

definition cancel_support_connect_call :: "('w, 'w sending) client_method" where
  "cancel_support_connect_call net sv ctx eds = client_call net sv ctx eds cancel_support_connect_request"

definition cancel_support_connect_with_response :: "('w, 'w receiving) client_method" where
  "cancel_support_connect_with_response net sv ctx eds =
     with_response net parse_cancel_support_connect (cancel_support_connect_call net sv ctx eds)"

subsection \<open>GetSupportConnect\<close>

definition parse_get_support_connect ::
  "(bytes \<Rightarrow> go_error + bytes) \<Rightarrow> http_resp \<Rightarrow> go_error + resp_value" where
  "parse_get_support_connect bind =
     typed_parse bind (rs_headers (untyped get_support_connect_responses)) get_support_connect_resp"

definition get_support_connect_call :: "('w, 'w sending) client_method" where
  "get_support_connect_call net sv ctx eds = client_call net sv ctx eds get_support_connect_request"

definition get_support_connect_with_response :: "('w, 'w receiving) client_method" where
  "get_support_connect_with_response net sv ctx eds =
     with_response net parse_get_support_connect (get_support_connect_call net sv ctx eds)"

subsection \<open>StartSupportConnect\<close>

definition parse_start_support_connect ::
  "(bytes \<Rightarrow> go_error + bytes) \<Rightarrow> http_resp \<Rightarrow> go_error + resp_value" where
  "parse_start_support_connect bind =
     typed_parse bind (rs_headers (untyped start_support_connect_responses)) start_support_connect_resp"

definition start_support_connect_call :: "('w, bytes option \<Rightarrow> 'w sending) client_method" where
  "start_support_connect_call net sv ctx eds rid = client_call net sv ctx eds (start_support_connect_request rid)"

definition start_support_connect_with_response :: "('w, bytes option \<Rightarrow> 'w receiving) client_method" where
  "start_support_connect_with_response net sv ctx eds rid =
     with_response net parse_start_support_connect (start_support_connect_call net sv ctx eds rid)"

subsection \<open>RegisterSupportInstallation\<close>

definition parse_register_support_installation ::
  "(bytes \<Rightarrow> go_error + bytes) \<Rightarrow> http_resp \<Rightarrow> go_error + resp_value" where
  "parse_register_support_installation bind =
     typed_parse bind (rs_headers (untyped register_support_installation_responses))
       register_support_installation_resp"

definition register_support_installation_call :: "('w, bytes option \<Rightarrow> 'w sending) client_method" where
  "register_support_installation_call net sv ctx eds rid =
     client_call net sv ctx eds (register_support_installation_request rid)"

definition register_support_installation_with_response ::
  "('w, bytes option \<Rightarrow> 'w receiving) client_method" where
  "register_support_installation_with_response net sv ctx eds rid =
     with_response net parse_register_support_installation (register_support_installation_call net sv ctx eds rid)"

subsection \<open>ListSupportIssues\<close>

definition parse_list_support_issues ::
  "(bytes \<Rightarrow> go_error + bytes) \<Rightarrow> http_resp \<Rightarrow> go_error + resp_value" where
  "parse_list_support_issues bind =
     typed_parse bind (rs_headers (list_support_issues_responses (unmarshal_type (GTMap GTAny))))
       list_support_issues_resp"

definition list_support_issues_call :: "('w, bytes option \<Rightarrow> 'w sending) client_method" where
  "list_support_issues_call net sv ctx eds status = client_call net sv ctx eds (list_support_issues_request status)"

definition list_support_issues_with_response :: "('w, bytes option \<Rightarrow> 'w receiving) client_method" where
  "list_support_issues_with_response net sv ctx eds status =
     with_response net parse_list_support_issues (list_support_issues_call net sv ctx eds status)"

subsection \<open>CreateSupportIssue\<close>

definition parse_create_support_issue ::
  "(bytes \<Rightarrow> go_error + bytes) \<Rightarrow> http_resp \<Rightarrow> go_error + resp_value" where
  "parse_create_support_issue bind =
     typed_parse bind (rs_headers (create_support_issue_responses (unmarshal_type (GTMap GTAny))))
       create_support_issue_resp"

definition create_support_issue_with_body ::
  "('w, bytes option \<Rightarrow> bytes \<Rightarrow> bytes \<Rightarrow> 'w sending) client_method" where
  "create_support_issue_with_body net sv ctx eds rid ctype body =
     client_call net sv ctx eds (create_support_issue_request rid ctype body)"

definition create_support_issue_with_body_response ::
  "('w, bytes option \<Rightarrow> bytes \<Rightarrow> bytes \<Rightarrow> 'w receiving) client_method" where
  "create_support_issue_with_body_response net sv ctx eds rid ctype body =
     with_response net parse_create_support_issue (create_support_issue_with_body net sv ctx eds rid ctype body)"

definition new_create_support_issue_request ::
  "float_text \<Rightarrow> bytes option \<Rightarrow> gv \<Rightarrow> op_params option" where
  "new_create_support_issue_request ft rid v =
     map_option (create_support_issue_request rid ''application/json'') (marshal_type ft
       support_create_issue_request_model v)"

definition create_support_issue_json ::
  "('w, float_text \<Rightarrow> bytes option \<Rightarrow> gv \<Rightarrow> 'w sending) client_method" where
  "create_support_issue_json net sv ctx eds ft rid v =
     send_new net sv ctx eds (new_create_support_issue_request ft rid v)"

definition create_support_issue_json_response ::
  "('w, float_text \<Rightarrow> bytes option \<Rightarrow> gv \<Rightarrow> 'w receiving) client_method" where
  "create_support_issue_json_response net sv ctx eds ft rid v =
     with_response net parse_create_support_issue (create_support_issue_json net sv ctx eds ft rid v)"

subsection \<open>GetSupportIssue\<close>

definition parse_get_support_issue ::
  "(bytes \<Rightarrow> go_error + bytes) \<Rightarrow> http_resp \<Rightarrow> go_error + resp_value" where
  "parse_get_support_issue bind =
     typed_parse bind (rs_headers (get_support_issue_responses (unmarshal_type (GTMap GTAny))))
       get_support_issue_resp"

definition get_support_issue_call :: "('w, bytes \<Rightarrow> 'w sending) client_method" where
  "get_support_issue_call net sv ctx eds issue = client_call net sv ctx eds (get_support_issue_request issue)"

definition get_support_issue_with_response :: "('w, bytes \<Rightarrow> 'w receiving) client_method" where
  "get_support_issue_with_response net sv ctx eds issue =
     with_response net parse_get_support_issue (get_support_issue_call net sv ctx eds issue)"

subsection \<open>SetSupportIssueOpen\<close>

definition parse_set_support_issue_open ::
  "(bytes \<Rightarrow> go_error + bytes) \<Rightarrow> http_resp \<Rightarrow> go_error + resp_value" where
  "parse_set_support_issue_open bind =
     typed_parse bind (rs_headers (untyped set_support_issue_open_responses)) set_support_issue_open_resp"

definition set_support_issue_open_with_body ::
  "('w, bytes \<Rightarrow> bytes \<Rightarrow> bytes \<Rightarrow> 'w sending) client_method" where
  "set_support_issue_open_with_body net sv ctx eds issue ctype body =
     client_call net sv ctx eds (set_support_issue_open_request issue ctype body)"

definition set_support_issue_open_with_body_response ::
  "('w, bytes \<Rightarrow> bytes \<Rightarrow> bytes \<Rightarrow> 'w receiving) client_method" where
  "set_support_issue_open_with_body_response net sv ctx eds issue ctype body =
     with_response net parse_set_support_issue_open (set_support_issue_open_with_body net sv ctx eds issue ctype
       body)"

definition new_set_support_issue_open_request ::
  "float_text \<Rightarrow> bytes \<Rightarrow> gv \<Rightarrow> op_params option" where
  "new_set_support_issue_open_request ft issue v =
     map_option (set_support_issue_open_request issue ''application/json'') (marshal_type ft
       support_set_open_request_model v)"

definition set_support_issue_open_json ::
  "('w, float_text \<Rightarrow> bytes \<Rightarrow> gv \<Rightarrow> 'w sending) client_method" where
  "set_support_issue_open_json net sv ctx eds ft issue v =
     send_new net sv ctx eds (new_set_support_issue_open_request ft issue v)"

definition set_support_issue_open_json_response ::
  "('w, float_text \<Rightarrow> bytes \<Rightarrow> gv \<Rightarrow> 'w receiving) client_method" where
  "set_support_issue_open_json_response net sv ctx eds ft issue v =
     with_response net parse_set_support_issue_open (set_support_issue_open_json net sv ctx eds ft issue v)"

subsection \<open>AttachToSupportIssue\<close>

definition parse_attach_to_support_issue ::
  "(bytes \<Rightarrow> go_error + bytes) \<Rightarrow> http_resp \<Rightarrow> go_error + resp_value" where
  "parse_attach_to_support_issue bind =
     typed_parse bind (rs_headers (attach_to_support_issue_responses (unmarshal_type (GTMap GTAny))))
       attach_to_support_issue_resp"

definition attach_to_support_issue_with_body ::
  "('w, bytes \<Rightarrow> bytes option \<Rightarrow> bytes \<Rightarrow> bytes \<Rightarrow> 'w sending)
     client_method" where
  "attach_to_support_issue_with_body net sv ctx eds issue rid ctype body =
     client_call net sv ctx eds (attach_to_support_issue_request issue rid ctype body)"

definition attach_to_support_issue_with_body_response ::
  "('w, bytes \<Rightarrow> bytes option \<Rightarrow> bytes \<Rightarrow> bytes \<Rightarrow> 'w receiving)
     client_method" where
  "attach_to_support_issue_with_body_response net sv ctx eds issue rid ctype body =
     with_response net parse_attach_to_support_issue (attach_to_support_issue_with_body net sv ctx eds issue rid
       ctype body)"

definition new_attach_to_support_issue_request ::
  "float_text \<Rightarrow> bytes \<Rightarrow> bytes option \<Rightarrow> gv \<Rightarrow> op_params option" where
  "new_attach_to_support_issue_request ft issue rid v =
     map_option (attach_to_support_issue_request issue rid ''application/json'') (marshal_type ft
       support_attach_request_model v)"

definition attach_to_support_issue_json ::
  "('w, float_text \<Rightarrow> bytes \<Rightarrow> bytes option \<Rightarrow> gv \<Rightarrow> 'w sending)
     client_method" where
  "attach_to_support_issue_json net sv ctx eds ft issue rid v =
     send_new net sv ctx eds (new_attach_to_support_issue_request ft issue rid v)"

definition attach_to_support_issue_json_response ::
  "('w, float_text \<Rightarrow> bytes \<Rightarrow> bytes option \<Rightarrow> gv \<Rightarrow> 'w receiving)
     client_method" where
  "attach_to_support_issue_json_response net sv ctx eds ft issue rid v =
     with_response net parse_attach_to_support_issue (attach_to_support_issue_json net sv ctx eds ft issue rid v)"

subsection \<open>CommentSupportIssue\<close>

definition parse_comment_support_issue ::
  "(bytes \<Rightarrow> go_error + bytes) \<Rightarrow> http_resp \<Rightarrow> go_error + resp_value" where
  "parse_comment_support_issue bind =
     typed_parse bind (rs_headers (comment_support_issue_responses (unmarshal_type (GTMap GTAny))))
       comment_support_issue_resp"

definition comment_support_issue_with_body ::
  "('w, bytes \<Rightarrow> bytes option \<Rightarrow> bytes \<Rightarrow> bytes \<Rightarrow> 'w sending)
     client_method" where
  "comment_support_issue_with_body net sv ctx eds issue rid ctype body =
     client_call net sv ctx eds (comment_support_issue_request issue rid ctype body)"

definition comment_support_issue_with_body_response ::
  "('w, bytes \<Rightarrow> bytes option \<Rightarrow> bytes \<Rightarrow> bytes \<Rightarrow> 'w receiving)
     client_method" where
  "comment_support_issue_with_body_response net sv ctx eds issue rid ctype body =
     with_response net parse_comment_support_issue (comment_support_issue_with_body net sv ctx eds issue rid ctype
       body)"

definition new_comment_support_issue_request ::
  "float_text \<Rightarrow> bytes \<Rightarrow> bytes option \<Rightarrow> gv \<Rightarrow> op_params option" where
  "new_comment_support_issue_request ft issue rid v =
     map_option (comment_support_issue_request issue rid ''application/json'') (marshal_type ft
       support_comment_request_model v)"

definition comment_support_issue_json ::
  "('w, float_text \<Rightarrow> bytes \<Rightarrow> bytes option \<Rightarrow> gv \<Rightarrow> 'w sending)
     client_method" where
  "comment_support_issue_json net sv ctx eds ft issue rid v =
     send_new net sv ctx eds (new_comment_support_issue_request ft issue rid v)"

definition comment_support_issue_json_response ::
  "('w, float_text \<Rightarrow> bytes \<Rightarrow> bytes option \<Rightarrow> gv \<Rightarrow> 'w receiving)
     client_method" where
  "comment_support_issue_json_response net sv ctx eds ft issue rid v =
     with_response net parse_comment_support_issue (comment_support_issue_json net sv ctx eds ft issue rid v)"

subsection \<open>AnswerSupportRequest\<close>

definition parse_answer_support_request ::
  "(bytes \<Rightarrow> go_error + bytes) \<Rightarrow> http_resp \<Rightarrow> go_error + resp_value" where
  "parse_answer_support_request bind =
     typed_parse bind (rs_headers (answer_support_request_responses (unmarshal_type (GTMap GTAny))))
       answer_support_request_resp"

definition answer_support_request_with_body ::
  "('w, bytes \<Rightarrow> bytes \<Rightarrow> bytes option \<Rightarrow> bytes \<Rightarrow> bytes \<Rightarrow>
     'w sending) client_method" where
  "answer_support_request_with_body net sv ctx eds issue request rid ctype body =
     client_call net sv ctx eds (answer_support_request_request issue request rid ctype body)"

definition answer_support_request_with_body_response ::
  "('w, bytes \<Rightarrow> bytes \<Rightarrow> bytes option \<Rightarrow> bytes \<Rightarrow> bytes \<Rightarrow>
     'w receiving) client_method" where
  "answer_support_request_with_body_response net sv ctx eds issue request rid ctype body =
     with_response net parse_answer_support_request (answer_support_request_with_body net sv ctx eds issue request
       rid ctype body)"

definition new_answer_support_request_request ::
  "float_text \<Rightarrow> bytes \<Rightarrow> bytes \<Rightarrow> bytes option \<Rightarrow> gv \<Rightarrow>
     op_params option" where
  "new_answer_support_request_request ft issue request rid v =
     map_option (answer_support_request_request issue request rid ''application/json'') (marshal_type ft
       support_answer_request_model v)"

definition answer_support_request_json ::
  "('w, float_text \<Rightarrow> bytes \<Rightarrow> bytes \<Rightarrow> bytes option \<Rightarrow> gv
     \<Rightarrow> 'w sending) client_method" where
  "answer_support_request_json net sv ctx eds ft issue request rid v =
     send_new net sv ctx eds (new_answer_support_request_request ft issue request rid v)"

definition answer_support_request_json_response ::
  "('w, float_text \<Rightarrow> bytes \<Rightarrow> bytes \<Rightarrow> bytes option \<Rightarrow> gv
     \<Rightarrow> 'w receiving) client_method" where
  "answer_support_request_json_response net sv ctx eds ft issue request rid v =
     with_response net parse_answer_support_request (answer_support_request_json net sv ctx eds ft issue request rid
       v)"

subsection \<open>AnswerSupportRequests\<close>

definition parse_answer_support_requests ::
  "(bytes \<Rightarrow> go_error + bytes) \<Rightarrow> http_resp \<Rightarrow> go_error + resp_value" where
  "parse_answer_support_requests bind =
     typed_parse bind (rs_headers (answer_support_requests_responses (unmarshal_type (GTMap GTAny))))
       answer_support_requests_resp"

definition answer_support_requests_with_body ::
  "('w, bytes \<Rightarrow> bytes option \<Rightarrow> bytes \<Rightarrow> bytes \<Rightarrow> 'w sending)
     client_method" where
  "answer_support_requests_with_body net sv ctx eds issue rid ctype body =
     client_call net sv ctx eds (answer_support_requests_request issue rid ctype body)"

definition answer_support_requests_with_body_response ::
  "('w, bytes \<Rightarrow> bytes option \<Rightarrow> bytes \<Rightarrow> bytes \<Rightarrow> 'w receiving)
     client_method" where
  "answer_support_requests_with_body_response net sv ctx eds issue rid ctype body =
     with_response net parse_answer_support_requests (answer_support_requests_with_body net sv ctx eds issue rid
       ctype body)"

definition new_answer_support_requests_request ::
  "float_text \<Rightarrow> bytes \<Rightarrow> bytes option \<Rightarrow> gv \<Rightarrow> op_params option" where
  "new_answer_support_requests_request ft issue rid v =
     map_option (answer_support_requests_request issue rid ''application/json'') (marshal_type ft
       support_answers_request_model v)"

definition answer_support_requests_json ::
  "('w, float_text \<Rightarrow> bytes \<Rightarrow> bytes option \<Rightarrow> gv \<Rightarrow> 'w sending)
     client_method" where
  "answer_support_requests_json net sv ctx eds ft issue rid v =
     send_new net sv ctx eds (new_answer_support_requests_request ft issue rid v)"

definition answer_support_requests_json_response ::
  "('w, float_text \<Rightarrow> bytes \<Rightarrow> bytes option \<Rightarrow> gv \<Rightarrow> 'w receiving)
     client_method" where
  "answer_support_requests_json_response net sv ctx eds ft issue rid v =
     with_response net parse_answer_support_requests (answer_support_requests_json net sv ctx eds ft issue rid v)"

subsection \<open>RunSupportPeerQuery\<close>

definition parse_run_support_peer_query ::
  "(bytes \<Rightarrow> go_error + bytes) \<Rightarrow> http_resp \<Rightarrow> go_error + resp_value" where
  "parse_run_support_peer_query bind =
     typed_parse bind (rs_headers (untyped run_support_peer_query_responses)) run_support_peer_query_resp"

definition run_support_peer_query_with_body ::
  "('w, bytes option \<Rightarrow> bytes \<Rightarrow> bytes \<Rightarrow> 'w sending) client_method" where
  "run_support_peer_query_with_body net sv ctx eds rid ctype body =
     client_call net sv ctx eds (run_support_peer_query_request rid ctype body)"

definition run_support_peer_query_with_body_response ::
  "('w, bytes option \<Rightarrow> bytes \<Rightarrow> bytes \<Rightarrow> 'w receiving) client_method" where
  "run_support_peer_query_with_body_response net sv ctx eds rid ctype body =
     with_response net parse_run_support_peer_query (run_support_peer_query_with_body net sv ctx eds rid ctype body)"

definition new_run_support_peer_query_request ::
  "float_text \<Rightarrow> bytes option \<Rightarrow> gv \<Rightarrow> op_params option" where
  "new_run_support_peer_query_request ft rid v =
     map_option (run_support_peer_query_request rid ''application/json'') (marshal_type ft
       support_peer_query_request_model v)"

definition run_support_peer_query_json ::
  "('w, float_text \<Rightarrow> bytes option \<Rightarrow> gv \<Rightarrow> 'w sending) client_method" where
  "run_support_peer_query_json net sv ctx eds ft rid v =
     send_new net sv ctx eds (new_run_support_peer_query_request ft rid v)"

definition run_support_peer_query_json_response ::
  "('w, float_text \<Rightarrow> bytes option \<Rightarrow> gv \<Rightarrow> 'w receiving) client_method" where
  "run_support_peer_query_json_response net sv ctx eds ft rid v =
     with_response net parse_run_support_peer_query (run_support_peer_query_json net sv ctx eds ft rid v)"

subsection \<open>GetSupportPeers\<close>

definition parse_get_support_peers ::
  "(bytes \<Rightarrow> go_error + bytes) \<Rightarrow> http_resp \<Rightarrow> go_error + resp_value" where
  "parse_get_support_peers bind =
     typed_parse bind (rs_headers (untyped get_support_peers_responses)) get_support_peers_resp"

definition get_support_peers_call :: "('w, 'w sending) client_method" where
  "get_support_peers_call net sv ctx eds = client_call net sv ctx eds get_support_peers_request"

definition get_support_peers_with_response :: "('w, 'w receiving) client_method" where
  "get_support_peers_with_response net sv ctx eds =
     with_response net parse_get_support_peers (get_support_peers_call net sv ctx eds)"

subsection \<open>PreviewSupportBundle\<close>

definition parse_preview_support_bundle ::
  "(bytes \<Rightarrow> go_error + bytes) \<Rightarrow> http_resp \<Rightarrow> go_error + resp_value" where
  "parse_preview_support_bundle bind =
     typed_parse bind (rs_headers (preview_support_bundle_responses (unmarshal_type support_preview_model)))
       preview_support_bundle_resp"

definition preview_support_bundle_with_body ::
  "('w, bytes option \<Rightarrow> bytes \<Rightarrow> bytes \<Rightarrow> 'w sending) client_method" where
  "preview_support_bundle_with_body net sv ctx eds rid ctype body =
     client_call net sv ctx eds (preview_support_bundle_request rid ctype body)"

definition preview_support_bundle_with_body_response ::
  "('w, bytes option \<Rightarrow> bytes \<Rightarrow> bytes \<Rightarrow> 'w receiving) client_method" where
  "preview_support_bundle_with_body_response net sv ctx eds rid ctype body =
     with_response net parse_preview_support_bundle (preview_support_bundle_with_body net sv ctx eds rid ctype body)"

definition new_preview_support_bundle_request ::
  "float_text \<Rightarrow> bytes option \<Rightarrow> gv \<Rightarrow> op_params option" where
  "new_preview_support_bundle_request ft rid v =
     map_option (preview_support_bundle_request rid ''application/json'') (marshal_type ft
       support_preview_request_model v)"

definition preview_support_bundle_json ::
  "('w, float_text \<Rightarrow> bytes option \<Rightarrow> gv \<Rightarrow> 'w sending) client_method" where
  "preview_support_bundle_json net sv ctx eds ft rid v =
     send_new net sv ctx eds (new_preview_support_bundle_request ft rid v)"

definition preview_support_bundle_json_response ::
  "('w, float_text \<Rightarrow> bytes option \<Rightarrow> gv \<Rightarrow> 'w receiving) client_method" where
  "preview_support_bundle_json_response net sv ctx eds ft rid v =
     with_response net parse_preview_support_bundle (preview_support_bundle_json net sv ctx eds ft rid v)"

subsection \<open>UnregisterSupport\<close>

definition parse_unregister_support ::
  "(bytes \<Rightarrow> go_error + bytes) \<Rightarrow> http_resp \<Rightarrow> go_error + resp_value" where
  "parse_unregister_support bind =
     typed_parse bind (rs_headers (untyped unregister_support_responses)) unregister_support_resp"

definition unregister_support_call :: "('w, 'w sending) client_method" where
  "unregister_support_call net sv ctx eds = client_call net sv ctx eds unregister_support_request"

definition unregister_support_with_response :: "('w, 'w receiving) client_method" where
  "unregister_support_with_response net sv ctx eds =
     with_response net parse_unregister_support (unregister_support_call net sv ctx eds)"

subsection \<open>RegisterSupport\<close>

definition parse_register_support ::
  "(bytes \<Rightarrow> go_error + bytes) \<Rightarrow> http_resp \<Rightarrow> go_error + resp_value" where
  "parse_register_support bind =
     typed_parse bind (rs_headers (register_support_responses (unmarshal_type support_status_model)))
       register_support_resp"

definition register_support_with_body ::
  "('w, bytes option \<Rightarrow> bytes \<Rightarrow> bytes \<Rightarrow> 'w sending) client_method" where
  "register_support_with_body net sv ctx eds rid ctype body =
     client_call net sv ctx eds (register_support_request rid ctype body)"

definition register_support_with_body_response ::
  "('w, bytes option \<Rightarrow> bytes \<Rightarrow> bytes \<Rightarrow> 'w receiving) client_method" where
  "register_support_with_body_response net sv ctx eds rid ctype body =
     with_response net parse_register_support (register_support_with_body net sv ctx eds rid ctype body)"

definition new_register_support_request ::
  "float_text \<Rightarrow> bytes option \<Rightarrow> gv \<Rightarrow> op_params option" where
  "new_register_support_request ft rid v =
     map_option (register_support_request rid ''application/json'') (marshal_type ft support_register_request_model
       v)"

definition register_support_json ::
  "('w, float_text \<Rightarrow> bytes option \<Rightarrow> gv \<Rightarrow> 'w sending) client_method" where
  "register_support_json net sv ctx eds ft rid v = send_new net sv ctx eds (new_register_support_request ft rid v)"

definition register_support_json_response ::
  "('w, float_text \<Rightarrow> bytes option \<Rightarrow> gv \<Rightarrow> 'w receiving) client_method" where
  "register_support_json_response net sv ctx eds ft rid v =
     with_response net parse_register_support (register_support_json net sv ctx eds ft rid v)"

subsection \<open>StageSupportScreenshot\<close>

definition parse_stage_support_screenshot ::
  "(bytes \<Rightarrow> go_error + bytes) \<Rightarrow> http_resp \<Rightarrow> go_error + resp_value" where
  "parse_stage_support_screenshot bind =
     typed_parse bind (rs_headers (stage_support_screenshot_responses (unmarshal_type (GTMap GTAny))))
       stage_support_screenshot_resp"

definition stage_support_screenshot_with_body ::
  "('w, bytes option \<Rightarrow> bytes \<Rightarrow> bytes \<Rightarrow> 'w sending) client_method" where
  "stage_support_screenshot_with_body net sv ctx eds rid ctype body =
     client_call net sv ctx eds (stage_support_screenshot_request rid ctype body)"

definition stage_support_screenshot_with_body_response ::
  "('w, bytes option \<Rightarrow> bytes \<Rightarrow> bytes \<Rightarrow> 'w receiving) client_method" where
  "stage_support_screenshot_with_body_response net sv ctx eds rid ctype body =
     with_response net parse_stage_support_screenshot (stage_support_screenshot_with_body net sv ctx eds rid ctype
       body)"

definition new_stage_support_screenshot_request ::
  "float_text \<Rightarrow> bytes option \<Rightarrow> gv \<Rightarrow> op_params option" where
  "new_stage_support_screenshot_request ft rid v =
     map_option (stage_support_screenshot_request rid ''application/json'') (marshal_type ft
       support_screenshot_request_model v)"

definition stage_support_screenshot_json ::
  "('w, float_text \<Rightarrow> bytes option \<Rightarrow> gv \<Rightarrow> 'w sending) client_method" where
  "stage_support_screenshot_json net sv ctx eds ft rid v =
     send_new net sv ctx eds (new_stage_support_screenshot_request ft rid v)"

definition stage_support_screenshot_json_response ::
  "('w, float_text \<Rightarrow> bytes option \<Rightarrow> gv \<Rightarrow> 'w receiving) client_method" where
  "stage_support_screenshot_json_response net sv ctx eds ft rid v =
     with_response net parse_stage_support_screenshot (stage_support_screenshot_json net sv ctx eds ft rid v)"

subsection \<open>DiscardSupportScreenshot\<close>

definition parse_discard_support_screenshot ::
  "(bytes \<Rightarrow> go_error + bytes) \<Rightarrow> http_resp \<Rightarrow> go_error + resp_value" where
  "parse_discard_support_screenshot bind =
     typed_parse bind (rs_headers (untyped discard_support_screenshot_responses)) discard_support_screenshot_resp"

definition discard_support_screenshot_call :: "('w, bytes \<Rightarrow> 'w sending) client_method" where
  "discard_support_screenshot_call net sv ctx eds ident =
     client_call net sv ctx eds (discard_support_screenshot_request ident)"

definition discard_support_screenshot_with_response :: "('w, bytes \<Rightarrow> 'w receiving) client_method" where
  "discard_support_screenshot_with_response net sv ctx eds ident =
     with_response net parse_discard_support_screenshot (discard_support_screenshot_call net sv ctx eds ident)"

end
