(* ===== verification/Client_Cluster.thy ===== *)
theory Client_Cluster
  imports Client_Methods
begin

text \<open>
  The methods of \<open>Client\<close> and \<open>ClientWithResponses\<close> for the cluster and snapshots:
  a parser, a call with any body and one with a model as its body, each with and without parsing the
  response.
\<close>

subsection \<open>GetClusterStatus\<close>

definition parse_get_cluster_status ::
  "(bytes \<Rightarrow> go_error + bytes) \<Rightarrow> http_resp \<Rightarrow> go_error + resp_value" where
  "parse_get_cluster_status bind =
     typed_parse bind (rs_headers (get_cluster_status_responses (unmarshal_type cluster_status_model)))
       get_cluster_status_resp"

definition get_cluster_status_call :: "('w, bool option \<Rightarrow> 'w sending) client_method" where
  "get_cluster_status_call net sv ctx eds presence =
     client_call net sv ctx eds (get_cluster_status_request presence)"

definition get_cluster_status_with_response :: "('w, bool option \<Rightarrow> 'w receiving) client_method" where
  "get_cluster_status_with_response net sv ctx eds presence =
     with_response net parse_get_cluster_status (get_cluster_status_call net sv ctx eds presence)"

subsection \<open>AcceptClusterDatabaseCopy\<close>

definition parse_accept_cluster_database_copy ::
  "(bytes \<Rightarrow> go_error + bytes) \<Rightarrow> http_resp \<Rightarrow> go_error + resp_value" where
  "parse_accept_cluster_database_copy bind =
     typed_parse bind (rs_headers (accept_cluster_database_copy_responses (unmarshal_type
       cluster_action_response_model))) accept_cluster_database_copy_resp"

definition accept_cluster_database_copy_call ::
  "('w, bytes \<Rightarrow> bytes option \<Rightarrow> 'w sending) client_method" where
  "accept_cluster_database_copy_call net sv ctx eds database rid =
     client_call net sv ctx eds (accept_cluster_database_copy_request database rid)"

definition accept_cluster_database_copy_with_response ::
  "('w, bytes \<Rightarrow> bytes option \<Rightarrow> 'w receiving) client_method" where
  "accept_cluster_database_copy_with_response net sv ctx eds database rid =
     with_response net parse_accept_cluster_database_copy (accept_cluster_database_copy_call net sv ctx eds database
       rid)"

subsection \<open>AcceptClusterDivergedDatabase\<close>

definition parse_accept_cluster_diverged_database ::
  "(bytes \<Rightarrow> go_error + bytes) \<Rightarrow> http_resp \<Rightarrow> go_error + resp_value" where
  "parse_accept_cluster_diverged_database bind =
     typed_parse bind (rs_headers (accept_cluster_diverged_database_responses (unmarshal_type
       cluster_action_response_model))) accept_cluster_diverged_database_resp"

definition accept_cluster_diverged_database_call ::
  "('w, bytes \<Rightarrow> bytes option \<Rightarrow> 'w sending) client_method" where
  "accept_cluster_diverged_database_call net sv ctx eds database rid =
     client_call net sv ctx eds (accept_cluster_diverged_database_request database rid)"

definition accept_cluster_diverged_database_with_response ::
  "('w, bytes \<Rightarrow> bytes option \<Rightarrow> 'w receiving) client_method" where
  "accept_cluster_diverged_database_with_response net sv ctx eds database rid =
     with_response net parse_accept_cluster_diverged_database (accept_cluster_diverged_database_call net sv ctx eds
       database rid)"

subsection \<open>AcceptClusterStaleSnapshot\<close>

definition parse_accept_cluster_stale_snapshot ::
  "(bytes \<Rightarrow> go_error + bytes) \<Rightarrow> http_resp \<Rightarrow> go_error + resp_value" where
  "parse_accept_cluster_stale_snapshot bind =
     typed_parse bind (rs_headers (accept_cluster_stale_snapshot_responses (unmarshal_type
       cluster_action_response_model))) accept_cluster_stale_snapshot_resp"

definition accept_cluster_stale_snapshot_call :: "('w, bytes option \<Rightarrow> 'w sending) client_method" where
  "accept_cluster_stale_snapshot_call net sv ctx eds rid =
     client_call net sv ctx eds (accept_cluster_stale_snapshot_request rid)"

definition accept_cluster_stale_snapshot_with_response ::
  "('w, bytes option \<Rightarrow> 'w receiving) client_method" where
  "accept_cluster_stale_snapshot_with_response net sv ctx eds rid =
     with_response net parse_accept_cluster_stale_snapshot (accept_cluster_stale_snapshot_call net sv ctx eds rid)"

subsection \<open>ResolveClusterAuthSession\<close>

definition parse_resolve_cluster_auth_session ::
  "(bytes \<Rightarrow> go_error + bytes) \<Rightarrow> http_resp \<Rightarrow> go_error + resp_value" where
  "parse_resolve_cluster_auth_session bind =
     typed_parse bind (rs_headers (resolve_cluster_auth_session_responses (unmarshal_type
       cluster_auth_session_response_model))) resolve_cluster_auth_session_resp"

definition resolve_cluster_auth_session_with_body ::
  "('w, bytes option \<Rightarrow> bytes \<Rightarrow> bytes \<Rightarrow> 'w sending) client_method" where
  "resolve_cluster_auth_session_with_body net sv ctx eds rid ctype body =
     client_call net sv ctx eds (resolve_cluster_auth_session_request rid ctype body)"

definition resolve_cluster_auth_session_with_body_response ::
  "('w, bytes option \<Rightarrow> bytes \<Rightarrow> bytes \<Rightarrow> 'w receiving) client_method" where
  "resolve_cluster_auth_session_with_body_response net sv ctx eds rid ctype body =
     with_response net parse_resolve_cluster_auth_session (resolve_cluster_auth_session_with_body net sv ctx eds rid
       ctype body)"

definition new_resolve_cluster_auth_session_request ::
  "float_text \<Rightarrow> bytes option \<Rightarrow> gv \<Rightarrow> op_params option" where
  "new_resolve_cluster_auth_session_request ft rid v =
     map_option (resolve_cluster_auth_session_request rid ''application/json'') (marshal_type ft
       cluster_auth_session_request_model v)"

definition resolve_cluster_auth_session_json ::
  "('w, float_text \<Rightarrow> bytes option \<Rightarrow> gv \<Rightarrow> 'w sending) client_method" where
  "resolve_cluster_auth_session_json net sv ctx eds ft rid v =
     send_new net sv ctx eds (new_resolve_cluster_auth_session_request ft rid v)"

definition resolve_cluster_auth_session_json_response ::
  "('w, float_text \<Rightarrow> bytes option \<Rightarrow> gv \<Rightarrow> 'w receiving) client_method" where
  "resolve_cluster_auth_session_json_response net sv ctx eds ft rid v =
     with_response net parse_resolve_cluster_auth_session (resolve_cluster_auth_session_json net sv ctx eds ft rid v)"

subsection \<open>GetClusterBootstrapState\<close>

definition parse_get_cluster_bootstrap_state ::
  "(bytes \<Rightarrow> go_error + bytes) \<Rightarrow> http_resp \<Rightarrow> go_error + resp_value" where
  "parse_get_cluster_bootstrap_state bind =
     typed_parse bind (rs_headers (get_cluster_bootstrap_state_responses (unmarshal_type
       bootstrap_state_response_model))) get_cluster_bootstrap_state_resp"

definition get_cluster_bootstrap_state_call :: "('w, bytes option \<Rightarrow> 'w sending) client_method" where
  "get_cluster_bootstrap_state_call net sv ctx eds rid =
     client_call net sv ctx eds (get_cluster_bootstrap_state_request rid)"

definition get_cluster_bootstrap_state_with_response ::
  "('w, bytes option \<Rightarrow> 'w receiving) client_method" where
  "get_cluster_bootstrap_state_with_response net sv ctx eds rid =
     with_response net parse_get_cluster_bootstrap_state (get_cluster_bootstrap_state_call net sv ctx eds rid)"

subsection \<open>GetClusterPeerCapabilities\<close>

definition parse_get_cluster_peer_capabilities ::
  "(bytes \<Rightarrow> go_error + bytes) \<Rightarrow> http_resp \<Rightarrow> go_error + resp_value" where
  "parse_get_cluster_peer_capabilities bind =
     typed_parse bind (rs_headers (get_cluster_peer_capabilities_responses (unmarshal_type
       peer_capabilities_response_model))) get_cluster_peer_capabilities_resp"

definition get_cluster_peer_capabilities_call :: "('w, bytes option \<Rightarrow> 'w sending) client_method" where
  "get_cluster_peer_capabilities_call net sv ctx eds rid =
     client_call net sv ctx eds (get_cluster_peer_capabilities_request rid)"

definition get_cluster_peer_capabilities_with_response ::
  "('w, bytes option \<Rightarrow> 'w receiving) client_method" where
  "get_cluster_peer_capabilities_with_response net sv ctx eds rid =
     with_response net parse_get_cluster_peer_capabilities (get_cluster_peer_capabilities_call net sv ctx eds rid)"

subsection \<open>TransferClusterLeadership\<close>

definition parse_transfer_cluster_leadership ::
  "(bytes \<Rightarrow> go_error + bytes) \<Rightarrow> http_resp \<Rightarrow> go_error + resp_value" where
  "parse_transfer_cluster_leadership bind =
     typed_parse bind (rs_headers (transfer_cluster_leadership_responses (unmarshal_type
       cluster_action_response_model))) transfer_cluster_leadership_resp"

definition transfer_cluster_leadership_with_body ::
  "('w, bytes option \<Rightarrow> bytes \<Rightarrow> bytes \<Rightarrow> 'w sending) client_method" where
  "transfer_cluster_leadership_with_body net sv ctx eds rid ctype body =
     client_call net sv ctx eds (transfer_cluster_leadership_request rid ctype body)"

definition transfer_cluster_leadership_with_body_response ::
  "('w, bytes option \<Rightarrow> bytes \<Rightarrow> bytes \<Rightarrow> 'w receiving) client_method" where
  "transfer_cluster_leadership_with_body_response net sv ctx eds rid ctype body =
     with_response net parse_transfer_cluster_leadership (transfer_cluster_leadership_with_body net sv ctx eds rid
       ctype body)"

definition new_transfer_cluster_leadership_request ::
  "float_text \<Rightarrow> bytes option \<Rightarrow> gv \<Rightarrow> op_params option" where
  "new_transfer_cluster_leadership_request ft rid v =
     map_option (transfer_cluster_leadership_request rid ''application/json'') (marshal_type ft
       transfer_leader_request_model v)"

definition transfer_cluster_leadership_json ::
  "('w, float_text \<Rightarrow> bytes option \<Rightarrow> gv \<Rightarrow> 'w sending) client_method" where
  "transfer_cluster_leadership_json net sv ctx eds ft rid v =
     send_new net sv ctx eds (new_transfer_cluster_leadership_request ft rid v)"

definition transfer_cluster_leadership_json_response ::
  "('w, float_text \<Rightarrow> bytes option \<Rightarrow> gv \<Rightarrow> 'w receiving) client_method" where
  "transfer_cluster_leadership_json_response net sv ctx eds ft rid v =
     with_response net parse_transfer_cluster_leadership (transfer_cluster_leadership_json net sv ctx eds ft rid v)"

subsection \<open>LeaveCluster\<close>

definition parse_leave_cluster ::
  "(bytes \<Rightarrow> go_error + bytes) \<Rightarrow> http_resp \<Rightarrow> go_error + resp_value" where
  "parse_leave_cluster bind =
     typed_parse bind (rs_headers (leave_cluster_responses (unmarshal_type cluster_action_response_model)))
       leave_cluster_resp"

definition leave_cluster_call ::
  "('w, bool option \<Rightarrow> bytes option \<Rightarrow> 'w sending) client_method" where
  "leave_cluster_call net sv ctx eds force rid = client_call net sv ctx eds (leave_cluster_request force rid)"

definition leave_cluster_with_response ::
  "('w, bool option \<Rightarrow> bytes option \<Rightarrow> 'w receiving) client_method" where
  "leave_cluster_with_response net sv ctx eds force rid =
     with_response net parse_leave_cluster (leave_cluster_call net sv ctx eds force rid)"

subsection \<open>AddClusterPeer\<close>

definition parse_add_cluster_peer ::
  "(bytes \<Rightarrow> go_error + bytes) \<Rightarrow> http_resp \<Rightarrow> go_error + resp_value" where
  "parse_add_cluster_peer bind =
     typed_parse bind (rs_headers (add_cluster_peer_responses (unmarshal_type cluster_action_response_model)))
       add_cluster_peer_resp"

definition add_cluster_peer_with_body ::
  "('w, bytes option \<Rightarrow> bytes \<Rightarrow> bytes \<Rightarrow> 'w sending) client_method" where
  "add_cluster_peer_with_body net sv ctx eds rid ctype body =
     client_call net sv ctx eds (add_cluster_peer_request rid ctype body)"

definition add_cluster_peer_with_body_response ::
  "('w, bytes option \<Rightarrow> bytes \<Rightarrow> bytes \<Rightarrow> 'w receiving) client_method" where
  "add_cluster_peer_with_body_response net sv ctx eds rid ctype body =
     with_response net parse_add_cluster_peer (add_cluster_peer_with_body net sv ctx eds rid ctype body)"

definition new_add_cluster_peer_request ::
  "float_text \<Rightarrow> bytes option \<Rightarrow> gv \<Rightarrow> op_params option" where
  "new_add_cluster_peer_request ft rid v =
     map_option (add_cluster_peer_request rid ''application/json'') (marshal_type ft add_peer_request_model v)"

definition add_cluster_peer_json ::
  "('w, float_text \<Rightarrow> bytes option \<Rightarrow> gv \<Rightarrow> 'w sending) client_method" where
  "add_cluster_peer_json net sv ctx eds ft rid v = send_new net sv ctx eds (new_add_cluster_peer_request ft rid v)"

definition add_cluster_peer_json_response ::
  "('w, float_text \<Rightarrow> bytes option \<Rightarrow> gv \<Rightarrow> 'w receiving) client_method" where
  "add_cluster_peer_json_response net sv ctx eds ft rid v =
     with_response net parse_add_cluster_peer (add_cluster_peer_json net sv ctx eds ft rid v)"

subsection \<open>RemoveClusterPeer\<close>

definition parse_remove_cluster_peer ::
  "(bytes \<Rightarrow> go_error + bytes) \<Rightarrow> http_resp \<Rightarrow> go_error + resp_value" where
  "parse_remove_cluster_peer bind =
     typed_parse bind (rs_headers (remove_cluster_peer_responses (unmarshal_type cluster_action_response_model)))
       remove_cluster_peer_resp"

definition remove_cluster_peer_call ::
  "('w, bytes \<Rightarrow> bool option \<Rightarrow> 'w sending) client_method" where
  "remove_cluster_peer_call net sv ctx eds peer force =
     client_call net sv ctx eds (remove_cluster_peer_request peer force)"

definition remove_cluster_peer_with_response ::
  "('w, bytes \<Rightarrow> bool option \<Rightarrow> 'w receiving) client_method" where
  "remove_cluster_peer_with_response net sv ctx eds peer force =
     with_response net parse_remove_cluster_peer (remove_cluster_peer_call net sv ctx eds peer force)"

subsection \<open>ResyncClusterDatabase\<close>

definition parse_resync_cluster_database ::
  "(bytes \<Rightarrow> go_error + bytes) \<Rightarrow> http_resp \<Rightarrow> go_error + resp_value" where
  "parse_resync_cluster_database bind =
     typed_parse bind (rs_headers (resync_cluster_database_responses (unmarshal_type cluster_action_response_model)))
       resync_cluster_database_resp"

definition resync_cluster_database_call ::
  "('w, bytes \<Rightarrow> bytes option \<Rightarrow> 'w sending) client_method" where
  "resync_cluster_database_call net sv ctx eds database rid =
     client_call net sv ctx eds (resync_cluster_database_request database rid)"

definition resync_cluster_database_with_response ::
  "('w, bytes \<Rightarrow> bytes option \<Rightarrow> 'w receiving) client_method" where
  "resync_cluster_database_with_response net sv ctx eds database rid =
     with_response net parse_resync_cluster_database (resync_cluster_database_call net sv ctx eds database rid)"

subsection \<open>SeedClusterSecurityDocuments\<close>

definition parse_seed_cluster_security_documents ::
  "(bytes \<Rightarrow> go_error + bytes) \<Rightarrow> http_resp \<Rightarrow> go_error + resp_value" where
  "parse_seed_cluster_security_documents bind =
     typed_parse bind (rs_headers (seed_cluster_security_documents_responses (unmarshal_type
       security_seed_response_model) (\<lambda>b. unmarshal_type security_seed_response_model b \<noteq> None)))
       seed_cluster_security_documents_resp"

definition seed_cluster_security_documents_with_body ::
  "('w, bytes option \<Rightarrow> bytes \<Rightarrow> bytes \<Rightarrow> 'w sending) client_method" where
  "seed_cluster_security_documents_with_body net sv ctx eds rid ctype body =
     client_call net sv ctx eds (seed_cluster_security_documents_request rid ctype body)"

definition seed_cluster_security_documents_with_body_response ::
  "('w, bytes option \<Rightarrow> bytes \<Rightarrow> bytes \<Rightarrow> 'w receiving) client_method" where
  "seed_cluster_security_documents_with_body_response net sv ctx eds rid ctype body =
     with_response net parse_seed_cluster_security_documents (seed_cluster_security_documents_with_body net sv ctx
       eds rid ctype body)"

definition new_seed_cluster_security_documents_request ::
  "float_text \<Rightarrow> bytes option \<Rightarrow> gv \<Rightarrow> op_params option" where
  "new_seed_cluster_security_documents_request ft rid v =
     map_option (seed_cluster_security_documents_request rid ''application/json'') (marshal_type ft
       security_seed_request_model v)"

definition seed_cluster_security_documents_json ::
  "('w, float_text \<Rightarrow> bytes option \<Rightarrow> gv \<Rightarrow> 'w sending) client_method" where
  "seed_cluster_security_documents_json net sv ctx eds ft rid v =
     send_new net sv ctx eds (new_seed_cluster_security_documents_request ft rid v)"

definition seed_cluster_security_documents_json_response ::
  "('w, float_text \<Rightarrow> bytes option \<Rightarrow> gv \<Rightarrow> 'w receiving) client_method" where
  "seed_cluster_security_documents_json_response net sv ctx eds ft rid v =
     with_response net parse_seed_cluster_security_documents (seed_cluster_security_documents_json net sv ctx eds ft
       rid v)"

subsection \<open>StepDownClusterLeader\<close>

definition parse_step_down_cluster_leader ::
  "(bytes \<Rightarrow> go_error + bytes) \<Rightarrow> http_resp \<Rightarrow> go_error + resp_value" where
  "parse_step_down_cluster_leader bind =
     typed_parse bind (rs_headers (step_down_cluster_leader_responses (unmarshal_type
       cluster_action_response_model))) step_down_cluster_leader_resp"

definition step_down_cluster_leader_call :: "('w, bytes option \<Rightarrow> 'w sending) client_method" where
  "step_down_cluster_leader_call net sv ctx eds rid =
     client_call net sv ctx eds (step_down_cluster_leader_request rid)"

definition step_down_cluster_leader_with_response ::
  "('w, bytes option \<Rightarrow> 'w receiving) client_method" where
  "step_down_cluster_leader_with_response net sv ctx eds rid =
     with_response net parse_step_down_cluster_leader (step_down_cluster_leader_call net sv ctx eds rid)"

subsection \<open>VerifyClusterDatabase\<close>

definition parse_verify_cluster_database ::
  "(bytes \<Rightarrow> go_error + bytes) \<Rightarrow> http_resp \<Rightarrow> go_error + resp_value" where
  "parse_verify_cluster_database bind =
     typed_parse bind (rs_headers (verify_cluster_database_responses (unmarshal_type GTRaw)))
       verify_cluster_database_resp"

definition verify_cluster_database_call ::
  "('w, bytes \<Rightarrow> bytes option \<Rightarrow> 'w sending) client_method" where
  "verify_cluster_database_call net sv ctx eds database rid =
     client_call net sv ctx eds (verify_cluster_database_request database rid)"

definition verify_cluster_database_with_response ::
  "('w, bytes \<Rightarrow> bytes option \<Rightarrow> 'w receiving) client_method" where
  "verify_cluster_database_with_response net sv ctx eds database rid =
     with_response net parse_verify_cluster_database (verify_cluster_database_call net sv ctx eds database rid)"

subsection \<open>DownloadDatabaseSnapshot\<close>

definition parse_download_database_snapshot ::
  "(bytes \<Rightarrow> go_error + bytes) \<Rightarrow> http_resp \<Rightarrow> go_error + resp_value" where
  "parse_download_database_snapshot bind =
     typed_parse bind (rs_headers (untyped download_database_snapshot_responses)) download_database_snapshot_resp"

definition download_database_snapshot_call :: "('w, bytes \<Rightarrow> 'w sending) client_method" where
  "download_database_snapshot_call net sv ctx eds database =
     client_call net sv ctx eds (download_database_snapshot_request database)"

definition download_database_snapshot_with_response :: "('w, bytes \<Rightarrow> 'w receiving) client_method" where
  "download_database_snapshot_with_response net sv ctx eds database =
     with_response net parse_download_database_snapshot (download_database_snapshot_call net sv ctx eds database)"

subsection \<open>GetDatabaseSnapshotChecksums\<close>

definition parse_get_database_snapshot_checksums ::
  "(bytes \<Rightarrow> go_error + bytes) \<Rightarrow> http_resp \<Rightarrow> go_error + resp_value" where
  "parse_get_database_snapshot_checksums bind =
     typed_parse bind (rs_headers (get_database_snapshot_checksums_responses (unmarshal_type
       get_database_snapshot_checksums200_json_response_body_model))) get_database_snapshot_checksums_resp"

definition get_database_snapshot_checksums_call :: "('w, bytes \<Rightarrow> 'w sending) client_method" where
  "get_database_snapshot_checksums_call net sv ctx eds database =
     client_call net sv ctx eds (get_database_snapshot_checksums_request database)"

definition get_database_snapshot_checksums_with_response ::
  "('w, bytes \<Rightarrow> 'w receiving) client_method" where
  "get_database_snapshot_checksums_with_response net sv ctx eds database =
     with_response net parse_get_database_snapshot_checksums (get_database_snapshot_checksums_call net sv ctx eds
       database)"

end
