(* ===== verification/Client_Server.thy ===== *)
theory Client_Server
  imports Client_Methods
begin

text \<open>
  The methods of \<open>Client\<close> and \<open>ClientWithResponses\<close> for the server, its users, groups, sessions and tokens:
  a parser, a call with any body and one with a model as its body, each with and without parsing the
  response.
\<close>

subsection \<open>ListDatabases\<close>

definition parse_list_databases ::
  "(bytes \<Rightarrow> go_error + bytes) \<Rightarrow> http_resp \<Rightarrow> go_error + resp_value" where
  "parse_list_databases bind =
     typed_parse bind (rs_headers (list_databases_responses (unmarshal_type database_list_model)))
       list_databases_resp"

definition list_databases_call :: "('w, 'w sending) client_method" where
  "list_databases_call net sv ctx eds = client_call net sv ctx eds list_databases_request"

definition list_databases_with_response :: "('w, 'w receiving) client_method" where
  "list_databases_with_response net sv ctx eds =
     with_response net parse_list_databases (list_databases_call net sv ctx eds)"

subsection \<open>CheckDatabaseExists\<close>

definition parse_check_database_exists ::
  "(bytes \<Rightarrow> go_error + bytes) \<Rightarrow> http_resp \<Rightarrow> go_error + resp_value" where
  "parse_check_database_exists bind =
     typed_parse bind (rs_headers (check_database_exists_responses (unmarshal_type database_exists_model)))
       check_database_exists_resp"

definition check_database_exists_call :: "('w, bytes \<Rightarrow> 'w sending) client_method" where
  "check_database_exists_call net sv ctx eds database =
     client_call net sv ctx eds (check_database_exists_request database)"

definition check_database_exists_with_response :: "('w, bytes \<Rightarrow> 'w receiving) client_method" where
  "check_database_exists_with_response net sv ctx eds database =
     with_response net parse_check_database_exists (check_database_exists_call net sv ctx eds database)"

subsection \<open>CheckHealth\<close>

definition parse_check_health ::
  "(bytes \<Rightarrow> go_error + bytes) \<Rightarrow> http_resp \<Rightarrow> go_error + resp_value" where
  "parse_check_health bind = typed_parse bind (rs_headers (untyped check_health_responses)) check_health_resp"

definition check_health_call :: "('w, 'w sending) client_method" where
  "check_health_call net sv ctx eds = client_call net sv ctx eds check_health_request"

definition check_health_with_response :: "('w, 'w receiving) client_method" where
  "check_health_with_response net sv ctx eds =
     with_response net parse_check_health (check_health_call net sv ctx eds)"

subsection \<open>CheckHealthHead\<close>

definition parse_check_health_head ::
  "(bytes \<Rightarrow> go_error + bytes) \<Rightarrow> http_resp \<Rightarrow> go_error + resp_value" where
  "parse_check_health_head bind =
     typed_parse bind (rs_headers (untyped check_health_head_responses)) check_health_head_resp"

definition check_health_head_call :: "('w, 'w sending) client_method" where
  "check_health_head_call net sv ctx eds = client_call net sv ctx eds check_health_head_request"

definition check_health_head_with_response :: "('w, 'w receiving) client_method" where
  "check_health_head_with_response net sv ctx eds =
     with_response net parse_check_health_head (check_health_head_call net sv ctx eds)"

subsection \<open>Login\<close>

definition parse_login ::
  "(bytes \<Rightarrow> go_error + bytes) \<Rightarrow> http_resp \<Rightarrow> go_error + resp_value" where
  "parse_login bind =
     typed_parse bind (rs_headers (login_responses (unmarshal_type login_response_model))) login_resp"

definition login_call :: "('w, bytes option \<Rightarrow> 'w sending) client_method" where
  "login_call net sv ctx eds rid = client_call net sv ctx eds (login_request rid)"

definition login_with_response :: "('w, bytes option \<Rightarrow> 'w receiving) client_method" where
  "login_with_response net sv ctx eds rid = with_response net parse_login (login_call net sv ctx eds rid)"

subsection \<open>Logout\<close>

definition parse_logout ::
  "(bytes \<Rightarrow> go_error + bytes) \<Rightarrow> http_resp \<Rightarrow> go_error + resp_value" where
  "parse_logout bind = typed_parse bind (rs_headers (untyped logout_responses)) logout_resp"

definition logout_call :: "('w, bytes option \<Rightarrow> 'w sending) client_method" where
  "logout_call net sv ctx eds rid = client_call net sv ctx eds (logout_request rid)"

definition logout_with_response :: "('w, bytes option \<Rightarrow> 'w receiving) client_method" where
  "logout_with_response net sv ctx eds rid = with_response net parse_logout (logout_call net sv ctx eds rid)"

subsection \<open>CheckReady\<close>

definition parse_check_ready ::
  "(bytes \<Rightarrow> go_error + bytes) \<Rightarrow> http_resp \<Rightarrow> go_error + resp_value" where
  "parse_check_ready bind = typed_parse bind (rs_headers (untyped check_ready_responses)) check_ready_resp"

definition check_ready_call :: "('w, 'w sending) client_method" where
  "check_ready_call net sv ctx eds = client_call net sv ctx eds check_ready_request"

definition check_ready_with_response :: "('w, 'w receiving) client_method" where
  "check_ready_with_response net sv ctx eds = with_response net parse_check_ready (check_ready_call net sv ctx eds)"

subsection \<open>CheckReadyHead\<close>

definition parse_check_ready_head ::
  "(bytes \<Rightarrow> go_error + bytes) \<Rightarrow> http_resp \<Rightarrow> go_error + resp_value" where
  "parse_check_ready_head bind =
     typed_parse bind (rs_headers (untyped check_ready_head_responses)) check_ready_head_resp"

definition check_ready_head_call :: "('w, 'w sending) client_method" where
  "check_ready_head_call net sv ctx eds = client_call net sv ctx eds check_ready_head_request"

definition check_ready_head_with_response :: "('w, 'w receiving) client_method" where
  "check_ready_head_with_response net sv ctx eds =
     with_response net parse_check_ready_head (check_ready_head_call net sv ctx eds)"

subsection \<open>GetServerInfo\<close>

definition parse_get_server_info ::
  "(bytes \<Rightarrow> go_error + bytes) \<Rightarrow> http_resp \<Rightarrow> go_error + resp_value" where
  "parse_get_server_info bind =
     typed_parse bind (rs_headers (get_server_info_responses (unmarshal_type server_info_model)))
       get_server_info_resp"

definition get_server_info_call :: "('w, bytes option \<Rightarrow> 'w sending) client_method" where
  "get_server_info_call net sv ctx eds mode = client_call net sv ctx eds (get_server_info_request mode)"

definition get_server_info_with_response :: "('w, bytes option \<Rightarrow> 'w receiving) client_method" where
  "get_server_info_with_response net sv ctx eds mode =
     with_response net parse_get_server_info (get_server_info_call net sv ctx eds mode)"

subsection \<open>ExecuteServerCommand\<close>

definition parse_execute_server_command ::
  "(bytes \<Rightarrow> go_error + bytes) \<Rightarrow> http_resp \<Rightarrow> go_error + resp_value" where
  "parse_execute_server_command bind =
     typed_parse bind (rs_headers (execute_server_command_responses (unmarshal_type server_command_response_model)))
       execute_server_command_resp"

definition execute_server_command_with_body ::
  "('w, bytes option \<Rightarrow> bytes \<Rightarrow> bytes \<Rightarrow> 'w sending) client_method" where
  "execute_server_command_with_body net sv ctx eds rid ctype body =
     client_call net sv ctx eds (execute_server_command_request rid ctype body)"

definition execute_server_command_with_body_response ::
  "('w, bytes option \<Rightarrow> bytes \<Rightarrow> bytes \<Rightarrow> 'w receiving) client_method" where
  "execute_server_command_with_body_response net sv ctx eds rid ctype body =
     with_response net parse_execute_server_command (execute_server_command_with_body net sv ctx eds rid ctype body)"

definition new_execute_server_command_request ::
  "float_text \<Rightarrow> bytes option \<Rightarrow> gv \<Rightarrow> op_params option" where
  "new_execute_server_command_request ft rid v =
     map_option (execute_server_command_request rid ''application/json'') (marshal_type ft command_request_model v)"

definition execute_server_command_json ::
  "('w, float_text \<Rightarrow> bytes option \<Rightarrow> gv \<Rightarrow> 'w sending) client_method" where
  "execute_server_command_json net sv ctx eds ft rid v =
     send_new net sv ctx eds (new_execute_server_command_request ft rid v)"

definition execute_server_command_json_response ::
  "('w, float_text \<Rightarrow> bytes option \<Rightarrow> gv \<Rightarrow> 'w receiving) client_method" where
  "execute_server_command_json_response net sv ctx eds ft rid v =
     with_response net parse_execute_server_command (execute_server_command_json net sv ctx eds ft rid v)"

subsection \<open>DeleteApiToken\<close>

definition parse_delete_api_token ::
  "(bytes \<Rightarrow> go_error + bytes) \<Rightarrow> http_resp \<Rightarrow> go_error + resp_value" where
  "parse_delete_api_token bind =
     typed_parse bind (rs_headers (delete_api_token_responses (unmarshal_type security_admin_result_model)))
       delete_api_token_resp"

definition delete_api_token_call :: "('w, bytes \<Rightarrow> 'w sending) client_method" where
  "delete_api_token_call net sv ctx eds token = client_call net sv ctx eds (delete_api_token_request token)"

definition delete_api_token_with_response :: "('w, bytes \<Rightarrow> 'w receiving) client_method" where
  "delete_api_token_with_response net sv ctx eds token =
     with_response net parse_delete_api_token (delete_api_token_call net sv ctx eds token)"

subsection \<open>ListApiTokens\<close>

definition parse_list_api_tokens ::
  "(bytes \<Rightarrow> go_error + bytes) \<Rightarrow> http_resp \<Rightarrow> go_error + resp_value" where
  "parse_list_api_tokens bind =
     typed_parse bind (rs_headers (list_api_tokens_responses (unmarshal_type api_token_list_model)))
       list_api_tokens_resp"

definition list_api_tokens_call :: "('w, 'w sending) client_method" where
  "list_api_tokens_call net sv ctx eds = client_call net sv ctx eds list_api_tokens_request"

definition list_api_tokens_with_response :: "('w, 'w receiving) client_method" where
  "list_api_tokens_with_response net sv ctx eds =
     with_response net parse_list_api_tokens (list_api_tokens_call net sv ctx eds)"

subsection \<open>CreateApiToken\<close>

definition parse_create_api_token ::
  "(bytes \<Rightarrow> go_error + bytes) \<Rightarrow> http_resp \<Rightarrow> go_error + resp_value" where
  "parse_create_api_token bind =
     typed_parse bind (rs_headers (create_api_token_responses (unmarshal_type create_api_token_response_model)))
       create_api_token_resp"

definition create_api_token_with_body ::
  "('w, bytes option \<Rightarrow> bytes \<Rightarrow> bytes \<Rightarrow> 'w sending) client_method" where
  "create_api_token_with_body net sv ctx eds rid ctype body =
     client_call net sv ctx eds (create_api_token_request rid ctype body)"

definition create_api_token_with_body_response ::
  "('w, bytes option \<Rightarrow> bytes \<Rightarrow> bytes \<Rightarrow> 'w receiving) client_method" where
  "create_api_token_with_body_response net sv ctx eds rid ctype body =
     with_response net parse_create_api_token (create_api_token_with_body net sv ctx eds rid ctype body)"

definition new_create_api_token_request ::
  "float_text \<Rightarrow> bytes option \<Rightarrow> gv \<Rightarrow> op_params option" where
  "new_create_api_token_request ft rid v =
     map_option (create_api_token_request rid ''application/json'') (marshal_type ft create_api_token_request_model
       v)"

definition create_api_token_json ::
  "('w, float_text \<Rightarrow> bytes option \<Rightarrow> gv \<Rightarrow> 'w sending) client_method" where
  "create_api_token_json net sv ctx eds ft rid v = send_new net sv ctx eds (new_create_api_token_request ft rid v)"

definition create_api_token_json_response ::
  "('w, float_text \<Rightarrow> bytes option \<Rightarrow> gv \<Rightarrow> 'w receiving) client_method" where
  "create_api_token_json_response net sv ctx eds ft rid v =
     with_response net parse_create_api_token (create_api_token_json net sv ctx eds ft rid v)"

subsection \<open>DeleteGroup\<close>

definition parse_delete_group ::
  "(bytes \<Rightarrow> go_error + bytes) \<Rightarrow> http_resp \<Rightarrow> go_error + resp_value" where
  "parse_delete_group bind =
     typed_parse bind (rs_headers (delete_group_responses (unmarshal_type security_admin_result_model)))
       delete_group_resp"

definition delete_group_call :: "('w, bytes \<Rightarrow> bytes \<Rightarrow> 'w sending) client_method" where
  "delete_group_call net sv ctx eds database nm = client_call net sv ctx eds (delete_group_request database nm)"

definition delete_group_with_response ::
  "('w, bytes \<Rightarrow> bytes \<Rightarrow> 'w receiving) client_method" where
  "delete_group_with_response net sv ctx eds database nm =
     with_response net parse_delete_group (delete_group_call net sv ctx eds database nm)"

subsection \<open>ListGroups\<close>

definition parse_list_groups ::
  "(bytes \<Rightarrow> go_error + bytes) \<Rightarrow> http_resp \<Rightarrow> go_error + resp_value" where
  "parse_list_groups bind =
     typed_parse bind (rs_headers (list_groups_responses (unmarshal_type group_list_model))) list_groups_resp"

definition list_groups_call :: "('w, 'w sending) client_method" where
  "list_groups_call net sv ctx eds = client_call net sv ctx eds list_groups_request"

definition list_groups_with_response :: "('w, 'w receiving) client_method" where
  "list_groups_with_response net sv ctx eds = with_response net parse_list_groups (list_groups_call net sv ctx eds)"

subsection \<open>CreateOrUpdateGroup\<close>

definition parse_create_or_update_group ::
  "(bytes \<Rightarrow> go_error + bytes) \<Rightarrow> http_resp \<Rightarrow> go_error + resp_value" where
  "parse_create_or_update_group bind =
     typed_parse bind (rs_headers (create_or_update_group_responses (unmarshal_type security_admin_result_model)))
       create_or_update_group_resp"

definition create_or_update_group_with_body ::
  "('w, bytes option \<Rightarrow> bytes \<Rightarrow> bytes \<Rightarrow> 'w sending) client_method" where
  "create_or_update_group_with_body net sv ctx eds rid ctype body =
     client_call net sv ctx eds (create_or_update_group_request rid ctype body)"

definition create_or_update_group_with_body_response ::
  "('w, bytes option \<Rightarrow> bytes \<Rightarrow> bytes \<Rightarrow> 'w receiving) client_method" where
  "create_or_update_group_with_body_response net sv ctx eds rid ctype body =
     with_response net parse_create_or_update_group (create_or_update_group_with_body net sv ctx eds rid ctype body)"

definition new_create_or_update_group_request ::
  "float_text \<Rightarrow> bytes option \<Rightarrow> gv \<Rightarrow> op_params option" where
  "new_create_or_update_group_request ft rid v =
     map_option (create_or_update_group_request rid ''application/json'') (marshal_type ft save_group_request_model
       v)"

definition create_or_update_group_json ::
  "('w, float_text \<Rightarrow> bytes option \<Rightarrow> gv \<Rightarrow> 'w sending) client_method" where
  "create_or_update_group_json net sv ctx eds ft rid v =
     send_new net sv ctx eds (new_create_or_update_group_request ft rid v)"

definition create_or_update_group_json_response ::
  "('w, float_text \<Rightarrow> bytes option \<Rightarrow> gv \<Rightarrow> 'w receiving) client_method" where
  "create_or_update_group_json_response net sv ctx eds ft rid v =
     with_response net parse_create_or_update_group (create_or_update_group_json net sv ctx eds ft rid v)"

subsection \<open>DeleteUser\<close>

definition parse_delete_user ::
  "(bytes \<Rightarrow> go_error + bytes) \<Rightarrow> http_resp \<Rightarrow> go_error + resp_value" where
  "parse_delete_user bind =
     typed_parse bind (rs_headers (delete_user_responses (unmarshal_type security_admin_result_model)))
       delete_user_resp"

definition delete_user_call :: "('w, bytes \<Rightarrow> 'w sending) client_method" where
  "delete_user_call net sv ctx eds nm = client_call net sv ctx eds (delete_user_request nm)"

definition delete_user_with_response :: "('w, bytes \<Rightarrow> 'w receiving) client_method" where
  "delete_user_with_response net sv ctx eds nm =
     with_response net parse_delete_user (delete_user_call net sv ctx eds nm)"

subsection \<open>ListUsers\<close>

definition parse_list_users ::
  "(bytes \<Rightarrow> go_error + bytes) \<Rightarrow> http_resp \<Rightarrow> go_error + resp_value" where
  "parse_list_users bind =
     typed_parse bind (rs_headers (list_users_responses (unmarshal_type user_list_model))) list_users_resp"

definition list_users_call :: "('w, 'w sending) client_method" where
  "list_users_call net sv ctx eds = client_call net sv ctx eds list_users_request"

definition list_users_with_response :: "('w, 'w receiving) client_method" where
  "list_users_with_response net sv ctx eds = with_response net parse_list_users (list_users_call net sv ctx eds)"

subsection \<open>CreateUser\<close>

definition parse_create_user ::
  "(bytes \<Rightarrow> go_error + bytes) \<Rightarrow> http_resp \<Rightarrow> go_error + resp_value" where
  "parse_create_user bind =
     typed_parse bind (rs_headers (create_user_responses (unmarshal_type security_admin_result_model)))
       create_user_resp"

definition create_user_with_body ::
  "('w, bytes option \<Rightarrow> bytes \<Rightarrow> bytes \<Rightarrow> 'w sending) client_method" where
  "create_user_with_body net sv ctx eds rid ctype body =
     client_call net sv ctx eds (create_user_request rid ctype body)"

definition create_user_with_body_response ::
  "('w, bytes option \<Rightarrow> bytes \<Rightarrow> bytes \<Rightarrow> 'w receiving) client_method" where
  "create_user_with_body_response net sv ctx eds rid ctype body =
     with_response net parse_create_user (create_user_with_body net sv ctx eds rid ctype body)"

definition new_create_user_request ::
  "float_text \<Rightarrow> bytes option \<Rightarrow> gv \<Rightarrow> op_params option" where
  "new_create_user_request ft rid v =
     map_option (create_user_request rid ''application/json'') (marshal_type ft create_user_request_model v)"

definition create_user_json ::
  "('w, float_text \<Rightarrow> bytes option \<Rightarrow> gv \<Rightarrow> 'w sending) client_method" where
  "create_user_json net sv ctx eds ft rid v = send_new net sv ctx eds (new_create_user_request ft rid v)"

definition create_user_json_response ::
  "('w, float_text \<Rightarrow> bytes option \<Rightarrow> gv \<Rightarrow> 'w receiving) client_method" where
  "create_user_json_response net sv ctx eds ft rid v =
     with_response net parse_create_user (create_user_json net sv ctx eds ft rid v)"

subsection \<open>UpdateUser\<close>

definition parse_update_user ::
  "(bytes \<Rightarrow> go_error + bytes) \<Rightarrow> http_resp \<Rightarrow> go_error + resp_value" where
  "parse_update_user bind =
     typed_parse bind (rs_headers (update_user_responses (unmarshal_type security_admin_result_model)))
       update_user_resp"

definition update_user_with_body ::
  "('w, bytes \<Rightarrow> bytes \<Rightarrow> bytes \<Rightarrow> 'w sending) client_method" where
  "update_user_with_body net sv ctx eds nm ctype body =
     client_call net sv ctx eds (update_user_request nm ctype body)"

definition update_user_with_body_response ::
  "('w, bytes \<Rightarrow> bytes \<Rightarrow> bytes \<Rightarrow> 'w receiving) client_method" where
  "update_user_with_body_response net sv ctx eds nm ctype body =
     with_response net parse_update_user (update_user_with_body net sv ctx eds nm ctype body)"

definition new_update_user_request ::
  "float_text \<Rightarrow> bytes \<Rightarrow> gv \<Rightarrow> op_params option" where
  "new_update_user_request ft nm v =
     map_option (update_user_request nm ''application/json'') (marshal_type ft update_user_request_model v)"

definition update_user_json ::
  "('w, float_text \<Rightarrow> bytes \<Rightarrow> gv \<Rightarrow> 'w sending) client_method" where
  "update_user_json net sv ctx eds ft nm v = send_new net sv ctx eds (new_update_user_request ft nm v)"

definition update_user_json_response ::
  "('w, float_text \<Rightarrow> bytes \<Rightarrow> gv \<Rightarrow> 'w receiving) client_method" where
  "update_user_json_response net sv ctx eds ft nm v =
     with_response net parse_update_user (update_user_json net sv ctx eds ft nm v)"

subsection \<open>ListSessions\<close>

definition parse_list_sessions ::
  "(bytes \<Rightarrow> go_error + bytes) \<Rightarrow> http_resp \<Rightarrow> go_error + resp_value" where
  "parse_list_sessions bind =
     typed_parse bind (rs_headers (list_sessions_responses (unmarshal_type session_list_model))) list_sessions_resp"

definition list_sessions_call :: "('w, 'w sending) client_method" where
  "list_sessions_call net sv ctx eds = client_call net sv ctx eds list_sessions_request"

definition list_sessions_with_response :: "('w, 'w receiving) client_method" where
  "list_sessions_with_response net sv ctx eds =
     with_response net parse_list_sessions (list_sessions_call net sv ctx eds)"

subsection \<open>CheckGrafanaHealth\<close>

definition parse_check_grafana_health ::
  "(bytes \<Rightarrow> go_error + bytes) \<Rightarrow> http_resp \<Rightarrow> go_error + resp_value" where
  "parse_check_grafana_health bind =
     typed_parse bind (rs_headers (check_grafana_health_responses (unmarshal_type grafana_health_model)))
       check_grafana_health_resp"

definition check_grafana_health_call ::
  "('w, bytes \<Rightarrow> bytes option \<Rightarrow> 'w sending) client_method" where
  "check_grafana_health_call net sv ctx eds database sid =
     client_call net sv ctx eds (check_grafana_health_request database sid)"

definition check_grafana_health_with_response ::
  "('w, bytes \<Rightarrow> bytes option \<Rightarrow> 'w receiving) client_method" where
  "check_grafana_health_with_response net sv ctx eds database sid =
     with_response net parse_check_grafana_health (check_grafana_health_call net sv ctx eds database sid)"

subsection \<open>PrometheusRemoteRead\<close>

definition parse_prometheus_remote_read ::
  "(bytes \<Rightarrow> go_error + bytes) \<Rightarrow> http_resp \<Rightarrow> go_error + resp_value" where
  "parse_prometheus_remote_read bind =
     typed_parse bind (rs_headers (untyped prometheus_remote_read_responses)) prometheus_remote_read_resp"

definition prometheus_remote_read_with_body ::
  "('w, bytes \<Rightarrow> bytes option \<Rightarrow> bytes option \<Rightarrow> bytes \<Rightarrow> bytes
     \<Rightarrow> 'w sending) client_method" where
  "prometheus_remote_read_with_body net sv ctx eds database sid rid ctype body =
     client_call net sv ctx eds (prometheus_remote_read_request database sid rid ctype body)"

definition prometheus_remote_read_with_body_response ::
  "('w, bytes \<Rightarrow> bytes option \<Rightarrow> bytes option \<Rightarrow> bytes \<Rightarrow> bytes
     \<Rightarrow> 'w receiving) client_method" where
  "prometheus_remote_read_with_body_response net sv ctx eds database sid rid ctype body =
     with_response net parse_prometheus_remote_read (prometheus_remote_read_with_body net sv ctx eds database sid rid
       ctype body)"

subsection \<open>PrometheusRemoteWrite\<close>

definition parse_prometheus_remote_write ::
  "(bytes \<Rightarrow> go_error + bytes) \<Rightarrow> http_resp \<Rightarrow> go_error + resp_value" where
  "parse_prometheus_remote_write bind =
     typed_parse bind (rs_headers (untyped prometheus_remote_write_responses)) prometheus_remote_write_resp"

definition prometheus_remote_write_with_body ::
  "('w, bytes \<Rightarrow> bytes option \<Rightarrow> bytes option \<Rightarrow> bytes \<Rightarrow> bytes
     \<Rightarrow> 'w sending) client_method" where
  "prometheus_remote_write_with_body net sv ctx eds database sid rid ctype body =
     client_call net sv ctx eds (prometheus_remote_write_request database sid rid ctype body)"

definition prometheus_remote_write_with_body_response ::
  "('w, bytes \<Rightarrow> bytes option \<Rightarrow> bytes option \<Rightarrow> bytes \<Rightarrow> bytes
     \<Rightarrow> 'w receiving) client_method" where
  "prometheus_remote_write_with_body_response net sv ctx eds database sid rid ctype body =
     with_response net parse_prometheus_remote_write (prometheus_remote_write_with_body net sv ctx eds database sid
       rid ctype body)"

subsection \<open>ScrapePrometheusMetrics\<close>

definition parse_scrape_prometheus_metrics ::
  "(bytes \<Rightarrow> go_error + bytes) \<Rightarrow> http_resp \<Rightarrow> go_error + resp_value" where
  "parse_scrape_prometheus_metrics bind =
     typed_parse bind (rs_headers (untyped scrape_prometheus_metrics_responses)) scrape_prometheus_metrics_resp"

definition scrape_prometheus_metrics_call :: "('w, 'w sending) client_method" where
  "scrape_prometheus_metrics_call net sv ctx eds = client_call net sv ctx eds scrape_prometheus_metrics_request"

definition scrape_prometheus_metrics_with_response :: "('w, 'w receiving) client_method" where
  "scrape_prometheus_metrics_with_response net sv ctx eds =
     with_response net parse_scrape_prometheus_metrics (scrape_prometheus_metrics_call net sv ctx eds)"

end
