(* ===== verification/Client_Data.thy ===== *)
theory Client_Data
  imports Client_Methods
begin

text \<open>
  The methods of \<open>Client\<close> and \<open>ClientWithResponses\<close> for statements, transactions, batches and the namespaces:
  a parser, a call with any body and one with a model as its body, each with and without parsing the
  response.
\<close>

subsection \<open>ExecuteBatch\<close>

definition parse_execute_batch ::
  "(bytes \<Rightarrow> go_error + bytes) \<Rightarrow> http_resp \<Rightarrow> go_error + resp_value" where
  "parse_execute_batch bind =
     typed_parse bind (rs_headers (execute_batch_responses (unmarshal_type batch_response_model) (\<lambda>b.
       unmarshal_type batch_error_model b \<noteq> None))) execute_batch_resp"

definition execute_batch_with_body ::
  "('w, bytes \<Rightarrow> batch_params \<Rightarrow> bytes \<Rightarrow> bytes \<Rightarrow> 'w sending)
     client_method" where
  "execute_batch_with_body net sv ctx eds database p ctype body =
     client_call net sv ctx eds (execute_batch_request database p ctype body)"

definition execute_batch_with_body_response ::
  "('w, bytes \<Rightarrow> batch_params \<Rightarrow> bytes \<Rightarrow> bytes \<Rightarrow> 'w receiving)
     client_method" where
  "execute_batch_with_body_response net sv ctx eds database p ctype body =
     with_response net parse_execute_batch (execute_batch_with_body net sv ctx eds database p ctype body)"

subsection \<open>BeginTransaction\<close>

definition parse_begin_transaction ::
  "(bytes \<Rightarrow> go_error + bytes) \<Rightarrow> http_resp \<Rightarrow> go_error + resp_value" where
  "parse_begin_transaction bind =
     typed_parse bind (rs_headers (untyped begin_transaction_responses)) begin_transaction_resp"

definition begin_transaction_with_body ::
  "('w, bytes \<Rightarrow> bytes option \<Rightarrow> bytes option \<Rightarrow> bytes option \<Rightarrow> bytes
     \<Rightarrow> bytes \<Rightarrow> 'w sending) client_method" where
  "begin_transaction_with_body net sv ctx eds database sid tag rid ctype body =
     client_call net sv ctx eds (begin_transaction_request database sid tag rid ctype body)"

definition begin_transaction_with_body_response ::
  "('w, bytes \<Rightarrow> bytes option \<Rightarrow> bytes option \<Rightarrow> bytes option \<Rightarrow> bytes
     \<Rightarrow> bytes \<Rightarrow> 'w receiving) client_method" where
  "begin_transaction_with_body_response net sv ctx eds database sid tag rid ctype body =
     with_response net parse_begin_transaction (begin_transaction_with_body net sv ctx eds database sid tag rid ctype
       body)"

definition new_begin_transaction_request ::
  "float_text \<Rightarrow> bytes \<Rightarrow> bytes option \<Rightarrow> bytes option \<Rightarrow> bytes option
     \<Rightarrow> gv \<Rightarrow> op_params option" where
  "new_begin_transaction_request ft database sid tag rid v =
     map_option (begin_transaction_request database sid tag rid ''application/json'') (marshal_type ft
       begin_request_model v)"

definition begin_transaction_json ::
  "('w, float_text \<Rightarrow> bytes \<Rightarrow> bytes option \<Rightarrow> bytes option \<Rightarrow> bytes
     option \<Rightarrow> gv \<Rightarrow> 'w sending) client_method" where
  "begin_transaction_json net sv ctx eds ft database sid tag rid v =
     send_new net sv ctx eds (new_begin_transaction_request ft database sid tag rid v)"

definition begin_transaction_json_response ::
  "('w, float_text \<Rightarrow> bytes \<Rightarrow> bytes option \<Rightarrow> bytes option \<Rightarrow> bytes
     option \<Rightarrow> gv \<Rightarrow> 'w receiving) client_method" where
  "begin_transaction_json_response net sv ctx eds ft database sid tag rid v =
     with_response net parse_begin_transaction (begin_transaction_json net sv ctx eds ft database sid tag rid v)"

subsection \<open>ExecuteCommand\<close>

definition parse_execute_command ::
  "(bytes \<Rightarrow> go_error + bytes) \<Rightarrow> http_resp \<Rightarrow> go_error + resp_value" where
  "parse_execute_command bind =
     typed_parse bind (rs_headers (execute_command_responses (unmarshal_type query_response_model)))
       execute_command_resp"

definition execute_command_with_body ::
  "('w, bytes \<Rightarrow> bytes option \<Rightarrow> bytes option \<Rightarrow> bytes option \<Rightarrow> bytes
     option \<Rightarrow> bytes \<Rightarrow> bytes \<Rightarrow> 'w sending) client_method" where
  "execute_command_with_body net sv ctx eds database sid tag accept rid ctype body =
     client_call net sv ctx eds (execute_command_request database sid tag accept rid ctype body)"

definition execute_command_with_body_response ::
  "('w, bytes \<Rightarrow> bytes option \<Rightarrow> bytes option \<Rightarrow> bytes option \<Rightarrow> bytes
     option \<Rightarrow> bytes \<Rightarrow> bytes \<Rightarrow> 'w receiving) client_method" where
  "execute_command_with_body_response net sv ctx eds database sid tag accept rid ctype body =
     with_response net parse_execute_command (execute_command_with_body net sv ctx eds database sid tag accept rid
       ctype body)"

definition new_execute_command_request ::
  "float_text \<Rightarrow> bytes \<Rightarrow> bytes option \<Rightarrow> bytes option \<Rightarrow> bytes option
     \<Rightarrow> bytes option \<Rightarrow> gv \<Rightarrow> op_params option" where
  "new_execute_command_request ft database sid tag accept rid v =
     map_option (execute_command_request database sid tag accept rid ''application/json'') (marshal_type ft
       command_request_model v)"

definition execute_command_json ::
  "('w, float_text \<Rightarrow> bytes \<Rightarrow> bytes option \<Rightarrow> bytes option \<Rightarrow> bytes
     option \<Rightarrow> bytes option \<Rightarrow> gv \<Rightarrow> 'w sending) client_method" where
  "execute_command_json net sv ctx eds ft database sid tag accept rid v =
     send_new net sv ctx eds (new_execute_command_request ft database sid tag accept rid v)"

definition execute_command_json_response ::
  "('w, float_text \<Rightarrow> bytes \<Rightarrow> bytes option \<Rightarrow> bytes option \<Rightarrow> bytes
     option \<Rightarrow> bytes option \<Rightarrow> gv \<Rightarrow> 'w receiving) client_method" where
  "execute_command_json_response net sv ctx eds ft database sid tag accept rid v =
     with_response net parse_execute_command (execute_command_json net sv ctx eds ft database sid tag accept rid v)"

subsection \<open>CommitTransaction\<close>

definition parse_commit_transaction ::
  "(bytes \<Rightarrow> go_error + bytes) \<Rightarrow> http_resp \<Rightarrow> go_error + resp_value" where
  "parse_commit_transaction bind =
     typed_parse bind (rs_headers (untyped commit_transaction_responses)) commit_transaction_resp"

definition commit_transaction_call ::
  "('w, bytes \<Rightarrow> bytes option \<Rightarrow> bytes option \<Rightarrow> 'w sending) client_method" where
  "commit_transaction_call net sv ctx eds database sid rid =
     client_call net sv ctx eds (commit_transaction_request database sid rid)"

definition commit_transaction_with_response ::
  "('w, bytes \<Rightarrow> bytes option \<Rightarrow> bytes option \<Rightarrow> 'w receiving) client_method" where
  "commit_transaction_with_response net sv ctx eds database sid rid =
     with_response net parse_commit_transaction (commit_transaction_call net sv ctx eds database sid rid)"

subsection \<open>GetOperationProgress\<close>

definition parse_get_operation_progress ::
  "(bytes \<Rightarrow> go_error + bytes) \<Rightarrow> http_resp \<Rightarrow> go_error + resp_value" where
  "parse_get_operation_progress bind =
     typed_parse bind (rs_headers (get_operation_progress_responses (unmarshal_type progress_response_model)))
       get_operation_progress_resp"

definition get_operation_progress_call :: "('w, bytes \<Rightarrow> 'w sending) client_method" where
  "get_operation_progress_call net sv ctx eds database =
     client_call net sv ctx eds (get_operation_progress_request database)"

definition get_operation_progress_with_response :: "('w, bytes \<Rightarrow> 'w receiving) client_method" where
  "get_operation_progress_with_response net sv ctx eds database =
     with_response net parse_get_operation_progress (get_operation_progress_call net sv ctx eds database)"

subsection \<open>ExecuteQueryPost\<close>

definition parse_execute_query ::
  "(bytes \<Rightarrow> go_error + bytes) \<Rightarrow> http_resp \<Rightarrow> go_error + resp_value" where
  "parse_execute_query bind =
     typed_parse bind (rs_headers (execute_query_responses (unmarshal_type query_response_model))) execute_query_resp"

definition execute_query_with_body ::
  "('w, bytes \<Rightarrow> bytes option \<Rightarrow> bytes option \<Rightarrow> bytes option \<Rightarrow> bytes
     option \<Rightarrow> bytes \<Rightarrow> bytes \<Rightarrow> 'w sending) client_method" where
  "execute_query_with_body net sv ctx eds database sid tag accept rid ctype body =
     client_call net sv ctx eds (execute_query_request database sid tag accept rid ctype body)"

definition execute_query_with_body_response ::
  "('w, bytes \<Rightarrow> bytes option \<Rightarrow> bytes option \<Rightarrow> bytes option \<Rightarrow> bytes
     option \<Rightarrow> bytes \<Rightarrow> bytes \<Rightarrow> 'w receiving) client_method" where
  "execute_query_with_body_response net sv ctx eds database sid tag accept rid ctype body =
     with_response net parse_execute_query (execute_query_with_body net sv ctx eds database sid tag accept rid ctype
       body)"

definition new_execute_query_request ::
  "float_text \<Rightarrow> bytes \<Rightarrow> bytes option \<Rightarrow> bytes option \<Rightarrow> bytes option
     \<Rightarrow> bytes option \<Rightarrow> gv \<Rightarrow> op_params option" where
  "new_execute_query_request ft database sid tag accept rid v =
     map_option (execute_query_request database sid tag accept rid ''application/json'') (marshal_type ft
       query_request_model v)"

definition execute_query_json ::
  "('w, float_text \<Rightarrow> bytes \<Rightarrow> bytes option \<Rightarrow> bytes option \<Rightarrow> bytes
     option \<Rightarrow> bytes option \<Rightarrow> gv \<Rightarrow> 'w sending) client_method" where
  "execute_query_json net sv ctx eds ft database sid tag accept rid v =
     send_new net sv ctx eds (new_execute_query_request ft database sid tag accept rid v)"

definition execute_query_json_response ::
  "('w, float_text \<Rightarrow> bytes \<Rightarrow> bytes option \<Rightarrow> bytes option \<Rightarrow> bytes
     option \<Rightarrow> bytes option \<Rightarrow> gv \<Rightarrow> 'w receiving) client_method" where
  "execute_query_json_response net sv ctx eds ft database sid tag accept rid v =
     with_response net parse_execute_query (execute_query_json net sv ctx eds ft database sid tag accept rid v)"

subsection \<open>ExecuteQueryGet\<close>

definition parse_execute_query_get ::
  "(bytes \<Rightarrow> go_error + bytes) \<Rightarrow> http_resp \<Rightarrow> go_error + resp_value" where
  "parse_execute_query_get bind =
     typed_parse bind (rs_headers (execute_query_get_responses (unmarshal_type query_response_model)))
       execute_query_get_resp"

definition execute_query_get_call ::
  "('w, bytes \<Rightarrow> bytes \<Rightarrow> bytes \<Rightarrow> bytes option \<Rightarrow> bytes option
     \<Rightarrow> bytes option \<Rightarrow> 'w sending) client_method" where
  "execute_query_get_call net sv ctx eds database language statement sid tag accept =
     client_call net sv ctx eds (execute_query_get_request database language statement sid tag accept)"

definition execute_query_get_with_response ::
  "('w, bytes \<Rightarrow> bytes \<Rightarrow> bytes \<Rightarrow> bytes option \<Rightarrow> bytes option
     \<Rightarrow> bytes option \<Rightarrow> 'w receiving) client_method" where
  "execute_query_get_with_response net sv ctx eds database language statement sid tag accept =
     with_response net parse_execute_query_get (execute_query_get_call net sv ctx eds database language statement sid
       tag accept)"

subsection \<open>RollbackTransaction\<close>

definition parse_rollback_transaction ::
  "(bytes \<Rightarrow> go_error + bytes) \<Rightarrow> http_resp \<Rightarrow> go_error + resp_value" where
  "parse_rollback_transaction bind =
     typed_parse bind (rs_headers (untyped rollback_transaction_responses)) rollback_transaction_resp"

definition rollback_transaction_call ::
  "('w, bytes \<Rightarrow> bytes option \<Rightarrow> bytes option \<Rightarrow> 'w sending) client_method" where
  "rollback_transaction_call net sv ctx eds database sid rid =
     client_call net sv ctx eds (rollback_transaction_request database sid rid)"

definition rollback_transaction_with_response ::
  "('w, bytes \<Rightarrow> bytes option \<Rightarrow> bytes option \<Rightarrow> 'w receiving) client_method" where
  "rollback_transaction_with_response net sv ctx eds database sid rid =
     with_response net parse_rollback_transaction (rollback_transaction_call net sv ctx eds database sid rid)"

subsection \<open>GetGrafanaMetadata\<close>

definition parse_get_grafana_metadata ::
  "(bytes \<Rightarrow> go_error + bytes) \<Rightarrow> http_resp \<Rightarrow> go_error + resp_value" where
  "parse_get_grafana_metadata bind =
     typed_parse bind (rs_headers (get_grafana_metadata_responses (unmarshal_type grafana_metadata_model)))
       get_grafana_metadata_resp"

definition get_grafana_metadata_call ::
  "('w, bytes \<Rightarrow> bytes option \<Rightarrow> 'w sending) client_method" where
  "get_grafana_metadata_call net sv ctx eds database sid =
     client_call net sv ctx eds (get_grafana_metadata_request database sid)"

definition get_grafana_metadata_with_response ::
  "('w, bytes \<Rightarrow> bytes option \<Rightarrow> 'w receiving) client_method" where
  "get_grafana_metadata_with_response net sv ctx eds database sid =
     with_response net parse_get_grafana_metadata (get_grafana_metadata_call net sv ctx eds database sid)"

subsection \<open>QueryGrafana\<close>

definition parse_query_grafana ::
  "(bytes \<Rightarrow> go_error + bytes) \<Rightarrow> http_resp \<Rightarrow> go_error + resp_value" where
  "parse_query_grafana bind =
     typed_parse bind (rs_headers (query_grafana_responses (unmarshal_type grafana_query_response_model)))
       query_grafana_resp"

definition query_grafana_with_body ::
  "('w, bytes \<Rightarrow> bytes option \<Rightarrow> bytes option \<Rightarrow> bytes \<Rightarrow> bytes
     \<Rightarrow> 'w sending) client_method" where
  "query_grafana_with_body net sv ctx eds database sid rid ctype body =
     client_call net sv ctx eds (query_grafana_request database sid rid ctype body)"

definition query_grafana_with_body_response ::
  "('w, bytes \<Rightarrow> bytes option \<Rightarrow> bytes option \<Rightarrow> bytes \<Rightarrow> bytes
     \<Rightarrow> 'w receiving) client_method" where
  "query_grafana_with_body_response net sv ctx eds database sid rid ctype body =
     with_response net parse_query_grafana (query_grafana_with_body net sv ctx eds database sid rid ctype body)"

definition new_query_grafana_request ::
  "float_text \<Rightarrow> bytes \<Rightarrow> bytes option \<Rightarrow> bytes option \<Rightarrow> gv
     \<Rightarrow> op_params option" where
  "new_query_grafana_request ft database sid rid v =
     map_option (query_grafana_request database sid rid ''application/json'') (marshal_type ft
       grafana_query_request_model v)"

definition query_grafana_json ::
  "('w, float_text \<Rightarrow> bytes \<Rightarrow> bytes option \<Rightarrow> bytes option \<Rightarrow> gv
     \<Rightarrow> 'w sending) client_method" where
  "query_grafana_json net sv ctx eds ft database sid rid v =
     send_new net sv ctx eds (new_query_grafana_request ft database sid rid v)"

definition query_grafana_json_response ::
  "('w, float_text \<Rightarrow> bytes \<Rightarrow> bytes option \<Rightarrow> bytes option \<Rightarrow> gv
     \<Rightarrow> 'w receiving) client_method" where
  "query_grafana_json_response net sv ctx eds ft database sid rid v =
     with_response net parse_query_grafana (query_grafana_json net sv ctx eds ft database sid rid v)"

subsection \<open>GetTimeSeriesLatest\<close>

definition parse_get_time_series_latest ::
  "(bytes \<Rightarrow> go_error + bytes) \<Rightarrow> http_resp \<Rightarrow> go_error + resp_value" where
  "parse_get_time_series_latest bind =
     typed_parse bind (rs_headers (get_time_series_latest_responses (unmarshal_type
       time_series_latest_response_model))) get_time_series_latest_resp"

definition get_time_series_latest_call ::
  "('w, bytes \<Rightarrow> bytes \<Rightarrow> bytes list \<Rightarrow> bytes option \<Rightarrow> 'w sending)
     client_method" where
  "get_time_series_latest_call net sv ctx eds database typ tag sid =
     client_call net sv ctx eds (get_time_series_latest_request database typ tag sid)"

definition get_time_series_latest_with_response ::
  "('w, bytes \<Rightarrow> bytes \<Rightarrow> bytes list \<Rightarrow> bytes option \<Rightarrow> 'w receiving)
     client_method" where
  "get_time_series_latest_with_response net sv ctx eds database typ tag sid =
     with_response net parse_get_time_series_latest (get_time_series_latest_call net sv ctx eds database typ tag sid)"

subsection \<open>PromQLLabelValues\<close>

definition parse_promql_label_values ::
  "(bytes \<Rightarrow> go_error + bytes) \<Rightarrow> http_resp \<Rightarrow> go_error + resp_value" where
  "parse_promql_label_values bind =
     typed_parse bind (rs_headers (promql_label_values_responses (unmarshal_type promql_labels_response_model)))
       promql_label_values_resp"

definition promql_label_values_call ::
  "('w, bytes \<Rightarrow> bytes \<Rightarrow> bytes option \<Rightarrow> bytes option \<Rightarrow> bytes option
     \<Rightarrow> 'w sending) client_method" where
  "promql_label_values_call net sv ctx eds database label from til sid =
     client_call net sv ctx eds (promql_label_values_request database label from til sid)"

definition promql_label_values_with_response ::
  "('w, bytes \<Rightarrow> bytes \<Rightarrow> bytes option \<Rightarrow> bytes option \<Rightarrow> bytes option
     \<Rightarrow> 'w receiving) client_method" where
  "promql_label_values_with_response net sv ctx eds database label from til sid =
     with_response net parse_promql_label_values (promql_label_values_call net sv ctx eds database label from til
       sid)"

subsection \<open>PromQLLabels\<close>

definition parse_promql_labels ::
  "(bytes \<Rightarrow> go_error + bytes) \<Rightarrow> http_resp \<Rightarrow> go_error + resp_value" where
  "parse_promql_labels bind =
     typed_parse bind (rs_headers (promql_labels_responses (unmarshal_type promql_labels_response_model)))
       promql_labels_resp"

definition promql_labels_call ::
  "('w, bytes \<Rightarrow> bytes option \<Rightarrow> 'w sending) client_method" where
  "promql_labels_call net sv ctx eds database sid = client_call net sv ctx eds (promql_labels_request database sid)"

definition promql_labels_with_response ::
  "('w, bytes \<Rightarrow> bytes option \<Rightarrow> 'w receiving) client_method" where
  "promql_labels_with_response net sv ctx eds database sid =
     with_response net parse_promql_labels (promql_labels_call net sv ctx eds database sid)"

subsection \<open>PromQLQuery\<close>

definition parse_promql_query ::
  "(bytes \<Rightarrow> go_error + bytes) \<Rightarrow> http_resp \<Rightarrow> go_error + resp_value" where
  "parse_promql_query bind =
     typed_parse bind (rs_headers (promql_query_responses (unmarshal_type promql_data_response_model)))
       promql_query_resp"

definition promql_query_call ::
  "('w, bytes \<Rightarrow> bytes \<Rightarrow> bytes option \<Rightarrow> bytes option \<Rightarrow> bytes option
     \<Rightarrow> 'w sending) client_method" where
  "promql_query_call net sv ctx eds database promql moment lookback_delta sid =
     client_call net sv ctx eds (promql_query_request database promql moment lookback_delta sid)"

definition promql_query_with_response ::
  "('w, bytes \<Rightarrow> bytes \<Rightarrow> bytes option \<Rightarrow> bytes option \<Rightarrow> bytes option
     \<Rightarrow> 'w receiving) client_method" where
  "promql_query_with_response net sv ctx eds database promql moment lookback_delta sid =
     with_response net parse_promql_query (promql_query_call net sv ctx eds database promql moment lookback_delta
       sid)"

subsection \<open>PromQLQueryRange\<close>

definition parse_promql_query_range ::
  "(bytes \<Rightarrow> go_error + bytes) \<Rightarrow> http_resp \<Rightarrow> go_error + resp_value" where
  "parse_promql_query_range bind =
     typed_parse bind (rs_headers (promql_query_range_responses (unmarshal_type promql_data_response_model)))
       promql_query_range_resp"

definition promql_query_range_call ::
  "('w, bytes \<Rightarrow> bytes \<Rightarrow> bytes \<Rightarrow> bytes \<Rightarrow> bytes \<Rightarrow> bytes
     option \<Rightarrow> bytes option \<Rightarrow> 'w sending) client_method" where
  "promql_query_range_call net sv ctx eds database promql from til step lookback_delta sid =
     client_call net sv ctx eds (promql_query_range_request database promql from til step lookback_delta sid)"

definition promql_query_range_with_response ::
  "('w, bytes \<Rightarrow> bytes \<Rightarrow> bytes \<Rightarrow> bytes \<Rightarrow> bytes \<Rightarrow> bytes
     option \<Rightarrow> bytes option \<Rightarrow> 'w receiving) client_method" where
  "promql_query_range_with_response net sv ctx eds database promql from til step lookback_delta sid =
     with_response net parse_promql_query_range (promql_query_range_call net sv ctx eds database promql from til step
       lookback_delta sid)"

subsection \<open>PromQLSeries\<close>

definition parse_promql_series ::
  "(bytes \<Rightarrow> go_error + bytes) \<Rightarrow> http_resp \<Rightarrow> go_error + resp_value" where
  "parse_promql_series bind =
     typed_parse bind (rs_headers (promql_series_responses (unmarshal_type promql_series_response_model)))
       promql_series_resp"

definition promql_series_call ::
  "('w, bytes \<Rightarrow> bytes list \<Rightarrow> bytes option \<Rightarrow> bytes option \<Rightarrow> bytes
     option \<Rightarrow> 'w sending) client_method" where
  "promql_series_call net sv ctx eds database matches from til sid =
     client_call net sv ctx eds (promql_series_request database matches from til sid)"

definition promql_series_with_response ::
  "('w, bytes \<Rightarrow> bytes list \<Rightarrow> bytes option \<Rightarrow> bytes option \<Rightarrow> bytes
     option \<Rightarrow> 'w receiving) client_method" where
  "promql_series_with_response net sv ctx eds database matches from til sid =
     with_response net parse_promql_series (promql_series_call net sv ctx eds database matches from til sid)"

subsection \<open>QueryTimeSeries\<close>

definition parse_query_time_series ::
  "(bytes \<Rightarrow> go_error + bytes) \<Rightarrow> http_resp \<Rightarrow> go_error + resp_value" where
  "parse_query_time_series bind =
     typed_parse bind (rs_headers (query_time_series_responses (unmarshal_type GTRaw))) query_time_series_resp"

definition query_time_series_with_body ::
  "('w, bytes \<Rightarrow> bytes option \<Rightarrow> bytes option \<Rightarrow> bytes \<Rightarrow> bytes
     \<Rightarrow> 'w sending) client_method" where
  "query_time_series_with_body net sv ctx eds database sid rid ctype body =
     client_call net sv ctx eds (query_time_series_request database sid rid ctype body)"

definition query_time_series_with_body_response ::
  "('w, bytes \<Rightarrow> bytes option \<Rightarrow> bytes option \<Rightarrow> bytes \<Rightarrow> bytes
     \<Rightarrow> 'w receiving) client_method" where
  "query_time_series_with_body_response net sv ctx eds database sid rid ctype body =
     with_response net parse_query_time_series (query_time_series_with_body net sv ctx eds database sid rid ctype
       body)"

definition new_query_time_series_request ::
  "float_text \<Rightarrow> bytes \<Rightarrow> bytes option \<Rightarrow> bytes option \<Rightarrow> gv
     \<Rightarrow> op_params option" where
  "new_query_time_series_request ft database sid rid v =
     map_option (query_time_series_request database sid rid ''application/json'') (marshal_type ft
       time_series_query_request_model v)"

definition query_time_series_json ::
  "('w, float_text \<Rightarrow> bytes \<Rightarrow> bytes option \<Rightarrow> bytes option \<Rightarrow> gv
     \<Rightarrow> 'w sending) client_method" where
  "query_time_series_json net sv ctx eds ft database sid rid v =
     send_new net sv ctx eds (new_query_time_series_request ft database sid rid v)"

definition query_time_series_json_response ::
  "('w, float_text \<Rightarrow> bytes \<Rightarrow> bytes option \<Rightarrow> bytes option \<Rightarrow> gv
     \<Rightarrow> 'w receiving) client_method" where
  "query_time_series_json_response net sv ctx eds ft database sid rid v =
     with_response net parse_query_time_series (query_time_series_json net sv ctx eds ft database sid rid v)"

subsection \<open>WriteTimeSeries\<close>

definition parse_write_time_series ::
  "(bytes \<Rightarrow> go_error + bytes) \<Rightarrow> http_resp \<Rightarrow> go_error + resp_value" where
  "parse_write_time_series bind =
     typed_parse bind (rs_headers (untyped (write_time_series_responses (\<lambda>b. unmarshal_type
       time_series_write_error_model b \<noteq> None)))) write_time_series_resp"

definition write_time_series_with_body ::
  "('w, bytes \<Rightarrow> bytes option \<Rightarrow> bytes option \<Rightarrow> bytes option \<Rightarrow> bytes
     \<Rightarrow> bytes \<Rightarrow> 'w sending) client_method" where
  "write_time_series_with_body net sv ctx eds database precision sid rid ctype body =
     client_call net sv ctx eds (write_time_series_request database precision sid rid ctype body)"

definition write_time_series_with_body_response ::
  "('w, bytes \<Rightarrow> bytes option \<Rightarrow> bytes option \<Rightarrow> bytes option \<Rightarrow> bytes
     \<Rightarrow> bytes \<Rightarrow> 'w receiving) client_method" where
  "write_time_series_with_body_response net sv ctx eds database precision sid rid ctype body =
     with_response net parse_write_time_series (write_time_series_with_body net sv ctx eds database precision sid rid
       ctype body)"

definition new_write_time_series_text_request ::
  "bytes \<Rightarrow> bytes option \<Rightarrow> bytes option \<Rightarrow> bytes option \<Rightarrow> bytes
     \<Rightarrow> op_params" where
  "new_write_time_series_text_request database precision sid rid text =
     write_time_series_request database precision sid rid ''text/plain'' text"

definition write_time_series_text ::
  "('w, bytes \<Rightarrow> bytes option \<Rightarrow> bytes option \<Rightarrow> bytes option \<Rightarrow> bytes
     \<Rightarrow> 'w sending) client_method" where
  "write_time_series_text net sv ctx eds database precision sid rid text =
     client_call net sv ctx eds (new_write_time_series_text_request database precision sid rid text)"

definition write_time_series_text_response ::
  "('w, bytes \<Rightarrow> bytes option \<Rightarrow> bytes option \<Rightarrow> bytes option \<Rightarrow> bytes
     \<Rightarrow> 'w receiving) client_method" where
  "write_time_series_text_response net sv ctx eds database precision sid rid text =
     with_response net parse_write_time_series (write_time_series_text net sv ctx eds database precision sid rid
       text)"

subsection \<open>FullTextSearch\<close>

definition parse_full_text_search ::
  "(bytes \<Rightarrow> go_error + bytes) \<Rightarrow> http_resp \<Rightarrow> go_error + resp_value" where
  "parse_full_text_search bind =
     typed_parse bind (rs_headers (full_text_search_responses (unmarshal_type full_text_search_response_model)))
       full_text_search_resp"

definition full_text_search_with_body ::
  "('w, bytes \<Rightarrow> bytes option \<Rightarrow> bytes option \<Rightarrow> bytes \<Rightarrow> bytes
     \<Rightarrow> 'w sending) client_method" where
  "full_text_search_with_body net sv ctx eds database sid rid ctype body =
     client_call net sv ctx eds (full_text_search_request database sid rid ctype body)"

definition full_text_search_with_body_response ::
  "('w, bytes \<Rightarrow> bytes option \<Rightarrow> bytes option \<Rightarrow> bytes \<Rightarrow> bytes
     \<Rightarrow> 'w receiving) client_method" where
  "full_text_search_with_body_response net sv ctx eds database sid rid ctype body =
     with_response net parse_full_text_search (full_text_search_with_body net sv ctx eds database sid rid ctype body)"

definition new_full_text_search_request ::
  "float_text \<Rightarrow> bytes \<Rightarrow> bytes option \<Rightarrow> bytes option \<Rightarrow> gv
     \<Rightarrow> op_params option" where
  "new_full_text_search_request ft database sid rid v =
     map_option (full_text_search_request database sid rid ''application/json'') (marshal_type ft
       full_text_search_request_model v)"

definition full_text_search_json ::
  "('w, float_text \<Rightarrow> bytes \<Rightarrow> bytes option \<Rightarrow> bytes option \<Rightarrow> gv
     \<Rightarrow> 'w sending) client_method" where
  "full_text_search_json net sv ctx eds ft database sid rid v =
     send_new net sv ctx eds (new_full_text_search_request ft database sid rid v)"

definition full_text_search_json_response ::
  "('w, float_text \<Rightarrow> bytes \<Rightarrow> bytes option \<Rightarrow> bytes option \<Rightarrow> gv
     \<Rightarrow> 'w receiving) client_method" where
  "full_text_search_json_response net sv ctx eds ft database sid rid v =
     with_response net parse_full_text_search (full_text_search_json net sv ctx eds ft database sid rid v)"

subsection \<open>HybridSearch\<close>

definition parse_hybrid_search ::
  "(bytes \<Rightarrow> go_error + bytes) \<Rightarrow> http_resp \<Rightarrow> go_error + resp_value" where
  "parse_hybrid_search bind =
     typed_parse bind (rs_headers (hybrid_search_responses (unmarshal_type hybrid_search_response_model)))
       hybrid_search_resp"

definition hybrid_search_with_body ::
  "('w, bytes \<Rightarrow> bytes option \<Rightarrow> bytes option \<Rightarrow> bytes \<Rightarrow> bytes
     \<Rightarrow> 'w sending) client_method" where
  "hybrid_search_with_body net sv ctx eds database sid rid ctype body =
     client_call net sv ctx eds (hybrid_search_request database sid rid ctype body)"

definition hybrid_search_with_body_response ::
  "('w, bytes \<Rightarrow> bytes option \<Rightarrow> bytes option \<Rightarrow> bytes \<Rightarrow> bytes
     \<Rightarrow> 'w receiving) client_method" where
  "hybrid_search_with_body_response net sv ctx eds database sid rid ctype body =
     with_response net parse_hybrid_search (hybrid_search_with_body net sv ctx eds database sid rid ctype body)"

definition new_hybrid_search_request ::
  "float_text \<Rightarrow> bytes \<Rightarrow> bytes option \<Rightarrow> bytes option \<Rightarrow> gv
     \<Rightarrow> op_params option" where
  "new_hybrid_search_request ft database sid rid v =
     map_option (hybrid_search_request database sid rid ''application/json'') (marshal_type ft
       hybrid_search_request_model v)"

definition hybrid_search_json ::
  "('w, float_text \<Rightarrow> bytes \<Rightarrow> bytes option \<Rightarrow> bytes option \<Rightarrow> gv
     \<Rightarrow> 'w sending) client_method" where
  "hybrid_search_json net sv ctx eds ft database sid rid v =
     send_new net sv ctx eds (new_hybrid_search_request ft database sid rid v)"

definition hybrid_search_json_response ::
  "('w, float_text \<Rightarrow> bytes \<Rightarrow> bytes option \<Rightarrow> bytes option \<Rightarrow> gv
     \<Rightarrow> 'w receiving) client_method" where
  "hybrid_search_json_response net sv ctx eds ft database sid rid v =
     with_response net parse_hybrid_search (hybrid_search_json net sv ctx eds ft database sid rid v)"

subsection \<open>VectorSearch\<close>

definition parse_vector_search ::
  "(bytes \<Rightarrow> go_error + bytes) \<Rightarrow> http_resp \<Rightarrow> go_error + resp_value" where
  "parse_vector_search bind =
     typed_parse bind (rs_headers (vector_search_responses (unmarshal_type vector_search_response_model)))
       vector_search_resp"

definition vector_search_with_body ::
  "('w, bytes \<Rightarrow> bytes option \<Rightarrow> bytes option \<Rightarrow> bytes \<Rightarrow> bytes
     \<Rightarrow> 'w sending) client_method" where
  "vector_search_with_body net sv ctx eds database sid rid ctype body =
     client_call net sv ctx eds (vector_search_request database sid rid ctype body)"

definition vector_search_with_body_response ::
  "('w, bytes \<Rightarrow> bytes option \<Rightarrow> bytes option \<Rightarrow> bytes \<Rightarrow> bytes
     \<Rightarrow> 'w receiving) client_method" where
  "vector_search_with_body_response net sv ctx eds database sid rid ctype body =
     with_response net parse_vector_search (vector_search_with_body net sv ctx eds database sid rid ctype body)"

definition new_vector_search_request ::
  "float_text \<Rightarrow> bytes \<Rightarrow> bytes option \<Rightarrow> bytes option \<Rightarrow> gv
     \<Rightarrow> op_params option" where
  "new_vector_search_request ft database sid rid v =
     map_option (vector_search_request database sid rid ''application/json'') (marshal_type ft
       vector_search_request_model v)"

definition vector_search_json ::
  "('w, float_text \<Rightarrow> bytes \<Rightarrow> bytes option \<Rightarrow> bytes option \<Rightarrow> gv
     \<Rightarrow> 'w sending) client_method" where
  "vector_search_json net sv ctx eds ft database sid rid v =
     send_new net sv ctx eds (new_vector_search_request ft database sid rid v)"

definition vector_search_json_response ::
  "('w, float_text \<Rightarrow> bytes \<Rightarrow> bytes option \<Rightarrow> bytes option \<Rightarrow> gv
     \<Rightarrow> 'w receiving) client_method" where
  "vector_search_json_response net sv ctx eds ft database sid rid v =
     with_response net parse_vector_search (vector_search_json net sv ctx eds ft database sid rid v)"

end
