(* ===== verification/Model_Unions.thy ===== *)
theory Model_Unions
  imports Models_Data Models_Assistant Models_Server
begin

text \<open>
  The unions of \<open>client.gen.go\<close>. A union keeps the document it was decoded from; \<open>As...\<close> decodes it as one
  of the variants, \<open>From...\<close> makes it the document of a value, and \<open>Merge...\<close> merges that document into the
  one it has (\<open>runtime.JSONMerge\<close>, a parameter). None is the union that was never set.
\<close>

definition union_as :: "go_type \<Rightarrow> json option \<Rightarrow> gv option" where
  "union_as t u = (case u of None \<Rightarrow> None | Some j \<Rightarrow> into t (zero_value t) j)"

text \<open>A value that does not encode leaves the union unset, with an error.\<close>

definition union_from :: "go_type \<Rightarrow> float_text \<Rightarrow> gv \<Rightarrow> json option" where
  "union_from t ft v = to_json ft t v"

text \<open>Whether the merge went well, and the union after it.\<close>

definition union_merge ::
  "go_type \<Rightarrow> (json option \<Rightarrow> json \<Rightarrow> json option) \<Rightarrow> float_text \<Rightarrow> json option \<Rightarrow> gv \<Rightarrow> bool \<times> json option" where
  "union_merge t merge ft u v =
     (case to_json ft t v of
        None \<Rightarrow> (False, u)
      | Some b \<Rightarrow> (merge u b \<noteq> None, merge u b))"

subsection \<open>BatchLine\<close>

definition batch_line_as_batch_vertex_line :: "json option \<Rightarrow> gv option" where
  "batch_line_as_batch_vertex_line = union_as batch_vertex_line_model"

definition batch_line_from_batch_vertex_line :: "float_text \<Rightarrow> gv \<Rightarrow> json option" where
  "batch_line_from_batch_vertex_line = union_from batch_vertex_line_model"

definition batch_line_merge_batch_vertex_line :: "(json option \<Rightarrow> json \<Rightarrow> json option) \<Rightarrow> float_text \<Rightarrow> json option \<Rightarrow> gv \<Rightarrow> bool \<times> json option" where
  "batch_line_merge_batch_vertex_line = union_merge batch_vertex_line_model"

definition batch_line_as_batch_edge_line :: "json option \<Rightarrow> gv option" where
  "batch_line_as_batch_edge_line = union_as batch_edge_line_model"

definition batch_line_from_batch_edge_line :: "float_text \<Rightarrow> gv \<Rightarrow> json option" where
  "batch_line_from_batch_edge_line = union_from batch_edge_line_model"

definition batch_line_merge_batch_edge_line :: "(json option \<Rightarrow> json \<Rightarrow> json option) \<Rightarrow> float_text \<Rightarrow> json option \<Rightarrow> gv \<Rightarrow> bool \<times> json option" where
  "batch_line_merge_batch_edge_line = union_merge batch_edge_line_model"

subsection \<open>JsonRpcMessage\<close>

definition json_rpc_message_as_json_rpc_message0 :: "json option \<Rightarrow> gv option" where
  "json_rpc_message_as_json_rpc_message0 = union_as json_rpc_message0_model"

definition json_rpc_message_from_json_rpc_message0 :: "float_text \<Rightarrow> gv \<Rightarrow> json option" where
  "json_rpc_message_from_json_rpc_message0 = union_from json_rpc_message0_model"

definition json_rpc_message_merge_json_rpc_message0 :: "(json option \<Rightarrow> json \<Rightarrow> json option) \<Rightarrow> float_text \<Rightarrow> json option \<Rightarrow> gv \<Rightarrow> bool \<times> json option" where
  "json_rpc_message_merge_json_rpc_message0 = union_merge json_rpc_message0_model"

definition json_rpc_message_as_json_rpc_message1 :: "json option \<Rightarrow> gv option" where
  "json_rpc_message_as_json_rpc_message1 = union_as json_rpc_message1_model"

definition json_rpc_message_from_json_rpc_message1 :: "float_text \<Rightarrow> gv \<Rightarrow> json option" where
  "json_rpc_message_from_json_rpc_message1 = union_from json_rpc_message1_model"

definition json_rpc_message_merge_json_rpc_message1 :: "(json option \<Rightarrow> json \<Rightarrow> json option) \<Rightarrow> float_text \<Rightarrow> json option \<Rightarrow> gv \<Rightarrow> bool \<times> json option" where
  "json_rpc_message_merge_json_rpc_message1 = union_merge json_rpc_message1_model"

subsection \<open>PromQLDataResponse_Data_Result\<close>

definition promql_data_response_data_result_as_promql_data_response_data_result0 :: "json option \<Rightarrow> gv option" where
  "promql_data_response_data_result_as_promql_data_response_data_result0 = union_as promql_data_response_data_result0_model"

definition promql_data_response_data_result_from_promql_data_response_data_result0 :: "float_text \<Rightarrow> gv \<Rightarrow> json option" where
  "promql_data_response_data_result_from_promql_data_response_data_result0 = union_from promql_data_response_data_result0_model"

definition promql_data_response_data_result_merge_promql_data_response_data_result0 :: "(json option \<Rightarrow> json \<Rightarrow> json option) \<Rightarrow> float_text \<Rightarrow> json option \<Rightarrow> gv \<Rightarrow> bool \<times> json option" where
  "promql_data_response_data_result_merge_promql_data_response_data_result0 = union_merge promql_data_response_data_result0_model"

definition promql_data_response_data_result_as_promql_data_response_data_result1 :: "json option \<Rightarrow> gv option" where
  "promql_data_response_data_result_as_promql_data_response_data_result1 = union_as promql_data_response_data_result1_model"

definition promql_data_response_data_result_from_promql_data_response_data_result1 :: "float_text \<Rightarrow> gv \<Rightarrow> json option" where
  "promql_data_response_data_result_from_promql_data_response_data_result1 = union_from promql_data_response_data_result1_model"

definition promql_data_response_data_result_merge_promql_data_response_data_result1 :: "(json option \<Rightarrow> json \<Rightarrow> json option) \<Rightarrow> float_text \<Rightarrow> json option \<Rightarrow> gv \<Rightarrow> bool \<times> json option" where
  "promql_data_response_data_result_merge_promql_data_response_data_result1 = union_merge promql_data_response_data_result1_model"

definition promql_data_response_data_result_as_promql_data_response_data_result2 :: "json option \<Rightarrow> gv option" where
  "promql_data_response_data_result_as_promql_data_response_data_result2 = union_as promql_data_response_data_result2_model"

definition promql_data_response_data_result_from_promql_data_response_data_result2 :: "float_text \<Rightarrow> gv \<Rightarrow> json option" where
  "promql_data_response_data_result_from_promql_data_response_data_result2 = union_from promql_data_response_data_result2_model"

definition promql_data_response_data_result_merge_promql_data_response_data_result2 :: "(json option \<Rightarrow> json \<Rightarrow> json option) \<Rightarrow> float_text \<Rightarrow> json option \<Rightarrow> gv \<Rightarrow> bool \<times> json option" where
  "promql_data_response_data_result_merge_promql_data_response_data_result2 = union_merge promql_data_response_data_result2_model"

subsection \<open>QueryResponse_Result\<close>

definition query_response_result_as_query_response_result0 :: "json option \<Rightarrow> gv option" where
  "query_response_result_as_query_response_result0 = union_as query_response_result0_model"

definition query_response_result_from_query_response_result0 :: "float_text \<Rightarrow> gv \<Rightarrow> json option" where
  "query_response_result_from_query_response_result0 = union_from query_response_result0_model"

definition query_response_result_merge_query_response_result0 :: "(json option \<Rightarrow> json \<Rightarrow> json option) \<Rightarrow> float_text \<Rightarrow> json option \<Rightarrow> gv \<Rightarrow> bool \<times> json option" where
  "query_response_result_merge_query_response_result0 = union_merge query_response_result0_model"

definition query_response_result_as_query_response_result1 :: "json option \<Rightarrow> gv option" where
  "query_response_result_as_query_response_result1 = union_as query_response_result1_model"

definition query_response_result_from_query_response_result1 :: "float_text \<Rightarrow> gv \<Rightarrow> json option" where
  "query_response_result_from_query_response_result1 = union_from query_response_result1_model"

definition query_response_result_merge_query_response_result1 :: "(json option \<Rightarrow> json \<Rightarrow> json option) \<Rightarrow> float_text \<Rightarrow> json option \<Rightarrow> gv \<Rightarrow> bool \<times> json option" where
  "query_response_result_merge_query_response_result1 = union_merge query_response_result1_model"

subsection \<open>ServerCommandResponse_Result\<close>

definition server_command_response_result_as_server_command_response_result0 :: "json option \<Rightarrow> gv option" where
  "server_command_response_result_as_server_command_response_result0 = union_as GTStr"

definition server_command_response_result_from_server_command_response_result0 :: "float_text \<Rightarrow> gv \<Rightarrow> json option" where
  "server_command_response_result_from_server_command_response_result0 = union_from GTStr"

definition server_command_response_result_merge_server_command_response_result0 :: "(json option \<Rightarrow> json \<Rightarrow> json option) \<Rightarrow> float_text \<Rightarrow> json option \<Rightarrow> gv \<Rightarrow> bool \<times> json option" where
  "server_command_response_result_merge_server_command_response_result0 = union_merge GTStr"

definition server_command_response_result_as_server_command_response_result1 :: "json option \<Rightarrow> gv option" where
  "server_command_response_result_as_server_command_response_result1 = union_as server_command_response_result1_model"

definition server_command_response_result_from_server_command_response_result1 :: "float_text \<Rightarrow> gv \<Rightarrow> json option" where
  "server_command_response_result_from_server_command_response_result1 = union_from server_command_response_result1_model"

definition server_command_response_result_merge_server_command_response_result1 :: "(json option \<Rightarrow> json \<Rightarrow> json option) \<Rightarrow> float_text \<Rightarrow> json option \<Rightarrow> gv \<Rightarrow> bool \<times> json option" where
  "server_command_response_result_merge_server_command_response_result1 = union_merge server_command_response_result1_model"

definition server_command_response_result_as_server_command_response_result2 :: "json option \<Rightarrow> gv option" where
  "server_command_response_result_as_server_command_response_result2 = union_as server_command_response_result2_model"

definition server_command_response_result_from_server_command_response_result2 :: "float_text \<Rightarrow> gv \<Rightarrow> json option" where
  "server_command_response_result_from_server_command_response_result2 = union_from server_command_response_result2_model"

definition server_command_response_result_merge_server_command_response_result2 :: "(json option \<Rightarrow> json \<Rightarrow> json option) \<Rightarrow> float_text \<Rightarrow> json option \<Rightarrow> gv \<Rightarrow> bool \<times> json option" where
  "server_command_response_result_merge_server_command_response_result2 = union_merge server_command_response_result2_model"

definition server_command_response_result_as_server_command_response_result3 :: "json option \<Rightarrow> gv option" where
  "server_command_response_result_as_server_command_response_result3 = union_as server_command_response_result3_model"

definition server_command_response_result_from_server_command_response_result3 :: "float_text \<Rightarrow> gv \<Rightarrow> json option" where
  "server_command_response_result_from_server_command_response_result3 = union_from server_command_response_result3_model"

definition server_command_response_result_merge_server_command_response_result3 :: "(json option \<Rightarrow> json \<Rightarrow> json option) \<Rightarrow> float_text \<Rightarrow> json option \<Rightarrow> gv \<Rightarrow> bool \<times> json option" where
  "server_command_response_result_merge_server_command_response_result3 = union_merge server_command_response_result3_model"

definition server_command_response_result_as_termination_status :: "json option \<Rightarrow> gv option" where
  "server_command_response_result_as_termination_status = union_as termination_status_model"

definition server_command_response_result_from_termination_status :: "float_text \<Rightarrow> gv \<Rightarrow> json option" where
  "server_command_response_result_from_termination_status = union_from termination_status_model"

definition server_command_response_result_merge_termination_status :: "(json option \<Rightarrow> json \<Rightarrow> json option) \<Rightarrow> float_text \<Rightarrow> json option \<Rightarrow> gv \<Rightarrow> bool \<times> json option" where
  "server_command_response_result_merge_termination_status = union_merge termination_status_model"

definition server_command_response_result_as_server_command_response_result5 :: "json option \<Rightarrow> gv option" where
  "server_command_response_result_as_server_command_response_result5 = union_as server_command_response_result5_model"

definition server_command_response_result_from_server_command_response_result5 :: "float_text \<Rightarrow> gv \<Rightarrow> json option" where
  "server_command_response_result_from_server_command_response_result5 = union_from server_command_response_result5_model"

definition server_command_response_result_merge_server_command_response_result5 :: "(json option \<Rightarrow> json \<Rightarrow> json option) \<Rightarrow> float_text \<Rightarrow> json option \<Rightarrow> gv \<Rightarrow> bool \<times> json option" where
  "server_command_response_result_merge_server_command_response_result5 = union_merge server_command_response_result5_model"

definition server_command_response_result_as_server_command_response_result6 :: "json option \<Rightarrow> gv option" where
  "server_command_response_result_as_server_command_response_result6 = union_as server_command_response_result6_model"

definition server_command_response_result_from_server_command_response_result6 :: "float_text \<Rightarrow> gv \<Rightarrow> json option" where
  "server_command_response_result_from_server_command_response_result6 = union_from server_command_response_result6_model"

definition server_command_response_result_merge_server_command_response_result6 :: "(json option \<Rightarrow> json \<Rightarrow> json option) \<Rightarrow> float_text \<Rightarrow> json option \<Rightarrow> gv \<Rightarrow> bool \<times> json option" where
  "server_command_response_result_merge_server_command_response_result6 = union_merge server_command_response_result6_model"

subsection \<open>VerifyDatabaseResponse\<close>

definition verify_database_response_as_verify_database_local_response :: "json option \<Rightarrow> gv option" where
  "verify_database_response_as_verify_database_local_response = union_as verify_database_local_response_model"

definition verify_database_response_from_verify_database_local_response :: "float_text \<Rightarrow> gv \<Rightarrow> json option" where
  "verify_database_response_from_verify_database_local_response = union_from verify_database_local_response_model"

definition verify_database_response_merge_verify_database_local_response :: "(json option \<Rightarrow> json \<Rightarrow> json option) \<Rightarrow> float_text \<Rightarrow> json option \<Rightarrow> gv \<Rightarrow> bool \<times> json option" where
  "verify_database_response_merge_verify_database_local_response = union_merge verify_database_local_response_model"

definition verify_database_response_as_verify_database_cluster_response :: "json option \<Rightarrow> gv option" where
  "verify_database_response_as_verify_database_cluster_response = union_as verify_database_cluster_response_model"

definition verify_database_response_from_verify_database_cluster_response :: "float_text \<Rightarrow> gv \<Rightarrow> json option" where
  "verify_database_response_from_verify_database_cluster_response = union_from verify_database_cluster_response_model"

definition verify_database_response_merge_verify_database_cluster_response :: "(json option \<Rightarrow> json \<Rightarrow> json option) \<Rightarrow> float_text \<Rightarrow> json option \<Rightarrow> gv \<Rightarrow> bool \<times> json option" where
  "verify_database_response_merge_verify_database_cluster_response = union_merge verify_database_cluster_response_model"

subsection \<open>QueryTimeSeries200JSONResponseBody\<close>

definition query_time_series200_json_response_body_as_time_series_raw_response :: "json option \<Rightarrow> gv option" where
  "query_time_series200_json_response_body_as_time_series_raw_response = union_as time_series_raw_response_model"

definition query_time_series200_json_response_body_from_time_series_raw_response :: "float_text \<Rightarrow> gv \<Rightarrow> json option" where
  "query_time_series200_json_response_body_from_time_series_raw_response = union_from time_series_raw_response_model"

definition query_time_series200_json_response_body_merge_time_series_raw_response :: "(json option \<Rightarrow> json \<Rightarrow> json option) \<Rightarrow> float_text \<Rightarrow> json option \<Rightarrow> gv \<Rightarrow> bool \<times> json option" where
  "query_time_series200_json_response_body_merge_time_series_raw_response = union_merge time_series_raw_response_model"

definition query_time_series200_json_response_body_as_time_series_aggregated_response :: "json option \<Rightarrow> gv option" where
  "query_time_series200_json_response_body_as_time_series_aggregated_response = union_as time_series_aggregated_response_model"

definition query_time_series200_json_response_body_from_time_series_aggregated_response :: "float_text \<Rightarrow> gv \<Rightarrow> json option" where
  "query_time_series200_json_response_body_from_time_series_aggregated_response = union_from time_series_aggregated_response_model"

definition query_time_series200_json_response_body_merge_time_series_aggregated_response :: "(json option \<Rightarrow> json \<Rightarrow> json option) \<Rightarrow> float_text \<Rightarrow> json option \<Rightarrow> gv \<Rightarrow> bool \<times> json option" where
  "query_time_series200_json_response_body_merge_time_series_aggregated_response = union_merge time_series_aggregated_response_model"

section \<open>Additional properties\<close>

text \<open>The getters and setters of a struct with additional properties.\<close>

definition additional_get :: "gv \<Rightarrow> bytes \<Rightarrow> gv option" where
  "additional_get v k = (case v of VOpen vs (VMap kvs) \<Rightarrow> map_of kvs k | _ \<Rightarrow> None)"

definition additional_set :: "gv \<Rightarrow> bytes \<Rightarrow> gv \<Rightarrow> gv" where
  "additional_set v k x = (case v of
       VOpen vs ap \<Rightarrow> VOpen vs (VMap (go_map ((case ap of VMap kvs \<Rightarrow> kvs | _ \<Rightarrow> []) @ [(k, x)])))
     | _ \<Rightarrow> v)"

section \<open>The line of a batch by its discriminator\<close>

datatype batch_line_value = BatchVertexLine gv | BatchEdgeLine gv

definition batch_line_discriminator :: "json option \<Rightarrow> bytes option" where
  "batch_line_discriminator u =
     (case union_as (GTStruct [(''@type'', False, GTStr)]) u of
        Some (VStruct [VStr s]) \<Rightarrow> Some s | _ \<Rightarrow> None)"

definition batch_line_value_by_discriminator :: "json option \<Rightarrow> batch_line_value option" where
  "batch_line_value_by_discriminator u =
     (case batch_line_discriminator u of
        None \<Rightarrow> None
      | Some d \<Rightarrow>
          if d = ''e'' \<or> d = ''edge'' then map_option BatchEdgeLine (batch_line_as_batch_edge_line u)
          else if d = ''v'' \<or> d = ''vertex'' then map_option BatchVertexLine (batch_line_as_batch_vertex_line u)
          else None)"

section \<open>All models\<close>

definition models :: "(bytes \<times> go_type) list" where
  "models = data_models @ assistant_models @ server_models"

lemma models_ok: "(n, t) \<in> set models \<Longrightarrow> schema_ok t"
  using data_models_ok assistant_models_ok server_models_ok by (auto simp: models_def list_all_iff)

end
