(* ===== verification/Client_Setup.thy ===== *)
theory Client_Setup
  imports Client_Methods
begin

text \<open>
  How a client of \<open>client.gen.go\<close> is made and what it does to a request: \<open>NewClient\<close> with its options, the
  request editors, which may fail, and the method every operation has. The drivers make one kind of client
  only, with their own \<open>Doer\<close> and one editor; \<open>Generated_Client\<close> has what that one does. \<open>url.Parse\<close> followed
  by \<open>String\<close> is the parameter \<open>parse\<close>; the transport behind the \<open>Doer\<close> is \<open>net\<close>.
\<close>

section \<open>Clients and options\<close>











section \<open>Sending\<close>




section \<open>The client of a Server\<close>



lemma client_server_idem [simp]: "client_server (client_server s) = client_server s"
  by (simp add: client_server_def has_prefix_def)







end
