(* ===== verification/Answer_Models.thy ===== *)
theory Answer_Models
  imports Model_Unions Typed_Responses Envelope
begin

text \<open>
  The answer of a statement as the generated client has it, against the struct the drivers' envelope is made
  from: both decoders accept the same documents and hold the same values, a document of any JSON as its
  members here and as the values of an interface there.
\<close>

section \<open>Maps\<close>











section \<open>Fields\<close>











section \<open>The answer of a statement\<close>










end
