(* ===== verification/Model_Enums.thy ===== *)
theory Model_Enums
  imports Prelude
begin

text \<open>
  The enums of \<open>client.gen.go\<close>: strings, with a method \<open>Valid\<close> that accepts the constants of the enum.
  Decoding does not call it; a caller can.
\<close>

definition ai_chat_messages_role_valid :: "bytes \<Rightarrow> bool" where
  "ai_chat_messages_role_valid e \<longleftrightarrow> e \<in> set [''assistant'', ''user'']"

definition ai_chat_stream_event_type_valid :: "bytes \<Rightarrow> bool" where
  "ai_chat_stream_event_type_valid e \<longleftrightarrow> e \<in> set [''delta'', ''done'', ''error'', ''reset'', ''tool_end'', ''tool_start'']"

definition batch_edge_line_type_valid :: "bytes \<Rightarrow> bool" where
  "batch_edge_line_type_valid e \<longleftrightarrow> e \<in> set [''e'', ''edge'']"

definition batch_vertex_line_type_valid :: "bytes \<Rightarrow> bool" where
  "batch_vertex_line_type_valid e \<longleftrightarrow> e \<in> set [''v'', ''vertex'']"

definition begin_request_isolation_level_valid :: "bytes \<Rightarrow> bool" where
  "begin_request_isolation_level_valid e \<longleftrightarrow> e \<in> set [''READ_COMMITTED'', ''REPEATABLE_READ'']"

definition cluster_auth_session_request_action_valid :: "bytes \<Rightarrow> bool" where
  "cluster_auth_session_request_action_valid e \<longleftrightarrow> e \<in> set [''revoke'', ''validate'']"

definition cluster_status_alerts_severity_valid :: "bytes \<Rightarrow> bool" where
  "cluster_status_alerts_severity_valid e \<longleftrightarrow> e \<in> set [''critical'', ''info'', ''warning'']"

definition cluster_status_local_resync_divergence_causes_valid :: "bytes \<Rightarrow> bool" where
  "cluster_status_local_resync_divergence_causes_valid e \<longleftrightarrow> e \<in> set [''APPLY_ERROR'', ''LOCAL_RECOVERY_INCOMPLETE'', ''SNAPSHOT_INSTALL_INCOMPLETE'', ''UNAVAILABLE_UNIQUE_INDEX'', ''UNDECODABLE_LOG_ENTRY'', ''UNPUBLISHED_SCHEMA_CHANGE'', ''WAL_VERSION_GAP'']"

definition cluster_status_peers_capabilities_unknown_kind_valid :: "bytes \<Rightarrow> bool" where
  "cluster_status_peers_capabilities_unknown_kind_valid e \<longleftrightarrow> e \<in> set [''ADDRESS_REFUSED'', ''ROUTE_MISSING'', ''STALE'', ''UNREACHABLE'']"

definition full_text_search_response_similarity_valid :: "bytes \<Rightarrow> bool" where
  "full_text_search_response_similarity_valid e \<longleftrightarrow> e \<in> set [''BM25'', ''CLASSIC'']"

definition grafana_query_request_targets_aggregation_requests_type_valid :: "bytes \<Rightarrow> bool" where
  "grafana_query_request_targets_aggregation_requests_type_valid e \<longleftrightarrow> e \<in> set [''AVG'', ''COUNT'', ''MAX'', ''MIN'', ''SUM'']"

definition hybrid_search_request_expand_direction_valid :: "bytes \<Rightarrow> bool" where
  "hybrid_search_request_expand_direction_valid e \<longleftrightarrow> e \<in> set [''both'', ''in'', ''out'']"

definition hybrid_search_request_fusion_strategy_valid :: "bytes \<Rightarrow> bool" where
  "hybrid_search_request_fusion_strategy_valid e \<longleftrightarrow> e \<in> set [''DBSF'', ''LINEAR'', ''RRF'']"

definition hybrid_search_response_fusion_strategy_valid :: "bytes \<Rightarrow> bool" where
  "hybrid_search_response_fusion_strategy_valid e \<longleftrightarrow> e \<in> set [''DBSF'', ''LINEAR'', ''RRF'']"

definition hybrid_search_response_legs_expand_direction_valid :: "bytes \<Rightarrow> bool" where
  "hybrid_search_response_legs_expand_direction_valid e \<longleftrightarrow> e \<in> set [''both'', ''in'', ''out'']"

definition hybrid_search_response_legs_fulltext_similarity_valid :: "bytes \<Rightarrow> bool" where
  "hybrid_search_response_legs_fulltext_similarity_valid e \<longleftrightarrow> e \<in> set [''BM25'', ''CLASSIC'']"

definition hybrid_search_response_results_sources_valid :: "bytes \<Rightarrow> bool" where
  "hybrid_search_response_results_sources_valid e \<longleftrightarrow> e \<in> set [''expand'', ''fulltext'', ''vector'']"

definition json_rpc_message0_jsonrpc_valid :: "bytes \<Rightarrow> bool" where
  "json_rpc_message0_jsonrpc_valid e \<longleftrightarrow> e \<in> set [''2.0'']"

definition json_rpc_message1_jsonrpc_valid :: "bytes \<Rightarrow> bool" where
  "json_rpc_message1_jsonrpc_valid e \<longleftrightarrow> e \<in> set [''2.0'']"

definition mcp_config_principal_profiles_valid :: "bytes \<Rightarrow> bool" where
  "mcp_config_principal_profiles_valid e \<longleftrightarrow> e \<in> set [''admin'', ''all'', ''rag'']"

definition mcp_config_profile_valid :: "bytes \<Rightarrow> bool" where
  "mcp_config_profile_valid e \<longleftrightarrow> e \<in> set [''admin'', ''all'', ''rag'']"

definition mcp_config_update_principal_profiles_valid :: "bytes \<Rightarrow> bool" where
  "mcp_config_update_principal_profiles_valid e \<longleftrightarrow> e \<in> set [''admin'', ''all'', ''rag'']"

definition mcp_config_update_profile_valid :: "bytes \<Rightarrow> bool" where
  "mcp_config_update_profile_valid e \<longleftrightarrow> e \<in> set [''admin'', ''all'', ''rag'']"

definition promql_data_response_data_result_type_valid :: "bytes \<Rightarrow> bool" where
  "promql_data_response_data_result_type_valid e \<longleftrightarrow> e \<in> set [''matrix'', ''scalar'', ''vector'']"

definition promql_data_response_status_valid :: "bytes \<Rightarrow> bool" where
  "promql_data_response_status_valid e \<longleftrightarrow> e \<in> set [''success'']"

definition promql_error_response_status_valid :: "bytes \<Rightarrow> bool" where
  "promql_error_response_status_valid e \<longleftrightarrow> e \<in> set [''error'']"

definition promql_labels_response_status_valid :: "bytes \<Rightarrow> bool" where
  "promql_labels_response_status_valid e \<longleftrightarrow> e \<in> set [''success'']"

definition promql_series_response_status_valid :: "bytes \<Rightarrow> bool" where
  "promql_series_response_status_valid e \<longleftrightarrow> e \<in> set [''success'']"

definition termination_status_status_valid :: "bytes \<Rightarrow> bool" where
  "termination_status_status_valid e \<longleftrightarrow> e \<in> set [''completed'', ''not found'', ''terminated'', ''terminating'']"

definition time_series_query_request_aggregation_requests_type_valid :: "bytes \<Rightarrow> bool" where
  "time_series_query_request_aggregation_requests_type_valid e \<longleftrightarrow> e \<in> set [''AVG'', ''COUNT'', ''MAX'', ''MIN'', ''SUM'']"

definition execute_batch_params_id_mapping_valid :: "bytes \<Rightarrow> bool" where
  "execute_batch_params_id_mapping_valid e \<longleftrightarrow> e \<in> set [''auto'', ''false'', ''true'']"

definition execute_batch_params_ref_mode_valid :: "bytes \<Rightarrow> bool" where
  "execute_batch_params_ref_mode_valid e \<longleftrightarrow> e \<in> set [''id'', ''ordinal'']"

definition execute_batch_params_accept_valid :: "bytes \<Rightarrow> bool" where
  "execute_batch_params_accept_valid e \<longleftrightarrow> e \<in> set [''application/json'', ''application/x-ndjson'']"

definition execute_command_params_accept_valid :: "bytes \<Rightarrow> bool" where
  "execute_command_params_accept_valid e \<longleftrightarrow> e \<in> set [''application/json'', ''application/x-ndjson'']"

definition execute_query_post_params_accept_valid :: "bytes \<Rightarrow> bool" where
  "execute_query_post_params_accept_valid e \<longleftrightarrow> e \<in> set [''application/json'', ''application/x-ndjson'']"

definition execute_query_get_params_accept_valid :: "bytes \<Rightarrow> bool" where
  "execute_query_get_params_accept_valid e \<longleftrightarrow> e \<in> set [''application/json'', ''application/x-ndjson'']"

definition execute_query_get_params_language_valid :: "bytes \<Rightarrow> bool" where
  "execute_query_get_params_language_valid e \<longleftrightarrow> e \<in> set [''cypher'', ''graphql'', ''gremlin'', ''mongo'', ''sql'']"

definition get_server_info_params_mode_valid :: "bytes \<Rightarrow> bool" where
  "get_server_info_params_mode_valid e \<longleftrightarrow> e \<in> set [''basic'', ''cluster'', ''default'']"

definition write_time_series_params_precision_valid :: "bytes \<Rightarrow> bool" where
  "write_time_series_params_precision_valid e \<longleftrightarrow> e \<in> set [''ms'', ''ns'', ''s'', ''us'']"

end
