(* ===== verification/Model_Properties.thy ===== *)
theory Model_Properties
  imports Answer_Models Model_Enums Batch_Rows
begin

text \<open>
  What the generated models promise, and how the drivers' own encoders fit them: the line a load writes
  for a row is the batch line of the contract, and the bodies the drivers build by hand are encodings of
  the request models.
\<close>

section \<open>Decoding and encoding the models\<close>



text \<open>
  A request model a caller fills in arrives as it was: any value of its types that JSON can say is
  encoded, and decodes to the same value. Only a pointer to nil, an integer in an interface, an unset
  union, an empty list where nil is meant, and an additional property named like a field are excluded.
\<close>

theorem models_roundtrip:
  assumes "(n, t) \<in> set models" and "has_type t v" and "plain_value t v" and "raws_set v" and "floats_print ft v"
  shows "\<exists>b. marshal_type ft t v = Some b \<and> unmarshal_type t b = Some v"
  by (rule marshal_unmarshal [OF models_ok [OF assms(1)]]) (use assms in \<open>simp add: readable_def\<close>)

lemma models_roundtrip_witness:
  "\<exists>b. marshal_type ft command_request_model (VStruct [VStr ''SELECT 1'', VStr ''sql'', VPtr (VInt 5), VNil, VNil]) = Some b \<and>
     unmarshal_type command_request_model b = Some (VStruct [VStr ''SELECT 1'', VStr ''sql'', VPtr (VInt 5), VNil, VNil])"
  by (rule models_roundtrip [where n = "''CommandRequest''"])
    (simp_all add: models_def data_models_def command_request_model_def null_value_def valid_utf8_ascii byte_def fields_ok_def
      in_int64_def min_int64_def max_int64_def)

text \<open>
  A later server may send the members of a struct model in another order and members the model does
  not have: the value decoded is the same.
\<close>

theorem models_any_order:
  assumes "(n, GTStruct fs) \<in> set models" and "json_ok (JObj kvs)" and "json_ok (JObj extra)"
    and "mset kvs' = mset (kvs @ extra)" and "distinct (map (fold_name \<circ> fst) kvs)"
    and "\<forall>(k, v) \<in> set extra. fold_name k \<notin> fold_name ` fst ` set fs"
  shows "unmarshal_type (GTStruct fs) (encode html (JObj kvs')) = unmarshal_type (GTStruct fs) (encode html' (JObj kvs))"
proof -
  have "set kvs' = set kvs \<union> set extra" using arg_cong [OF assms(4), of set_mset] by simp
  then have "json_ok (JObj kvs')" using assms(2,3) by (auto simp: list_all_iff)
  then show ?thesis
    unfolding unmarshal_type_def json_parse_encode_ok [OF assms(2)] json_parse_encode_ok [OF \<open>json_ok (JObj kvs')\<close>]
    by (simp only: option.simps into_struct_any_order [OF assms(4-6)])
qed

lemma models_any_order_witness:
  "unmarshal_type promql_labels_response_model
       (encode False (JObj [(''warnings'', JNull), (''data'', JArr [JStr ''cpu'']), (''status'', JStr ''success'')])) =
     Some (VStruct [VSlice [VStr ''cpu''], VStr ''success''])"
proof -
  let ?kvs = "[(''status'', JStr ''success''), (''data'', JArr [JStr ''cpu''])]"
  have m: "(''PromQLLabelsResponse'', GTStruct [(''data'', False, GTSlice GTStr), (''status'', False, GTStr)]) \<in> set models"
    by (simp add: models_def data_models_def promql_labels_response_model_def)
  have folds: "fold_name ''warnings'' \<notin> {fold_name ''data'', fold_name ''status''}" "fold_name ''status'' \<noteq> fold_name ''data''"
    by code_simp+
  have ok: "json_ok (JObj ?kvs)" by (simp add: valid_utf8_ascii byte_def)
  have "unmarshal_type promql_labels_response_model
       (encode False (JObj [(''warnings'', JNull), (''data'', JArr [JStr ''cpu'']), (''status'', JStr ''success'')])) =
     unmarshal_type promql_labels_response_model (encode False (JObj ?kvs))"
    unfolding promql_labels_response_model_def
    by (rule models_any_order [OF m, where extra = "[(''warnings'', JNull)]"])
      (use folds in \<open>simp_all add: valid_utf8_ascii byte_def\<close>)
  also have "\<dots> = Some (VStruct [VSlice [VStr ''cpu''], VStr ''success''])"
    unfolding unmarshal_type_def json_parse_encode_ok [OF ok]
    by (simp add: promql_labels_response_model_def struct_into_def field_vals_def)
  finally show ?thesis .
qed

section \<open>Rows and batch lines\<close>
















end
