(* ===== verification/Request_Bodies.thy ===== *)
theory Request_Bodies
  imports Model_Enums Models_Data Models_Server Http_Transaction Admin Auth_Session
begin

text \<open>
  The request bodies of the drivers against the request models of the generated client: each body is what
  the model's encoder writes for the struct the method fills in.
\<close>

section \<open>Values in both models\<close>

text \<open>A value of an interface; \<open>num\<close> is the number a float's text stands for.\<close>

fun reflected :: "(bytes \<Rightarrow> int \<times> int) \<Rightarrow> goval \<Rightarrow> gv" where
  "reflected num GNil = VNil"
| "reflected num (GBool b) = VBool b"
| "reflected num (GInt i) = VInt i"
| "reflected num (GFloat l) = VFloat 64 (num l)"
| "reflected num (GStr s) = VStr s"
| "reflected num (GList vs) = VSlice (map (reflected num) vs)"
| "reflected num (GMap kvs) = VMap (map (\<lambda>(k, v). (k, reflected num v)) kvs)"
| "reflected num GBad = VBad"










section \<open>The bodies\<close>



lemma map_empty [simp]: "reflected num (GMap m) \<noteq> VNil"
  by simp








text \<open>The isolation levels the driver lets through are those the generated client knows.\<close>

lemma isolation_levels: "valid_isolation l = begin_request_isolation_level_valid l"
  by (simp add: valid_isolation_def begin_request_isolation_level_valid_def)

end
