(* ===== verification/Spec2Isabelle.thy ===== *)
theory Spec2Isabelle
  imports Operations Http_Transaction Query_Stream Batch_Load Insert_Session Read_Loop Namespaces
    Running_Work Admin Auth_Session Grpc_Streams Checkzip Client_Bodies Client_Setup Model_Properties
    Request_Bodies
begin

text \<open>
  A verification development of the Go drivers of ArcadeDB: the HTTP driver \<open>go/arcadedb\<close>, the gRPC
  driver \<open>go/arcadedbgrpc\<close>, the generated clients both are built on, and the release check
  \<open>go/tools/cmd/checkzip\<close>.

  The program. A \<open>Server\<close> holds a base URL and headers, credentials among them, and gives handles on
  databases. A method builds a request of the generated client, sends it through one transport,
  and turns the answer into a value or an error; an error of the server is an \<open>ArcadeDBError\<close> with
  what its body and headers say. \<open>Transaction\<close> begins a session, gives its callback a handle that
  names it, and commits or rolls back by how the callback ended. Streams are newline-delimited JSON
  read line by line. A batch load is written by a goroutine into a pipe the transport reads. An insert
  session is a WebSocket with frames, sequence numbers and a reading goroutine. The gRPC driver has the
  same transactions and its own streams over grpc-go.

  How the code appears. A struct is a record with the source's fields, an enum a datatype, a Go string
  or byte slice a list of characters (of codes below 256), an int64 an integer with \<open>wrap64\<close> where it is
  computed with, an error a value of \<open>go_error\<close> with its unwrap chain, a method that can fail a sum
  with the error on the left. A method that sends takes and returns the \<open>world\<close>, which logs each request
  handed to the transport; the transport, grpc-go, the WebSocket library and the styling of parameters
  are the parameters \<open>net\<close>, \<open>grpc_net\<close> and \<open>link\<close>, about which nothing is assumed but what a theorem says.
  Iterators are consumers run with their state (\<open>feed\<close>); goroutines that run beside each other are
  step relations over all interleavings (\<open>read_step\<close>, \<open>upload_step\<close>).

  Theories and sources, in the order they build on each other:
    \<^item> \<open>Prelude\<close>: bytes, Go's string functions, decimal numbers, int64, results, consumers, and the locale
      \<open>guarded_ops\<close> of operations a closed state refuses;
    \<^item> \<open>Json\<close>, \<open>Json_Decode\<close>, \<open>Go_Values\<close>: what is used of \<open>encoding/json\<close>, with the round trip
      \<open>json_parse_encode\<close>, numbers as float64 and int64, and decoding into maps and structs;
    \<^item> \<open>Go_Errors\<close> (\<open>errors.go\<close>), \<open>Generated_Client\<close> and \<open>Endpoints\<close> (the shared machinery and the
      operations in use of \<open>client.gen.go\<close>), \<open>Operations_Ai\<close>, \<open>Operations_Cluster\<close>, \<open>Operations_Support\<close>,
      \<open>Operations_Data\<close> (the other operations) and \<open>Operations\<close> (all 96 of them, and what they promise);
    \<^item> the generated models by type: \<open>Json_Valid\<close> (documents that print and parse as themselves),
      \<open>Go_Types\<close> (Go types and values as data, decoding and encoding by the type, as \<open>reflect\<close> does it and as
      the generated methods of structs with additional properties do), \<open>Go_Codec\<close> (what is decoded has its
      type), \<open>Go_Roundtrip\<close> (what is encoded is read back), \<open>Models_Data\<close>, \<open>Models_Assistant\<close> and
      \<open>Models_Server\<close> (the 107 models of \<open>client.gen.go\<close>), \<open>Model_Enums\<close> (the \<open>Valid\<close> methods), \<open>Model_Unions\<close>
      (\<open>As\<close>, \<open>From\<close>, \<open>Merge\<close> and the discriminator of a batch line), \<open>Model_Properties\<close> (what all models
      promise, and the lines of a load as models);
    \<^item> the generated client by type: \<open>Typed_Responses\<close> with \<open>Responses_Assistant\<close>, \<open>Responses_Cluster\<close>,
      \<open>Responses_Server\<close> and \<open>Responses_Data\<close> (the 96 response structs), \<open>Operations_Typed\<close> (each with its response
      table), \<open>Client_Methods\<close> with \<open>Client_Assistant\<close>, \<open>Client_Cluster\<close>, \<open>Client_Server\<close> and \<open>Client_Data\<close> (every
      method of \<open>Client\<close> and \<open>ClientWithResponses\<close>), \<open>Client_Bodies\<close> (the methods with a model as their body),
      \<open>Client_Setup\<close> (\<open>NewClient\<close>, its options and editors, and the client of a \<open>Server\<close> among them),
      \<open>Request_Bodies\<close> (the drivers' own bodies as encodings of the models) and \<open>Answer_Models\<close> (the envelope's
      struct against the generated \<open>QueryResponse\<close>);
    \<^item> \<open>Server_Config\<close> (\<open>server.go\<close>, \<open>auth.go\<close>), \<open>Envelope\<close> (\<open>envelope.go\<close>, \<open>isolation.go\<close>,
      \<open>database.go\<close>), \<open>Admin\<close>, \<open>Auth_Session\<close> (\<open>session.go\<close>), \<open>Running_Work\<close> (\<open>running.go\<close>),
      \<open>Namespaces\<close> (\<open>timeseries.go\<close>, \<open>vector.go\<close>, \<open>promql.go\<close>, \<open>dashboards.go\<close>);
    \<^item> \<open>Tx_Protocol\<close>: the locale of a transaction over any begin, commit and rollback, interpreted by
      \<open>Http_Transaction\<close> (\<open>transaction.go\<close>) and \<open>Grpc_Transaction\<close>;
    \<^item> \<open>Ndjson\<close> (the locale \<open>byte_reader\<close>, interpreted on response bodies), \<open>Query_Stream\<close> (\<open>stream.go\<close>);
    \<^item> \<open>Batch_Rows\<close> (\<open>internal/batchrows\<close>), \<open>Upload_Pipe\<close> and \<open>Batch_Load\<close> (\<open>batch.go\<close>);
    \<^item> \<open>Insert_Session\<close> and \<open>Read_Loop\<close> (\<open>insertsession.go\<close>);
    \<^item> \<open>Grpc_Messages\<close>, \<open>Grpc_Service\<close> (the generated gRPC code in use), \<open>Grpc_Client\<close> (\<open>client.go\<close>,
      \<open>auth.go\<close>), \<open>Grpc_Transaction\<close> (\<open>transaction.go\<close>, \<open>isolation.go\<close>, with the locale \<open>bound_message\<close>
      interpreted on each request type) and \<open>Grpc_Streams\<close> (\<open>stream.go\<close>, \<open>insert.go\<close>);
    \<^item> \<open>Checkzip\<close>; and this theory, with the property that spans transactions, statements, streams,
      namespaces and batch loads.

  What the lemmas show. Transactions: nil is returned exactly after a commit, what is sent after the
  callback in each case, that everything in between stays in the session, and what the caller may
  conclude from the error. Streams and loads: what the consumer is given, whatever pieces the transport
  delivers, events first and at most one error last; that what is written is read back; that the body of
  a load is a prefix of its rows, that stopping one always ends it, and which error is reported. Insert
  sessions: contiguous sequence numbers, refusals, a closed session that stays inert, frames read in
  order. Requests: credentials, headers and sessions that reach the transport, guards before anything is
  sent, and tables of operations that are well formed. Answers: which are errors, with what content and
  in which bounds. The generated client: every model decodes to values of its types and is read back
  after encoding, every response struct has the field its status says and no other, and a model passed to
  a method is what the server can read.

  Termination and bounds. Parsers and writers are total functions by structure or measure. A read loop
  over a reader that may never end is a partial function whose result None is "does not return"; the
  theorems prove Some for the readers of finite bodies. The sequences of a load may be infinite; the
  bound after a stop is the 64 KiB buffer and two steps (\<open>upload_stops\<close>). No fuel is used.

  Not modelled: \<open>encoding/json\<close>'s limit of 10000 levels, a null among duplicate slice members, and what an
  element of a slice keeps from an earlier, longer member of the same name; the sign of a float zero; the raw
  maps of insert frames holding numbers no float64 has; the texts of errors beyond what callers match;
  path escaping and parameter styling and the merging of JSON documents, which belong to the runtime
  library; closing idle connections; protobuf serialization; the interfaces \<open>ClientInterface\<close> and
  \<open>ClientWithResponsesInterface\<close>, which only repeat the methods, and the getters of each response struct
  beyond the four of \<open>Typed_Responses\<close>, which all structs have alike; the server side of the gRPC stubs;
  the tests; and the Python and TypeScript drivers, which are other programs.
\<close>

section \<open>A transaction and the calls of its callback\<close>


text \<open>What is sent from one world to the next names the session.\<close>

definition in_session :: "'w net \<Rightarrow> database \<Rightarrow> 'w world \<Rightarrow> 'w world \<Rightarrow> bool" where
  "in_session net d w w' \<longleftrightarrow> (\<exists>reqs. w_sent w' = w_sent w @ reqs \<and>
     (\<forall>rq \<in> set reqs. hdr_get (rq_header rq) session_header = net_style net (db_session d)))"


lemma in_session_refl [simp]: "in_session net d w w"
  by (simp add: in_session_def)














end
